(* ===== verification/Prelude.thy ===== *)
theory Prelude
  imports Main "HOL-Library.Sublist"
begin

text \<open>
  Shared vocabulary of the development.

  Python exceptions are values of \<open>py_exn\<close>, one constructor per exception class that the
  code raises, catches or lets escape, with the (fixed part of the) message where several
  raises of one class have to be told apart.  A computation that may raise is a value of
  \<open>'a result\<close>: \<open>Inl\<close> is the raised exception, \<open>Inr\<close> the returned value.  \<open>bind_r\<close> runs
  two computations in sequence, \<open>check_r\<close> is an \<open>if condition: raise\<close> statement and
  \<open>catch_r\<close> a \<open>try\<close>/\<open>except\<close>.  The named collections gather the facts which the component
  proofs hand to the simplifier.
\<close>

named_theorems result_simps "inversion of sequenced computations"
named_theorems text_simps "facts on text operations"
named_theorems float_simps "facts on floating point operations"

datatype py_exn =
    ValueError string
  | UnicodeEncodeError
  | TypeError string
  | AttributeError string
  | IndexError
  | KeyError
  | OverflowError
  | RuntimeError string
  | OSError string
  | RedisConnectionError
  | RedisTimeoutError
  | RedisOtherError string
  | CancelledError

type_synonym 'a result = "py_exn + 'a"

definition bind_r :: "'e + 'a \<Rightarrow> ('a \<Rightarrow> 'e + 'b) \<Rightarrow> 'e + 'b" where
  "bind_r m f = (case m of Inl e \<Rightarrow> Inl e | Inr x \<Rightarrow> f x)"

definition check_r :: "bool \<Rightarrow> 'e \<Rightarrow> 'e + unit" where
  "check_r bad e = (if bad then Inl e else Inr ())"

definition catch_r :: "'e + 'a \<Rightarrow> ('e \<Rightarrow> 'e + 'a) \<Rightarrow> 'e + 'a" where
  "catch_r m h = (case m of Inl e \<Rightarrow> h e | Inr x \<Rightarrow> Inr x)"

definition returns :: "'e + 'a \<Rightarrow> bool" where
  "returns m = (case m of Inl _ \<Rightarrow> False | Inr _ \<Rightarrow> True)"

text \<open>A Python \<open>ValueError\<close> handler also catches the subclass \<open>UnicodeEncodeError\<close>.\<close>

fun is_value_error :: "py_exn \<Rightarrow> bool" where
  "is_value_error (ValueError _) = True"
| "is_value_error UnicodeEncodeError = True"
| "is_value_error _ = False"

section \<open>Sequencing\<close>

lemma bind_r_simps [simp]:
  "bind_r (Inl e) f = Inl e"
  "bind_r (Inr x) f = f x"
  by (simp_all add: bind_r_def)

lemma bind_r_Inr_iff [result_simps]:
  "bind_r m f = Inr y \<longleftrightarrow> (\<exists>x. m = Inr x \<and> f x = Inr y)"
  by (cases m) auto

lemma bind_r_Inl_iff [result_simps]:
  "bind_r m f = Inl e \<longleftrightarrow> m = Inl e \<or> (\<exists>x. m = Inr x \<and> f x = Inl e)"
  by (cases m) auto

lemma check_r_Inr [simp]: "check_r b e = Inr u \<longleftrightarrow> \<not> b"
  by (simp add: check_r_def)

lemma check_r_Inl [simp]: "check_r b e = Inl e' \<longleftrightarrow> b \<and> e' = e"
  by (auto simp: check_r_def)

lemma check_r_simps [simp]: "check_r True e = Inl e" "check_r False e = Inr ()"
  by (simp_all add: check_r_def)

lemma catch_r_simps [simp]:
  "catch_r (Inl e) h = h e"
  "catch_r (Inr x) h = Inr x"
  by (simp_all add: catch_r_def)

lemma returns_simps [simp]: "returns (Inr x)" "\<not> returns (Inl e)"
  by (simp_all add: returns_def)

lemma returns_iff: "returns m \<longleftrightarrow> (\<exists>x. m = Inr x)"
  by (cases m) auto

lemma bind_r_bind_r: "bind_r (bind_r a g) h = bind_r a (\<lambda>v. bind_r (g v) h)"
  by (simp add: bind_r_def split: sum.split)

lemma bind_r_cong [fundef_cong]:
  assumes "a = b" and "\<And>v. b = Inr v \<Longrightarrow> g v = h v"
  shows "bind_r a g = bind_r b h"
  unfolding assms(1) by (cases b) (simp_all add: assms(2))

section \<open>Lists\<close>

lemma set_dropWhile_subset: "set (dropWhile P xs) \<subseteq> set xs"
  by (auto dest: set_dropWhileD)

lemma length_dropWhile_less: "xs \<noteq> [] \<Longrightarrow> P (hd xs) \<Longrightarrow> length (dropWhile P xs) < length xs"
  by (cases xs) (auto simp: le_imp_less_Suc length_dropWhile_le)

lemma remove1_notin: "x \<notin> set xs \<Longrightarrow> remove1 x xs = xs"
  by (induction xs) auto

end
