(* ===== verification/PyUnicode.thy ===== *)
theory PyUnicode
  imports Prelude
begin

text \<open>
  The part of the Unicode character database (version 14.0, the one of the pinned Python
  3.11 runtime) which the string methods of the code consult: decimal digits
  (\<open>int(...)\<close>), upper and lower case mappings (\<open>str.upper\<close>, \<open>str.lower\<close>) and white
  space (\<open>str.strip\<close>, \<open>str.split\<close>, \<open>str.isspace\<close>).  A code point is a \<open>nat\<close>.  Case
  mappings are kept as runs \<open>(first, last, delta, stride)\<close> of code points with one common
  offset, and as explicit expansions where one code point maps to several.  The position
  dependent final form of the Greek capital sigma is left out.
\<close>

definition decimal_ranges :: "(nat \<times> nat) list" where
  "decimal_ranges =
   [(48, 57), (1632, 1641), (1776, 1785), (1984, 1993), (2406, 2415), (2534, 2543),
     (2662, 2671), (2790, 2799), (2918, 2927), (3046, 3055), (3174, 3183), (3302, 3311),
     (3430, 3439), (3558, 3567), (3664, 3673), (3792, 3801), (3872, 3881), (4160, 4169),
     (4240, 4249), (6112, 6121), (6160, 6169), (6470, 6479), (6608, 6617), (6784, 6793),
     (6800, 6809), (6992, 7001), (7088, 7097), (7232, 7241), (7248, 7257), (42528, 42537),
     (43216, 43225), (43264, 43273), (43472, 43481), (43504, 43513), (43600, 43609),
     (44016, 44025), (65296, 65305), (66720, 66729), (68912, 68921), (69734, 69743),
     (69872, 69881), (69942, 69951), (70096, 70105), (70384, 70393), (70736, 70745),
     (70864, 70873), (71248, 71257), (71360, 71369), (71472, 71481), (71904, 71913),
     (72016, 72025), (72784, 72793), (73040, 73049), (73120, 73129), (92768, 92777),
     (92864, 92873), (93008, 93017), (120782, 120831), (123200, 123209), (123632, 123641),
     (125264, 125273), (130032, 130041)]"

definition upper_runs :: "(nat \<times> nat \<times> int \<times> nat) list" where
  "upper_runs =
   [(181, 181, 743, 1), (224, 246, -32, 1), (248, 254, -32, 1), (255, 255, 121, 1),
     (257, 303, -1, 2), (305, 305, -232, 1), (307, 311, -1, 2), (314, 328, -1, 2),
     (331, 375, -1, 2), (378, 382, -1, 2), (383, 383, -300, 1), (384, 384, 195, 1),
     (387, 389, -1, 2), (392, 392, -1, 1), (396, 396, -1, 1), (402, 402, -1, 1),
     (405, 405, 97, 1), (409, 409, -1, 1), (410, 410, 163, 1), (414, 414, 130, 1),
     (417, 421, -1, 2), (424, 424, -1, 1), (429, 429, -1, 1), (432, 432, -1, 1),
     (436, 438, -1, 2), (441, 441, -1, 1), (445, 445, -1, 1), (447, 447, 56, 1),
     (453, 453, -1, 1), (454, 454, -2, 1), (456, 456, -1, 1), (457, 457, -2, 1),
     (459, 459, -1, 1), (460, 460, -2, 1), (462, 476, -1, 2), (477, 477, -79, 1),
     (479, 495, -1, 2), (498, 498, -1, 1), (499, 499, -2, 1), (501, 501, -1, 1),
     (505, 543, -1, 2), (547, 563, -1, 2), (572, 572, -1, 1), (575, 576, 10815, 1),
     (578, 578, -1, 1), (583, 591, -1, 2), (592, 592, 10783, 1), (593, 593, 10780, 1),
     (594, 594, 10782, 1), (595, 595, -210, 1), (596, 596, -206, 1), (598, 599, -205, 1),
     (601, 601, -202, 1), (603, 603, -203, 1), (604, 604, 42319, 1), (608, 608, -205, 1),
     (609, 609, 42315, 1), (611, 611, -207, 1), (613, 613, 42280, 1), (614, 614, 42308, 1),
     (616, 616, -209, 1), (617, 617, -211, 1), (618, 618, 42308, 1), (619, 619, 10743, 1),
     (620, 620, 42305, 1), (623, 623, -211, 1), (625, 625, 10749, 1), (626, 626, -213, 1),
     (629, 629, -214, 1), (637, 637, 10727, 1), (640, 640, -218, 1), (642, 642, 42307, 1),
     (643, 643, -218, 1), (647, 647, 42282, 1), (648, 648, -218, 1), (649, 649, -69, 1),
     (650, 651, -217, 1), (652, 652, -71, 1), (658, 658, -219, 1), (669, 669, 42261, 1),
     (670, 670, 42258, 1), (837, 837, 84, 1), (881, 883, -1, 2), (887, 887, -1, 1),
     (891, 893, 130, 1), (940, 940, -38, 1), (941, 943, -37, 1), (945, 961, -32, 1),
     (962, 962, -31, 1), (963, 971, -32, 1), (972, 972, -64, 1), (973, 974, -63, 1),
     (976, 976, -62, 1), (977, 977, -57, 1), (981, 981, -47, 1), (982, 982, -54, 1),
     (983, 983, -8, 1), (985, 1007, -1, 2), (1008, 1008, -86, 1), (1009, 1009, -80, 1),
     (1010, 1010, 7, 1), (1011, 1011, -116, 1), (1013, 1013, -96, 1), (1016, 1016, -1, 1),
     (1019, 1019, -1, 1), (1072, 1103, -32, 1), (1104, 1119, -80, 1), (1121, 1153, -1, 2),
     (1163, 1215, -1, 2), (1218, 1230, -1, 2), (1231, 1231, -15, 1), (1233, 1327, -1, 2),
     (1377, 1414, -48, 1), (4304, 4346, 3008, 1), (4349, 4351, 3008, 1), (5112, 5117, -8, 1),
     (7296, 7296, -6254, 1), (7297, 7297, -6253, 1), (7298, 7298, -6244, 1),
     (7299, 7300, -6242, 1), (7301, 7301, -6243, 1), (7302, 7302, -6236, 1),
     (7303, 7303, -6181, 1), (7304, 7304, 35266, 1), (7545, 7545, 35332, 1),
     (7549, 7549, 3814, 1), (7566, 7566, 35384, 1), (7681, 7829, -1, 2), (7835, 7835, -59, 1),
     (7841, 7935, -1, 2), (7936, 7943, 8, 1), (7952, 7957, 8, 1), (7968, 7975, 8, 1),
     (7984, 7991, 8, 1), (8000, 8005, 8, 1), (8017, 8023, 8, 2), (8032, 8039, 8, 1),
     (8048, 8049, 74, 1), (8050, 8053, 86, 1), (8054, 8055, 100, 1), (8056, 8057, 128, 1),
     (8058, 8059, 112, 1), (8060, 8061, 126, 1), (8112, 8113, 8, 1), (8126, 8126, -7205, 1),
     (8144, 8145, 8, 1), (8160, 8161, 8, 1), (8165, 8165, 7, 1), (8526, 8526, -28, 1),
     (8560, 8575, -16, 1), (8580, 8580, -1, 1), (9424, 9449, -26, 1), (11312, 11359, -48, 1),
     (11361, 11361, -1, 1), (11365, 11365, -10795, 1), (11366, 11366, -10792, 1),
     (11368, 11372, -1, 2), (11379, 11379, -1, 1), (11382, 11382, -1, 1), (11393, 11491, -1, 2),
     (11500, 11502, -1, 2), (11507, 11507, -1, 1), (11520, 11557, -7264, 1),
     (11559, 11559, -7264, 1), (11565, 11565, -7264, 1), (42561, 42605, -1, 2),
     (42625, 42651, -1, 2), (42787, 42799, -1, 2), (42803, 42863, -1, 2), (42874, 42876, -1, 2),
     (42879, 42887, -1, 2), (42892, 42892, -1, 1), (42897, 42899, -1, 2), (42900, 42900, 48, 1),
     (42903, 42921, -1, 2), (42933, 42947, -1, 2), (42952, 42954, -1, 2), (42961, 42961, -1, 1),
     (42967, 42969, -1, 2), (42998, 42998, -1, 1), (43859, 43859, -928, 1),
     (43888, 43967, -38864, 1), (65345, 65370, -32, 1), (66600, 66639, -40, 1),
     (66776, 66811, -40, 1), (66967, 66977, -39, 1), (66979, 66993, -39, 1),
     (66995, 67001, -39, 1), (67003, 67004, -39, 1), (68800, 68850, -64, 1),
     (71872, 71903, -32, 1), (93792, 93823, -32, 1), (125218, 125251, -34, 1)]"

definition upper_multi :: "(nat \<times> nat list) list" where
  "upper_multi =
   [(223, [83, 83]), (329, [700, 78]), (496, [74, 780]), (912, [921, 776, 769]),
     (944, [933, 776, 769]), (1415, [1333, 1362]), (7830, [72, 817]), (7831, [84, 776]),
     (7832, [87, 778]), (7833, [89, 778]), (7834, [65, 702]), (8016, [933, 787]),
     (8018, [933, 787, 768]), (8020, [933, 787, 769]), (8022, [933, 787, 834]),
     (8064, [7944, 921]), (8065, [7945, 921]), (8066, [7946, 921]), (8067, [7947, 921]),
     (8068, [7948, 921]), (8069, [7949, 921]), (8070, [7950, 921]), (8071, [7951, 921]),
     (8072, [7944, 921]), (8073, [7945, 921]), (8074, [7946, 921]), (8075, [7947, 921]),
     (8076, [7948, 921]), (8077, [7949, 921]), (8078, [7950, 921]), (8079, [7951, 921]),
     (8080, [7976, 921]), (8081, [7977, 921]), (8082, [7978, 921]), (8083, [7979, 921]),
     (8084, [7980, 921]), (8085, [7981, 921]), (8086, [7982, 921]), (8087, [7983, 921]),
     (8088, [7976, 921]), (8089, [7977, 921]), (8090, [7978, 921]), (8091, [7979, 921]),
     (8092, [7980, 921]), (8093, [7981, 921]), (8094, [7982, 921]), (8095, [7983, 921]),
     (8096, [8040, 921]), (8097, [8041, 921]), (8098, [8042, 921]), (8099, [8043, 921]),
     (8100, [8044, 921]), (8101, [8045, 921]), (8102, [8046, 921]), (8103, [8047, 921]),
     (8104, [8040, 921]), (8105, [8041, 921]), (8106, [8042, 921]), (8107, [8043, 921]),
     (8108, [8044, 921]), (8109, [8045, 921]), (8110, [8046, 921]), (8111, [8047, 921]),
     (8114, [8122, 921]), (8115, [913, 921]), (8116, [902, 921]), (8118, [913, 834]),
     (8119, [913, 834, 921]), (8124, [913, 921]), (8130, [8138, 921]), (8131, [919, 921]),
     (8132, [905, 921]), (8134, [919, 834]), (8135, [919, 834, 921]), (8140, [919, 921]),
     (8146, [921, 776, 768]), (8147, [921, 776, 769]), (8150, [921, 834]),
     (8151, [921, 776, 834]), (8162, [933, 776, 768]), (8163, [933, 776, 769]),
     (8164, [929, 787]), (8166, [933, 834]), (8167, [933, 776, 834]), (8178, [8186, 921]),
     (8179, [937, 921]), (8180, [911, 921]), (8182, [937, 834]), (8183, [937, 834, 921]),
     (8188, [937, 921]), (64256, [70, 70]), (64257, [70, 73]), (64258, [70, 76]),
     (64259, [70, 70, 73]), (64260, [70, 70, 76]), (64261, [83, 84]), (64262, [83, 84]),
     (64275, [1348, 1350]), (64276, [1348, 1333]), (64277, [1348, 1339]), (64278, [1358, 1350]),
     (64279, [1348, 1341])]"

definition lower_runs :: "(nat \<times> nat \<times> int \<times> nat) list" where
  "lower_runs =
   [(192, 214, 32, 1), (216, 222, 32, 1), (256, 302, 1, 2), (306, 310, 1, 2), (313, 327, 1, 2),
     (330, 374, 1, 2), (376, 376, -121, 1), (377, 381, 1, 2), (385, 385, 210, 1),
     (386, 388, 1, 2), (390, 390, 206, 1), (391, 391, 1, 1), (393, 394, 205, 1),
     (395, 395, 1, 1), (398, 398, 79, 1), (399, 399, 202, 1), (400, 400, 203, 1),
     (401, 401, 1, 1), (403, 403, 205, 1), (404, 404, 207, 1), (406, 406, 211, 1),
     (407, 407, 209, 1), (408, 408, 1, 1), (412, 412, 211, 1), (413, 413, 213, 1),
     (415, 415, 214, 1), (416, 420, 1, 2), (422, 422, 218, 1), (423, 423, 1, 1),
     (425, 425, 218, 1), (428, 428, 1, 1), (430, 430, 218, 1), (431, 431, 1, 1),
     (433, 434, 217, 1), (435, 437, 1, 2), (439, 439, 219, 1), (440, 440, 1, 1),
     (444, 444, 1, 1), (452, 452, 2, 1), (453, 453, 1, 1), (455, 455, 2, 1), (456, 456, 1, 1),
     (458, 458, 2, 1), (459, 475, 1, 2), (478, 494, 1, 2), (497, 497, 2, 1), (498, 500, 1, 2),
     (502, 502, -97, 1), (503, 503, -56, 1), (504, 542, 1, 2), (544, 544, -130, 1),
     (546, 562, 1, 2), (570, 570, 10795, 1), (571, 571, 1, 1), (573, 573, -163, 1),
     (574, 574, 10792, 1), (577, 577, 1, 1), (579, 579, -195, 1), (580, 580, 69, 1),
     (581, 581, 71, 1), (582, 590, 1, 2), (880, 882, 1, 2), (886, 886, 1, 1),
     (895, 895, 116, 1), (902, 902, 38, 1), (904, 906, 37, 1), (908, 908, 64, 1),
     (910, 911, 63, 1), (913, 929, 32, 1), (931, 939, 32, 1), (975, 975, 8, 1),
     (984, 1006, 1, 2), (1012, 1012, -60, 1), (1015, 1015, 1, 1), (1017, 1017, -7, 1),
     (1018, 1018, 1, 1), (1021, 1023, -130, 1), (1024, 1039, 80, 1), (1040, 1071, 32, 1),
     (1120, 1152, 1, 2), (1162, 1214, 1, 2), (1216, 1216, 15, 1), (1217, 1229, 1, 2),
     (1232, 1326, 1, 2), (1329, 1366, 48, 1), (4256, 4293, 7264, 1), (4295, 4295, 7264, 1),
     (4301, 4301, 7264, 1), (5024, 5103, 38864, 1), (5104, 5109, 8, 1), (7312, 7354, -3008, 1),
     (7357, 7359, -3008, 1), (7680, 7828, 1, 2), (7838, 7838, -7615, 1), (7840, 7934, 1, 2),
     (7944, 7951, -8, 1), (7960, 7965, -8, 1), (7976, 7983, -8, 1), (7992, 7999, -8, 1),
     (8008, 8013, -8, 1), (8025, 8031, -8, 2), (8040, 8047, -8, 1), (8072, 8079, -8, 1),
     (8088, 8095, -8, 1), (8104, 8111, -8, 1), (8120, 8121, -8, 1), (8122, 8123, -74, 1),
     (8124, 8124, -9, 1), (8136, 8139, -86, 1), (8140, 8140, -9, 1), (8152, 8153, -8, 1),
     (8154, 8155, -100, 1), (8168, 8169, -8, 1), (8170, 8171, -112, 1), (8172, 8172, -7, 1),
     (8184, 8185, -128, 1), (8186, 8187, -126, 1), (8188, 8188, -9, 1), (8486, 8486, -7517, 1),
     (8490, 8490, -8383, 1), (8491, 8491, -8262, 1), (8498, 8498, 28, 1), (8544, 8559, 16, 1),
     (8579, 8579, 1, 1), (9398, 9423, 26, 1), (11264, 11311, 48, 1), (11360, 11360, 1, 1),
     (11362, 11362, -10743, 1), (11363, 11363, -3814, 1), (11364, 11364, -10727, 1),
     (11367, 11371, 1, 2), (11373, 11373, -10780, 1), (11374, 11374, -10749, 1),
     (11375, 11375, -10783, 1), (11376, 11376, -10782, 1), (11378, 11378, 1, 1),
     (11381, 11381, 1, 1), (11390, 11391, -10815, 1), (11392, 11490, 1, 2),
     (11499, 11501, 1, 2), (11506, 11506, 1, 1), (42560, 42604, 1, 2), (42624, 42650, 1, 2),
     (42786, 42798, 1, 2), (42802, 42862, 1, 2), (42873, 42875, 1, 2),
     (42877, 42877, -35332, 1), (42878, 42886, 1, 2), (42891, 42891, 1, 1),
     (42893, 42893, -42280, 1), (42896, 42898, 1, 2), (42902, 42920, 1, 2),
     (42922, 42922, -42308, 1), (42923, 42923, -42319, 1), (42924, 42924, -42315, 1),
     (42925, 42925, -42305, 1), (42926, 42926, -42308, 1), (42928, 42928, -42258, 1),
     (42929, 42929, -42282, 1), (42930, 42930, -42261, 1), (42931, 42931, 928, 1),
     (42932, 42946, 1, 2), (42948, 42948, -48, 1), (42949, 42949, -42307, 1),
     (42950, 42950, -35384, 1), (42951, 42953, 1, 2), (42960, 42960, 1, 1),
     (42966, 42968, 1, 2), (42997, 42997, 1, 1), (65313, 65338, 32, 1), (66560, 66599, 40, 1),
     (66736, 66771, 40, 1), (66928, 66938, 39, 1), (66940, 66954, 39, 1), (66956, 66962, 39, 1),
     (66964, 66965, 39, 1), (68736, 68786, 64, 1), (71840, 71871, 32, 1), (93760, 93791, 32, 1),
     (125184, 125217, 34, 1)]"

definition lower_multi :: "(nat \<times> nat list) list" where
  "lower_multi =
   [(304, [105, 775])]"

definition in_run :: "nat \<Rightarrow> nat \<times> nat \<times> int \<times> nat \<Rightarrow> bool" where
  "in_run c r = (case r of (lo, hi, _, stride) \<Rightarrow> lo \<le> c \<and> c \<le> hi \<and> (c - lo) mod stride = 0)"

definition map_code_point ::
  "(nat \<times> nat \<times> int \<times> nat) list \<Rightarrow> (nat \<times> nat list) list \<Rightarrow> nat \<Rightarrow> nat list" where
  "map_code_point runs multi c =
     (case map_of multi c of
        Some cs \<Rightarrow> cs
      | None \<Rightarrow> (case find (in_run c) runs of
          Some (_, _, delta, _) \<Rightarrow> [nat (int c + delta)]
        | None \<Rightarrow> [c]))"

definition upper_char :: "nat \<Rightarrow> nat list" where
  "upper_char c =
     (if c < 128 then (if 97 \<le> c \<and> c \<le> 122 then [c - 32] else [c])
      else map_code_point upper_runs upper_multi c)"

definition lower_char :: "nat \<Rightarrow> nat list" where
  "lower_char c =
     (if c < 128 then (if 65 \<le> c \<and> c \<le> 90 then [c + 32] else [c])
      else map_code_point lower_runs lower_multi c)"

definition is_space :: "nat \<Rightarrow> bool" where
  "is_space c =
     ((9 \<le> c \<and> c \<le> 13) \<or> (28 \<le> c \<and> c \<le> 32) \<or> c = 133 \<or> c = 160 \<or> c = 5760
      \<or> (8192 \<le> c \<and> c \<le> 8202) \<or> c = 8232 \<or> c = 8233 \<or> c = 8239 \<or> c = 8287 \<or> c = 12288)"

definition decimal_value :: "nat \<Rightarrow> nat option" where
  "decimal_value c =
     (case find (\<lambda>(lo, hi). lo \<le> c \<and> c \<le> hi) decimal_ranges of
        Some (lo, _) \<Rightarrow> Some ((c - lo) mod 10)
      | None \<Rightarrow> None)"

lemma upper_char_ascii: "c < 128 \<Longrightarrow> upper_char c = (if 97 \<le> c \<and> c \<le> 122 then [c - 32] else [c])"
  by (simp add: upper_char_def)

lemma lower_char_ascii: "c < 128 \<Longrightarrow> lower_char c = (if 65 \<le> c \<and> c \<le> 90 then [c + 32] else [c])"
  by (simp add: lower_char_def)

text \<open>
  The dotless i and the long s are the code points outside ASCII which upper-case to one
  ASCII letter: \<open>str.upper\<close> may turn a string that is not ASCII into one that is.
\<close>

lemma upper_char_non_ascii: "upper_char 305 = [73]" "upper_char 383 = [83]" "upper_char 223 = [83, 83]"
  by (simp_all add: upper_char_def map_code_point_def upper_runs_def upper_multi_def in_run_def)

end
