(* ===== verification/PyStr.thy ===== *)
theory PyStr
  imports PyUnicode
begin

text \<open>
  Python strings.  A \<open>pystr\<close> is the list of its code points, so \<open>length\<close>, slicing and
  comparison are those of \<open>str\<close>; \<open>lit\<close> turns an ASCII literal of the source into one.  The
  theory holds the string methods the code calls, decimal and hexadecimal text of integers,
  the integer parser behind \<open>int(text, base)\<close> and UTF-8 encoding.
\<close>

type_synonym pystr = "nat list"

definition lit :: "string \<Rightarrow> pystr" where
  "lit s = map of_char s"

lemma lit_simps [simp]:
  "lit [] = []"
  "length (lit s) = length s"
  "lit (s @ t) = lit s @ lit t"
  by (simp_all add: lit_def)

lemma lit_Cons: "lit (c # s) = of_char c # lit s"
  by (simp add: lit_def)

lemma lit_eq_iff [simp]: "lit s = lit t \<longleftrightarrow> s = t"
proof -
  have "inj (map (of_char :: char \<Rightarrow> nat))"
    by (rule list.inj_map) (auto intro: injI)
  then show ?thesis by (auto simp: lit_def inj_eq)
qed

lemma lit_eq_Nil_iff [simp]: "lit s = [] \<longleftrightarrow> s = []" "[] = lit s \<longleftrightarrow> s = []"
  by (auto simp: lit_def)

section \<open>Methods of str\<close>

definition str_upper :: "pystr \<Rightarrow> pystr" where
  "str_upper s = concat (map upper_char s)"

definition str_lower :: "pystr \<Rightarrow> pystr" where
  "str_lower s = concat (map lower_char s)"

text \<open>\<open>s.strip()\<close> is \<open>strip_by is_space s\<close>; \<open>s.strip(chars)\<close> is \<open>strip_by\<close> with membership.\<close>

definition strip_by :: "(nat \<Rightarrow> bool) \<Rightarrow> pystr \<Rightarrow> pystr" where
  "strip_by P s = rev (dropWhile P (rev (dropWhile P s)))"

abbreviation str_strip :: "pystr \<Rightarrow> pystr" where
  "str_strip \<equiv> strip_by is_space"

definition starts_with :: "pystr \<Rightarrow> pystr \<Rightarrow> bool" where
  "starts_with p s \<longleftrightarrow> take (length p) s = p"

lemma starts_with_simps [simp]:
  "starts_with [] s"
  "\<not> starts_with (x # p) []"
  "starts_with (x # p) (c # s) \<longleftrightarrow> c = x \<and> starts_with p s"
  by (auto simp: starts_with_def)

definition ends_with :: "pystr \<Rightarrow> pystr \<Rightarrow> bool" where
  "ends_with p s \<longleftrightarrow> length p \<le> length s \<and> drop (length s - length p) s = p"

text \<open>\<open>s.replace(old, new)\<close> for a non-empty \<open>old\<close>: leftmost occurrences, not overlapping.\<close>

function str_replace :: "pystr \<Rightarrow> pystr \<Rightarrow> pystr \<Rightarrow> pystr" where
  "str_replace old new s =
     (if s = [] \<or> old = [] then s
      else if starts_with old s then new @ str_replace old new (drop (length old) s)
      else hd s # str_replace old new (tl s))"
  by pat_completeness auto
termination
  by (relation "measure (\<lambda>(old, new, s). length s)") (auto simp: length_greater_0_conv)

declare str_replace.simps [simp del]

text \<open>\<open>sep.join(parts)\<close>.\<close>

fun str_join :: "pystr \<Rightarrow> pystr list \<Rightarrow> pystr" where
  "str_join sep [] = []"
| "str_join sep [p] = p"
| "str_join sep (p # q # ps) = p @ sep @ str_join sep (q # ps)"

text \<open>\<open>s.split(sep)\<close> for a separator of one code point.\<close>

fun split_char :: "nat \<Rightarrow> pystr \<Rightarrow> pystr list" where
  "split_char c [] = [[]]"
| "split_char c (x # xs) =
     (if x = c then [] # split_char c xs
      else (case split_char c xs of [] \<Rightarrow> [[x]] | p # ps \<Rightarrow> (x # p) # ps))"

text \<open>\<open>s.split()\<close>: the maximal runs of code points that are not white space.\<close>

function split_space :: "pystr \<Rightarrow> pystr list" where
  "split_space s =
     (let t = dropWhile is_space s
      in if t = [] then []
         else takeWhile (\<lambda>c. \<not> is_space c) t # split_space (dropWhile (\<lambda>c. \<not> is_space c) t))"
  by pat_completeness auto
termination
proof (relation "measure length")
  fix s t :: pystr
  assume t: "t = dropWhile is_space s" "t \<noteq> []"
  then have "\<not> is_space (hd t)" by (metis hd_dropWhile)
  with t(2) have "length (dropWhile (\<lambda>c. \<not> is_space c) t) < length t"
    by (intro length_dropWhile_less) simp_all
  also have "\<dots> \<le> length s" by (simp add: t(1) length_dropWhile_le)
  finally show "(dropWhile (\<lambda>c. \<not> is_space c) t, s) \<in> measure length" by simp
qed simp

declare split_space.simps [simp del]

lemma strip_by_subset: "set (strip_by P s) \<subseteq> set s"
  using set_dropWhile_subset [of P s] set_dropWhile_subset [of P "rev (dropWhile P s)"]
  by (auto simp: strip_by_def)

lemma strip_by_Nil_iff [text_simps]: "strip_by P s = [] \<longleftrightarrow> (\<forall>c \<in> set s. P c)"
proof
  assume "strip_by P s = []"
  then have "\<forall>c \<in> set (dropWhile P s). P c"
    by (simp add: strip_by_def)
  then have "dropWhile P s = []"
    by (metis hd_dropWhile hd_in_set)
  then show "\<forall>c \<in> set s. P c" by simp
next
  assume "\<forall>c \<in> set s. P c"
  then show "strip_by P s = []"
    by (simp add: strip_by_def) (auto dest: set_dropWhileD)
qed

lemma strip_by_id [text_simps]: "\<forall>c \<in> set s. \<not> P c \<Longrightarrow> strip_by P s = s"
proof -
  assume *: "\<forall>c \<in> set s. \<not> P c"
  then have "dropWhile P s = s" by (cases s) auto
  moreover from * have "dropWhile P (rev s) = rev s" by (cases "rev s") auto
  ultimately show ?thesis by (simp add: strip_by_def)
qed

lemma str_replace_absent [text_simps]:
  "old \<noteq> [] \<Longrightarrow> hd old \<notin> set s \<Longrightarrow> str_replace old new s = s"
proof (induction s)
  case Nil
  then show ?case by (simp add: str_replace.simps [of old new "[]"])
next
  case (Cons c s)
  then have "\<not> starts_with old (c # s)"
    by (cases old) (auto simp: starts_with_def)
  with Cons show ?case by (simp add: str_replace.simps [of old new "c # s"])
qed

lemma set_str_join: "set (str_join sep ps) \<subseteq> set sep \<union> \<Union> (set ` set ps)"
  by (induction sep ps rule: str_join.induct) auto

lemma split_space_words:
  "w \<in> set (split_space s) \<Longrightarrow> w \<noteq> [] \<and> (\<forall>c \<in> set w. \<not> is_space c \<and> c \<in> set s)"
proof (induction s arbitrary: w rule: split_space.induct)
  case (1 s)
  obtain t where t: "t = dropWhile is_space s" by blast
  have eq: "split_space s = (if t = [] then []
      else takeWhile (\<lambda>c. \<not> is_space c) t # split_space (dropWhile (\<lambda>c. \<not> is_space c) t))"
    by (subst split_space.simps) (simp only: t Let_def)
  with 1(2) have ne: "t \<noteq> []" by auto
  have sub: "set t \<subseteq> set s" by (auto simp: t dest: set_dropWhileD)
  have hd: "\<not> is_space (hd t)" using ne by (metis t hd_dropWhile)
  from ne eq 1(2) consider "w = takeWhile (\<lambda>c. \<not> is_space c) t"
    | "w \<in> set (split_space (dropWhile (\<lambda>c. \<not> is_space c) t))"
    by auto
  then show ?case
  proof cases
    case 1
    with ne hd sub show ?thesis by (cases t) (auto dest: set_takeWhileD)
  next
    case 2
    from "1.IH" [OF t ne this] sub set_dropWhile_subset [of "\<lambda>c. \<not> is_space c" t]
    show ?thesis by blast
  qed
qed

section \<open>Text of integers\<close>

fun dec_nat :: "nat \<Rightarrow> pystr" where
  "dec_nat n = (if n < 10 then [48 + n] else dec_nat (n div 10) @ [48 + n mod 10])"

declare dec_nat.simps [simp del]

definition dec_int :: "int \<Rightarrow> pystr" where
  "dec_int i = (if i < 0 then 45 # dec_nat (nat (- i)) else dec_nat (nat i))"

definition is_digit :: "nat \<Rightarrow> bool" where
  "is_digit c \<longleftrightarrow> 48 \<le> c \<and> c \<le> 57"

definition digits_value :: "nat \<Rightarrow> nat list \<Rightarrow> nat" where
  "digits_value base ds = foldl (\<lambda>a d. base * a + d) 0 ds"

definition undec :: "pystr \<Rightarrow> nat" where
  "undec s = digits_value 10 (map (\<lambda>c. c - 48) s)"

lemma digits_value_snoc [simp]: "digits_value b (ds @ [d]) = b * digits_value b ds + d"
  by (simp add: digits_value_def)

lemma digits_value_Nil [simp]: "digits_value b [] = 0"
  by (simp add: digits_value_def)

lemma digits_value_append:
  "digits_value b (xs @ ys) = digits_value b xs * b ^ length ys + digits_value b ys"
  by (induction ys rule: rev_induct) (simp_all flip: append_assoc add: algebra_simps)

lemma undec_append: "undec (xs @ ys) = undec xs * 10 ^ length ys + undec ys"
  by (simp add: undec_def digits_value_append)

lemma undec_Nil [simp]: "undec [] = 0"
  by (simp add: undec_def)

lemma digits_value_less:
  "\<forall>d \<in> set ds. d < b \<Longrightarrow> digits_value b ds < b ^ length ds"
proof (induction ds rule: rev_induct)
  case (snoc d ds)
  then have "Suc (digits_value b ds) \<le> b ^ length ds" by simp
  then have "b * Suc (digits_value b ds) \<le> b * b ^ length ds" by (rule mult_le_mono2)
  with snoc.prems show ?case by simp
qed simp

lemma dec_nat_not_Nil [simp]: "dec_nat n \<noteq> []"
  by (subst dec_nat.simps) simp

lemma dec_nat_digits: "c \<in> set (dec_nat n) \<Longrightarrow> is_digit c"
proof (induction n rule: dec_nat.induct)
  case (1 n)
  then show ?case
    by (subst (asm) dec_nat.simps) (auto simp: is_digit_def split: if_splits)
qed

lemma undec_dec_nat [text_simps]: "undec (dec_nat n) = n"
proof (induction n rule: dec_nat.induct)
  case (1 n)
  show ?case
  proof (cases "n < 10")
    case True
    then show ?thesis by (subst dec_nat.simps) (simp add: undec_def digits_value_def)
  next
    case False
    with 1 have "undec (dec_nat (n div 10)) = n div 10" by simp
    with False show ?thesis
      by (subst dec_nat.simps) (simp add: undec_append, simp add: undec_def digits_value_def)
  qed
qed

lemma dec_nat_length_pos [simp]: "0 < length (dec_nat n)"
  by simp

text \<open>No leading zero: the JSON number grammar relies on it.\<close>

lemma dec_nat_hd: "hd (dec_nat n) = 48 \<longleftrightarrow> n = 0"
proof (induction n rule: dec_nat.induct)
  case (1 n)
  show ?case
  proof (cases "n < 10")
    case True
    then show ?thesis by (subst dec_nat.simps) simp
  next
    case False
    with 1 show ?thesis by (subst dec_nat.simps) (simp add: hd_append)
  qed
qed

lemma dec_nat_zero [simp]: "dec_nat 0 = [48]"
  by (simp add: dec_nat.simps)

text \<open>Hexadecimal text, lower case, of a fixed number of digits.\<close>

definition hex_digit :: "nat \<Rightarrow> nat" where
  "hex_digit d = (if d < 10 then 48 + d else 87 + d)"

fun hex_fixed :: "nat \<Rightarrow> nat \<Rightarrow> pystr" where
  "hex_fixed 0 n = []"
| "hex_fixed (Suc k) n = hex_fixed k (n div 16) @ [hex_digit (n mod 16)]"

definition is_lower_hex :: "nat \<Rightarrow> bool" where
  "is_lower_hex c \<longleftrightarrow> (48 \<le> c \<and> c \<le> 57) \<or> (97 \<le> c \<and> c \<le> 102)"

lemma length_hex_fixed [simp]: "length (hex_fixed k n) = k"
  by (induction k arbitrary: n) auto

lemma hex_digit_is_lower_hex: "d < 16 \<Longrightarrow> is_lower_hex (hex_digit d)"
  by (auto simp: hex_digit_def is_lower_hex_def)

lemma hex_fixed_lower_hex: "c \<in> set (hex_fixed k n) \<Longrightarrow> is_lower_hex c"
  by (induction k arbitrary: n) (auto intro: hex_digit_is_lower_hex)

section \<open>The integer parser\<close>

text \<open>
  \<open>int(text, base)\<close> for the bases 10 and 16 (\<open>PyLong_FromUnicodeObject\<close>).  A text that is not
  pure ASCII is first transliterated: Unicode white space becomes a blank, a decimal digit
  its ASCII digit, anything else a question mark.  Then ASCII white space around the number,
  a sign, the prefix \<open>0x\<close> (base 16) and single underscores between digits are accepted.
  \<open>None\<close> is the \<open>ValueError\<close>; in base 10 more than 4300 digits are refused as well.
\<close>

definition to_ascii :: "pystr \<Rightarrow> pystr" where
  "to_ascii s =
     (if \<forall>c \<in> set s. c < 128 then s
      else map (\<lambda>c. if is_space c then 32
                     else case decimal_value c of Some d \<Rightarrow> 48 + d
                        | None \<Rightarrow> if c < 128 then c else 63) s)"

definition ascii_space :: "nat \<Rightarrow> bool" where
  "ascii_space c \<longleftrightarrow> (9 \<le> c \<and> c \<le> 13) \<or> c = 32"

definition digit_of :: "nat \<Rightarrow> nat option" where
  "digit_of c =
     (if 48 \<le> c \<and> c \<le> 57 then Some (c - 48)
      else if 97 \<le> c \<and> c \<le> 122 then Some (c - 87)
      else if 65 \<le> c \<and> c \<le> 90 then Some (c - 55)
      else None)"

text \<open>Digits of the base with single underscores strictly between them.\<close>

fun scan_digits :: "nat \<Rightarrow> pystr \<Rightarrow> nat list option" where
  "scan_digits base [] = None"
| "scan_digits base (c # cs) =
     (case digit_of c of
        None \<Rightarrow> None
      | Some d \<Rightarrow>
          if base \<le> d then None
          else (case cs of
              [] \<Rightarrow> Some [d]
            | c' # cs' \<Rightarrow> map_option ((#) d)
                (scan_digits base (if c' = 95 then cs' else cs))))"

definition strip_prefix_0x :: "nat \<Rightarrow> pystr \<Rightarrow> pystr" where
  "strip_prefix_0x base s =
     (if base = 16 \<and> take 2 s \<in> {[48, 120], [48, 88]}
      then (if take 1 (drop 2 s) = [95] then drop 3 s else drop 2 s)
      else s)"

definition int_of_str :: "nat \<Rightarrow> pystr \<Rightarrow> int option" where
  "int_of_str base text =
     (let s = strip_by ascii_space (to_ascii text);
          neg = (take 1 s = [45]);
          s' = (if take 1 s \<in> {[45], [43]} then drop 1 s else s)
      in (case scan_digits base (strip_prefix_0x base s') of
            None \<Rightarrow> None
          | Some ds \<Rightarrow>
              if base = 10 \<and> 4300 < length ds then None
              else Some (if neg then - int (digits_value base ds) else int (digits_value base ds))))"

lemma scan_digits_hex:
  "s \<noteq> [] \<Longrightarrow> (\<forall>c \<in> set s. is_lower_hex c) \<Longrightarrow>
   \<exists>ds. scan_digits 16 s = Some ds \<and> length ds = length s \<and> (\<forall>d \<in> set ds. d < 16)"
proof (induction s)
  case (Cons c s)
  then obtain d where d: "digit_of c = Some d" "d < 16"
    by (auto simp: digit_of_def is_lower_hex_def)
  show ?case
  proof (cases s)
    case Nil
    with d show ?thesis by auto
  next
    case (Cons c' s')
    with Cons.prems have "c' \<noteq> 95" by (auto simp: is_lower_hex_def)
    with Cons Cons.IH Cons.prems d show ?thesis by auto
  qed
qed simp

lemma lower_hex_no_prefix:
  assumes "\<forall>c \<in> set s. is_lower_hex c"
  shows "strip_prefix_0x 16 s = s"
proof (cases "1 < length s")
  case True
  then have "take 2 s = [s ! 0, s ! 1]"
    by (cases s rule: list.exhaust; cases "tl s") auto
  moreover from True assms have "is_lower_hex (s ! 1)" by auto
  ultimately show ?thesis by (auto simp: strip_prefix_0x_def is_lower_hex_def)
next
  case False
  then show ?thesis by (auto simp: strip_prefix_0x_def dest: arg_cong [where f = length])
qed

section \<open>UTF-8\<close>

text \<open>
  \<open>s.encode()\<close>: surrogate code points (which \<open>str\<close> may hold, for example in a file name that
  is not valid UTF-8) cannot be encoded.  A byte is a \<open>nat\<close> below 256.
\<close>

definition is_surrogate :: "nat \<Rightarrow> bool" where
  "is_surrogate c \<longleftrightarrow> 55296 \<le> c \<and> c \<le> 57343"

definition utf8_char :: "nat \<Rightarrow> nat list" where
  "utf8_char c =
     (if c < 128 then [c]
      else if c < 2048 then [192 + c div 64, 128 + c mod 64]
      else if c < 65536 then [224 + c div 4096, 128 + c div 64 mod 64, 128 + c mod 64]
      else [240 + c div 262144, 128 + c div 4096 mod 64, 128 + c div 64 mod 64, 128 + c mod 64])"

definition utf8_encode :: "pystr \<Rightarrow> nat list result" where
  "utf8_encode s =
     (if \<exists>c \<in> set s. is_surrogate c then Inl UnicodeEncodeError
      else Inr (concat (map utf8_char s)))"

lemma utf8_encode_returns [text_simps]:
  "returns (utf8_encode s) \<longleftrightarrow> (\<forall>c \<in> set s. \<not> is_surrogate c)"
  by (auto simp: utf8_encode_def)

lemma utf8_encode_error: "utf8_encode s = Inl e \<Longrightarrow> e = UnicodeEncodeError"
  by (auto simp: utf8_encode_def split: if_splits)

end
