(* ===== verification/Enums.thy ===== *)
theory Enums
  imports PyStr
begin

text \<open>
  The enumerations of \<open>src/watchers/schema.py\<close>.  A string-valued Python enumeration is a
  datatype with the source's members, a function to the member's value, and the look-up by
  value \<open>Enum(value)\<close>, which raises \<open>ValueError\<close> for a value of no member.  Severities are
  ordered by their rank, so that the order of the library is the one of the code.
\<close>

definition enum_of :: "'a list \<Rightarrow> ('a \<Rightarrow> pystr) \<Rightarrow> pystr \<Rightarrow> 'a result" where
  "enum_of members value s =
     (case find (\<lambda>m. value m = s) members of
        Some m \<Rightarrow> Inr m
      | None \<Rightarrow> Inl (ValueError ''is not a valid member''))"

lemma enum_of_Inr [result_simps]: "enum_of ms value s = Inr m \<Longrightarrow> m \<in> set ms \<and> value m = s"
  by (auto simp: enum_of_def find_Some_iff split: option.splits)

lemma enum_of_value: "inj_on value (set ms) \<Longrightarrow> m \<in> set ms \<Longrightarrow> enum_of ms value (value m) = Inr m"
proof (induction ms)
  case (Cons a ms)
  then show ?case by (auto simp: enum_of_def inj_on_def)
qed simp

lemma enum_of_returns: "returns (enum_of ms value s) \<longleftrightarrow> s \<in> value ` set ms"
  by (induction ms) (auto simp: enum_of_def)

lemma enum_of_error: "enum_of ms value s = Inl e \<Longrightarrow> e = ValueError ''is not a valid member''"
  by (auto simp: enum_of_def split: option.splits)

section \<open>Severity\<close>

datatype severity = LOW | MEDIUM | HIGH | CRITICAL

fun severity_value :: "severity \<Rightarrow> pystr" where
  "severity_value LOW = lit ''LOW''"
| "severity_value MEDIUM = lit ''MEDIUM''"
| "severity_value HIGH = lit ''HIGH''"
| "severity_value CRITICAL = lit ''CRITICAL''"

definition severity_members :: "severity list" where
  "severity_members = [LOW, MEDIUM, HIGH, CRITICAL]"

fun numeric :: "severity \<Rightarrow> int" where
  "numeric LOW = 1"
| "numeric MEDIUM = 2"
| "numeric HIGH = 3"
| "numeric CRITICAL = 4"

definition severity_from_string :: "pystr \<Rightarrow> severity result" where
  "severity_from_string s = enum_of severity_members severity_value (str_upper s)"

lemma numeric_inj: "numeric a = numeric b \<Longrightarrow> a = b"
  by (cases a; cases b) auto

instantiation severity :: linorder
begin

definition less_eq_severity :: "severity \<Rightarrow> severity \<Rightarrow> bool" where
  "less_eq_severity a b \<longleftrightarrow> numeric a \<le> numeric b"

definition less_severity :: "severity \<Rightarrow> severity \<Rightarrow> bool" where
  "less_severity a b \<longleftrightarrow> numeric a < numeric b"

instance
  by standard (auto simp: less_eq_severity_def less_severity_def numeric_inj)

end

lemma numeric_range: "1 \<le> numeric a" "numeric a \<le> 4"
  by (cases a; simp)+

lemma severity_members_all [simp]: "a \<in> set severity_members"
  by (cases a) (simp_all add: severity_members_def)

lemma severity_value_inj: "severity_value a = severity_value b \<Longrightarrow> a = b"
  by (cases a; cases b) auto


lemma severity_value_upper: "str_upper (severity_value a) = severity_value a"
  by (induction a; code_simp)

lemma severity_from_value [simp]: "severity_from_string (severity_value a) = Inr a"
  by (simp add: severity_from_string_def severity_value_upper enum_of_value inj_on_def severity_value_inj)

section \<open>Sources\<close>

datatype finding_source = API | CODE | CORRELATOR | MANUAL | SCHEDULER

fun finding_source_value :: "finding_source \<Rightarrow> pystr" where
  "finding_source_value API = lit ''api''"
| "finding_source_value CODE = lit ''code''"
| "finding_source_value CORRELATOR = lit ''correlator''"
| "finding_source_value MANUAL = lit ''manual''"
| "finding_source_value SCHEDULER = lit ''scheduler''"

definition finding_source_members :: "finding_source list" where
  "finding_source_members = [API, CODE, CORRELATOR, MANUAL, SCHEDULER]"

definition finding_source_of :: "pystr \<Rightarrow> finding_source result" where
  "finding_source_of s = enum_of finding_source_members finding_source_value s"

lemma finding_source_of_value [simp]: "finding_source_of (finding_source_value m) = Inr m"
  by (cases m) (simp_all add: finding_source_of_def finding_source_members_def enum_of_def)

section \<open>Types\<close>

datatype finding_type =
    HTTP_5XX | HTTP_4XX | HIGH_LATENCY | ENDPOINT_DOWN | SSL_ERROR | AUTH_FAILURE
  | RATE_LIMIT_HIT | ANOMALOUS_RESPONSE
  | HARDCODED_SECRET | SQL_INJECTION_RISK | NULL_DEREFERENCE | REENTRANCY_RISK | EVAL_USAGE
  | WEAK_CRYPTO | SSRF_RISK | MISSING_AUTH_CHECK | MASS_ASSIGNMENT | OPEN_REDIRECT
  | FILE_MODIFIED | SUSPICIOUS_PATTERN
  | CORRELATED_FAILURE
  | UNKNOWN

fun finding_type_value :: "finding_type \<Rightarrow> pystr" where
  "finding_type_value HTTP_5XX = lit ''http_5xx''"
| "finding_type_value HTTP_4XX = lit ''http_4xx''"
| "finding_type_value HIGH_LATENCY = lit ''high_latency''"
| "finding_type_value ENDPOINT_DOWN = lit ''endpoint_down''"
| "finding_type_value SSL_ERROR = lit ''ssl_error''"
| "finding_type_value AUTH_FAILURE = lit ''auth_failure''"
| "finding_type_value RATE_LIMIT_HIT = lit ''rate_limit_hit''"
| "finding_type_value ANOMALOUS_RESPONSE = lit ''anomalous_response''"
| "finding_type_value HARDCODED_SECRET = lit ''hardcoded_secret''"
| "finding_type_value SQL_INJECTION_RISK = lit ''sql_injection_risk''"
| "finding_type_value NULL_DEREFERENCE = lit ''null_dereference''"
| "finding_type_value REENTRANCY_RISK = lit ''reentrancy_risk''"
| "finding_type_value EVAL_USAGE = lit ''eval_usage''"
| "finding_type_value WEAK_CRYPTO = lit ''weak_crypto''"
| "finding_type_value SSRF_RISK = lit ''ssrf_risk''"
| "finding_type_value MISSING_AUTH_CHECK = lit ''missing_auth_check''"
| "finding_type_value MASS_ASSIGNMENT = lit ''mass_assignment''"
| "finding_type_value OPEN_REDIRECT = lit ''open_redirect''"
| "finding_type_value FILE_MODIFIED = lit ''file_modified''"
| "finding_type_value SUSPICIOUS_PATTERN = lit ''suspicious_pattern''"
| "finding_type_value CORRELATED_FAILURE = lit ''correlated_failure''"
| "finding_type_value UNKNOWN = lit ''unknown''"

definition finding_type_members :: "finding_type list" where
  "finding_type_members =
     [HTTP_5XX, HTTP_4XX, HIGH_LATENCY, ENDPOINT_DOWN, SSL_ERROR, AUTH_FAILURE, RATE_LIMIT_HIT,
      ANOMALOUS_RESPONSE, HARDCODED_SECRET, SQL_INJECTION_RISK, NULL_DEREFERENCE, REENTRANCY_RISK,
      EVAL_USAGE, WEAK_CRYPTO, SSRF_RISK, MISSING_AUTH_CHECK, MASS_ASSIGNMENT, OPEN_REDIRECT,
      FILE_MODIFIED, SUSPICIOUS_PATTERN, CORRELATED_FAILURE, UNKNOWN]"

definition finding_type_of :: "pystr \<Rightarrow> finding_type result" where
  "finding_type_of s = enum_of finding_type_members finding_type_value s"

lemma finding_type_of_value [simp]: "finding_type_of (finding_type_value m) = Inr m"
  by (cases m) (simp_all add: finding_type_of_def finding_type_members_def enum_of_def)

section \<open>Statuses\<close>

datatype finding_status = OPEN | INVESTIGATING | PATCHED | FALSE_POSITIVE | SUPPRESSED

fun finding_status_value :: "finding_status \<Rightarrow> pystr" where
  "finding_status_value OPEN = lit ''OPEN''"
| "finding_status_value INVESTIGATING = lit ''INVESTIGATING''"
| "finding_status_value PATCHED = lit ''PATCHED''"
| "finding_status_value FALSE_POSITIVE = lit ''FALSE_POSITIVE''"
| "finding_status_value SUPPRESSED = lit ''SUPPRESSED''"

definition finding_status_members :: "finding_status list" where
  "finding_status_members = [OPEN, INVESTIGATING, PATCHED, FALSE_POSITIVE, SUPPRESSED]"

definition finding_status_of :: "pystr \<Rightarrow> finding_status result" where
  "finding_status_of s = enum_of finding_status_members finding_status_value s"

lemma finding_status_of_value [simp]: "finding_status_of (finding_status_value m) = Inr m"
  by (cases m) (simp_all add: finding_status_of_def finding_status_members_def enum_of_def)

lemmas enum_of_val_defs = finding_source_of_def finding_type_of_def finding_status_of_def
  severity_from_string_def

end
