(* ===== verification/PyFloat.thy ===== *)
theory PyFloat
  imports PyStr Complex_Main "HOL-Library.Log_Nat"
begin

text \<open>
  Python numbers.  A \<open>float\<close> is an IEEE 754 double: a finite value is the rational number it
  stands for (the two zeros are one), \<open>round_bin\<close> rounds a rational to the nearest double,
  ties to even, with gradual underflow, and \<open>fl\<close> adds overflow to infinity.  The arithmetic
  operators compute exactly and round once, as the hardware does.  Comparison of an \<open>int\<close> with a
  \<open>float\<close> is exact, arithmetic converts the \<open>int\<close> first and raises \<open>OverflowError\<close> when it
  is too large.
\<close>

section \<open>Rounding to an integer, ties to even\<close>

definition rne :: "rat \<Rightarrow> int" where
  "rne x =
     (let f = \<lfloor>x\<rfloor>; d = x - of_int f
      in if d < 1 / 2 then f else if 1 / 2 < d then f + 1 else if even f then f else f + 1)"

lemma rne_of_int [simp]: "rne (of_int n) = n"
  by (simp add: rne_def)

lemma rne_error: "\<bar>of_int (rne x) - x\<bar> \<le> 1 / 2"
proof -
  define d where "d = x - of_int \<lfloor>x\<rfloor>"
  have d: "0 \<le> d" "d < 1" by (auto simp: d_def) linarith
  have "of_int (rne x) - x = (if d < 1 / 2 then - d else if 1 / 2 < d then 1 - d
        else if even \<lfloor>x\<rfloor> then - d else 1 - d)"
    by (simp add: rne_def d_def [symmetric] Let_def) (simp add: d_def)
  with d show ?thesis by auto
qed

lemma rne_lower: "of_int n \<le> x \<Longrightarrow> n \<le> rne x"
proof -
  assume "of_int n \<le> x"
  then have "n \<le> \<lfloor>x\<rfloor>" by (simp add: le_floor_iff)
  moreover have "\<lfloor>x\<rfloor> \<le> rne x" by (auto simp: rne_def Let_def)
  ultimately show ?thesis by simp
qed

lemma rne_upper: "x \<le> of_int n \<Longrightarrow> rne x \<le> n"
proof (cases "x = of_int n")
  case False
  assume "x \<le> of_int n"
  with False have "x < of_int n" by simp
  then have "\<lfloor>x\<rfloor> < n" by (simp add: floor_less_iff)
  then show ?thesis by (auto simp: rne_def Let_def)
qed simp

lemma rne_unique: "\<bar>x - of_int n\<bar> < 1 / 2 \<Longrightarrow> rne x = n"
proof -
  assume "\<bar>x - of_int n\<bar> < 1 / 2"
  with rne_error [of x] have "\<bar>of_int (rne x) - (of_int n :: rat)\<bar> < 1" by linarith
  then have "\<bar>of_int (rne x - n) :: rat\<bar> < 1" by simp
  then show ?thesis by linarith
qed

lemma rne_mono:
  assumes "x \<le> y"
  shows "rne x \<le> rne y"
proof (cases "\<lfloor>x\<rfloor> = \<lfloor>y\<rfloor>")
  case True
  with assms have "x - of_int \<lfloor>x\<rfloor> \<le> y - of_int \<lfloor>y\<rfloor>" by simp
  with True show ?thesis by (auto simp: rne_def Let_def)
next
  case False
  with assms have "\<lfloor>x\<rfloor> + 1 \<le> \<lfloor>y\<rfloor>" by (meson floor_mono leD not_less zle_iff_zadd order_neq_le_trans zless_imp_add1_zle)
  then have "x \<le> of_int \<lfloor>y\<rfloor>" by linarith
  then have "rne x \<le> \<lfloor>y\<rfloor>" by (rule rne_upper)
  also have "\<lfloor>y\<rfloor> \<le> rne y" by (rule rne_lower) simp
  finally show ?thesis .
qed

lemma rne_minus: "rne (- x) = - rne x"
proof (cases "x = of_int \<lfloor>x\<rfloor>")
  case True
  then have "rne x = \<lfloor>x\<rfloor>" "rne (- x) = - \<lfloor>x\<rfloor>"
    by (metis rne_of_int, metis of_int_minus rne_of_int)
  then show ?thesis by simp
next
  case False
  define d where "d = x - of_int \<lfloor>x\<rfloor>"
  have "d \<noteq> 0" using False by (simp add: d_def)
  moreover have "0 \<le> d" "d < 1" by (auto simp: d_def) linarith
  ultimately have d: "0 < d" "d < 1" by auto
  have fl: "\<lfloor>- x\<rfloor> = - \<lfloor>x\<rfloor> - 1"
    using d by (intro floor_unique) (auto simp: d_def)
  have "- x - of_int \<lfloor>- x\<rfloor> = 1 - d" by (simp add: fl d_def)
  then show ?thesis
    by (simp add: rne_def fl d_def [symmetric] Let_def)
qed

section \<open>Binary exponents\<close>

definition ilog2 :: "rat \<Rightarrow> int" where
  "ilog2 r =
     (let (p, q) = quotient_of r; k = bitlen p - bitlen q
      in if 2 powi k \<le> r then k else k - 1)"

lemma powi_bounds_of_bitlen:
  assumes "0 < p"
  shows "2 powi (bitlen p - 1) \<le> (of_int p :: rat)" "(of_int p :: rat) < 2 powi bitlen p"
proof -
  from assms have b: "2 ^ nat (bitlen p - 1) \<le> p" "p < 2 ^ nat (bitlen p)"
    using bitlen_bounds [of p] by auto
  have pos: "0 < bitlen p" using assms by (simp add: bitlen_eq_zero_iff order_less_le bitlen_nonneg)
  from b have "(2 :: rat) ^ nat (bitlen p - 1) \<le> of_int p" "(of_int p :: rat) < 2 ^ nat (bitlen p)"
    by (metis of_int_le_iff of_int_numeral of_int_power, metis of_int_less_iff of_int_numeral of_int_power)
  with pos show "2 powi (bitlen p - 1) \<le> (of_int p :: rat)" "(of_int p :: rat) < 2 powi bitlen p"
    by (simp_all add: power_int_def)
qed

lemma ilog2_bounds:
  assumes "0 < r"
  shows "2 powi ilog2 r \<le> r" "r < 2 powi (ilog2 r + 1)"
proof -
  obtain p q where pq: "quotient_of r = (p, q)" by fastforce
  then have q: "0 < q" and r: "r = of_int p / of_int q"
    by (auto intro: quotient_of_denom_pos quotient_of_div)
  with assms have p: "0 < p" by (simp add: zero_less_divide_iff)
  let ?k = "bitlen p - bitlen q"
  have "2 powi (?k - 1) = (2 powi (bitlen p - 1)) / (2 powi bitlen q :: rat)"
    by (simp flip: power_int_diff) (simp add: algebra_simps)
  also have "\<dots> \<le> r"
    unfolding r using p q powi_bounds_of_bitlen [OF p] powi_bounds_of_bitlen [OF q]
    by (intro frac_le) auto
  finally have lo: "2 powi (?k - 1) \<le> r" .
  have "r \<le> (of_int p) / (2 powi (bitlen q - 1))"
    unfolding r using p q powi_bounds_of_bitlen [OF q] by (intro divide_left_mono) auto
  also have "\<dots> < (2 powi bitlen p) / (2 powi (bitlen q - 1))"
    using powi_bounds_of_bitlen [OF p] by (intro divide_strict_right_mono) auto
  also have "\<dots> = 2 powi (?k + 1)"
    by (simp flip: power_int_diff) (simp add: algebra_simps)
  finally have hi: "r < 2 powi (?k + 1)" .
  show "2 powi ilog2 r \<le> r" "r < 2 powi (ilog2 r + 1)"
    using lo hi by (auto simp: ilog2_def pq Let_def)
qed

lemma powi2_less_iff [simp]: "(2 :: rat) powi a < 2 powi b \<longleftrightarrow> a < b"
  by (meson linorder_not_less one_less_numeral_iff power_int_increasing power_int_strict_increasing semiring_norm(76) one_le_numeral)

lemma powi2_le_iff [simp]: "(2 :: rat) powi a \<le> 2 powi b \<longleftrightarrow> a \<le> b"
  by (metis linorder_not_less powi2_less_iff)

lemma ilog2_unique: "2 powi k \<le> r \<Longrightarrow> r < 2 powi (k + 1) \<Longrightarrow> ilog2 r = k"
proof -
  assume k: "2 powi k \<le> r" "r < 2 powi (k + 1)"
  have "(0 :: rat) < 2 powi k" by simp
  with k have "0 < r" by linarith
  note b = ilog2_bounds [OF this]
  from k b have "(2 :: rat) powi k < 2 powi (ilog2 r + 1)" "(2 :: rat) powi ilog2 r < 2 powi (k + 1)"
    by linarith+
  then show ?thesis by simp
qed

lemma ilog2_mono: "0 < x \<Longrightarrow> x \<le> y \<Longrightarrow> ilog2 x \<le> ilog2 y"
proof -
  assume "0 < x" "x \<le> y"
  then have "(2 :: rat) powi ilog2 x < 2 powi (ilog2 y + 1)"
    using ilog2_bounds [of x] ilog2_bounds [of y] by linarith
  then show ?thesis by simp
qed

section \<open>Rounding to a double\<close>

text \<open>The exponent of the unit in the last place; \<open>-1074\<close> is that of the subnormals.\<close>

definition ulp_exp :: "rat \<Rightarrow> int" where
  "ulp_exp x = max (ilog2 \<bar>x\<bar> - 52) (-1074)"

definition round_bin :: "rat \<Rightarrow> rat" where
  "round_bin x =
     (if x = 0 then 0 else of_int (rne (x / 2 powi ulp_exp x)) * 2 powi ulp_exp x)"

lemma round_bin_zero [simp]: "round_bin 0 = 0"
  by (simp add: round_bin_def)

lemma ulp_exp_minus [simp]: "ulp_exp (- x) = ulp_exp x"
  by (simp add: ulp_exp_def)

lemma round_bin_minus: "round_bin (- x) = - round_bin x"
  by (simp add: round_bin_def rne_minus)

lemma round_bin_upper:
  assumes "x \<le> of_int n * 2 powi ulp_exp x" "x \<noteq> 0"
  shows "round_bin x \<le> of_int n * 2 powi ulp_exp x"
proof -
  from assms have "x / 2 powi ulp_exp x \<le> of_int n" by (simp add: divide_le_eq)
  then have "rne (x / 2 powi ulp_exp x) \<le> n" by (rule rne_upper)
  with assms show ?thesis by (simp add: round_bin_def mult_right_mono)
qed

lemma round_bin_lower:
  assumes "of_int n * 2 powi ulp_exp x \<le> x" "x \<noteq> 0"
  shows "of_int n * 2 powi ulp_exp x \<le> round_bin x"
proof -
  from assms have "of_int n \<le> x / 2 powi ulp_exp x" by (simp add: le_divide_eq)
  then have "n \<le> rne (x / 2 powi ulp_exp x)" by (rule rne_lower)
  with assms show ?thesis by (simp add: round_bin_def mult_right_mono)
qed

lemma round_bin_nonneg: "0 \<le> x \<Longrightarrow> 0 \<le> round_bin x"
  using round_bin_lower [of 0 x] by (cases "x = 0") auto

lemma powi2_multiple: "e \<le> k \<Longrightarrow> (2 :: rat) powi k = of_int (2 ^ nat (k - e)) * 2 powi e"
proof -
  assume "e \<le> k"
  then have "(of_int (2 ^ nat (k - e)) :: rat) = 2 powi (k - e)" by (simp add: power_int_def)
  then show ?thesis by (simp flip: power_int_add)
qed

lemma round_bin_mono_pos:
  assumes "0 < x" "x \<le> y"
  shows "round_bin x \<le> round_bin y"
proof (cases "ulp_exp x = ulp_exp y")
  case True
  from assms have "x / 2 powi ulp_exp x \<le> y / 2 powi ulp_exp x"
    by (intro divide_right_mono) auto
  then have "rne (x / 2 powi ulp_exp x) \<le> rne (y / 2 powi ulp_exp x)" by (rule rne_mono)
  with assms True show ?thesis by (simp add: round_bin_def mult_right_mono)
next
  case False
  define B where "B = (2 :: rat) powi ilog2 y"
  from assms have "ilog2 x \<le> ilog2 y" by (intro ilog2_mono) auto
  with assms False have e: "ulp_exp x < ulp_exp y" "ulp_exp y = ilog2 y - 52" "ilog2 x < ilog2 y"
    by (auto simp: ulp_exp_def)
  have "x < 2 powi (ilog2 x + 1)" using assms by (intro ilog2_bounds)
  also have "\<dots> \<le> B" using e by (simp add: B_def)
  finally have xB: "x \<le> B" by simp
  have By: "B \<le> y" using assms unfolding B_def by (intro ilog2_bounds) auto
  have "B = of_int (2 ^ nat (ilog2 y - ulp_exp x)) * 2 powi ulp_exp x"
    unfolding B_def using e by (intro powi2_multiple) auto
  with xB assms have "round_bin x \<le> B"
    using round_bin_upper [of x "2 ^ nat (ilog2 y - ulp_exp x)"] by simp
  moreover have "B = of_int (2 ^ nat (ilog2 y - ulp_exp y)) * 2 powi ulp_exp y"
    unfolding B_def using e by (intro powi2_multiple) auto
  with By assms have "B \<le> round_bin y"
    using round_bin_lower [of "2 ^ nat (ilog2 y - ulp_exp y)" y] by simp
  ultimately show ?thesis by simp
qed

lemma round_bin_mono: "x \<le> y \<Longrightarrow> round_bin x \<le> round_bin y"
proof -
  assume xy: "x \<le> y"
  consider "0 < x" | "x \<le> 0" "0 \<le> y" | "y < 0" by linarith
  then show ?thesis
  proof cases
    case 1
    with xy show ?thesis by (intro round_bin_mono_pos)
  next
    case 2
    then have "0 \<le> round_bin (- x)" "0 \<le> round_bin y" by (auto intro: round_bin_nonneg)
    then show ?thesis by (simp add: round_bin_minus)
  next
    case 3
    with xy have "round_bin (- y) \<le> round_bin (- x)" by (intro round_bin_mono_pos) auto
    then show ?thesis by (simp add: round_bin_minus)
  qed
qed

section \<open>Doubles\<close>

datatype float64 = Fin rat | PInf | NInf | NaN

text \<open>A rounded value of magnitude \<open>2 powi 1024\<close> or more is an infinity.\<close>

definition fl :: "rat \<Rightarrow> float64" where
  "fl x =
     (let y = round_bin x
      in if y \<noteq> 0 \<and> 1024 \<le> ilog2 \<bar>y\<bar> then (if 0 < y then PInf else NInf) else Fin y)"

definition dbl_limit :: rat where
  "dbl_limit = 2 powi 1024"

lemma dbl_limit_pos [simp]: "0 < dbl_limit"
  unfolding dbl_limit_def by (rule zero_less_power_int) simp

lemma overflow_iff: "y \<noteq> 0 \<and> 1024 \<le> ilog2 \<bar>y\<bar> \<longleftrightarrow> dbl_limit \<le> \<bar>y\<bar>"
proof (cases "y = 0")
  case True
  then show ?thesis by (simp add: not_le)
next
  case False
  then have b: "2 powi ilog2 \<bar>y\<bar> \<le> \<bar>y\<bar>" "\<bar>y\<bar> < 2 powi (ilog2 \<bar>y\<bar> + 1)"
    using ilog2_bounds [of "\<bar>y\<bar>"] by auto
  show ?thesis
  proof
    assume "y \<noteq> 0 \<and> 1024 \<le> ilog2 \<bar>y\<bar>"
    then have "dbl_limit \<le> 2 powi ilog2 \<bar>y\<bar>" by (simp only: powi2_le_iff dbl_limit_def)
    with b show "dbl_limit \<le> \<bar>y\<bar>" by linarith
  next
    assume "dbl_limit \<le> \<bar>y\<bar>"
    with b have "dbl_limit < 2 powi (ilog2 \<bar>y\<bar> + 1)" by linarith
    then have "1024 < ilog2 \<bar>y\<bar> + 1" by (simp only: powi2_less_iff dbl_limit_def)
    then show "y \<noteq> 0 \<and> 1024 \<le> ilog2 \<bar>y\<bar>" using False by simp
  qed
qed

lemma fl_unfold:
  "fl x = (if dbl_limit \<le> round_bin x then PInf
           else if round_bin x \<le> - dbl_limit then NInf else Fin (round_bin x))"
  using dbl_limit_pos overflow_iff [of "round_bin x"]
  by (simp add: fl_def Let_def abs_if split: if_splits del: dbl_limit_pos)

definition is_double :: "rat \<Rightarrow> bool" where
  "is_double x \<longleftrightarrow> fl x = Fin x"

fun finite_f :: "float64 \<Rightarrow> bool" where
  "finite_f (Fin _) = True"
| "finite_f _ = False"

text \<open>Comparisons; every comparison with a \<open>nan\<close> is false.\<close>

fun fle :: "float64 \<Rightarrow> float64 \<Rightarrow> bool" where
  "fle NaN _ = False"
| "fle _ NaN = False"
| "fle NInf _ = True"
| "fle _ PInf = True"
| "fle (Fin x) (Fin y) = (x \<le> y)"
| "fle _ _ = False"

fun flt :: "float64 \<Rightarrow> float64 \<Rightarrow> bool" where
  "flt NaN _ = False"
| "flt _ NaN = False"
| "flt NInf y = (y \<noteq> NInf)"
| "flt x PInf = (x \<noteq> PInf)"
| "flt (Fin x) (Fin y) = (x < y)"
| "flt _ _ = False"

fun fneg :: "float64 \<Rightarrow> float64" where
  "fneg (Fin x) = Fin (- x)"
| "fneg PInf = NInf"
| "fneg NInf = PInf"
| "fneg NaN = NaN"

fun fabs :: "float64 \<Rightarrow> float64" where
  "fabs (Fin x) = Fin \<bar>x\<bar>"
| "fabs NaN = NaN"
| "fabs _ = PInf"

fun fadd :: "float64 \<Rightarrow> float64 \<Rightarrow> float64" where
  "fadd (Fin x) (Fin y) = fl (x + y)"
| "fadd NaN _ = NaN"
| "fadd _ NaN = NaN"
| "fadd PInf NInf = NaN"
| "fadd NInf PInf = NaN"
| "fadd (Fin _) y = y"
| "fadd x _ = x"

definition fsub :: "float64 \<Rightarrow> float64 \<Rightarrow> float64" where
  "fsub x y = fadd x (fneg y)"

fun fsign_inf :: "bool \<Rightarrow> float64" where
  "fsign_inf pos = (if pos then PInf else NInf)"

fun fmul :: "float64 \<Rightarrow> float64 \<Rightarrow> float64" where
  "fmul (Fin x) (Fin y) = fl (x * y)"
| "fmul NaN _ = NaN"
| "fmul _ NaN = NaN"
| "fmul (Fin x) y = (if x = 0 then NaN else fsign_inf ((0 < x) = (y = PInf)))"
| "fmul x (Fin y) = (if y = 0 then NaN else fsign_inf ((0 < y) = (x = PInf)))"
| "fmul x y = fsign_inf (x = y)"

text \<open>\<open>min(x, y)\<close> of Python: the first argument unless the second is smaller.\<close>

definition fmin :: "float64 \<Rightarrow> float64 \<Rightarrow> float64" where
  "fmin x y = (if flt y x then y else x)"

text \<open>\<open>round(x, n)\<close>: the decimal nearest to the exact value, read back as a double.\<close>

fun fround :: "nat \<Rightarrow> float64 \<Rightarrow> float64" where
  "fround n (Fin x) = fl (of_int (rne (x * 10 ^ n)) / 10 ^ n)"
| "fround n x = x"

text \<open>\<open>format(x, '.0f')\<close> of a finite value.\<close>

definition format_0f :: "float64 \<Rightarrow> pystr" where
  "format_0f x = (case x of Fin r \<Rightarrow> dec_int (rne r) | PInf \<Rightarrow> lit ''inf''
     | NInf \<Rightarrow> lit ''-inf'' | NaN \<Rightarrow> lit ''nan'')"

lemma fl_mono: "x \<le> y \<Longrightarrow> fle (fl x) (fl y)"
  using round_bin_mono [of x y] by (auto simp: fl_unfold)

lemma fl_cases: "fl x = PInf \<or> fl x = NInf \<or> fl x = Fin (round_bin x)"
  by (auto simp: fl_def Let_def)

lemma fl_zero [simp]: "fl 0 = Fin 0"
  by (simp add: fl_def)

lemma fl_nonneg: "0 \<le> x \<Longrightarrow> fle (Fin 0) (fl x)"
  using fl_mono [of 0 x] by simp

lemma fl_not_NaN [simp]: "fl x \<noteq> NaN"
  by (simp add: fl_def Let_def)

lemma fle_refl_iff [simp]: "fle x x \<longleftrightarrow> x \<noteq> NaN"
  by (cases x) auto

lemma fle_trans: "fle x y \<Longrightarrow> fle y z \<Longrightarrow> fle x z"
  by (cases x; cases y; cases z) auto

lemma flt_iff: "flt x y \<longleftrightarrow> fle x y \<and> x \<noteq> y"
  by (cases x; cases y) auto

lemma not_flt_fle: "\<not> flt y x \<Longrightarrow> x \<noteq> NaN \<Longrightarrow> y \<noteq> NaN \<Longrightarrow> fle x y"
  by (cases x; cases y) auto

lemma fmin_le_right: "x \<noteq> NaN \<Longrightarrow> y \<noteq> NaN \<Longrightarrow> fle (fmin x y) y"
  by (auto simp: fmin_def intro: not_flt_fle)

lemma fle_fmin: "fle z x \<Longrightarrow> fle z y \<Longrightarrow> fle z (fmin x y)"
  by (simp add: fmin_def)

section \<open>int and float together\<close>

datatype pynum = NInt int | NFloat float64

text \<open>The exact value, for comparisons.\<close>

fun num_val :: "pynum \<Rightarrow> float64" where
  "num_val (NInt i) = Fin (of_int i)"
| "num_val (NFloat f) = f"

definition num_le :: "pynum \<Rightarrow> pynum \<Rightarrow> bool" where
  "num_le a b = fle (num_val a) (num_val b)"

definition num_lt :: "pynum \<Rightarrow> pynum \<Rightarrow> bool" where
  "num_lt a b = flt (num_val a) (num_val b)"

text \<open>\<open>float(x)\<close>.\<close>

definition num_float :: "pynum \<Rightarrow> float64 result" where
  "num_float n = (case n of
     NFloat f \<Rightarrow> Inr f
   | NInt i \<Rightarrow> (case fl (of_int i) of Fin r \<Rightarrow> Inr (Fin r) | _ \<Rightarrow> Inl OverflowError))"

definition num_sub :: "pynum \<Rightarrow> pynum \<Rightarrow> pynum result" where
  "num_sub a b = (case (a, b) of
     (NInt i, NInt j) \<Rightarrow> Inr (NInt (i - j))
   | _ \<Rightarrow> bind_r (num_float a) (\<lambda>x. bind_r (num_float b) (\<lambda>y. Inr (NFloat (fsub x y)))))"

fun num_abs :: "pynum \<Rightarrow> pynum" where
  "num_abs (NInt i) = NInt \<bar>i\<bar>"
| "num_abs (NFloat f) = NFloat (fabs f)"

lemma num_float_Inr_finite: "num_float n = Inr f \<Longrightarrow> (\<exists>i. n = NInt i) \<Longrightarrow> finite_f f"
  by (auto simp: num_float_def split: float64.splits) (metis finite_f.simps(1))

lemma num_sub_returns: "returns (num_float a) \<Longrightarrow> returns (num_float b) \<Longrightarrow> returns (num_sub a b)"
  by (auto simp: num_sub_def returns_iff split: pynum.splits)


section \<open>Representable values\<close>

lemma round_bin_grid: "x = of_int n * 2 powi ulp_exp x \<Longrightarrow> round_bin x = x"
  by (auto simp: round_bin_def) (metis nonzero_mult_div_cancel_right power_int_eq_0_iff
      rne_of_int zero_neq_numeral)

lemma round_bin_on_grid: "\<exists>n. round_bin x = of_int n * 2 powi ulp_exp x"
  by (cases "x = 0") (auto simp: round_bin_def)

lemma ulp_exp_round_bin:
  assumes "0 < x" "round_bin x \<noteq> 0"
  shows "ilog2 (round_bin x) \<le> ilog2 x + 1"
    and "ilog2 (round_bin x) = ilog2 x + 1 \<Longrightarrow> round_bin x = 2 powi (ilog2 x + 1)"
proof -
  define y where "y = round_bin x"
  have y: "0 < y" using assms round_bin_nonneg [of x] by (simp add: y_def less_le)
  have b: "y \<le> 2 powi (ilog2 x + 1)" if "ulp_exp x \<le> ilog2 x + 1"
    using round_bin_upper [of x "2 ^ nat (ilog2 x + 1 - ulp_exp x)"] assms ilog2_bounds [of x]
      powi2_multiple [OF that] by (simp add: y_def)
  have e: "ulp_exp x \<le> ilog2 x + 1"
  proof (rule ccontr)
    assume "\<not> ulp_exp x \<le> ilog2 x + 1"
    then have "ilog2 x + 1 \<le> ulp_exp x - 1" by simp
    then have "(2 :: rat) powi (ilog2 x + 1) \<le> 2 powi (ulp_exp x - 1)" by simp
    also have "\<dots> = 2 powi ulp_exp x / 2" by (simp add: power_int_diff)
    finally have "x / 2 powi ulp_exp x < 1 / 2"
      using assms ilog2_bounds [of x] by (simp add: divide_less_eq)
    then have "rne (x / 2 powi ulp_exp x) = 0" using assms by (intro rne_unique) auto
    with assms show False by (simp add: round_bin_def)
  qed
  note b = b [OF e]
  have "2 powi ilog2 y \<le> y" using y by (rule ilog2_bounds)
  with b have "(2 :: rat) powi ilog2 y \<le> 2 powi (ilog2 x + 1)" by linarith
  then show "ilog2 (round_bin x) \<le> ilog2 x + 1" by (simp add: y_def)
  show "round_bin x = 2 powi (ilog2 x + 1)" if "ilog2 (round_bin x) = ilog2 x + 1"
    using b \<open>2 powi ilog2 y \<le> y\<close> that by (simp add: y_def)
qed

lemma round_bin_idem_pos:
  assumes "0 < x"
  shows "round_bin (round_bin x) = round_bin x"
proof (cases "round_bin x = 0")
  case False
  define y where "y = round_bin x"
  have y: "0 < y" using assms False round_bin_nonneg [of x] by (simp add: y_def less_le)
  obtain n where n: "y = of_int n * 2 powi ulp_exp x" using round_bin_on_grid by (auto simp: y_def)
  show ?thesis
  proof (cases "ulp_exp y \<le> ulp_exp x")
    case True
    have "y = of_int (n * 2 ^ nat (ulp_exp x - ulp_exp y)) * 2 powi ulp_exp y"
      using powi2_multiple [OF True] n by simp
    then show ?thesis unfolding y_def [symmetric] by (rule round_bin_grid)
  next
    case e: False
    then have "ilog2 x < ilog2 y" using assms y by (auto simp: ulp_exp_def)
    with ulp_exp_round_bin [OF assms False] have y2: "y = 2 powi (ilog2 x + 1)" "ilog2 y = ilog2 x + 1"
      by (auto simp: y_def)
    have "ulp_exp y \<le> ilog2 x + 1" using e y y2 assms by (auto simp: ulp_exp_def)
    then have "y = of_int (2 ^ nat (ilog2 x + 1 - ulp_exp y)) * 2 powi ulp_exp y"
      using powi2_multiple [of "ulp_exp y" "ilog2 x + 1"] y2 by simp
    then show ?thesis unfolding y_def [symmetric] by (rule round_bin_grid)
  qed
qed simp

lemma round_bin_idem [simp]: "round_bin (round_bin x) = round_bin x"
proof -
  consider "0 < x" | "x = 0" | "0 < - x" by linarith
  then show ?thesis
  proof cases
    case 3
    then have "round_bin (round_bin (- x)) = round_bin (- x)" by (rule round_bin_idem_pos)
    then show ?thesis by (simp add: round_bin_minus)
  qed (simp_all add: round_bin_idem_pos)
qed

text \<open>Every finite result of an operation is a double.\<close>

lemma fl_is_double: "fl x = Fin y \<Longrightarrow> is_double y"
proof -
  assume fx: "fl x = Fin y"
  then have "y = round_bin x" using fl_cases [of x] by auto
  with fx show ?thesis by (simp add: is_double_def fl_unfold split: if_splits)
qed

lemma is_double_round_bin: "is_double x \<Longrightarrow> round_bin x = x"
  using fl_cases [of x] by (auto simp: is_double_def)

lemma is_double_minus: "is_double x \<Longrightarrow> is_double (- x)"
  using dbl_limit_pos
  by (auto simp: is_double_def fl_unfold round_bin_minus split: if_splits simp del: dbl_limit_pos)

lemma is_double_zero [simp]: "is_double 0"
  by (simp add: is_double_def)

text \<open>A decimal close enough to a double is read back as that double.\<close>

text \<open>A grid point below \<open>2 powi k\<close> is at least one step below it, one above it at least one step
  above.\<close>

lemma grid_gap:
  assumes "e \<le> k"
  shows "of_int m * 2 powi e < (2 :: rat) powi k \<Longrightarrow> of_int m * 2 powi e + 2 powi e \<le> (2 :: rat) powi k"
    and "(2 :: rat) powi k < of_int m * 2 powi e \<Longrightarrow> 2 powi k + 2 powi e \<le> (of_int m * 2 powi e :: rat)"
proof -
  have k: "(2 :: rat) powi k = of_int (2 ^ nat (k - e)) * 2 powi e"
    using powi2_multiple [OF assms] by simp
  have step: "of_int i * 2 powi e + 2 powi e \<le> (of_int j * 2 powi e :: rat)"
    if "of_int i * 2 powi e < (of_int j * 2 powi e :: rat)" for i j
  proof -
    have "i < j" using that by simp
    then have "of_int (i + 1) \<le> (of_int j :: rat)" by (simp only: of_int_le_iff zless_imp_add1_zle)
    then have "of_int (i + 1) * 2 powi e \<le> (of_int j * 2 powi e :: rat)"
      by (intro mult_right_mono) auto
    then show ?thesis by (simp add: algebra_simps)
  qed
  show "of_int m * 2 powi e + 2 powi e \<le> (2 :: rat) powi k" if "of_int m * 2 powi e < (2 :: rat) powi k"
    using that unfolding k by (rule step)
  show "2 powi k + 2 powi e \<le> (of_int m * 2 powi e :: rat)" if "(2 :: rat) powi k < of_int m * 2 powi e"
    using that unfolding k by (rule step)
qed

lemma round_bin_nearest:
  assumes "0 < c" "ulp_exp c = e" "\<bar>c - of_int m * 2 powi e\<bar> < 2 powi e / 2"
  shows "round_bin c = of_int m * 2 powi e"
proof -
  have "\<bar>c / 2 powi e - of_int m\<bar> < 1 / 2"
    using assms(3) by (simp add: field_simps abs_less_iff)
  then have "rne (c / 2 powi ulp_exp c) = m" unfolding assms(2) by (rule rne_unique)
  with assms show ?thesis by (simp add: round_bin_def)
qed

text \<open>The neighbour of a power of two from below lies in the binade below, with a finer grid.\<close>

lemma round_bin_below_power:
  assumes near: "\<bar>c - 2 powi k\<bar> < 2 powi (k - 54)" and "c < 2 powi k" and "- 1074 \<le> k"
  shows "round_bin c = 2 powi k"
proof -
  define f where "f = max (k - 53) (- 1074)"
  have "(2 :: rat) powi (k - 1) = 2 powi k / 2" by (simp add: power_int_diff)
  moreover have "(2 :: rat) powi (k - 54) \<le> 2 powi (k - 1)" by simp
  ultimately have lo: "2 powi (k - 1) \<le> c" using near by linarith
  moreover have "(0 :: rat) < 2 powi (k - 1)" by simp
  ultimately have c0: "0 < c" by linarith
  from lo assms(2) have "ilog2 c = k - 1" by (intro ilog2_unique) auto
  with c0 have ec: "ulp_exp c = f" by (simp add: ulp_exp_def f_def)
  have fk: "f \<le> k" using assms(3) by (simp add: f_def)
  have "(2 :: rat) powi (k - 54) \<le> 2 powi (f - 1)" by (simp add: f_def)
  also have "\<dots> = 2 powi f / 2" by (simp add: power_int_diff)
  finally have "\<bar>c - of_int (2 ^ nat (k - f)) * 2 powi f\<bar> < 2 powi f / 2"
    using near powi2_multiple [OF fk] by simp
  from round_bin_nearest [OF c0 ec this] show ?thesis using powi2_multiple [OF fk] by simp
qed

lemma round_bin_near:
  assumes x: "0 < x" "round_bin x = x" and near: "\<bar>c - x\<bar> < x * 2 powi (- 54)"
  shows "round_bin c = x"
proof -
  define k where "k = ilog2 x"
  obtain m where m: "x = of_int m * 2 powi ulp_exp x"
    using round_bin_on_grid [of x] x by auto
  have kx: "2 powi k \<le> x" "x < 2 powi (k + 1)" using x by (auto simp: k_def ilog2_bounds)
  have e: "ulp_exp x = max (k - 52) (- 1074)" using x by (simp add: ulp_exp_def k_def)
  have "x * 2 powi (- 54) < 2 powi (k + 1) * 2 powi (- 54)" using kx by simp
  also have "\<dots> = 2 powi (k - 53)" by (subst power_int_add [symmetric]) simp_all
  finally have cx: "\<bar>c - x\<bar> < 2 powi (k - 53)" using near by simp
  have "0 < m"
    using x(1) m by (metis of_int_0_less_iff zero_less_mult_pos2 zero_less_power_int zero_less_numeral)
  then have "(2 :: rat) powi ulp_exp x \<le> of_int m * 2 powi ulp_exp x" by simp
  with m kx have "(2 :: rat) powi ulp_exp x < 2 powi (k + 1)" by linarith
  then have ek: "ulp_exp x \<le> k" by simp
  have ulp: "(2 :: rat) powi (k - 53) < 2 powi ulp_exp x" using e by simp
  show ?thesis
  proof (cases "2 powi k \<le> c")
    case lo: True
    have "x + 2 powi ulp_exp x \<le> 2 powi (k + 1)"
      using grid_gap(1) [of "ulp_exp x" "k + 1" m] ek kx(2) m by simp
    with cx ulp have "c < 2 powi (k + 1)" by linarith
    with lo have "ilog2 c = k" by (intro ilog2_unique)
    moreover have "0 < c" using lo by (rule less_le_trans [rotated]) simp
    ultimately have ec: "0 < c" "ulp_exp c = ulp_exp x" unfolding e by (simp_all add: ulp_exp_def)
    have "(2 :: rat) powi (k - 53) \<le> 2 powi (ulp_exp x - 1)" using e by simp
    also have "\<dots> = 2 powi ulp_exp x / 2" by (simp add: power_int_diff)
    finally have "\<bar>c - of_int m * 2 powi ulp_exp x\<bar> < 2 powi ulp_exp x / 2"
      using cx m by linarith
    from round_bin_nearest [OF ec this] m show ?thesis by simp
  next
    case hi: False
    have "\<not> 2 powi k + 2 powi ulp_exp x \<le> x" using cx ulp hi by linarith
    then have x2: "x = 2 powi k" using grid_gap(2) [OF ek, of m] kx(1) m by fastforce
    have "x * 2 powi (- 54) = 2 powi (k - 54)"
      unfolding x2 by (subst power_int_add [symmetric]) simp_all
    with near hi ek e show ?thesis unfolding x2 by (intro round_bin_below_power) auto
  qed
qed

lemma fl_near:
  "0 < x \<Longrightarrow> is_double x \<Longrightarrow> \<bar>c - x\<bar> < x * 2 powi (- 54) \<Longrightarrow> fl c = Fin x"
proof -
  assume x: "0 < x" "is_double x" and near: "\<bar>c - x\<bar> < x * 2 powi (- 54)"
  have rx: "round_bin x = x" using x(2) by (rule is_double_round_bin)
  have "round_bin c = x" using x(1) rx near by (rule round_bin_near)
  with rx have "fl c = fl x" by (simp only: fl_def)
  with x(2) show ?thesis by (simp only: is_double_def)
qed

text \<open>The familiar example: \<open>0.1 + 0.2\<close> is not \<open>0.3\<close>.\<close>

lemma fadd_example: "fadd (fl (1 / 10)) (fl (2 / 10)) = Fin (1351079888211149 / 4503599627370496)"
  by code_simp

lemma fadd_example_neq: "fadd (fl (1 / 10)) (fl (2 / 10)) \<noteq> fl (3 / 10)"
  by code_simp

end
