(* ===== verification/PyNumText.thy ===== *)
theory PyNumText
  imports PyFloat
begin

text \<open>
  Text of floats.  \<open>float_repr\<close> is \<open>repr\<close> of a finite float: the shortest decimal that reads
  back as the same double (the nearest one among those), in fixed notation for decimal points
  between -3 and 16 and in exponent notation otherwise.  \<open>decimal_value_of\<close> is the value of a
  decimal text given by its digits and exponent.  The round trip rests on the fact that
  seventeen significant digits always identify a double.
\<close>

section \<open>Decimal exponents\<close>

definition dec_len :: "int \<Rightarrow> int" where
  "dec_len n = int (length (dec_nat (nat n)))"

definition ilog10 :: "rat \<Rightarrow> int" where
  "ilog10 r =
     (let (p, q) = quotient_of r; k = dec_len p - dec_len q
      in if 10 powi k \<le> r then k else k - 1)"

lemma powi10_less_iff [simp]: "(10 :: rat) powi a < 10 powi b \<longleftrightarrow> a < b"
  by (meson linorder_not_less power_int_increasing power_int_strict_increasing
      one_le_numeral one_less_numeral_iff semiring_norm(76))

lemma powi10_le_iff [simp]: "(10 :: rat) powi a \<le> 10 powi b \<longleftrightarrow> a \<le> b"
  by (metis linorder_not_less powi10_less_iff)

lemma dec_nat_bounds:
  "0 < n \<Longrightarrow> 10 ^ (length (dec_nat n) - 1) \<le> n \<and> n < 10 ^ length (dec_nat n)"
proof (induction n rule: dec_nat.induct)
  case (1 n)
  show ?case
  proof (cases "n < 10")
    case True
    with 1 show ?thesis by (simp add: dec_nat.simps [of n])
  next
    case False
    define l where "l = length (dec_nat (n div 10))"
    have l: "0 < l" by (simp add: l_def)
    from False have "0 < n div 10" by (simp add: div_greater_zero_iff)
    with 1 False have b: "10 ^ (l - 1) \<le> n div 10" "n div 10 < 10 ^ l" by (auto simp: l_def)
    have "10 ^ l = 10 * (10 :: nat) ^ (l - 1)" using l by (simp flip: power_Suc)
    with b have "10 ^ l \<le> 10 * (n div 10)" by simp
    then have "10 ^ l \<le> n" by (rule order_trans) simp
    moreover have "n < 10 ^ Suc l"
    proof -
      have "n < 10 * (n div 10) + 10" by presburger
      also have "\<dots> \<le> 10 * 10 ^ l" using b by simp
      finally show ?thesis by simp
    qed
    ultimately show ?thesis using False by (simp add: dec_nat.simps [of n] l_def)
  qed
qed

lemma powi_bounds_of_dec_len:
  assumes "0 < p"
  shows "10 powi (dec_len p - 1) \<le> (of_int p :: rat)" "(of_int p :: rat) < 10 powi dec_len p"
proof -
  define n where "n = nat p"
  define l where "l = length (dec_nat n)"
  have l: "0 < l" by (simp add: l_def)
  have "0 < n" using assms by (simp add: n_def)
  then have b: "10 ^ (l - 1) \<le> n" "n < 10 ^ l" using dec_nat_bounds [of n] by (auto simp: l_def)
  then have "10 ^ (l - 1) \<le> (of_nat n :: rat)" "(of_nat n :: rat) < 10 ^ l"
    by (metis of_nat_le_iff of_nat_numeral of_nat_power, metis of_nat_less_iff of_nat_numeral of_nat_power)
  moreover have "(of_nat n :: rat) = of_int p" using assms by (simp add: n_def)
  moreover have "dec_len p = int l" "nat (int l - 1) = l - 1" by (auto simp: dec_len_def n_def l_def)
  ultimately show "10 powi (dec_len p - 1) \<le> (of_int p :: rat)" "(of_int p :: rat) < 10 powi dec_len p"
    using l by (simp_all add: power_int_def)
qed

lemma ilog10_bounds:
  assumes "0 < r"
  shows "10 powi ilog10 r \<le> r" "r < 10 powi (ilog10 r + 1)"
proof -
  obtain p q where pq: "quotient_of r = (p, q)" by fastforce
  then have q: "0 < q" and r: "r = of_int p / of_int q"
    by (auto intro: quotient_of_denom_pos quotient_of_div)
  with assms have p: "0 < p" by (simp add: zero_less_divide_iff)
  let ?k = "dec_len p - dec_len q"
  have "10 powi (?k - 1) = (10 powi (dec_len p - 1)) / (10 powi dec_len q :: rat)"
    by (simp flip: power_int_diff) (simp add: algebra_simps)
  also have "\<dots> \<le> r"
    unfolding r using p q powi_bounds_of_dec_len [OF p] powi_bounds_of_dec_len [OF q]
    by (intro frac_le) auto
  finally have lo: "10 powi (?k - 1) \<le> r" .
  have "r \<le> (of_int p) / (10 powi (dec_len q - 1))"
    unfolding r using p q powi_bounds_of_dec_len [OF q] by (intro divide_left_mono) auto
  also have "\<dots> < (10 powi dec_len p) / (10 powi (dec_len q - 1))"
    using powi_bounds_of_dec_len [OF p] by (intro divide_strict_right_mono) auto
  also have "\<dots> = 10 powi (?k + 1)"
    by (simp flip: power_int_diff) (simp add: algebra_simps)
  finally have hi: "r < 10 powi (?k + 1)" .
  show "10 powi ilog10 r \<le> r" "r < 10 powi (ilog10 r + 1)"
    using lo hi by (auto simp: ilog10_def pq Let_def)
qed

section \<open>Shortest digits\<close>

text \<open>One attempt with \<open>n\<close> significant digits: the nearest decimal, then its neighbour.\<close>

definition try_digits :: "rat \<Rightarrow> nat \<Rightarrow> (int \<times> int) option" where
  "try_digits r n =
     (let q = ilog10 r - int n + 1;
          s = r / 10 powi q;
          c = rne s;
          c' = (if of_int c \<le> s then c + 1 else c - 1)
      in if fl (of_int c * 10 powi q) = Fin r then Some (c, q)
         else if fl (of_int c' * 10 powi q) = Fin r then Some (c', q)
         else None)"

definition shortest_digits :: "rat \<Rightarrow> (int \<times> int) option" where
  "shortest_digits r =
     (case List.map_filter (try_digits r) [1..<18] of [] \<Rightarrow> None | d # _ \<Rightarrow> Some d)"

lemma try_digits_reads_back:
  "try_digits r n = Some (c, q) \<Longrightarrow> fl (of_int c * 10 powi q) = Fin r"
  by (auto simp: try_digits_def Let_def split: if_splits)

lemma shortest_digits_reads_back:
  assumes "shortest_digits r = Some (c, q)"
  shows "fl (of_int c * 10 powi q) = Fin r"
proof -
  from assms have "(c, q) \<in> set (List.map_filter (try_digits r) [1..<18])"
    by (auto simp: shortest_digits_def split: list.splits)
  then show ?thesis by (auto simp: map_filter_def dest: try_digits_reads_back)
qed

lemma map_filter_member: "x \<in> set xs \<Longrightarrow> f x = Some y \<Longrightarrow> y \<in> set (List.map_filter f xs)"
  by (force simp: List.map_filter_def)

text \<open>Seventeen digits are enough.\<close>

lemma try_digits_17:
  assumes "0 < r" "is_double r"
  shows "try_digits r 17 \<noteq> None"
proof -
  define q where "q = ilog10 r - 16"
  define c where "c = rne (r / 10 powi q)"
  have q: "ilog10 r - int 17 + 1 = q" by (simp add: q_def)
  have "of_int c * 10 powi q - r = (of_int c - r / 10 powi q) * 10 powi q"
    by (simp add: algebra_simps)
  then have "\<bar>of_int c * 10 powi q - r\<bar> = \<bar>of_int c - r / 10 powi q\<bar> * 10 powi q"
    by (simp add: abs_mult)
  also have "\<dots> \<le> 1 / 2 * 10 powi q"
    unfolding c_def by (intro mult_right_mono rne_error) simp
  finally have err: "\<bar>of_int c * 10 powi q - r\<bar> \<le> 1 / 2 * 10 powi q" .
  have "(10 :: rat) powi q = 10 powi ilog10 r / 10 ^ 16"
    by (simp add: q_def power_int_diff)
  also have "\<dots> \<le> r / 10 ^ 16"
    using ilog10_bounds [OF assms(1)] by (intro divide_right_mono) auto
  finally have "1 / 2 * 10 powi q \<le> 1 / 2 * (r / 10 ^ 16)" by simp
  also have "\<dots> < r * 2 powi (- 54)"
  proof -
    have "(2 :: rat) powi (- 54) = 1 / 18014398509481984"
      by (simp add: power_int_def power_one_over)
    then show ?thesis using assms(1) by simp
  qed
  finally have "\<bar>of_int c * 10 powi q - r\<bar> < r * 2 powi (- 54)" using err by linarith
  with assms have "fl (of_int c * 10 powi q) = Fin r" by (intro fl_near)
  then show ?thesis unfolding try_digits_def Let_def q c_def [symmetric] by simp
qed

lemma shortest_digits_exists:
  assumes "0 < r" "is_double r"
  shows "\<exists>c q. shortest_digits r = Some (c, q)"
proof -
  obtain d where "try_digits r 17 = Some d" using try_digits_17 [OF assms] by auto
  moreover have "17 \<in> set [1..<18]" by simp
  ultimately have "d \<in> set (List.map_filter (try_digits r) [1..<18])"
    by (rule map_filter_member [rotated])
  then show ?thesis
    by (cases "List.map_filter (try_digits r) [1..<18]") (auto simp: shortest_digits_def)
qed

section \<open>The text\<close>

text \<open>
  A decimal text in three parts: the digits before the point, the digits after it and the
  exponent, when one is written.
\<close>

type_synonym decimal = "pystr \<times> pystr \<times> int option"

definition decimal_rat :: "decimal \<Rightarrow> rat" where
  "decimal_rat d = (case d of (ip, fp, ex) \<Rightarrow>
     of_nat (undec (ip @ fp)) * 10 powi ((case ex of None \<Rightarrow> 0 | Some e \<Rightarrow> e) - int (length fp)))"

definition rstrip_zeros :: "pystr \<Rightarrow> pystr" where
  "rstrip_zeros s = rev (dropWhile (\<lambda>c. c = 48) (rev s))"

text \<open>Digits \<open>D\<close> with the decimal point after the first \<open>dp\<close> of them.\<close>

definition place_point :: "pystr \<Rightarrow> int \<Rightarrow> decimal" where
  "place_point D dp =
     (if - 4 < dp \<and> dp \<le> 16 then
        (if dp \<le> 0 then ([48], replicate (nat (- dp)) 48 @ D, None)
         else if length D \<le> nat dp then (D @ replicate (nat dp - length D) 48, [48], None)
         else (take (nat dp) D, drop (nat dp) D, None))
      else (take 1 D, drop 1 D, Some (dp - 1)))"

definition exponent_text :: "int \<Rightarrow> pystr" where
  "exponent_text e =
     101 # (if e < 0 then 45 else 43)
         # (let s = dec_nat (nat \<bar>e\<bar>) in if length s < 2 then 48 # s else s)"

definition decimal_text :: "decimal \<Rightarrow> pystr" where
  "decimal_text d = (case d of (ip, fp, ex) \<Rightarrow>
     ip @ (if fp = [] then [] else 46 # fp) @ (case ex of None \<Rightarrow> [] | Some e \<Rightarrow> exponent_text e))"

definition repr_decimal :: "rat \<Rightarrow> decimal" where
  "repr_decimal r =
     (case shortest_digits r of
        None \<Rightarrow> ([], [], None)
      | Some (c, q) \<Rightarrow>
          place_point (rstrip_zeros (dec_nat (nat c))) (int (length (dec_nat (nat c))) + q))"

definition float_repr :: "float64 \<Rightarrow> pystr" where
  "float_repr f = (case f of
     Fin r \<Rightarrow> if r = 0 then lit ''0.0''
              else if r < 0 then 45 # decimal_text (repr_decimal (- r))
              else decimal_text (repr_decimal r)
   | PInf \<Rightarrow> lit ''inf'' | NInf \<Rightarrow> lit ''-inf'' | NaN \<Rightarrow> lit ''nan'')"

lemma undec_zeros [simp]: "undec (replicate n 48) = 0"
proof (induction n)
  case (Suc n)
  have "undec (replicate (Suc n) 48) = undec (replicate n 48 @ [48])"
    by (simp add: replicate_append_same)
  also have "\<dots> = 0" using Suc by (simp add: undec_append) (simp add: undec_def digits_value_def)
  finally show ?case .
qed simp

lemma rstrip_zeros_split: "\<exists>z. s = rstrip_zeros s @ replicate z 48"
proof -
  have "takeWhile (\<lambda>c. c = 48) (rev s) = replicate (length (takeWhile (\<lambda>c. c = 48) (rev s))) 48"
    by (metis (mono_tags, lifting) replicate_eqI set_takeWhileD)
  then have "rev s = replicate (length (takeWhile (\<lambda>c. c = 48) (rev s))) 48 @ dropWhile (\<lambda>c. c = 48) (rev s)"
    by (metis takeWhile_dropWhile_id)
  then have "s = rstrip_zeros s @ replicate (length (takeWhile (\<lambda>c. c = 48) (rev s))) 48"
    unfolding rstrip_zeros_def by (metis rev_append rev_replicate rev_rev_ident)
  then show ?thesis ..
qed

lemma undec_leading_zeros [simp]: "undec (replicate n 48 @ D) = undec D" "undec (48 # D) = undec D"
proof -
  show 1: "undec (replicate n 48 @ D) = undec D" for n by (simp add: undec_append)
  from 1 [of 1] show "undec (48 # D) = undec D" by simp
qed

lemma undec_trailing_zeros [simp]: "undec (D @ replicate n 48) = undec D * 10 ^ n"
  by (simp add: undec_append)

lemma decimal_rat_place_point:
  assumes "D \<noteq> []"
  shows "decimal_rat (place_point D dp) = of_nat (undec D) * 10 powi (dp - int (length D))"
proof -
  consider (low) "- 4 < dp" "dp \<le> 0" | (right) "0 < dp" "dp \<le> 16" "length D \<le> nat dp"
    | (mid) "0 < dp" "dp \<le> 16" "nat dp < length D" | (exp) "dp \<le> - 4 \<or> 16 < dp"
    by linarith
  then show ?thesis
  proof cases
    case low
    then show ?thesis by (simp add: decimal_rat_def place_point_def)
  next
    case right
    define n where "n = nat dp - length D"
    have "undec ((D @ replicate n 48) @ [48]) = undec (D @ replicate (Suc n) 48)"
      by (simp add: replicate_append_same)
    also have "\<dots> = undec D * 10 ^ Suc n" by (rule undec_trailing_zeros)
    finally have u: "undec ((D @ replicate n 48) @ [48]) = undec D * 10 ^ Suc n" .
    have "(10 :: rat) ^ Suc n * 10 powi (- 1) = 10 powi (int (Suc n) + - 1)"
      by (subst power_int_add) (simp_all only: power_int_of_nat, simp_all)
    also have "int (Suc n) + - 1 = dp - int (length D)" using right by (simp add: n_def)
    finally have "(10 :: rat) ^ Suc n * 10 powi (- 1) = 10 powi (dp - int (length D))" .
    with right u show ?thesis
      by (simp add: decimal_rat_def place_point_def n_def [symmetric] mult.assoc del: power_Suc append_assoc)
  next
    case mid
    then show ?thesis by (simp add: decimal_rat_def place_point_def)
  next
    case exp
    moreover have "take (Suc 0) D @ drop (Suc 0) D = D" by simp
    moreover have "dp - 1 - int (length D - Suc 0) = dp - int (length D)"
      using assms by (cases D) auto
    ultimately show ?thesis by (auto simp: decimal_rat_def place_point_def)
  qed
qed

text \<open>The decimal that \<open>repr\<close> prints reads back as the value itself.\<close>

theorem repr_decimal_reads_back:
  assumes "0 < r" "is_double r"
  shows "fl (decimal_rat (repr_decimal r)) = Fin r"
proof -
  obtain c q where cq: "shortest_digits r = Some (c, q)" using shortest_digits_exists [OF assms] by auto
  then have reads: "fl (of_int c * 10 powi q) = Fin r" by (rule shortest_digits_reads_back)
  have c0: "0 < c"
  proof (rule ccontr)
    assume "\<not> 0 < c"
    then have "of_int c * (10 :: rat) powi q \<le> 0" by (simp add: mult_le_0_iff)
    then have "fle (fl (of_int c * 10 powi q)) (fl 0)" by (rule fl_mono)
    with reads assms show False by simp
  qed
  obtain z where z: "dec_nat (nat c) = rstrip_zeros (dec_nat (nat c)) @ replicate z 48"
    using rstrip_zeros_split by blast
  define D where "D = rstrip_zeros (dec_nat (nat c))"
  have nc: "nat c = undec D * 10 ^ z"
    using z undec_dec_nat [of "nat c"] by (metis D_def undec_trailing_zeros)
  have D: "D \<noteq> []" using nc c0 by auto
  have len: "length (dec_nat (nat c)) = length D + z" using z by (metis D_def length_append length_replicate)
  have "decimal_rat (repr_decimal r) =
      of_nat (undec D) * 10 powi (int (length D + z) + q - int (length D))"
    using decimal_rat_place_point [OF D] by (simp add: repr_decimal_def cq D_def [symmetric] len)
  also have "\<dots> = of_nat (undec D) * (10 ^ z * 10 powi q)"
    by (simp add: power_int_add)
  also have "\<dots> = of_nat (nat c) * 10 powi q" by (simp add: nc)
  also have "\<dots> = of_int c * 10 powi q" using c0 by simp
  finally show ?thesis using reads by simp
qed

end
