(* ===== verification/PyJson.thy ===== *)
theory PyJson
  imports PyNumText "HOL-Library.List_Lexorder"
begin

text \<open>
  The JSON codec of the standard library as the code uses it: \<open>json.dumps(value,
  allow_nan=False, separators=(",", ":"), sort_keys=True)\<close>, which is pure ASCII, and
  \<open>json.loads\<close>.  A \<open>pyval\<close> is a JSON-like Python value; the keys of its dicts are strings, kept
  in insertion order.  The parser works on the remaining text with a fuel that bounds the
  nesting of its calls; \<open>json_loads\<close> supplies twice the length of the text, which is never used
  up (\<open>parse_no_fuel_error\<close>).  \<open>json_round_trip\<close> is the result: what is printed parses back
  to the same value with its dict keys in sorted order.
\<close>

datatype pyval =
    VNone
  | VBool bool
  | VInt int
  | VFloat float64
  | VStr pystr
  | VList "pyval list"
  | VDict "(pystr \<times> pyval) list"

section \<open>Printing\<close>

definition hex4_text :: "nat \<Rightarrow> pystr" where
  "hex4_text u = [92, 117] @ hex_fixed 4 u"

definition escape_char :: "nat \<Rightarrow> pystr" where
  "escape_char c =
     (if c = 34 then [92, 34]
      else if c = 92 then [92, 92]
      else if c = 10 then [92, 110]
      else if c = 13 then [92, 114]
      else if c = 9 then [92, 116]
      else if c = 12 then [92, 102]
      else if c = 8 then [92, 98]
      else if 32 \<le> c \<and> c \<le> 126 then [c]
      else if c < 65536 then hex4_text c
      else hex4_text (55296 + (c - 65536) div 1024) @ hex4_text (56320 + (c - 65536) mod 1024))"

definition json_str :: "pystr \<Rightarrow> pystr" where
  "json_str s = 34 # concat (map escape_char s) @ [34]"

text \<open>What \<open>allow_nan=False\<close> and the limit on the digits of an integer refuse.\<close>

fun json_ok :: "pyval \<Rightarrow> bool" where
  "json_ok (VInt i) = (length (dec_nat (nat \<bar>i\<bar>)) \<le> 4300)"
| "json_ok (VFloat f) = finite_f f"
| "json_ok (VList vs) = (\<forall>v \<in> set vs. json_ok v)"
| "json_ok (VDict kvs) = (\<forall>kv \<in> set kvs. json_ok (snd kv))"
| "json_ok _ = True"

fun sort_keys :: "pyval \<Rightarrow> pyval" where
  "sort_keys (VList vs) = VList (map sort_keys vs)"
| "sort_keys (VDict kvs) = VDict (sort_key fst (map (\<lambda>kv. (fst kv, sort_keys (snd kv))) kvs))"
| "sort_keys v = v"

fun print_value :: "pyval \<Rightarrow> pystr" and print_items :: "pyval list \<Rightarrow> pystr"
  and print_members :: "(pystr \<times> pyval) list \<Rightarrow> pystr" where
  "print_value VNone = lit ''null''"
| "print_value (VBool b) = (if b then lit ''true'' else lit ''false'')"
| "print_value (VInt i) = dec_int i"
| "print_value (VFloat f) = float_repr f"
| "print_value (VStr s) = json_str s"
| "print_value (VList vs) = (case vs of [] \<Rightarrow> [91, 93] | _ \<Rightarrow> 91 # print_items vs @ [93])"
| "print_value (VDict kvs) = (case kvs of [] \<Rightarrow> [123, 125] | _ \<Rightarrow> 123 # print_members kvs @ [125])"
| "print_items [] = []"
| "print_items (v # vs) = print_value v @ (case vs of [] \<Rightarrow> [] | _ \<Rightarrow> 44 # print_items vs)"
| "print_members [] = []"
| "print_members (kv # kvs) =
     (case kv of (k, v) \<Rightarrow> json_str k @ 58 # print_value v)
     @ (case kvs of [] \<Rightarrow> [] | _ \<Rightarrow> 44 # print_members kvs)"

definition json_dumps :: "pyval \<Rightarrow> pystr result" where
  "json_dumps v =
     (if json_ok v then Inr (print_value (sort_keys v))
      else Inl (ValueError ''Out of range float values are not JSON compliant''))"

section \<open>Parsing\<close>

definition json_error :: "'a result" where
  "json_error = Inl (ValueError ''JSONDecodeError'')"

definition fuel_error :: "'a result" where
  "fuel_error = Inl (RuntimeError ''fuel'')"

definition is_json_ws :: "nat \<Rightarrow> bool" where
  "is_json_ws c \<longleftrightarrow> c = 32 \<or> c = 9 \<or> c = 10 \<or> c = 13"

definition skip_ws :: "pystr \<Rightarrow> pystr" where
  "skip_ws s = dropWhile is_json_ws s"

definition hex_value :: "nat \<Rightarrow> nat option" where
  "hex_value c = (case digit_of c of Some d \<Rightarrow> if d < 16 then Some d else None | None \<Rightarrow> None)"

definition hex4_value :: "pystr \<Rightarrow> nat option" where
  "hex4_value s =
     (case map hex_value (take 4 s) of
        [Some a, Some b, Some c, Some d] \<Rightarrow> Some (((a * 16 + b) * 16 + c) * 16 + d)
      | _ \<Rightarrow> None)"

definition unescape :: "nat \<Rightarrow> nat option" where
  "unescape c =
     (if c = 34 \<or> c = 92 \<or> c = 47 then Some c
      else if c = 110 then Some 10
      else if c = 114 then Some 13
      else if c = 116 then Some 9
      else if c = 102 then Some 12
      else if c = 98 then Some 8
      else None)"

definition is_high :: "nat \<Rightarrow> bool" where
  "is_high c \<longleftrightarrow> 55296 \<le> c \<and> c \<le> 56319"

definition is_low :: "nat \<Rightarrow> bool" where
  "is_low c \<longleftrightarrow> 56320 \<le> c \<and> c \<le> 57343"

definition push_char :: "nat \<Rightarrow> (pystr \<times> pystr) result \<Rightarrow> (pystr \<times> pystr) result" where
  "push_char c m = bind_r m (\<lambda>(s, r). Inr (c # s, r))"

text \<open>The body of a string literal, after the opening quote.\<close>

function parse_string :: "pystr \<Rightarrow> (pystr \<times> pystr) result" where
  "parse_string s =
     (case s of
        [] \<Rightarrow> json_error
      | c # r \<Rightarrow>
          if c = 34 then Inr ([], r)
          else if c < 32 then json_error
          else if c \<noteq> 92 then push_char c (parse_string r)
          else (case r of
              [] \<Rightarrow> json_error
            | e # r' \<Rightarrow>
                if e = 117 then
                  (case hex4_value r' of
                     None \<Rightarrow> json_error
                   | Some u \<Rightarrow>
                       if is_high u \<and> take 2 (drop 4 r') = [92, 117] then
                         (case hex4_value (drop 6 r') of
                            None \<Rightarrow> json_error
                          | Some l \<Rightarrow>
                              if is_low l
                              then push_char (65536 + (u - 55296) * 1024 + (l - 56320))
                                     (parse_string (drop 10 r'))
                              else push_char u (parse_string (drop 4 r')))
                       else push_char u (parse_string (drop 4 r')))
                else (case unescape e of
                    None \<Rightarrow> json_error
                  | Some x \<Rightarrow> push_char x (parse_string r'))))"
  by pat_completeness auto
termination
  by (relation "measure length") auto

declare parse_string.simps [simp del]

text \<open>Numbers: sign, integer part without leading zeros, optional fraction and exponent.\<close>

definition scan_exponent :: "pystr \<Rightarrow> (int option \<times> pystr)" where
  "scan_exponent s =
     (if take 1 s = [101] \<or> take 1 s = [69] then
        (let t = drop 1 s;
             neg = (take 1 t = [45]);
             t' = (if neg \<or> take 1 t = [43] then drop 1 t else t);
             ds = takeWhile is_digit t'
         in if ds = [] then (None, s)
            else (Some (if neg then - int (undec ds) else int (undec ds)), dropWhile is_digit t'))
      else (None, s))"

definition scan_fraction :: "pystr \<Rightarrow> pystr \<times> pystr" where
  "scan_fraction s =
     (if take 1 s = [46] \<and> takeWhile is_digit (drop 1 s) \<noteq> []
      then (takeWhile is_digit (drop 1 s), dropWhile is_digit (drop 1 s))
      else ([], s))"

definition scan_integer :: "pystr \<Rightarrow> (pystr \<times> pystr) option" where
  "scan_integer s =
     (if take 1 s = [48] then Some ([48], drop 1 s)
      else if takeWhile is_digit s = [] then None
      else Some (takeWhile is_digit s, dropWhile is_digit s))"

definition parse_number :: "pystr \<Rightarrow> (pyval \<times> pystr) result" where
  "parse_number s =
     (let neg = (take 1 s = [45])
      in case scan_integer (if neg then drop 1 s else s) of
           None \<Rightarrow> json_error
         | Some (ip, r) \<Rightarrow>
             (case scan_fraction r of (fp, r') \<Rightarrow>
             (case scan_exponent r' of (ex, r'') \<Rightarrow>
                if fp = [] \<and> ex = None then
                  (if 4300 < length ip then Inl (ValueError ''Exceeds the limit for integer string conversion'')
                   else Inr (VInt (if neg then - int (undec ip) else int (undec ip)), r''))
                else
                  (let x = decimal_rat (ip, fp, ex)
                   in Inr (VFloat (if neg then fneg (fl x) else fl x), r'')))))"

text \<open>Later members replace earlier ones with the same key, in the earlier place.\<close>

fun dict_set :: "pystr \<Rightarrow> pyval \<Rightarrow> (pystr \<times> pyval) list \<Rightarrow> (pystr \<times> pyval) list" where
  "dict_set k v [] = [(k, v)]"
| "dict_set k v ((k', v') # kvs) =
     (if k = k' then (k, v) # kvs else (k', v') # dict_set k v kvs)"

definition dict_of_pairs :: "(pystr \<times> pyval) list \<Rightarrow> (pystr \<times> pyval) list" where
  "dict_of_pairs kvs = foldl (\<lambda>d (k, v). dict_set k v d) [] kvs"

definition json_constants :: "(pystr \<times> pyval) list" where
  "json_constants =
     [(lit ''null'', VNone), (lit ''true'', VBool True), (lit ''false'', VBool False),
      (lit ''NaN'', VFloat NaN), (lit ''Infinity'', VFloat PInf), (lit ''-Infinity'', VFloat NInf)]"

fun parse_value :: "nat \<Rightarrow> pystr \<Rightarrow> (pyval \<times> pystr) result"
  and parse_items :: "nat \<Rightarrow> pystr \<Rightarrow> (pyval list \<times> pystr) result"
  and parse_members :: "nat \<Rightarrow> pystr \<Rightarrow> ((pystr \<times> pyval) list \<times> pystr) result" where
  "parse_value 0 s = fuel_error"
| "parse_value (Suc n) s =
     (if take 1 s = [34] then bind_r (parse_string (drop 1 s)) (\<lambda>(x, r). Inr (VStr x, r))
      else if take 1 s = [91] then
        (let t = skip_ws (drop 1 s)
         in if take 1 t = [93] then Inr (VList [], drop 1 t)
            else bind_r (parse_items n t) (\<lambda>(vs, r). Inr (VList vs, r)))
      else if take 1 s = [123] then
        (let t = skip_ws (drop 1 s)
         in if take 1 t = [125] then Inr (VDict [], drop 1 t)
            else bind_r (parse_members n t) (\<lambda>(kvs, r). Inr (VDict (dict_of_pairs kvs), r)))
      else (case find (\<lambda>(w, _). starts_with w s) json_constants of
          Some (w, v) \<Rightarrow> Inr (v, drop (length w) s)
        | None \<Rightarrow> parse_number s))"
| "parse_items 0 s = fuel_error"
| "parse_items (Suc n) s =
     bind_r (parse_value n s) (\<lambda>(v, r).
       let t = skip_ws r
       in if take 1 t = [44]
          then bind_r (parse_items n (skip_ws (drop 1 t))) (\<lambda>(vs, r'). Inr (v # vs, r'))
          else if take 1 t = [93] then Inr ([v], drop 1 t)
          else json_error)"
| "parse_members 0 s = fuel_error"
| "parse_members (Suc n) s =
     (if take 1 s \<noteq> [34] then json_error
      else bind_r (parse_string (drop 1 s)) (\<lambda>(k, r).
        let t = skip_ws r
        in if take 1 t \<noteq> [58] then json_error
           else bind_r (parse_value n (skip_ws (drop 1 t))) (\<lambda>(v, r').
             let t' = skip_ws r'
             in if take 1 t' = [44]
                then bind_r (parse_members n (skip_ws (drop 1 t'))) (\<lambda>(kvs, r''). Inr ((k, v) # kvs, r''))
                else if take 1 t' = [125] then Inr ([(k, v)], drop 1 t')
                else json_error)))"

definition json_loads :: "pystr \<Rightarrow> pyval result" where
  "json_loads s =
     (if take 1 s = [65279] then json_error
      else bind_r (parse_value (2 * length s + 2) (skip_ws s)) (\<lambda>(v, r).
        if skip_ws r = [] then Inr v else json_error))"

section \<open>Strings\<close>

text \<open>
  The strings that survive: a high surrogate directly before a low one would come back as one
  code point.
\<close>

fun str_ok :: "pystr \<Rightarrow> bool" where
  "str_ok [] = True"
| "str_ok (c # s) =
     (c < 1114112 \<and> \<not> (is_high c \<and> (case s of [] \<Rightarrow> False | d # _ \<Rightarrow> is_low d)) \<and> str_ok s)"

lemma str_ok_small: "\<forall>c \<in> set s. c < 55296 \<Longrightarrow> str_ok s"
  by (induction s) (auto simp: is_high_def)

lemma str_ok_lit [simp]: "str_ok (lit s)"
proof (rule str_ok_small)
  have "of_char x < (55296 :: nat)" for x
    using nat_of_char_less_256 [of x] by linarith
  then show "\<forall>c \<in> set (lit s). c < 55296" by (auto simp: lit_def)
qed

lemma hex_value_digit: "d < 16 \<Longrightarrow> hex_value (hex_digit d) = Some d"
  by (auto simp: hex_value_def hex_digit_def digit_of_def)

lemma hex_fixed_4:
  "hex_fixed 4 u = [hex_digit (u div 16 div 16 div 16 mod 16), hex_digit (u div 16 div 16 mod 16),
     hex_digit (u div 16 mod 16), hex_digit (u mod 16)]"
proof -
  have four: "4 = Suc (Suc (Suc (Suc 0)))" by simp
  show "hex_fixed 4 u = [hex_digit (u div 16 div 16 div 16 mod 16),
      hex_digit (u div 16 div 16 mod 16), hex_digit (u div 16 mod 16), hex_digit (u mod 16)]"
    by (simp only: four hex_fixed.simps append.simps)
qed

lemma hex4_value_fixed:
  assumes "u < 65536"
  shows "hex4_value (hex_fixed 4 u @ r) = Some u"
proof -
  define a where "a = u div 16"
  define b where "b = a div 16"
  define c where "c = b div 16"
  have "c < 16" using assms by (simp add: a_def b_def c_def flip: div_mult2_eq)
  then have "((c mod 16 * 16 + b mod 16) * 16 + a mod 16) * 16 + u mod 16 = u"
    using div_mult_mod_eq [of u 16] div_mult_mod_eq [of a 16] div_mult_mod_eq [of b 16]
    by (simp add: a_def [symmetric] b_def [symmetric] c_def [symmetric])
  then show ?thesis
    by (simp add: hex4_value_def hex_fixed_4 hex_value_digit a_def [symmetric] b_def [symmetric]
        c_def [symmetric])
qed

lemma parse_string_plain:
  "c \<noteq> 34 \<Longrightarrow> 32 \<le> c \<Longrightarrow> c \<noteq> 92 \<Longrightarrow> parse_string (c # r) = push_char c (parse_string r)"
  by (simp add: parse_string.simps [of "c # r"])

lemma parse_string_short:
  "unescape e = Some c \<Longrightarrow> e \<noteq> 117 \<Longrightarrow> parse_string (92 # e # r) = push_char c (parse_string r)"
  by (simp add: parse_string.simps [of "92 # e # r"])

lemma take_drop_hex4: "take 4 (hex_fixed 4 u @ r) = hex_fixed 4 u" "drop 4 (hex_fixed 4 u @ r) = r"
  by simp_all

lemma parse_string_hex4:
  assumes "u < 65536"
    and "\<not> (is_high u \<and> take 2 r = [92, 117] \<and> (\<forall>l. hex4_value (drop 2 r) = Some l \<longrightarrow> is_low l))"
  shows "parse_string (hex4_text u @ r) = push_char u (parse_string r)"
proof -
  have "drop 6 (hex_fixed 4 u @ r) = drop 2 r" by simp
  with assms show ?thesis
    by (subst parse_string.simps) (auto simp: hex4_text_def hex4_value_fixed split: option.splits)
qed

lemma parse_string_pair:
  assumes "is_high u" "is_low l"
  shows "parse_string (hex4_text u @ hex4_text l @ r) =
    push_char (65536 + (u - 55296) * 1024 + (l - 56320)) (parse_string r)"
proof -
  have "u < 65536" "l < 65536" using assms by (auto simp: is_high_def is_low_def)
  with assms show ?thesis
    by (subst parse_string.simps) (simp add: hex4_text_def hex4_value_fixed)
qed

lemma escape_char_cases:
  obtains (short) e where "escape_char c = [92, e]" "e \<noteq> 117" "unescape e = Some c"
    | (plain) "escape_char c = [c]" "c \<noteq> 34" "c \<noteq> 92" "32 \<le> c"
    | (hex) "escape_char c = hex4_text c" "c < 65536"
    | (pair) h l where "escape_char c = hex4_text h @ hex4_text l" "is_high h" "is_low l"
        "65536 + (h - 55296) * 1024 + (l - 56320) = c"
    | (large) "1114112 \<le> c"
proof -
  consider (1) "c \<in> {34, 92, 10, 13, 9, 12, 8}"
    | (2) "c \<notin> {34, 92, 10, 13, 9, 12, 8}" "32 \<le> c" "c \<le> 126"
    | (3) "c \<notin> {34, 92, 10, 13, 9, 12, 8}" "\<not> (32 \<le> c \<and> c \<le> 126)" "c < 65536"
    | (4) "65536 \<le> c" "c < 1114112" | (5) "1114112 \<le> c"
    by (meson not_le)
  then show thesis
  proof cases
    case 1
    then have "\<exists>e. escape_char c = [92, e] \<and> e \<noteq> 117 \<and> unescape e = Some c"
      by (elim insertE emptyE) (simp_all add: escape_char_def unescape_def)
    then show thesis by (elim exE conjE) (rule short)
  next
    case 2
    then have "escape_char c = [c]" "c \<noteq> 34" "c \<noteq> 92" by (simp_all add: escape_char_def)
    with 2 show thesis by (intro plain)
  next
    case 3
    then have "escape_char c = hex4_text c" by (auto simp: escape_char_def)
    with 3 show thesis by (intro hex)
  next
    case 4
    define h where "h = 55296 + (c - 65536) div 1024"
    define l where "l = 56320 + (c - 65536) mod 1024"
    from 4 have "(c - 65536) div 1024 < 1024" by (intro less_mult_imp_div_less) simp
    then have "is_high h" "is_low l" by (auto simp: h_def l_def is_high_def is_low_def)
    moreover have "65536 + (h - 55296) * 1024 + (l - 56320) = c" using 4 by (simp add: h_def l_def)
    moreover have "escape_char c = hex4_text h @ hex4_text l"
      using 4 by (simp add: escape_char_def h_def l_def)
    ultimately show thesis by (intro pair)
  qed (rule large)
qed

text \<open>What follows a lone high surrogate never looks like an escaped low surrogate.\<close>

definition low_escape :: "pystr \<Rightarrow> bool" where
  "low_escape r \<longleftrightarrow>
     take 2 r = [92, 117] \<and> (\<forall>l. hex4_value (drop 2 r) = Some l \<longrightarrow> is_low l)"

lemma low_escape_hex4: "u < 65536 \<Longrightarrow> low_escape (hex4_text u @ r) \<longleftrightarrow> is_low u"
  by (simp add: low_escape_def hex4_text_def hex4_value_fixed)

lemma is_high_bound: "is_high u \<Longrightarrow> u < 65536 \<and> \<not> is_low u"
  by (simp add: is_high_def is_low_def)

lemma after_high:
  assumes "str_ok (c # s)" "is_high c"
  shows "\<not> low_escape (concat (map escape_char s) @ 34 # r)"
proof (cases s)
  case Nil
  then show ?thesis by (simp add: low_escape_def)
next
  case (Cons d s')
  with assms have d: "\<not> is_low d" "d < 1114112" by auto
  show ?thesis
  proof (cases d rule: escape_char_cases)
    case (short e)
    with Cons show ?thesis by (simp add: low_escape_def)
  next
    case plain
    with Cons show ?thesis by (simp add: low_escape_def)
  next
    case hex
    with Cons d show ?thesis by (simp add: low_escape_hex4)
  next
    case (pair h l)
    with Cons show ?thesis using is_high_bound [of h] by (simp add: low_escape_hex4)
  next
    case large
    with d show ?thesis by simp
  qed
qed

lemma parse_string_escape:
  assumes "str_ok (c # s)"
  shows "parse_string (escape_char c @ concat (map escape_char s) @ 34 # r) =
    push_char c (parse_string (concat (map escape_char s) @ 34 # r))"
proof (cases c rule: escape_char_cases)
  case (short e)
  then show ?thesis by (simp add: parse_string_short)
next
  case plain
  then show ?thesis by (simp add: parse_string_plain)
next
  case hex
  with after_high [OF assms, of r] show ?thesis
    using parse_string_hex4 [of c "concat (map escape_char s) @ 34 # r"]
    by (simp only: low_escape_def) blast
next
  case (pair h l)
  then show ?thesis
    using parse_string_pair [of h l "concat (map escape_char s) @ 34 # r"] by simp
next
  case large
  with assms show ?thesis by simp
qed

lemma parse_string_text:
  "str_ok s \<Longrightarrow> parse_string (concat (map escape_char s) @ 34 # r) = Inr (s, r)"
proof (induction s)
  case Nil
  then show ?case by (simp add: parse_string.simps [of "34 # r"])
next
  case (Cons c s)
  then show ?case by (simp add: parse_string_escape del: str_ok.simps) (simp add: push_char_def)
qed

section \<open>Numbers\<close>

text \<open>A text that ends the number before it.\<close>

definition delim :: "pystr \<Rightarrow> bool" where
  "delim r \<longleftrightarrow> (case r of [] \<Rightarrow> True | c # _ \<Rightarrow> \<not> is_digit c \<and> c \<noteq> 46 \<and> c \<noteq> 101 \<and> c \<noteq> 69)"

definition int_part_ok :: "pystr \<Rightarrow> bool" where
  "int_part_ok ip \<longleftrightarrow> ip \<noteq> [] \<and> (\<forall>c \<in> set ip. is_digit c) \<and> (hd ip = 48 \<longrightarrow> ip = [48])"

definition no_digit_head :: "pystr \<Rightarrow> bool" where
  "no_digit_head r \<longleftrightarrow> (case r of [] \<Rightarrow> True | c # _ \<Rightarrow> \<not> is_digit c)"

lemma digits_span:
  assumes "\<forall>c \<in> set ds. is_digit c" "no_digit_head r"
  shows "takeWhile is_digit (ds @ r) = ds" "dropWhile is_digit (ds @ r) = r"
proof -
  have "takeWhile is_digit r = []" "dropWhile is_digit r = r"
    using assms(2) by (cases r; simp add: no_digit_head_def)+
  with assms(1) show "takeWhile is_digit (ds @ r) = ds" "dropWhile is_digit (ds @ r) = r"
    by (simp_all add: takeWhile_append2 dropWhile_append2)
qed

lemma delim_no_digit_head: "delim r \<Longrightarrow> no_digit_head r"
  by (cases r) (auto simp: delim_def no_digit_head_def)

lemma scan_integer_text:
  assumes "int_part_ok ip" "no_digit_head r"
  shows "scan_integer (ip @ r) = Some (ip, r)"
proof (cases "ip = [48]")
  case True
  then show ?thesis by (simp add: scan_integer_def)
next
  case False
  with assms have "take 1 (ip @ r) \<noteq> [48]" by (cases ip) (auto simp: int_part_ok_def)
  with assms digits_span [of ip r] show ?thesis by (auto simp: scan_integer_def int_part_ok_def)
qed

lemma scan_fraction_text:
  assumes "\<forall>c \<in> set fp. is_digit c" "no_digit_head r" "take 1 r \<noteq> [46]"
  shows "scan_fraction ((if fp = [] then [] else 46 # fp) @ r) = (fp, r)"
  using digits_span [OF assms(1,2)] assms(3) by (auto simp: scan_fraction_def)

lemma scan_exponent_none: "delim r \<Longrightarrow> scan_exponent r = (None, r)"
  by (cases r) (auto simp: scan_exponent_def delim_def)

lemma scan_exponent_text:
  assumes "delim r"
  shows "scan_exponent (exponent_text e @ r) = (Some e, r)"
proof -
  define ds where "ds = (let s = dec_nat (nat \<bar>e\<bar>) in if length s < 2 then 48 # s else s)"
  have ds: "\<forall>c \<in> set ds. is_digit c" "ds \<noteq> []" "undec ds = nat \<bar>e\<bar>"
    by (auto simp: ds_def Let_def is_digit_def undec_dec_nat dest: dec_nat_digits [unfolded is_digit_def])
  have "hd ds \<noteq> 45" "hd ds \<noteq> 43" using ds(1,2) by (cases ds; auto simp: is_digit_def)+
  moreover have "exponent_text e = 101 # (if e < 0 then 45 else 43) # ds"
    by (simp add: exponent_text_def ds_def)
  ultimately show ?thesis
    using digits_span [OF ds(1) delim_no_digit_head [OF assms]] ds
    by (auto simp: scan_exponent_def)
qed

definition decimal_ok :: "decimal \<Rightarrow> bool" where
  "decimal_ok d = (case d of (ip, fp, ex) \<Rightarrow>
     int_part_ok ip \<and> (\<forall>c \<in> set fp. is_digit c) \<and> \<not> (fp = [] \<and> ex = None))"

lemma int_part_not_minus: "int_part_ok ip \<Longrightarrow> take 1 (ip @ r) \<noteq> [45]"
  by (cases ip) (auto simp: int_part_ok_def is_digit_def)

lemma parse_number_decimal:
  assumes "decimal_ok d" "delim r"
  shows "parse_number (decimal_text d @ r) = Inr (VFloat (fl (decimal_rat d)), r)"
    and "parse_number (45 # decimal_text d @ r) = Inr (VFloat (fneg (fl (decimal_rat d))), r)"
proof -
  obtain ip fp ex where d: "d = (ip, fp, ex)" by (cases d) auto
  define ext where "ext = (case ex of None \<Rightarrow> [] | Some e \<Rightarrow> exponent_text e)"
  have ext: "no_digit_head (ext @ r)" "take 1 (ext @ r) \<noteq> [46]" "scan_exponent (ext @ r) = (ex, r)"
    using assms(2) scan_exponent_text [OF assms(2)] scan_exponent_none [OF assms(2)]
      delim_no_digit_head [OF assms(2)]
    by (auto simp: ext_def exponent_text_def no_digit_head_def is_digit_def delim_def
        split: option.splits list.splits)
  from assms d have ip: "int_part_ok ip" and fp: "\<forall>c \<in> set fp. is_digit c"
    and nn: "\<not> (fp = [] \<and> ex = None)"
    by (auto simp: decimal_ok_def)
  have dt: "decimal_text d @ r = ip @ (if fp = [] then [] else 46 # fp) @ ext @ r"
    by (simp add: d decimal_text_def ext_def)
  have "no_digit_head ((if fp = [] then [] else 46 # fp) @ ext @ r)"
    using ext by (simp add: no_digit_head_def is_digit_def)
  with ip have si: "scan_integer (decimal_text d @ r) = Some (ip, (if fp = [] then [] else 46 # fp) @ ext @ r)"
    unfolding dt by (rule scan_integer_text)
  have sf: "scan_fraction ((if fp = [] then [] else 46 # fp) @ ext @ r) = (fp, ext @ r)"
    using fp ext by (intro scan_fraction_text)
  have "take 1 (decimal_text d @ r) \<noteq> [45]" unfolding dt by (rule int_part_not_minus [OF ip])
  then show "parse_number (decimal_text d @ r) = Inr (VFloat (fl (decimal_rat d)), r)"
    using nn si sf ext unfolding d by (auto simp: parse_number_def Let_def simp del: take_append)
  show "parse_number (45 # decimal_text d @ r) = Inr (VFloat (fneg (fl (decimal_rat d))), r)"
    using nn si sf ext unfolding d by (auto simp: parse_number_def Let_def simp del: take_append)
qed

lemma int_part_ok_dec_nat: "int_part_ok (dec_nat n)"
proof (cases "n = 0")
  case True
  then show ?thesis by (simp add: int_part_ok_def is_digit_def)
next
  case False
  then show ?thesis using dec_nat_hd [of n] by (auto simp: int_part_ok_def dest: dec_nat_digits)
qed

lemma parse_number_int:
  assumes "delim r" "length (dec_nat (nat \<bar>i\<bar>)) \<le> 4300"
  shows "parse_number (dec_int i @ r) = Inr (VInt i, r)"
proof -
  have si: "scan_integer (dec_nat n @ r) = Some (dec_nat n, r)" for n
    by (rule scan_integer_text [OF int_part_ok_dec_nat delim_no_digit_head [OF assms(1)]])
  have "scan_fraction r = ([], r)" "scan_exponent r = (None, r)"
    using assms(1) scan_exponent_none [OF assms(1)]
    by (auto simp: scan_fraction_def delim_def split: list.splits)
  note facts = this si assms int_part_not_minus [OF int_part_ok_dec_nat]
  show ?thesis
  proof (cases "i < 0")
    case True
    with facts show ?thesis by (simp add: parse_number_def dec_int_def Let_def undec_dec_nat)
  next
    case False
    with facts show ?thesis
      by (simp add: parse_number_def dec_int_def Let_def undec_dec_nat del: take_append)
  qed
qed

lemma place_point_ok:
  assumes "int_part_ok D" "D \<noteq> [48]"
  shows "decimal_ok (place_point D dp)"
proof -
  from assms have D: "D \<noteq> []" "hd D \<noteq> 48" "\<forall>c \<in> set D. is_digit c"
    by (auto simp: int_part_ok_def)
  have sub: "\<forall>c \<in> set (take n D). is_digit c" "\<forall>c \<in> set (drop n D). is_digit c" for n
    using D(3) by (auto dest: in_set_takeD in_set_dropD)
  have hd: "take n D \<noteq> []" "hd (take n D) \<noteq> 48" if "0 < n" for n
    using D that by simp_all
  have digit: "is_digit 48" by (simp add: is_digit_def)
  show ?thesis
    using D sub hd digit
    by (auto simp: decimal_ok_def place_point_def int_part_ok_def hd_append)
qed

lemma repr_decimal_ok:
  assumes "0 < r" "is_double r"
  shows "decimal_ok (repr_decimal r)"
proof -
  obtain c q where cq: "shortest_digits r = Some (c, q)" using shortest_digits_exists [OF assms] by auto
  then have reads: "fl (of_int c * 10 powi q) = Fin r" by (rule shortest_digits_reads_back)
  have "0 < c"
  proof (rule ccontr)
    assume "\<not> 0 < c"
    then have "of_int c * (10 :: rat) powi q \<le> 0" by (simp add: mult_le_0_iff)
    then have "fle (fl (of_int c * 10 powi q)) (fl 0)" by (rule fl_mono)
    with reads assms show False by simp
  qed
  define s where "s = dec_nat (nat c)"
  have s: "s \<noteq> []" "hd s \<noteq> 48" "\<forall>c \<in> set s. is_digit c"
    using \<open>0 < c\<close> dec_nat_hd [of "nat c"] by (auto simp: s_def dest: dec_nat_digits)
  obtain z where z: "s = rstrip_zeros s @ replicate z 48" using rstrip_zeros_split by blast
  have ne: "rstrip_zeros s \<noteq> []"
  proof
    assume "rstrip_zeros s = []"
    with z s show False by (cases z) auto
  qed
  with z s have "hd (rstrip_zeros s) \<noteq> 48" by (metis hd_append2)
  moreover have "\<forall>c \<in> set (rstrip_zeros s). is_digit c" using z s(3) by (metis UnCI set_append)
  ultimately have "int_part_ok (rstrip_zeros s)" "rstrip_zeros s \<noteq> [48]"
    using ne by (auto simp: int_part_ok_def)
  then have "decimal_ok (place_point (rstrip_zeros s) dp)" for dp by (rule place_point_ok)
  then show ?thesis by (simp add: repr_decimal_def cq s_def)
qed

lemma parse_number_float:
  assumes "is_double x" "delim r"
  shows "parse_number (float_repr (Fin x) @ r) = Inr (VFloat (Fin x), r)"
proof -
  have zero: "parse_number ([48, 46, 48] @ r) = Inr (VFloat (Fin 0), r)"
  proof -
    have "decimal_ok ([48], [48], None)" by (simp add: decimal_ok_def int_part_ok_def is_digit_def)
    moreover have "decimal_text ([48], [48], None) = [48, 46, 48]" by (simp add: decimal_text_def)
    moreover have "decimal_rat ([48], [48], None) = 0"
      by (simp add: decimal_rat_def undec_def digits_value_def)
    ultimately show ?thesis using parse_number_decimal(1) [of "([48], [48], None)" r] assms by simp
  qed
  consider "x = 0" | "0 < x" | "0 < - x" by linarith
  then show ?thesis
  proof cases
    case 1
    with zero show ?thesis by (simp add: float_repr_def lit_def)
  next
    case 2
    with assms repr_decimal_ok [of x] repr_decimal_reads_back [of x] show ?thesis
      using parse_number_decimal(1) [of "repr_decimal x" r] by (simp add: float_repr_def)
  next
    case 3
    have "is_double (- x)" using assms(1) is_double_minus by blast
    with 3 assms repr_decimal_ok [of "- x"] repr_decimal_reads_back [of "- x"] show ?thesis
      using parse_number_decimal(2) [of "repr_decimal (- x)" r] by (simp add: float_repr_def)
  qed
qed

section \<open>Round trip of values\<close>

fun json_wf :: "pyval \<Rightarrow> bool" where
  "json_wf (VInt i) = (length (dec_nat (nat \<bar>i\<bar>)) \<le> 4300)"
| "json_wf (VFloat f) = (case f of Fin x \<Rightarrow> is_double x | _ \<Rightarrow> False)"
| "json_wf (VStr s) = str_ok s"
| "json_wf (VList vs) = (\<forall>v \<in> set vs. json_wf v)"
| "json_wf (VDict kvs) =
     ((\<forall>kv \<in> set kvs. str_ok (fst kv) \<and> json_wf (snd kv)) \<and> distinct (map fst kvs))"
| "json_wf _ = True"

definition number_start :: "pystr \<Rightarrow> bool" where
  "number_start s \<longleftrightarrow>
     (case s of [] \<Rightarrow> False | c # s' \<Rightarrow>
        is_digit c \<or> c = 45 \<and> (case s' of [] \<Rightarrow> False | d # _ \<Rightarrow> is_digit d))"

lemma number_start_cases:
  assumes "number_start s"
  obtains c s' where "s = c # s'" "is_digit c" | d s' where "s = 45 # d # s'" "is_digit d"
proof -
  from assms obtain c s' where s: "s = c # s'"
    by (auto simp: number_start_def split: list.splits)
  show thesis
  proof (cases "is_digit c")
    case True
    with s show thesis by (rule that(1))
  next
    case False
    with assms s obtain d s'' where "s = 45 # d # s''" "is_digit d"
      by (auto simp: number_start_def split: list.splits)
    then show thesis by (rule that(2))
  qed
qed

lemma parse_value_number:
  assumes "number_start s"
  shows "parse_value (Suc n) s = parse_number s"
proof -
  have d: "c \<noteq> 34 \<and> c \<noteq> 91 \<and> c \<noteq> 123 \<and> c \<noteq> 110 \<and> c \<noteq> 116 \<and> c \<noteq> 102 \<and> c \<noteq> 78 \<and> c \<noteq> 73 \<and> c \<noteq> 45"
    if "is_digit c" for c
    using that by (simp add: is_digit_def)
  from assms show ?thesis
    by (cases rule: number_start_cases) (use d in \<open>auto simp: json_constants_def lit_Cons\<close>)
qed

lemma number_start_dec_int: "number_start (dec_int i @ r)"
proof -
  have "\<exists>c s. dec_nat n = c # s \<and> is_digit c" for n
    by (metis dec_nat_digits dec_nat_not_Nil list.exhaust list.set_intros(1))
  then show ?thesis
    by (auto simp: number_start_def dec_int_def split: list.splits) (metis append_Cons list.inject)+
qed

lemma number_start_float:
  assumes "is_double x"
  shows "number_start (float_repr (Fin x) @ r)"
proof -
  have *: "\<exists>c s. decimal_text d = c # s \<and> is_digit c" if "decimal_ok d" for d
  proof -
    from that obtain ip fp ex where "d = (ip, fp, ex)" "int_part_ok ip"
      by (cases d) (auto simp: decimal_ok_def)
    then show ?thesis by (cases ip) (auto simp: decimal_text_def int_part_ok_def)
  qed
  consider "x = 0" | "0 < x" | "0 < - x" by linarith
  then show ?thesis
  proof cases
    case 1
    then show ?thesis by (simp add: float_repr_def number_start_def lit_def is_digit_def)
  next
    case 2
    with * [OF repr_decimal_ok] assms show ?thesis
      by (fastforce simp: float_repr_def number_start_def)
  next
    case 3
    with * [OF repr_decimal_ok, of "- x"] is_double_minus [OF assms] show ?thesis
      by (fastforce simp: float_repr_def number_start_def)
  qed
qed

lemma parse_value_constants:
  "parse_value (Suc n) (lit ''null'' @ r) = Inr (VNone, r)"
  "parse_value (Suc n) (lit ''true'' @ r) = Inr (VBool True, r)"
  "parse_value (Suc n) (lit ''false'' @ r) = Inr (VBool False, r)"
  by (simp_all add: json_constants_def lit_def starts_with_def)

lemma parse_value_str:
  "str_ok s \<Longrightarrow> parse_value (Suc n) (json_str s @ r) = Inr (VStr s, r)"
  by (simp add: json_str_def parse_string_text)

definition value_start :: "pystr \<Rightarrow> bool" where
  "value_start s \<longleftrightarrow> (case s of [] \<Rightarrow> False | c # _ \<Rightarrow> \<not> is_json_ws c \<and> c < 124 \<and> c \<noteq> 93)"

lemma number_value_start: "number_start s \<Longrightarrow> value_start s"
  by (auto simp: number_start_def value_start_def is_digit_def is_json_ws_def split: list.splits)

lemma value_start_print: "json_wf v \<Longrightarrow> value_start (print_value v @ r)"
proof (cases v)
  case (VInt i)
  then show ?thesis using number_value_start [OF number_start_dec_int] by simp
next
  case (VFloat f)
  then show "json_wf v \<Longrightarrow> ?thesis"
    using number_value_start [OF number_start_float] by (simp split: float64.splits)
qed (auto simp: value_start_def lit_def json_str_def is_json_ws_def split: list.splits)

lemma skip_ws_value_start: "value_start s \<Longrightarrow> skip_ws s = s"
  by (cases s) (auto simp: value_start_def skip_ws_def)

lemma skip_ws_non_ws [simp]: "\<not> is_json_ws c \<Longrightarrow> skip_ws (c # s) = c # s"
  by (simp add: skip_ws_def)

lemma json_ws_punct [simp]:
  "\<not> is_json_ws 34" "\<not> is_json_ws 44" "\<not> is_json_ws 58" "\<not> is_json_ws 93" "\<not> is_json_ws 125"
  by (simp_all add: is_json_ws_def)

lemma delim_punct [simp]: "delim []" "delim (44 # r)" "delim (93 # r)" "delim (125 # r)"
  by (simp_all add: delim_def is_digit_def)

lemma dict_set_append: "k \<notin> set (map fst d) \<Longrightarrow> dict_set k v d = d @ [(k, v)]"
  by (induction d) auto

lemma dict_of_pairs_append:
  "distinct (map fst (d @ kvs)) \<Longrightarrow> foldl (\<lambda>d (k, v). dict_set k v d) d kvs = d @ kvs"
proof (induction kvs arbitrary: d)
  case (Cons kv kvs)
  obtain k v where kv: "kv = (k, v)" by fastforce
  with Cons.prems have "dict_set k v d = d @ [(k, v)]" by (intro dict_set_append) auto
  with Cons kv show ?case by simp
qed simp

lemma dict_of_pairs_distinct: "distinct (map fst kvs) \<Longrightarrow> dict_of_pairs kvs = kvs"
  using dict_of_pairs_append [of "[]" kvs] by (simp add: dict_of_pairs_def)

text \<open>One step of the printer is read back when its parts are.\<close>

lemma value_start_items:
  "vs \<noteq> [] \<Longrightarrow> \<forall>v \<in> set vs. json_wf v \<Longrightarrow> value_start (print_items vs @ r)"
  using value_start_print by (cases vs) auto

lemma parse_list_step:
  assumes "vs \<noteq> []" "\<forall>v \<in> set vs. json_wf v"
    and "parse_items n (print_items vs @ 93 # r) = Inr (vs, r)"
  shows "parse_value (Suc n) (print_value (VList vs) @ r) = Inr (VList vs, r)"
proof -
  obtain c s where cs: "print_items vs @ 93 # r = c # s" "\<not> is_json_ws c" "c \<noteq> 93"
    using value_start_items [OF assms(1,2), of "93 # r"]
    by (auto simp: value_start_def split: list.splits)
  have t: "print_value (VList vs) @ r = 91 # c # s"
    using assms(1) by (cases vs) (simp_all flip: cs(1))
  show ?thesis using cs(2,3) assms(3) unfolding t cs(1) by simp
qed

lemma parse_dict_step:
  assumes "kvs \<noteq> []" "distinct (map fst kvs)"
    and "parse_members n (print_members kvs @ 125 # r) = Inr (kvs, r)"
  shows "parse_value (Suc n) (print_value (VDict kvs) @ r) = Inr (VDict kvs, r)"
proof -
  obtain s where s: "print_members kvs @ 125 # r = 34 # s"
    using assms(1) by (cases kvs) (auto simp: json_str_def)
  have t: "print_value (VDict kvs) @ r = 123 # 34 # s"
    using assms(1) by (cases kvs) (simp_all flip: s)
  show ?thesis using assms(2,3) unfolding t s by (simp add: dict_of_pairs_distinct)
qed

lemma parse_items_step:
  assumes "parse_value n (print_value v @ 44 # print_items vs @ 93 # r) =
      Inr (v, 44 # print_items vs @ 93 # r)"
    and "parse_items n (print_items vs @ 93 # r) = Inr (vs, r)"
    and "vs \<noteq> []" "\<forall>v \<in> set vs. json_wf v"
  shows "parse_items (Suc n) (print_items (v # vs) @ 93 # r) = Inr (v # vs, r)"
proof -
  have "skip_ws (print_items vs @ 93 # r) = print_items vs @ 93 # r"
    using value_start_items [OF assms(3,4)] by (rule skip_ws_value_start)
  with assms show ?thesis by (cases vs) simp_all
qed

lemma parse_members_key:
  assumes "str_ok k" "value_start s"
  shows "parse_members (Suc n) (json_str k @ 58 # s) =
    bind_r (parse_value n s) (\<lambda>(v, r').
      let t' = skip_ws r'
      in if take 1 t' = [44]
         then bind_r (parse_members n (skip_ws (drop 1 t'))) (\<lambda>(kvs, r''). Inr ((k, v) # kvs, r''))
         else if take 1 t' = [125] then Inr ([(k, v)], drop 1 t')
         else json_error)"
  using assms by (simp add: json_str_def parse_string_text skip_ws_value_start)

lemma parse_members_step:
  assumes "parse_value n (print_value v @ 44 # print_members kvs @ 125 # r) =
      Inr (v, 44 # print_members kvs @ 125 # r)"
    and "parse_members n (print_members kvs @ 125 # r) = Inr (kvs, r)"
    and "str_ok k" "json_wf v" "kvs \<noteq> []"
  shows "parse_members (Suc n) (print_members ((k, v) # kvs) @ 125 # r) = Inr ((k, v) # kvs, r)"
proof -
  have "print_members ((k, v) # kvs) @ 125 # r =
      json_str k @ 58 # print_value v @ 44 # print_members kvs @ 125 # r"
    using assms(5) by (cases kvs) simp_all
  moreover have "skip_ws (print_members kvs @ 125 # r) = print_members kvs @ 125 # r"
    using assms(5) by (cases kvs) (auto simp: json_str_def)
  ultimately show ?thesis
    using assms(1,2) by (simp add: parse_members_key assms(3,4) value_start_print
        del: parse_members.simps print_members.simps)
qed

lemma parse_print:
  "json_wf v \<Longrightarrow> delim r \<Longrightarrow> 2 * length (print_value v @ r) + 1 \<le> n \<Longrightarrow>
     parse_value n (print_value v @ r) = Inr (v, r)"
  "vs \<noteq> [] \<Longrightarrow> \<forall>v \<in> set vs. json_wf v \<Longrightarrow> 2 * length (print_items vs @ 93 # r) + 2 \<le> n \<Longrightarrow>
     parse_items n (print_items vs @ 93 # r) = Inr (vs, r)"
  "kvs \<noteq> [] \<Longrightarrow> \<forall>kv \<in> set kvs. str_ok (fst kv) \<and> json_wf (snd kv) \<Longrightarrow>
     2 * length (print_members kvs @ 125 # r) + 2 \<le> n \<Longrightarrow>
     parse_members n (print_members kvs @ 125 # r) = Inr (kvs, r)"
proof (induction v and vs and kvs arbitrary: r n and r n and r n
    rule: print_value_print_items_print_members.induct)
  case (1 r n)
  then show ?case by (cases n) (simp_all only: print_value.simps parse_value_constants)
next
  case (2 b r n)
  then show ?case
    by (cases n) (auto simp only: print_value.simps parse_value_constants split: if_splits)
next
  case (3 i r n)
  then obtain m where "n = Suc m" by (cases n) auto
  with 3 parse_number_int show ?case
    by (simp add: parse_value_number [OF number_start_dec_int] del: parse_value.simps)
next
  case (4 f r n)
  then obtain m x where "n = Suc m" "f = Fin x" "is_double x"
    by (cases n) (auto split: float64.splits)
  with 4 parse_number_float show ?case
    by (simp add: parse_value_number [OF number_start_float] del: parse_value.simps)
next
  case (5 s r n)
  then show ?case by (cases n) (simp_all only: print_value.simps json_wf.simps parse_value_str)
next
  case (6 vs r n)
  then obtain m where m: "n = Suc m" by (cases n) auto
  show ?case
  proof (cases "vs = []")
    case False
    with 6 m have "parse_items m (print_items vs @ 93 # r) = Inr (vs, r)" by (cases vs) simp_all
    with 6 m False show ?thesis by (simp only: json_wf.simps) (intro parse_list_step)
  qed (simp add: m)
next
  case (7 kvs r n)
  then obtain m where m: "n = Suc m" by (cases n) auto
  show ?case
  proof (cases "kvs = []")
    case False
    with 7 m have "parse_members m (print_members kvs @ 125 # r) = Inr (kvs, r)"
      by (cases kvs) simp_all
    moreover have "distinct (map fst kvs)" using 7 by simp
    ultimately show ?thesis using False unfolding m by (intro parse_dict_step)
  qed (simp add: m dict_of_pairs_def)
next
  case (8 r n)
  then show ?case by simp
next
  case (9 v vs r n)
  then obtain m where m: "n = Suc m" by (cases n) auto
  show ?case
  proof (cases "vs = []")
    case True
    then have "parse_value m (print_value v @ 93 # r) = Inr (v, 93 # r)" using 9 m by simp
    with True m show ?thesis by simp
  next
    case False
    then obtain w ws where "vs = w # ws" by (cases vs) auto
    with 9 m have "parse_value m (print_value v @ 44 # print_items vs @ 93 # r) =
        Inr (v, 44 # print_items vs @ 93 # r)" "parse_items m (print_items vs @ 93 # r) = Inr (vs, r)"
      by simp_all
    with False 9 show ?thesis unfolding m by (intro parse_items_step) simp_all
  qed
next
  case (10 r n)
  then show ?case by simp
next
  case (11 kv kvs r n)
  then obtain m where m: "n = Suc m" by (cases n) auto
  obtain k v where kv: "kv = (k, v)" by fastforce
  have k: "str_ok k" and v: "json_wf v" using 11 kv by auto
  show ?case
  proof (cases "kvs = []")
    case True
    then have "parse_value m (print_value v @ 125 # r) = Inr (v, 125 # r)"
      using 11 m kv by (simp add: json_str_def)
    with True m kv k v show ?thesis
      by (simp add: parse_members_key value_start_print del: parse_members.simps)
  next
    case False
    then obtain w ws where "kvs = w # ws" by (cases kvs) auto
    with 11 m kv have "parse_value m (print_value v @ 44 # print_members kvs @ 125 # r) =
        Inr (v, 44 # print_members kvs @ 125 # r)"
      "parse_members m (print_members kvs @ 125 # r) = Inr (kvs, r)"
      by (simp_all add: json_str_def)
    with False k v show ?thesis unfolding m kv by (intro parse_members_step)
  qed
qed

lemma json_wf_sort_keys: "json_wf v \<Longrightarrow> json_wf (sort_keys v)"
proof (induction v)
  case (VDict kvs)
  let ?kvs = "map (\<lambda>kv. (fst kv, sort_keys (snd kv))) kvs"
  have "\<forall>kv \<in> set ?kvs. str_ok (fst kv) \<and> json_wf (snd kv)"
    using VDict by (fastforce simp: snds.simps)
  then have "\<forall>kv \<in> set (sort_key fst ?kvs). str_ok (fst kv) \<and> json_wf (snd kv)"
    by (simp only: set_sort)
  moreover have "distinct (map fst ?kvs)" using VDict.prems by (simp add: comp_def)
  then have "distinct (map fst (sort_key fst ?kvs))"
    by (simp only: distinct_map distinct_sort set_sort)
  ultimately show ?case by (simp only: sort_keys.simps json_wf.simps)
qed auto

lemma json_wf_ok: "json_wf v \<Longrightarrow> json_ok v"
  by (induction v) (auto simp: snds.simps split: float64.splits)

text \<open>What is printed parses back, with sorted keys.\<close>

theorem json_round_trip:
  assumes "json_wf v"
  shows "json_dumps v = Inr (print_value (sort_keys v))"
    and "json_loads (print_value (sort_keys v)) = Inr (sort_keys v)"
proof -
  show "json_dumps v = Inr (print_value (sort_keys v))"
    using json_wf_ok [OF assms] by (simp add: json_dumps_def)
  let ?t = "print_value (sort_keys v)"
  have wf: "json_wf (sort_keys v)" using assms by (rule json_wf_sort_keys)
  have st: "value_start ?t" using value_start_print [OF wf, of "[]"] by simp
  have "parse_value (2 * length ?t + 2) ?t = Inr (sort_keys v, [])"
    using parse_print(1) [OF wf, of "[]" "2 * length ?t + 2"] by simp
  moreover have "take 1 ?t \<noteq> [65279]" using st by (auto simp: value_start_def split: list.splits)
  ultimately show "json_loads ?t = Inr (sort_keys v)"
    by (simp add: json_loads_def skip_ws_value_start [OF st]) (simp add: skip_ws_def)
qed

section \<open>The fuel is enough\<close>

lemma length_skip_ws: "length (skip_ws s) \<le> length s"
  by (simp add: skip_ws_def length_dropWhile_le)

lemma push_char_Inr: "push_char c m = Inr (x, r) \<Longrightarrow> \<exists>y. m = Inr (y, r)"
  by (auto simp: push_char_def result_simps)

lemma parse_string_Nil: "parse_string [] = json_error"
  by (simp add: parse_string.simps)

lemma push_char_error [simp]: "push_char c json_error = json_error"
  by (simp add: push_char_def json_error_def)

lemma parse_string_shrinks: "parse_string s = Inr (x, r) \<Longrightarrow> length r < length s"
proof (induction s arbitrary: x rule: length_induct)
  case (1 s)
  have step: "length r < length s" if "push_char c (parse_string y) = Inr (x, r)" "length y < length s" for c y
    using 1(1) push_char_Inr [OF that(1)] that(2) by (meson order_less_trans)
  show ?case
  proof (cases s)
    case Nil
    with 1(2) show ?thesis by (simp add: parse_string_Nil json_error_def)
  next
    case (Cons c t)
    show ?thesis
    proof (cases t)
      case Nil
      with Cons 1(2) show ?thesis
        by (auto simp: parse_string.simps [of "[c]"] parse_string_Nil push_char_def json_error_def
            split: if_splits)
    next
      case t: (Cons e u)
      with Cons 1(2) step [of _ t] step [of _ u] step [of _ "drop 4 u"] step [of _ "drop 10 u"] show ?thesis
        by (auto simp: parse_string.simps [of "c # e # u"] json_error_def split: if_splits option.splits)
    qed
  qed
qed

lemma parse_string_no_fuel: "parse_string s \<noteq> fuel_error"
proof (induction s rule: parse_string.induct)
  case (1 s)
  then show ?case
    by (subst parse_string.simps)
      (auto simp: json_error_def fuel_error_def push_char_def result_simps
        split: list.splits if_splits option.splits)
qed

lemma scan_integer_shrinks: "scan_integer s = Some (ip, r) \<Longrightarrow> length r \<le> length s"
  by (auto simp: scan_integer_def length_dropWhile_le split: if_splits)

lemma scan_fraction_shrinks: "scan_fraction s = (fp, r) \<Longrightarrow> length r \<le> length s"
  using length_dropWhile_le [of is_digit "drop 1 s"]
  by (auto simp: scan_fraction_def split: if_splits)

lemma scan_exponent_shrinks: "scan_exponent s = (ex, r) \<Longrightarrow> length r \<le> length s"
  using length_dropWhile_le [of is_digit "drop 1 s"] length_dropWhile_le [of is_digit "drop 1 (drop 1 s)"]
  by (auto simp: scan_exponent_def Let_def split: if_splits)

lemma parse_number_shrinks: "parse_number s = Inr (v, r) \<Longrightarrow> length r \<le> length s"
  by (fastforce simp: parse_number_def Let_def json_error_def split: if_splits option.splits prod.splits
      dest!: scan_integer_shrinks scan_fraction_shrinks scan_exponent_shrinks)

lemma parse_number_no_fuel: "parse_number s \<noteq> fuel_error"
  by (auto simp: parse_number_def Let_def json_error_def fuel_error_def split: option.splits prod.splits)

lemma length_skip_ws_drop: "length (skip_ws (drop k s)) \<le> length s"
  using length_skip_ws [of "drop k s"] by simp

lemma parse_value_cases:
  assumes "parse_value (Suc n) s = Inr (v, r)"
  obtains (quoted) x where "parse_string (drop 1 s) = Inr (x, r)"
    | (closed) "r = drop 1 (skip_ws (drop 1 s))"
    | (items) vs where "parse_items n (skip_ws (drop 1 s)) = Inr (vs, r)"
    | (members) kvs where "parse_members n (skip_ws (drop 1 s)) = Inr (kvs, r)"
    | (const_word) k where "r = drop k s"
    | (number) "parse_number s = Inr (v, r)"
  using assms unfolding parse_value.simps Let_def
  by (auto simp: result_simps split: if_splits option.splits prod.splits)

lemma parse_items_cases:
  assumes "parse_items (Suc n) s = Inr (vs, r)"
  obtains (more) v t vs' where "parse_value n s = Inr (v, t)"
      "parse_items n (skip_ws (drop 1 (skip_ws t))) = Inr (vs', r)"
    | (last) v t where "parse_value n s = Inr (v, t)" "r = drop 1 (skip_ws t)"
  using assms unfolding parse_items.simps Let_def
  by (auto simp: result_simps json_error_def split: if_splits)

lemma parse_members_cases:
  assumes "parse_members (Suc n) s = Inr (kvs, r)"
  obtains (more) k t v u kvs' where "parse_string (drop 1 s) = Inr (k, t)"
      "parse_value n (skip_ws (drop 1 (skip_ws t))) = Inr (v, u)"
      "parse_members n (skip_ws (drop 1 (skip_ws u))) = Inr (kvs', r)"
    | (last) k t v u where "parse_string (drop 1 s) = Inr (k, t)"
      "parse_value n (skip_ws (drop 1 (skip_ws t))) = Inr (v, u)" "r = drop 1 (skip_ws u)"
  using assms unfolding parse_members.simps Let_def
  by (auto simp: result_simps json_error_def split: if_splits)

lemmas shrinking = length_skip_ws_drop length_skip_ws length_drop

lemma skip_drop_le: "length t \<le> k \<Longrightarrow> length (skip_ws (drop 1 (skip_ws t))) \<le> k"
  by (meson length_skip_ws_drop length_skip_ws order_trans)

lemma skip_le: "length t \<le> k \<Longrightarrow> length (drop 1 (skip_ws t)) \<le> k"
  using length_skip_ws [of t] by simp

lemma parse_shrinks:
  "parse_value n s = Inr (v, r) \<Longrightarrow> length r \<le> length s"
  "parse_items n s = Inr (vs, r) \<Longrightarrow> length r \<le> length s"
  "parse_members n s = Inr (kvs, r) \<Longrightarrow> length r \<le> length s"
proof (induction n arbitrary: s v vs kvs r)
  case (Suc n)
  {
    case 1
    then show ?case
    proof (cases rule: parse_value_cases)
      case quoted
      then show ?thesis by (auto dest: parse_string_shrinks)
    next
      case closed
      then show ?thesis using skip_le [of "drop 1 s" "length s"] by simp
    next
      case items
      then show ?thesis using Suc(2) length_skip_ws_drop by (meson order_trans)
    next
      case members
      then show ?thesis using Suc(3) length_skip_ws_drop by (meson order_trans)
    qed (auto dest: parse_number_shrinks)
  next
    case 2
    then show ?case
      by (cases rule: parse_items_cases) (meson Suc.IH(1,2) skip_drop_le skip_le order_trans order_refl)+
  next
    case 3
    then show ?case
    proof (cases rule: parse_members_cases)
      case (more k t v u kvs')
      have "length t \<le> length s" using parse_string_shrinks [OF more(1)] by simp
      then have "length u \<le> length s" using Suc(1) [OF more(2)] skip_drop_le order_trans by blast
      then show ?thesis using Suc(3) [OF more(3)] skip_drop_le order_trans by blast
    next
      case (last k t v u)
      have "length t \<le> length s" using parse_string_shrinks [OF last(1)] by simp
      then have "length u \<le> length s" using Suc(1) [OF last(2)] skip_drop_le order_trans by blast
      then show ?thesis using skip_le last(3) by blast
    qed
  }
qed (simp_all add: fuel_error_def)

lemma bind_fuel:
  "bind_r m f = fuel_error \<Longrightarrow> m \<noteq> fuel_error \<Longrightarrow> (\<And>x. m = Inr x \<Longrightarrow> f x \<noteq> fuel_error) \<Longrightarrow> False"
  by (auto simp: fuel_error_def result_simps)

lemma json_error_no_fuel [simp]: "json_error \<noteq> fuel_error" "Inr x \<noteq> fuel_error"
  by (simp_all add: json_error_def fuel_error_def)

lemma skip_drop_less: "take 1 (skip_ws t) = [c] \<Longrightarrow> length t \<le> k \<Longrightarrow> length (skip_ws (drop 1 (skip_ws t))) < k"
  using length_skip_ws [of t] length_skip_ws [of "drop 1 (skip_ws t)"] by (cases "skip_ws t") auto

lemma parse_enough_fuel:
  "2 * length s + 1 \<le> n \<Longrightarrow> parse_value n s \<noteq> fuel_error"
  "2 * length s + 2 \<le> n \<Longrightarrow> parse_items n s \<noteq> fuel_error"
  "2 * length s + 2 \<le> n \<Longrightarrow> parse_members n s \<noteq> fuel_error"
proof (induction n arbitrary: s)
  case (Suc n)
  {
    case 1
    have inner: "2 * length (skip_ws (drop 1 s)) + 2 \<le> n" if "take 1 s = [c]" for c
      using that 1 length_skip_ws [of "drop 1 s"] by (cases s) auto
    have items: "parse_items n (skip_ws (drop 1 s)) \<noteq> fuel_error" if "take 1 s = [c]" for c
      by (rule Suc(2) [OF inner [OF that]])
    have members: "parse_members n (skip_ws (drop 1 s)) \<noteq> fuel_error" if "take 1 s = [c]" for c
      by (rule Suc(3) [OF inner [OF that]])
    consider (quoted) "take 1 s = [34]" | (list_value) "take 1 s = [91]" | (dict_value) "take 1 s = [123]"
      | (other) "take 1 s \<noteq> [34]" "take 1 s \<noteq> [91]" "take 1 s \<noteq> [123]"
      by blast
    then show ?case
    proof cases
      case quoted
      then show ?thesis
        by (simp only: parse_value.simps if_True) (auto elim!: bind_fuel simp: parse_string_no_fuel)
    next
      case list_value
      then show ?thesis using items [OF list_value]
        by (auto elim!: bind_fuel simp: Let_def split: if_splits)
    next
      case dict_value
      then show ?thesis using members [OF dict_value]
        by (auto elim!: bind_fuel simp: Let_def split: if_splits)
    next
      case other
      then show ?thesis by (auto simp: parse_number_no_fuel split: option.splits)
    qed
  next
    case 2
    have v: "parse_value n s \<noteq> fuel_error" using 2 by (intro Suc) simp
    have "parse_items n (skip_ws (drop 1 (skip_ws t))) \<noteq> fuel_error"
      if "parse_value n s = Inr (v, t)" "take 1 (skip_ws t) = [44]" for v t
      using skip_drop_less [OF that(2) parse_shrinks(1) [OF that(1)]] 2 by (intro Suc) simp
    with v show ?case
      unfolding parse_items.simps Let_def by (auto elim!: bind_fuel split: if_splits)
  next
    case 3
    have rest: "length (skip_ws (drop 1 (skip_ws t))) \<le> length s"
      if "parse_string (drop 1 s) = Inr (k, t)" for k t
      using skip_drop_le [of t "length s"] parse_string_shrinks [OF that] by simp
    have v: "parse_value n (skip_ws (drop 1 (skip_ws t))) \<noteq> fuel_error"
      if "parse_string (drop 1 s) = Inr (k, t)" for k t
      using rest [OF that] 3 by (intro Suc) simp
    have "parse_members n (skip_ws (drop 1 (skip_ws u))) \<noteq> fuel_error"
      if "parse_string (drop 1 s) = Inr (k, t)" "parse_value n (skip_ws (drop 1 (skip_ws t))) = Inr (w, u)"
        "take 1 (skip_ws u) = [44]" for k t w u
      using skip_drop_less [OF that(3) order_refl] parse_shrinks(1) [OF that(2)] rest [OF that(1)] 3
      by (intro Suc) simp
    with v show ?case
      unfolding parse_members.simps Let_def by (auto elim!: bind_fuel simp: parse_string_no_fuel split: if_splits) blast
  }
qed simp_all

theorem parse_no_fuel_error: "json_loads s \<noteq> fuel_error"
proof -
  have "2 * length (skip_ws s) + 1 \<le> 2 * length s + 2" using length_skip_ws [of s] by simp
  from parse_enough_fuel(1) [OF this] show ?thesis
    unfolding json_loads_def by (auto elim!: bind_fuel split: if_splits)
qed

section \<open>Keys of parsed dicts\<close>

text \<open>The keys of a Python dict are distinct, at every depth.\<close>

fun keys_ok :: "pyval \<Rightarrow> bool" where
  "keys_ok (VList vs) = (\<forall>v \<in> set vs. keys_ok v)"
| "keys_ok (VDict kvs) = (distinct (map fst kvs) \<and> (\<forall>kv \<in> set kvs. keys_ok (snd kv)))"
| "keys_ok _ = True"

lemma fst_dict_set: "set (map fst (dict_set k v d)) = insert k (set (map fst d))"
  by (induction k v d rule: dict_set.induct) auto

lemma distinct_dict_set: "distinct (map fst d) \<Longrightarrow> distinct (map fst (dict_set k v d))"
proof (induction k v d rule: dict_set.induct)
  case (2 k v k' v' kvs)
  then show ?case using fst_dict_set [of k v kvs] by auto
qed simp

lemma snd_dict_set: "kv \<in> set (dict_set k v d) \<Longrightarrow> snd kv = v \<or> kv \<in> set d"
  by (induction k v d rule: dict_set.induct) (auto split: if_splits)

lemma keys_ok_dict_set:
  "keys_ok (VDict d) \<Longrightarrow> keys_ok v \<Longrightarrow> keys_ok (VDict (dict_set k v d))"
  using distinct_dict_set [of d k v] snd_dict_set [of _ k v d] by auto

lemma keys_ok_dict_of_pairs:
  assumes "\<forall>kv \<in> set kvs. keys_ok (snd kv)"
  shows "keys_ok (VDict (dict_of_pairs kvs))"
proof -
  have "keys_ok (VDict (foldl (\<lambda>d (k, v). dict_set k v d) d kvs))" if "keys_ok (VDict d)" for d
    using assms that
  proof (induction kvs arbitrary: d)
    case (Cons kv kvs)
    obtain k v where kv: "kv = (k, v)" by force
    with Cons.prems have "keys_ok (VDict (dict_set k v d))" by (intro keys_ok_dict_set) auto
    with Cons kv show ?case by simp
  qed simp
  from this [of "[]"] show ?thesis by (simp add: dict_of_pairs_def)
qed

lemma keys_ok_empty: "keys_ok (VDict [])"
  by simp

lemma json_constants_keys_ok: "find P json_constants = Some (w, v) \<Longrightarrow> keys_ok v"
  by (auto simp: json_constants_def split: if_splits)

lemma parse_number_keys_ok: "parse_number s = Inr (v, r) \<Longrightarrow> keys_ok v"
  by (auto simp: parse_number_def Let_def json_error_def split: option.splits prod.splits if_splits)

lemma parse_keys_ok:
  "parse_value n s = Inr (v, r) \<Longrightarrow> keys_ok v"
  "parse_items n s = Inr (vs, r) \<Longrightarrow> \<forall>v \<in> set vs. keys_ok v"
  "parse_members n s = Inr (kvs, r) \<Longrightarrow> \<forall>kv \<in> set kvs. keys_ok (snd kv)"
proof (induction n arbitrary: s v vs kvs r)
  case (Suc n)
  {
    case 1
    then show ?case
      unfolding parse_value.simps Let_def
      by (auto simp: bind_r_Inr_iff json_constants_keys_ok parse_number_keys_ok keys_ok_empty
          simp del: keys_ok.simps(2) split: if_splits option.splits
          intro!: keys_ok_dict_of_pairs dest: Suc(2,3))
  next
    case 2
    then show ?case
      unfolding parse_items.simps Let_def
      by (auto simp: bind_r_Inr_iff json_error_def split: if_splits) (use Suc(1,2) in blast)+
  next
    case 3
    then show ?case
      unfolding parse_members.simps Let_def
      by (auto simp: bind_r_Inr_iff json_error_def split: if_splits) (use Suc(1,3) in fastforce)+
  }
qed (simp_all add: fuel_error_def)

lemma json_loads_keys_ok: "json_loads s = Inr v \<Longrightarrow> keys_ok v"
  by (auto simp: json_loads_def bind_r_Inr_iff json_error_def simp del: parse_value.simps
      split: if_splits dest: parse_keys_ok(1))

end
