(* ===== verification/PyUuid.thy ===== *)
theory PyUuid
  imports PyStr "HOL-Library.Word"
begin

text \<open>
  The two uses of the standard \<open>uuid\<close> module: \<open>uuid.UUID(text)\<close> as a check (it tolerates a
  URN prefix, braces, any dashes, and everything that \<open>int(text, 16)\<close> tolerates in 32 places)
  and \<open>str(uuid.uuid4())\<close>.  The 128 random bits of \<open>uuid4\<close> are an argument.
\<close>

unbundle bit_operations_syntax

definition uuid_hex :: "pystr \<Rightarrow> pystr" where
  "uuid_hex s =
     str_replace [45] []
       (strip_by (\<lambda>c. c = 123 \<or> c = 125)
          (str_replace (lit ''uuid:'') [] (str_replace (lit ''urn:'') [] s)))"

definition uuid_ok :: "pystr \<Rightarrow> bool" where
  "uuid_ok s =
     (length (uuid_hex s) = 32 \<and>
      (case int_of_str 16 (uuid_hex s) of None \<Rightarrow> False | Some i \<Rightarrow> 0 \<le> i \<and> i < 2 ^ 128))"

definition uuid4_bits :: "128 word \<Rightarrow> 128 word" where
  "uuid4_bits w =
     (let a = (w AND NOT (push_bit 48 0xc000)) OR push_bit 48 0x8000
      in (a AND NOT (push_bit 64 0xf000)) OR push_bit 76 4)"

definition uuid_text :: "128 word \<Rightarrow> pystr" where
  "uuid_text w =
     (let h = hex_fixed 32 (unat w)
      in take 8 h @ [45] @ take 4 (drop 8 h) @ [45] @ take 4 (drop 12 h) @ [45]
         @ take 4 (drop 16 h) @ [45] @ drop 20 h)"

definition uuid4_text :: "128 word \<Rightarrow> pystr" where
  "uuid4_text w = uuid_text (uuid4_bits w)"

section \<open>Hexadecimal text\<close>

lemma str_replace_delete: "str_replace [c] [] s = filter (\<lambda>x. x \<noteq> c) s"
proof (induction s)
  case Nil
  then show ?case by (simp add: str_replace.simps [of "[c]" "[]" "[]"])
next
  case (Cons x s)
  then show ?case by (simp add: str_replace.simps [of "[c]" "[]" "x # s"])
qed

lemma digits_value_bound: "(\<forall>d \<in> set ds. d < b) \<Longrightarrow> digits_value b ds < b ^ length ds"
  by (rule digits_value_less) auto

lemma int_of_hex:
  assumes "length s = 32" "\<forall>c \<in> set s. is_lower_hex c"
  shows "\<exists>i. int_of_str 16 s = Some i \<and> 0 \<le> i \<and> i < 2 ^ 128"
proof -
  have "to_ascii s = s" using assms(2) by (auto simp: to_ascii_def is_lower_hex_def)
  moreover have "strip_by ascii_space s = s"
    using assms(2) by (intro strip_by_id) (auto simp: ascii_space_def is_lower_hex_def)
  moreover have "take 1 s \<noteq> [45]" "take 1 s \<noteq> [43]"
    using assms by (cases s; auto simp: is_lower_hex_def)+
  moreover obtain ds where ds: "scan_digits 16 s = Some ds" "length ds = 32" "\<forall>d \<in> set ds. d < 16"
    using scan_digits_hex [of s] assms by (cases s) auto
  moreover have "int (digits_value 16 ds) < 2 ^ 128"
  proof -
    have "digits_value 16 ds < 16 ^ 32" using digits_value_bound [OF ds(3)] ds(2) by simp
    then show ?thesis by simp
  qed
  ultimately show ?thesis by (simp add: int_of_str_def Let_def lower_hex_no_prefix [OF assms(2)])
qed

text \<open>Thirty-two lower case hexadecimal digits with dashes anywhere between them are accepted.\<close>

lemma uuid_ok_dashed:
  assumes "\<forall>c \<in> set s. is_lower_hex c \<or> c = 45" "length (filter (\<lambda>c. c \<noteq> 45) s) = 32"
  shows "uuid_ok s"
proof -
  have none: "117 \<notin> set s" "123 \<notin> set s" "125 \<notin> set s" using assms(1) by (auto simp: is_lower_hex_def)
  then have "str_replace (lit ''urn:'') [] s = s" "str_replace (lit ''uuid:'') [] s = s"
    by (auto intro!: str_replace_absent simp: lit_Cons)
  moreover have "strip_by (\<lambda>c. c = 123 \<or> c = 125) s = s" using none by (intro strip_by_id) auto
  ultimately have hex: "uuid_hex s = filter (\<lambda>c. c \<noteq> 45) s"
    by (simp add: uuid_hex_def str_replace_delete)
  moreover have "\<forall>c \<in> set (filter (\<lambda>c. c \<noteq> 45) s). is_lower_hex c" using assms(1) by auto
  ultimately show ?thesis using int_of_hex [of "filter (\<lambda>c. c \<noteq> 45) s"] assms(2)
    by (auto simp: uuid_ok_def)
qed

lemma uuid_text_chars: "\<forall>c \<in> set (uuid_text w). is_lower_hex c \<or> c = 45"
  by (auto simp: uuid_text_def Let_def dest!: in_set_takeD in_set_dropD hex_fixed_lower_hex)

lemma uuid_text_ok: "uuid_ok (uuid_text w)"
proof (rule uuid_ok_dashed [OF uuid_text_chars])
  define h where "h = hex_fixed 32 (unat w)"
  have len: "length h = 32" by (simp add: h_def)
  have hex: "\<forall>c \<in> set h. is_lower_hex c" by (auto simp: h_def intro: hex_fixed_lower_hex)
  have eq: "uuid_text w = take 8 h @ [45] @ take 4 (drop 8 h) @ [45] @ take 4 (drop 12 h) @ [45]
      @ take 4 (drop 16 h) @ [45] @ drop 20 h"
    by (simp add: uuid_text_def h_def Let_def)
  have dash: "45 \<notin> set h" using hex by (auto simp: is_lower_hex_def)
  have keep: "filter (\<lambda>c. c \<noteq> 45) t = t" if "set t \<subseteq> set h" for t
    using that dash by (intro filter_True) auto
  have sub: "set (take k h) \<subseteq> set h" "set (take k (drop j h)) \<subseteq> set h" "set (drop j h) \<subseteq> set h" for k j
    by (auto dest: in_set_takeD in_set_dropD)
  show "length (filter (\<lambda>c. c \<noteq> 45) (uuid_text w)) = 32"
    using len by (simp add: eq keep [OF sub(1)] keep [OF sub(2)] keep [OF sub(3)])
qed

lemma uuid4_text_ok [text_simps]: "uuid_ok (uuid4_text w)"
  by (simp add: uuid4_text_def uuid_text_ok)

lemma length_uuid_text: "length (uuid_text w) = 36"
  by (simp add: uuid_text_def Let_def)

text \<open>The version and variant digits of a version 4 identifier.\<close>

lemma uuid4_bits_version:
  "bit (uuid4_bits w) 79 = False \<and> bit (uuid4_bits w) 78 = True \<and> bit (uuid4_bits w) 77 = False \<and>
   bit (uuid4_bits w) 76 = False \<and> bit (uuid4_bits w) 63 = True \<and> bit (uuid4_bits w) 62 = False"
  by (simp add: uuid4_bits_def Let_def bit_simps)

end
