(* ===== verification/Sha256.thy ===== *)
theory Sha256
  imports PyStr "HOL-Library.Word"
begin

unbundle bit_operations_syntax

text \<open>
  SHA-256 as \<open>hashlib.sha256\<close> computes it (FIPS 180-4), on bytes given as numbers below 256.
  The message schedule is kept as a window of sixteen words that moves by one word in every
  round.  What the development uses of it: it is a total function of the bytes whose
  \<open>hexdigest\<close> is always 64 lower-case hexadecimal digits, so the dedup keys the schema
  derives from it always have the shape its validator asks for.
\<close>

type_synonym u32 = "32 word"

record sha_state =
  sa :: u32
  sb :: u32
  sc :: u32
  sd :: u32
  se :: u32
  sf :: u32
  sg :: u32
  sh :: u32

definition sha_k :: "u32 list" where
  "sha_k =
   [1116352408, 1899447441, 3049323471, 3921009573, 961987163, 1508970993,
    2453635748, 2870763221, 3624381080, 310598401, 607225278, 1426881987,
    1925078388, 2162078206, 2614888103, 3248222580, 3835390401, 4022224774,
    264347078, 604807628, 770255983, 1249150122, 1555081692, 1996064986,
    2554220882, 2821834349, 2952996808, 3210313671, 3336571891, 3584528711,
    113926993, 338241895, 666307205, 773529912, 1294757372, 1396182291,
    1695183700, 1986661051, 2177026350, 2456956037, 2730485921, 2820302411,
    3259730800, 3345764771, 3516065817, 3600352804, 4094571909, 275423344,
    430227734, 506948616, 659060556, 883997877, 958139571, 1322822218,
    1537002063, 1747873779, 1955562222, 2024104815, 2227730452, 2361852424,
    2428436474, 2756734187, 3204031479, 3329325298]"

definition sha_init :: sha_state where
  "sha_init =
     \<lparr>sa = 1779033703, sb = 3144134277, sc = 1013904242, sd = 2773480762,
      se = 1359893119, sf = 2600822924, sg = 528734635, sh = 1541459225\<rparr>"

definition rotr :: "nat \<Rightarrow> u32 \<Rightarrow> u32" where
  "rotr n w = drop_bit n w OR push_bit (32 - n) w"

definition big_sigma0 :: "u32 \<Rightarrow> u32" where
  "big_sigma0 x = rotr 2 x XOR rotr 13 x XOR rotr 22 x"

definition big_sigma1 :: "u32 \<Rightarrow> u32" where
  "big_sigma1 x = rotr 6 x XOR rotr 11 x XOR rotr 25 x"

definition small_sigma0 :: "u32 \<Rightarrow> u32" where
  "small_sigma0 x = rotr 7 x XOR rotr 18 x XOR drop_bit 3 x"

definition small_sigma1 :: "u32 \<Rightarrow> u32" where
  "small_sigma1 x = rotr 17 x XOR rotr 19 x XOR drop_bit 10 x"

definition sha_ch :: "u32 \<Rightarrow> u32 \<Rightarrow> u32 \<Rightarrow> u32" where
  "sha_ch x y z = (x AND y) XOR (NOT x AND z)"

definition sha_maj :: "u32 \<Rightarrow> u32 \<Rightarrow> u32 \<Rightarrow> u32" where
  "sha_maj x y z = (x AND y) XOR (x AND z) XOR (y AND z)"

definition sha_update :: "sha_state \<Rightarrow> u32 \<Rightarrow> u32 \<Rightarrow> sha_state" where
  "sha_update s t1 t2 =
     \<lparr>sa = t1 + t2, sb = sa s, sc = sb s, sd = sc s,
      se = sd s + t1, sf = se s, sg = sf s, sh = sg s\<rparr>"

definition sha_round :: "u32 \<Rightarrow> u32 \<Rightarrow> sha_state \<Rightarrow> sha_state" where
  "sha_round k w s =
     sha_update s
       (sh s + big_sigma1 (se s) + sha_ch (se s) (sf s) (sg s) + k + w)
       (big_sigma0 (sa s) + sha_maj (sa s) (sb s) (sc s))"

definition next_word :: "u32 list \<Rightarrow> u32" where
  "next_word ws = small_sigma1 (ws ! 14) + ws ! 9 + small_sigma0 (ws ! 1) + ws ! 0"

fun sha_rounds :: "u32 list \<Rightarrow> u32 list \<Rightarrow> sha_state \<Rightarrow> sha_state" where
  "sha_rounds [] ws s = s"
| "sha_rounds (k # ks) ws s =
     sha_rounds ks (tl ws @ [next_word ws]) (sha_round k (hd ws) s)"

definition sha_block :: "sha_state \<Rightarrow> u32 list \<Rightarrow> sha_state" where
  "sha_block s ws =
     (let t = sha_rounds sha_k ws s
      in \<lparr>sa = sa s + sa t, sb = sb s + sb t, sc = sc s + sc t, sd = sd s + sd t,
          se = se s + se t, sf = sf s + sf t, sg = sg s + sg t, sh = sh s + sh t\<rparr>)"

text \<open>Big-endian bytes of a number, least significant byte last.\<close>

fun be_bytes :: "nat \<Rightarrow> nat \<Rightarrow> nat list" where
  "be_bytes 0 n = []"
| "be_bytes (Suc k) n = be_bytes k (n div 256) @ [n mod 256]"

definition sha_pad :: "nat list \<Rightarrow> nat list" where
  "sha_pad bs =
     bs @ [128] @ replicate ((119 - length bs mod 64) mod 64) 0 @ be_bytes 8 (8 * length bs)"

fun words_of_bytes :: "nat list \<Rightarrow> u32 list" where
  "words_of_bytes (a # b # c # d # bs) =
     (((word_of_nat a * 256 + word_of_nat b) * 256 + word_of_nat c) * 256 + word_of_nat d)
       # words_of_bytes bs"
| "words_of_bytes _ = []"

function sha_blocks :: "sha_state \<Rightarrow> u32 list \<Rightarrow> sha_state" where
  "sha_blocks s ws =
     (if length ws < 16 then s else sha_blocks (sha_block s (take 16 ws)) (drop 16 ws))"
  by pat_completeness auto
termination
  by (relation "measure (\<lambda>(s, ws). length ws)") auto

declare sha_blocks.simps [simp del]

definition sha256_words :: "nat list \<Rightarrow> u32 list" where
  "sha256_words bs =
     (let s = sha_blocks sha_init (words_of_bytes (sha_pad bs))
      in [sa s, sb s, sc s, sd s, se s, sf s, sg s, sh s])"

definition hex_u32 :: "u32 \<Rightarrow> pystr" where
  "hex_u32 w = map (\<lambda>k. hex_digit (unat (drop_bit k w AND 15))) [28, 24, 20, 16, 12, 8, 4, 0]"

definition sha256_hexdigest :: "nat list \<Rightarrow> pystr" where
  "sha256_hexdigest bs = concat (map hex_u32 (sha256_words bs))"

lemma hex_u32_lower_hex: "c \<in> set (hex_u32 w) \<Longrightarrow> is_lower_hex c"
proof -
  have "unat (v AND 15) < 16" for v :: u32
    using word_and_le1 [of v 15] by (simp add: word_le_nat_alt)
  then show "c \<in> set (hex_u32 w) \<Longrightarrow> is_lower_hex c"
    by (auto simp: hex_u32_def intro!: hex_digit_is_lower_hex)
qed

lemma length_sha256_hexdigest [simp]: "length (sha256_hexdigest bs) = 64"
  by (simp add: sha256_hexdigest_def sha256_words_def hex_u32_def Let_def)

lemma sha256_hexdigest_lower_hex: "c \<in> set (sha256_hexdigest bs) \<Longrightarrow> is_lower_hex c"
  by (auto simp: sha256_hexdigest_def intro: hex_u32_lower_hex)

lemma length_be_bytes [simp]: "length (be_bytes k n) = k"
  by (induction k arbitrary: n) auto

text \<open>Padding fills whole blocks of 64 bytes.\<close>

lemma length_sha_pad: "length (sha_pad bs) mod 64 = 0"
proof -
  define r where "r = length bs mod 64"
  then have r: "r < 64" by simp
  then have "(119 - r) mod 64 = (if r \<le> 55 then 55 - r else 119 - r)"
    by (auto simp: mod_if)
  with r have "(r + (1 + (119 - r) mod 64 + 8)) mod 64 = 0" by auto
  then have "(length bs + (1 + (119 - r) mod 64 + 8)) mod 64 = 0"
    by (metis r_def mod_add_left_eq)
  then show ?thesis by (simp add: sha_pad_def r_def add_ac)
qed

text \<open>
  The padded one-block message \<open>abc\<close> of the standard's appendix, and the working variables
  after its first two rounds.
\<close>

lemmas sha_step_defs = sha_round_def sha_update_def sha_init_def sha_ch_def sha_maj_def
  big_sigma0_def big_sigma1_def small_sigma0_def small_sigma1_def next_word_def rotr_def

lemma sha_pad_abc:
  "words_of_bytes (sha_pad (lit ''abc'')) =
     [0x61626380, 0, 0, 0, 0, 0, 0, 0, 0, 0, 0, 0, 0, 0, 0, 24]"
  by code_simp

lemma sha_rounds_abc:
  "sha_rounds (take 2 sha_k) [0x61626380, 0, 0, 0, 0, 0, 0, 0, 0, 0, 0, 0, 0, 0, 0, 24] sha_init =
     \<lparr>sa = 0x5a6ad9ad, sb = 0x5d6aebcd, sc = 0x6a09e667, sd = 0xbb67ae85,
      se = 0x78ce7989, sf = 0xfa2a4622, sg = 0x510e527f, sh = 0x9b05688c\<rparr>"
  by (simp add: sha_step_defs sha_k_def)

end
