(* ===== verification/Schema.thy ===== *)
theory Schema
  imports Enums PyJson PyUuid Sha256
begin

text \<open>
  The findings of \<open>src/watchers/schema.py\<close>: the dataclass \<open>Finding\<close> with the checks of its
  \<open>__post_init__\<close> in their order, its JSON form, and the factory \<open>new_finding\<close> with the
  fingerprint.  The keyword arguments of the constructor are a list of named values, as in
  \<open>cls(**d)\<close>; what the checks let through is a typed record.  \<open>finding_valid\<close> is the invariant
  of constructed findings: the constructor returns exactly the valid ones
  (\<open>finding_ctor_iff\<close>).
\<close>

section \<open>The record\<close>

type_synonym dict = "(pystr \<times> pyval) list"

record finding =
  f_id :: pystr
  f_source :: pystr
  f_type :: pystr
  f_severity :: pystr
  f_service :: pystr
  f_system :: pystr
  f_endpoint :: "pystr option"
  f_file :: "pystr option"
  f_line :: "int option"
  f_function :: "pystr option"
  f_trace_id :: "pystr option"
  f_fingerprint :: pystr
  f_confidence :: pynum
  f_title :: pystr
  f_description :: pystr
  f_context :: dict
  f_timestamp :: pynum
  f_status :: pystr
  f_schema_version :: pystr

section \<open>The checks of one field\<close>

text \<open>Each returns the typed value of the field or raises.\<close>

definition check_uuid :: "string \<Rightarrow> pyval \<Rightarrow> pystr result" where
  "check_uuid name v =
     (case v of
        VStr s \<Rightarrow> if uuid_ok s then Inr s else Inl (ValueError (name @ '' must be a UUID''))
      | _ \<Rightarrow> Inl (ValueError (name @ '' must be a UUID'')))"

definition check_member :: "(pystr \<Rightarrow> 'm result) \<Rightarrow> pyval \<Rightarrow> pystr result" where
  "check_member member_of v =
     (case v of
        VStr s \<Rightarrow> bind_r (member_of s) (\<lambda>_. Inr s)
      | _ \<Rightarrow> Inl (ValueError ''is not a valid member''))"

text \<open>\<open>Severity.from_string\<close> calls \<open>s.upper()\<close> first.\<close>

definition check_severity :: "pyval \<Rightarrow> pystr result" where
  "check_severity v =
     (case v of
        VStr s \<Rightarrow> bind_r (severity_from_string s) (\<lambda>_. Inr s)
      | _ \<Rightarrow> Inl (AttributeError ''upper''))"

definition check_version :: "pyval \<Rightarrow> pystr result" where
  "check_version v =
     (if v \<noteq> VStr (lit ''2.0'') then Inl (ValueError ''unsupported finding schema'')
      else Inr (lit ''2.0''))"

definition text_ok :: "nat \<Rightarrow> pystr \<Rightarrow> bool" where
  "text_ok maximum s \<longleftrightarrow> str_strip s \<noteq> [] \<and> length s \<le> maximum"

definition check_text :: "string \<Rightarrow> nat \<Rightarrow> pyval \<Rightarrow> pystr result" where
  "check_text name maximum v =
     (case v of
        VStr s \<Rightarrow> if text_ok maximum s then Inr s
                  else Inl (ValueError (name @ '' must contain 1 to maximum characters''))
      | _ \<Rightarrow> Inl (ValueError (name @ '' must contain 1 to maximum characters'')))"

definition check_opt_text :: "string \<Rightarrow> nat \<Rightarrow> pyval \<Rightarrow> pystr option result" where
  "check_opt_text name maximum v =
     (case v of
        VNone \<Rightarrow> Inr None
      | VStr s \<Rightarrow> if length s \<le> maximum then Inr (Some s)
                  else Inl (ValueError (name @ '' must be null or at most maximum characters''))
      | _ \<Rightarrow> Inl (ValueError (name @ '' must be null or at most maximum characters'')))"

definition check_line :: "pyval \<Rightarrow> int option result" where
  "check_line v =
     (case v of
        VNone \<Rightarrow> Inr None
      | VInt i \<Rightarrow> if i < 1 then Inl (ValueError ''line must be a positive integer or null'')
                  else Inr (Some i)
      | _ \<Rightarrow> Inl (ValueError ''line must be a positive integer or null''))"

definition fingerprint_ok :: "pystr \<Rightarrow> bool" where
  "fingerprint_ok s \<longleftrightarrow> length s = 32 \<and> (\<forall>c \<in> set s. is_lower_hex c)"

definition check_fingerprint :: "pyval \<Rightarrow> pystr result" where
  "check_fingerprint v =
     (case v of
        VStr s \<Rightarrow> if fingerprint_ok s then Inr s
                  else Inl (ValueError ''fingerprint must be 32 lowercase hexadecimal characters'')
      | _ \<Rightarrow> Inl (ValueError ''fingerprint must be 32 lowercase hexadecimal characters''))"

text \<open>Numbers: \<open>bool\<close> is refused; \<open>float(value)\<close> overflows for a huge integer.\<close>

definition as_number :: "string \<Rightarrow> pyval \<Rightarrow> pynum result" where
  "as_number message v =
     (case v of
        VInt i \<Rightarrow> Inr (NInt i)
      | VFloat f \<Rightarrow> Inr (NFloat f)
      | _ \<Rightarrow> Inl (ValueError message))"

definition check_unit_number :: "pynum \<Rightarrow> pynum result" where
  "check_unit_number n =
     bind_r (num_float n) (\<lambda>x.
       if finite_f x \<and> fle (Fin 0) x \<and> fle x (Fin 1) then Inr n
       else Inl (ValueError ''confidence must be between 0 and 1''))"

definition check_confidence :: "pyval \<Rightarrow> pynum result" where
  "check_confidence v = bind_r (as_number ''confidence must be between 0 and 1'' v) check_unit_number"

definition check_timestamp :: "pyval \<Rightarrow> pynum result" where
  "check_timestamp v =
     bind_r (as_number ''timestamp must be a positive finite number'' v) (\<lambda>n.
       bind_r (num_float n) (\<lambda>x.
         if \<not> finite_f x \<or> num_le n (NInt 0)
         then Inl (ValueError ''timestamp must be a positive finite number'')
         else Inr n))"

text \<open>\<open>json.dumps(context, allow_nan=False)\<close> is run for its exceptions only.\<close>

definition check_context :: "pyval \<Rightarrow> dict result" where
  "check_context v =
     (case v of
        VDict kvs \<Rightarrow> if json_ok (VDict kvs) then Inr kvs
                     else Inl (ValueError ''context must be JSON serializable'')
      | _ \<Rightarrow> Inl (ValueError ''context must be an object''))"

section \<open>The constructor\<close>

definition required_fields :: "pystr list" where
  "required_fields =
     [lit ''id'', lit ''source'', lit ''type'', lit ''severity'', lit ''service'', lit ''system'',
      lit ''endpoint'', lit ''file'', lit ''line'', lit ''function'', lit ''trace_id'',
      lit ''fingerprint'', lit ''confidence'', lit ''title'', lit ''description'', lit ''context'',
      lit ''timestamp'', lit ''status'']"

definition finding_fields :: "pystr list" where
  "finding_fields = required_fields @ [lit ''schema_version'']"

text \<open>\<open>__post_init__\<close>, with \<open>get\<close> for the attributes of \<open>self\<close>.\<close>

definition finding_post_init :: "(pystr \<Rightarrow> pyval) \<Rightarrow> finding result" where
  "finding_post_init get =
     bind_r (check_uuid ''finding id'' (get (lit ''id''))) (\<lambda>id'.
     bind_r (check_member finding_source_of (get (lit ''source''))) (\<lambda>source.
     bind_r (check_member finding_type_of (get (lit ''type''))) (\<lambda>type'.
     bind_r (check_severity (get (lit ''severity''))) (\<lambda>severity.
     bind_r (check_member finding_status_of (get (lit ''status''))) (\<lambda>status.
     bind_r (check_version (get (lit ''schema_version''))) (\<lambda>version.
     bind_r (check_text ''service'' 200 (get (lit ''service''))) (\<lambda>service.
     bind_r (check_text ''system'' 200 (get (lit ''system''))) (\<lambda>system.
     bind_r (check_text ''title'' 500 (get (lit ''title''))) (\<lambda>title.
     bind_r (check_text ''description'' 4000 (get (lit ''description''))) (\<lambda>description.
     bind_r (check_opt_text ''endpoint'' 2048 (get (lit ''endpoint''))) (\<lambda>endpoint.
     bind_r (check_opt_text ''file'' 4096 (get (lit ''file''))) (\<lambda>file.
     bind_r (check_opt_text ''function'' 500 (get (lit ''function''))) (\<lambda>function.
     bind_r (check_opt_text ''trace_id'' 256 (get (lit ''trace_id''))) (\<lambda>trace_id.
     bind_r (check_line (get (lit ''line''))) (\<lambda>line.
     bind_r (check_fingerprint (get (lit ''fingerprint''))) (\<lambda>fingerprint.
     bind_r (check_confidence (get (lit ''confidence''))) (\<lambda>confidence.
     bind_r (check_timestamp (get (lit ''timestamp''))) (\<lambda>timestamp.
     bind_r (check_context (get (lit ''context''))) (\<lambda>context.
       Inr \<lparr>f_id = id', f_source = source, f_type = type', f_severity = severity,
            f_service = service, f_system = system, f_endpoint = endpoint, f_file = file,
            f_line = line, f_function = function, f_trace_id = trace_id,
            f_fingerprint = fingerprint, f_confidence = confidence, f_title = title,
            f_description = description, f_context = context, f_timestamp = timestamp,
            f_status = status, f_schema_version = version\<rparr>)))))))))))))))))))"

text \<open>\<open>cls(**d)\<close>; only \<open>schema_version\<close> has a default.\<close>

definition field_value :: "dict \<Rightarrow> pystr \<Rightarrow> pyval" where
  "field_value kvs n = (case map_of kvs n of Some v \<Rightarrow> v | None \<Rightarrow> VStr (lit ''2.0''))"

definition finding_ctor :: "dict \<Rightarrow> finding result" where
  "finding_ctor kvs =
     (if \<exists>n \<in> set required_fields. map_of kvs n = None
      then Inl (TypeError ''missing required arguments'')
      else finding_post_init (field_value kvs))"

section \<open>Dictionaries and JSON\<close>

fun val_of_num :: "pynum \<Rightarrow> pyval" where
  "val_of_num (NInt i) = VInt i"
| "val_of_num (NFloat f) = VFloat f"

definition val_of_text :: "pystr option \<Rightarrow> pyval" where
  "val_of_text x = (case x of None \<Rightarrow> VNone | Some s \<Rightarrow> VStr s)"

definition val_of_int :: "int option \<Rightarrow> pyval" where
  "val_of_int x = (case x of None \<Rightarrow> VNone | Some i \<Rightarrow> VInt i)"

definition finding_to_dict :: "finding \<Rightarrow> dict" where
  "finding_to_dict f =
     [(lit ''id'', VStr (f_id f)), (lit ''source'', VStr (f_source f)), (lit ''type'', VStr (f_type f)),
      (lit ''severity'', VStr (f_severity f)), (lit ''service'', VStr (f_service f)),
      (lit ''system'', VStr (f_system f)), (lit ''endpoint'', val_of_text (f_endpoint f)),
      (lit ''file'', val_of_text (f_file f)), (lit ''line'', val_of_int (f_line f)),
      (lit ''function'', val_of_text (f_function f)), (lit ''trace_id'', val_of_text (f_trace_id f)),
      (lit ''fingerprint'', VStr (f_fingerprint f)), (lit ''confidence'', val_of_num (f_confidence f)),
      (lit ''title'', VStr (f_title f)), (lit ''description'', VStr (f_description f)),
      (lit ''context'', VDict (f_context f)), (lit ''timestamp'', val_of_num (f_timestamp f)),
      (lit ''status'', VStr (f_status f)), (lit ''schema_version'', VStr (f_schema_version f))]"

definition finding_to_json :: "finding \<Rightarrow> pystr result" where
  "finding_to_json f = json_dumps (VDict (finding_to_dict f))"

definition finding_from_dict :: "pyval \<Rightarrow> finding result" where
  "finding_from_dict d =
     (case d of
        VDict kvs \<Rightarrow>
          if \<exists>n \<in> set (map fst kvs). n \<notin> set finding_fields
          then Inl (ValueError ''unknown finding fields'')
          else finding_ctor kvs
      | _ \<Rightarrow> Inl (ValueError ''finding payload must be an object''))"

definition finding_from_json :: "pystr \<Rightarrow> finding result" where
  "finding_from_json s =
     bind_r
       (catch_r (json_loads s) (\<lambda>e.
          if e = ValueError ''JSONDecodeError''
          then Inl (ValueError ''finding payload is not valid JSON'') else Inl e))
       finding_from_dict"

section \<open>Derived properties of a finding\<close>

definition finding_severity :: "finding \<Rightarrow> severity result" where
  "finding_severity f = severity_from_string (f_severity f)"

definition severity_numeric :: "finding \<Rightarrow> int result" where
  "severity_numeric f = bind_r (finding_severity f) (\<lambda>s. Inr (numeric s))"

definition is_critical :: "finding \<Rightarrow> bool" where
  "is_critical f \<longleftrightarrow> f_severity f \<in> {severity_value CRITICAL, severity_value HIGH}"

definition finding_matches :: "finding \<Rightarrow> finding \<Rightarrow> bool" where
  "finding_matches f other \<longleftrightarrow>
     f_service f = f_service other \<and> f_endpoint f = f_endpoint other \<and> f_source f \<noteq> f_source other"

section \<open>The fingerprint\<close>

text \<open>\<open>str(p or "")\<close> for the kinds of parts that the callers pass.\<close>

datatype fp_part = FPText "pystr option" | FPInt "int option"

fun part_text :: "fp_part \<Rightarrow> pystr result" where
  "part_text (FPText None) = Inr []"
| "part_text (FPText (Some s)) = Inr s"
| "part_text (FPInt None) = Inr []"
| "part_text (FPInt (Some i)) =
     (if i = 0 then Inr []
      else if 4300 < length (dec_nat (nat \<bar>i\<bar>))
      then Inl (ValueError ''Exceeds the limit for integer string conversion'')
      else Inr (dec_int i))"

fun parts_text :: "fp_part list \<Rightarrow> pystr list result" where
  "parts_text [] = Inr []"
| "parts_text (p # ps) =
     bind_r (part_text p) (\<lambda>s. bind_r (parts_text ps) (\<lambda>ss. Inr (str_lower s # ss)))"

definition compute_fingerprint :: "fp_part list \<Rightarrow> pystr result" where
  "compute_fingerprint parts =
     bind_r (parts_text parts) (\<lambda>ss.
     bind_r (utf8_encode (str_join [124] ss)) (\<lambda>bytes.
       Inr (take 32 (sha256_hexdigest bytes))))"

section \<open>The factory\<close>

text \<open>The keyword arguments of \<open>new_finding\<close>, with the source's defaults.\<close>

record finding_args =
  na_source :: pystr
  na_type :: pystr
  na_severity :: pystr
  na_service :: pystr
  na_system :: pystr
  na_title :: pystr
  na_description :: pystr
  na_endpoint :: "pystr option"
  na_file :: "pystr option"
  na_line :: "int option"
  na_function :: "pystr option"
  na_trace_id :: "pystr option"
  na_confidence :: pynum
  na_context :: "dict option"
  na_status :: pystr

definition default_args :: finding_args where
  "default_args =
     \<lparr>na_source = [], na_type = [], na_severity = [], na_service = [], na_system = [], na_title = [],
      na_description = [], na_endpoint = None, na_file = None, na_line = None, na_function = None,
      na_trace_id = None, na_confidence = NFloat (fl (8 / 10)), na_context = None,
      na_status = finding_status_value OPEN\<rparr>"

text \<open>\<open>rnd\<close> are the random bits of \<open>uuid4\<close> and \<open>now\<close> is what \<open>time.time()\<close> reads.\<close>

definition new_finding :: "finding_args \<Rightarrow> 128 word \<Rightarrow> float64 \<Rightarrow> finding result" where
  "new_finding a rnd now =
     bind_r (finding_source_of (na_source a)) (\<lambda>source.
     bind_r (finding_type_of (na_type a)) (\<lambda>type'.
     bind_r (severity_from_string (na_severity a)) (\<lambda>severity.
     bind_r (finding_status_of (na_status a)) (\<lambda>status.
     bind_r (check_unit_number (na_confidence a)) (\<lambda>_.
     bind_r (compute_fingerprint
               [FPText (Some (na_service a)), FPText (na_endpoint a),
                FPText (Some (finding_type_value type')), FPText (na_file a), FPInt (na_line a)])
       (\<lambda>fingerprint.
     bind_r (num_float (na_confidence a)) (\<lambda>confidence.
       finding_ctor (finding_to_dict
         \<lparr>f_id = uuid4_text rnd, f_source = finding_source_value source,
          f_type = finding_type_value type', f_severity = severity_value severity,
          f_service = na_service a, f_system = na_system a, f_endpoint = na_endpoint a,
          f_file = na_file a, f_line = na_line a, f_function = na_function a,
          f_trace_id = na_trace_id a, f_fingerprint = fingerprint,
          f_confidence = NFloat confidence, f_title = na_title a,
          f_description = na_description a,
          f_context = (case na_context a of None \<Rightarrow> [] | Some c \<Rightarrow> c),
          f_timestamp = NFloat now, f_status = finding_status_value status,
          f_schema_version = lit ''2.0''\<rparr>))))))))"

section \<open>What the checks let through\<close>

lemma check_uuid_Inr [result_simps]: "check_uuid n v = Inr s \<longleftrightarrow> v = VStr s \<and> uuid_ok s"
  by (auto simp: check_uuid_def split: pyval.splits)

lemma check_member_Inr [result_simps]: "check_member m v = Inr s \<longleftrightarrow> v = VStr s \<and> returns (m s)"
  by (auto simp: check_member_def result_simps returns_iff split: pyval.splits)

lemma check_severity_Inr [result_simps]:
  "check_severity v = Inr s \<longleftrightarrow> v = VStr s \<and> returns (severity_from_string s)"
  by (auto simp: check_severity_def result_simps returns_iff split: pyval.splits)

lemma check_version_Inr [result_simps]: "check_version v = Inr s \<longleftrightarrow> v = VStr s \<and> s = lit ''2.0''"
  by (auto simp: check_version_def)

lemma check_text_Inr [result_simps]: "check_text n k v = Inr s \<longleftrightarrow> v = VStr s \<and> text_ok k s"
  by (auto simp: check_text_def split: pyval.splits)

definition opt_text_ok :: "nat \<Rightarrow> pystr option \<Rightarrow> bool" where
  "opt_text_ok maximum x = (case x of None \<Rightarrow> True | Some s \<Rightarrow> length s \<le> maximum)"

lemma check_opt_text_Inr [result_simps]:
  "check_opt_text n k v = Inr x \<longleftrightarrow> v = val_of_text x \<and> opt_text_ok k x"
  by (auto simp: check_opt_text_def opt_text_ok_def val_of_text_def split: pyval.splits option.splits)

definition line_ok :: "int option \<Rightarrow> bool" where
  "line_ok x = (case x of None \<Rightarrow> True | Some i \<Rightarrow> 1 \<le> i)"

lemma check_line_Inr [result_simps]: "check_line v = Inr x \<longleftrightarrow> v = val_of_int x \<and> line_ok x"
  by (auto simp: check_line_def line_ok_def val_of_int_def split: pyval.splits option.splits)

lemma check_fingerprint_Inr [result_simps]:
  "check_fingerprint v = Inr s \<longleftrightarrow> v = VStr s \<and> fingerprint_ok s"
  by (auto simp: check_fingerprint_def split: pyval.splits)

definition confidence_ok :: "pynum \<Rightarrow> bool" where
  "confidence_ok n =
     (case num_float n of Inr x \<Rightarrow> finite_f x \<and> fle (Fin 0) x \<and> fle x (Fin 1) | Inl _ \<Rightarrow> False)"

definition timestamp_ok :: "pynum \<Rightarrow> bool" where
  "timestamp_ok n =
     (case num_float n of Inr x \<Rightarrow> finite_f x \<and> \<not> num_le n (NInt 0) | Inl _ \<Rightarrow> False)"

lemma as_number_Inr [result_simps]: "as_number m v = Inr n \<longleftrightarrow> v = val_of_num n"
  by (cases n) (auto simp: as_number_def split: pyval.splits)

lemma check_unit_number_Inr [result_simps]:
  "check_unit_number n = Inr m \<longleftrightarrow> m = n \<and> confidence_ok n"
  by (auto simp: check_unit_number_def confidence_ok_def result_simps split: sum.splits if_splits)

lemma check_confidence_Inr [result_simps]:
  "check_confidence v = Inr n \<longleftrightarrow> v = val_of_num n \<and> confidence_ok n"
  by (auto simp: check_confidence_def result_simps)

lemma check_timestamp_Inr [result_simps]:
  "check_timestamp v = Inr n \<longleftrightarrow> v = val_of_num n \<and> timestamp_ok n"
  by (auto simp: check_timestamp_def timestamp_ok_def result_simps split: sum.splits if_splits)

lemma check_context_Inr [result_simps]:
  "check_context v = Inr c \<longleftrightarrow> v = VDict c \<and> json_ok (VDict c)"
  by (auto simp: check_context_def split: pyval.splits if_splits)

section \<open>The invariant of constructed findings\<close>

definition finding_valid :: "finding \<Rightarrow> bool" where
  "finding_valid f \<longleftrightarrow>
     uuid_ok (f_id f) \<and> returns (finding_source_of (f_source f)) \<and>
     returns (finding_type_of (f_type f)) \<and> returns (severity_from_string (f_severity f)) \<and>
     returns (finding_status_of (f_status f)) \<and> f_schema_version f = lit ''2.0'' \<and>
     text_ok 200 (f_service f) \<and> text_ok 200 (f_system f) \<and> text_ok 500 (f_title f) \<and>
     text_ok 4000 (f_description f) \<and> opt_text_ok 2048 (f_endpoint f) \<and>
     opt_text_ok 4096 (f_file f) \<and> opt_text_ok 500 (f_function f) \<and>
     opt_text_ok 256 (f_trace_id f) \<and> line_ok (f_line f) \<and> fingerprint_ok (f_fingerprint f) \<and>
     confidence_ok (f_confidence f) \<and> timestamp_ok (f_timestamp f) \<and>
     json_ok (VDict (f_context f))"

lemma finding_post_init_iff:
  "finding_post_init get = Inr f \<longleftrightarrow>
     finding_valid f \<and> (\<forall>(n, v) \<in> set (finding_to_dict f). get n = v)"
  by (cases f) (auto simp: finding_post_init_def finding_valid_def finding_to_dict_def result_simps)

lemma to_dict_fields [simp]: "map fst (finding_to_dict f) = finding_fields"
  by (simp add: finding_to_dict_def finding_fields_def required_fields_def)

lemma distinct_fields [simp]: "distinct finding_fields"
  by (simp add: finding_fields_def required_fields_def)

lemma distinct_to_dict: "distinct (map fst (finding_to_dict f))"
  by simp

lemma map_of_to_dict: "(n, v) \<in> set (finding_to_dict f) \<Longrightarrow> map_of (finding_to_dict f) n = Some v"
  by (rule map_of_is_SomeI [OF distinct_to_dict])

text \<open>
  The constructor depends on the named values only, and it returns exactly the valid record
  with those values, \<open>schema_version\<close> defaulting.
\<close>

definition has_fields_of :: "dict \<Rightarrow> finding \<Rightarrow> bool" where
  "has_fields_of kvs f \<longleftrightarrow>
     (\<forall>(n, v) \<in> set (finding_to_dict f).
        map_of kvs n = Some v \<or> (n = lit ''schema_version'' \<and> map_of kvs n = None))"

lemma finding_ctor_Inr:
  "finding_ctor kvs = Inr f \<longleftrightarrow> finding_valid f \<and> has_fields_of kvs f"
proof -
  have "(\<forall>n \<in> set required_fields. map_of kvs n \<noteq> None) \<and>
      (\<forall>(n, v) \<in> set (finding_to_dict f). field_value kvs n = v) \<longleftrightarrow> has_fields_of kvs f"
    if "f_schema_version f = lit ''2.0''"
    using that
    by (auto simp: finding_to_dict_def required_fields_def has_fields_of_def field_value_def
        split: option.splits)
  moreover have "finding_valid f \<Longrightarrow> f_schema_version f = lit ''2.0''"
    by (simp add: finding_valid_def)
  ultimately show ?thesis
    by (auto simp: finding_ctor_def finding_post_init_iff simp del: not_None_eq)
qed

lemma has_fields_of_to_dict: "has_fields_of (finding_to_dict f) f"
  by (auto simp: has_fields_of_def map_of_to_dict)

lemma finding_ctor_to_dict: "finding_valid f \<Longrightarrow> finding_ctor (finding_to_dict f) = Inr f"
  by (simp add: finding_ctor_Inr has_fields_of_to_dict)

lemma val_inj [simp]:
  "val_of_text x = val_of_text y \<longleftrightarrow> x = y"
  "val_of_int i = val_of_int j \<longleftrightarrow> i = j"
  "val_of_num m = val_of_num n \<longleftrightarrow> m = n"
  by (auto simp: val_of_text_def val_of_int_def split: option.splits) (cases m; cases n; simp)

lemma finding_to_dict_inj: "finding_to_dict g = finding_to_dict f \<Longrightarrow> g = f"
  by (cases f; cases g) (simp add: finding_to_dict_def)

lemma finding_ctor_to_dict_iff [result_simps]:
  "finding_ctor (finding_to_dict f) = Inr g \<longleftrightarrow> finding_valid f \<and> g = f"
proof
  assume "finding_ctor (finding_to_dict f) = Inr g"
  then have "finding_post_init (field_value (finding_to_dict f)) = Inr g"
    by (auto simp: finding_ctor_def split: if_splits)
  then have g: "finding_valid g" "\<forall>(n, v) \<in> set (finding_to_dict g). field_value (finding_to_dict f) n = v"
    by (auto simp: finding_post_init_iff)
  have "field_value (finding_to_dict f) n = v" if "(n, v) \<in> set (finding_to_dict f)" for n v
    using map_of_to_dict [OF that] by (simp add: field_value_def)
  then have "finding_to_dict g = finding_to_dict f"
    using g(2) by (simp add: finding_to_dict_def)
  then have "g = f" by (rule finding_to_dict_inj)
  with g show "finding_valid f \<and> g = f" by simp
qed (simp add: finding_ctor_to_dict)

section \<open>The JSON form\<close>

lemma finding_valid_context: "finding_valid f \<Longrightarrow> json_ok (VDict (f_context f))"
  by (simp add: finding_valid_def)

lemma map_of_sort_key: "distinct (map fst kvs) \<Longrightarrow> map_of (sort_key fst kvs) = map_of kvs"
  by (rule map_of_inject_set [THEN iffD2]) (simp_all add: distinct_map distinct_sort)

lemma has_fields_of_sorted:
  "distinct (map fst kvs) \<Longrightarrow> has_fields_of (sort_key fst kvs) f \<longleftrightarrow> has_fields_of kvs f"
  by (simp add: has_fields_of_def map_of_sort_key)

lemma finding_ctor_sorted:
  assumes "distinct (map fst kvs)"
  shows "finding_ctor (sort_key fst kvs) = finding_ctor kvs"
proof -
  have "field_value (sort_key fst kvs) = field_value kvs"
    by (rule ext) (simp only: field_value_def map_of_sort_key [OF assms])
  then show ?thesis by (simp only: finding_ctor_def map_of_sort_key [OF assms])
qed

definition sort_context :: "finding \<Rightarrow> finding" where
  "sort_context f = (case sort_keys (VDict (f_context f)) of VDict c \<Rightarrow> f\<lparr>f_context := c\<rparr> | _ \<Rightarrow> f)"

lemma sort_keys_val [simp]:
  "sort_keys (val_of_text x) = val_of_text x" "sort_keys (val_of_int i) = val_of_int i"
  "sort_keys (val_of_num n) = val_of_num n"
  by (cases n; simp add: val_of_text_def val_of_int_def split: option.splits)+

lemma sort_keys_finding:
  "sort_keys (VDict (finding_to_dict f)) = VDict (sort_key fst (finding_to_dict (sort_context f)))"
  by (simp add: finding_to_dict_def sort_context_def del: sort_key_simps)

lemma json_ok_sort_keys: "json_ok v \<Longrightarrow> json_ok (sort_keys v)"
  by (induction v) (auto simp: snds.simps)

lemma finding_valid_sort_context: "finding_valid f \<Longrightarrow> finding_valid (sort_context f)"
  using json_ok_sort_keys [of "VDict (f_context f)"]
  by (simp add: finding_valid_def sort_context_def)

lemma finding_from_dict_sorted:
  "finding_from_dict (VDict (sort_key fst (finding_to_dict g))) = finding_ctor (finding_to_dict g)"
  by (simp add: finding_from_dict_def finding_ctor_sorted) (metis image_eqI list.set_map to_dict_fields)

text \<open>
  A valid finding whose texts survive JSON (\<open>json_wf\<close>: no adjacent surrogate halves, doubles
  that are finite) is printed and read back as itself, its context with sorted keys.
\<close>

lemma finding_json_round_trip:
  assumes "finding_valid f" "json_wf (VDict (finding_to_dict f))"
  shows "\<exists>s. finding_to_json f = Inr s \<and> finding_from_json s = Inr (sort_context f)"
proof -
  note rt = json_round_trip [OF assms(2)]
  have "finding_from_dict (sort_keys (VDict (finding_to_dict f))) = Inr (sort_context f)"
    by (simp only: sort_keys_finding finding_from_dict_sorted)
      (simp add: finding_ctor_to_dict finding_valid_sort_context assms(1))
  with rt show ?thesis
    by (simp add: finding_to_json_def finding_from_json_def del: sort_keys.simps)
qed

lemma finding_from_dict_valid: "finding_from_dict d = Inr f \<Longrightarrow> finding_valid f"
  by (cases d) (auto simp: finding_from_dict_def finding_ctor_Inr split: if_splits)

lemma finding_from_json_valid: "finding_from_json s = Inr f \<Longrightarrow> finding_valid f"
  by (auto simp: finding_from_json_def bind_r_Inr_iff finding_from_dict_valid)

text \<open>A finding that was read has distinct keys in the dicts of its context as well.\<close>

definition finding_wf :: "finding \<Rightarrow> bool" where
  "finding_wf f \<longleftrightarrow> finding_valid f \<and> keys_ok (VDict (f_context f))"

lemma has_fields_context:
  "has_fields_of kvs f \<Longrightarrow> map_of kvs (lit ''context'') = Some (VDict (f_context f))"
  by (simp add: has_fields_of_def finding_to_dict_def)

lemma finding_from_json_wf:
  assumes "finding_from_json s = Inr f"
  shows "finding_wf f"
proof -
  obtain kvs where kvs: "json_loads s = Inr (VDict kvs)" "finding_ctor kvs = Inr f"
    using assms
    by (cases "json_loads s")
      (auto simp: finding_from_json_def finding_from_dict_def split: if_splits pyval.splits)
  then have "map_of kvs (lit ''context'') = Some (VDict (f_context f))"
    by (simp add: finding_ctor_Inr has_fields_context)
  moreover have "keys_ok (VDict kvs)" using json_loads_keys_ok [OF kvs(1)] .
  ultimately have "keys_ok (VDict (f_context f))"
    by (metis keys_ok.simps(2) map_of_SomeD snd_conv)
  with finding_from_json_valid [OF assms] show ?thesis by (simp add: finding_wf_def)
qed

section \<open>The fingerprint and the factory\<close>

lemma compute_fingerprint_ok: "compute_fingerprint ps = Inr s \<Longrightarrow> fingerprint_ok s"
  by (auto simp: compute_fingerprint_def result_simps fingerprint_ok_def
      dest!: in_set_takeD intro: sha256_hexdigest_lower_hex)

text \<open>The record that the factory builds.\<close>

definition new_finding_record :: "finding_args \<Rightarrow> 128 word \<Rightarrow> float64 \<Rightarrow> pystr \<Rightarrow> severity \<Rightarrow> float64 \<Rightarrow> finding" where
  "new_finding_record a rnd now fp sev conf =
     \<lparr>f_id = uuid4_text rnd, f_source = na_source a, f_type = na_type a,
      f_severity = severity_value sev, f_service = na_service a, f_system = na_system a,
      f_endpoint = na_endpoint a, f_file = na_file a, f_line = na_line a, f_function = na_function a,
      f_trace_id = na_trace_id a, f_fingerprint = fp, f_confidence = NFloat conf,
      f_title = na_title a, f_description = na_description a,
      f_context = (case na_context a of None \<Rightarrow> [] | Some c \<Rightarrow> c),
      f_timestamp = NFloat now, f_status = na_status a, f_schema_version = lit ''2.0''\<rparr>"

lemma source_value_of [result_simps]: "finding_source_of s = Inr m \<Longrightarrow> finding_source_value m = s"
  by (auto simp: finding_source_of_def dest: enum_of_Inr)

lemma type_value_of [result_simps]: "finding_type_of s = Inr m \<Longrightarrow> finding_type_value m = s"
  by (auto simp: finding_type_of_def dest: enum_of_Inr)

lemma status_value_of [result_simps]: "finding_status_of s = Inr m \<Longrightarrow> finding_status_value m = s"
  by (auto simp: finding_status_of_def dest: enum_of_Inr)

text \<open>The arguments that the factory accepts, and nothing else keeps it from returning.\<close>

definition args_parts :: "finding_args \<Rightarrow> fp_part list" where
  "args_parts a = [FPText (Some (na_service a)), FPText (na_endpoint a), FPText (Some (na_type a)),
     FPText (na_file a), FPInt (na_line a)]"

definition args_ok :: "finding_args \<Rightarrow> bool" where
  "args_ok a \<longleftrightarrow>
     returns (finding_source_of (na_source a)) \<and> returns (finding_type_of (na_type a)) \<and>
     returns (severity_from_string (na_severity a)) \<and> returns (finding_status_of (na_status a)) \<and>
     text_ok 200 (na_service a) \<and> text_ok 200 (na_system a) \<and> text_ok 500 (na_title a) \<and>
     text_ok 4000 (na_description a) \<and> opt_text_ok 2048 (na_endpoint a) \<and>
     opt_text_ok 4096 (na_file a) \<and> opt_text_ok 500 (na_function a) \<and>
     opt_text_ok 256 (na_trace_id a) \<and> line_ok (na_line a) \<and> confidence_ok (na_confidence a) \<and>
     json_ok (VDict (case na_context a of None \<Rightarrow> [] | Some c \<Rightarrow> c)) \<and>
     returns (compute_fingerprint (args_parts a))"

lemma num_float_confidence:
  "confidence_ok n \<Longrightarrow> num_float n = Inr x \<Longrightarrow> confidence_ok (NFloat x)"
  by (auto simp: confidence_ok_def num_float_def)

lemma new_finding_Inr:
  "new_finding a rnd now = Inr f \<longleftrightarrow>
     args_ok a \<and> timestamp_ok (NFloat now) \<and>
     (\<exists>fp sev conf. compute_fingerprint (args_parts a) = Inr fp \<and>
        severity_from_string (na_severity a) = Inr sev \<and> num_float (na_confidence a) = Inr conf \<and>
        f = new_finding_record a rnd now fp sev conf)"
  (is "?l \<longleftrightarrow> ?r")
proof
  assume ?l
  then obtain src ty sev st fp conf where
    en: "finding_source_of (na_source a) = Inr src" "finding_type_of (na_type a) = Inr ty"
      "severity_from_string (na_severity a) = Inr sev" "finding_status_of (na_status a) = Inr st"
    and conf: "confidence_ok (na_confidence a)" "num_float (na_confidence a) = Inr conf"
    and fp: "compute_fingerprint (args_parts a) = Inr fp"
    and ctor: "finding_ctor (finding_to_dict (new_finding_record a rnd now fp sev conf)) = Inr f"
    by (auto simp: new_finding_def bind_r_Inr_iff check_unit_number_Inr args_parts_def
        new_finding_record_def source_value_of type_value_of status_value_of)
  then show ?r
    by (auto simp: finding_ctor_to_dict_iff finding_valid_def args_ok_def returns_iff
        new_finding_record_def)
next
  assume r: ?r
  then obtain fp sev conf where
    fp: "compute_fingerprint (args_parts a) = Inr fp"
    and sev: "severity_from_string (na_severity a) = Inr sev"
    and conf: "num_float (na_confidence a) = Inr conf"
    and f: "f = new_finding_record a rnd now fp sev conf" by blast
  from r have valid: "finding_valid f"
    by (auto simp: f finding_valid_def new_finding_record_def args_ok_def uuid4_text_ok
        compute_fingerprint_ok [OF fp] num_float_confidence [OF _ conf])
  from r obtain src ty st where
    en: "finding_source_of (na_source a) = Inr src" "finding_type_of (na_type a) = Inr ty"
      "finding_status_of (na_status a) = Inr st"
    by (auto simp: args_ok_def returns_iff)
  have c: "check_unit_number (na_confidence a) = Inr (na_confidence a)"
    using r by (simp add: check_unit_number_Inr args_ok_def)
  show ?l
    using finding_ctor_to_dict [OF valid] fp en sev conf c
    by (simp add: new_finding_def f new_finding_record_def args_parts_def source_value_of
        type_value_of status_value_of)
qed

end
