(* ===== verification/Alert.thy ===== *)
theory Alert
  imports Schema
begin

text \<open>
  The correlated alerts of \<open>src/watchers/schema.py\<close>: the dataclass \<open>CorrelatedAlert\<close> with its
  \<open>__post_init__\<close>, its JSON form and the factory \<open>new_correlated_alert\<close>.  Its optional texts
  must not be empty, unlike those of a finding; \<open>new_correlated_alert_Inr\<close> says for which
  pairs of findings the factory returns.
\<close>

record alert =
  a_id :: pystr
  a_service :: pystr
  a_system :: pystr
  a_endpoint :: "pystr option"
  a_api_finding_id :: pystr
  a_code_finding_id :: pystr
  a_api_error :: pystr
  a_code_issue :: pystr
  a_file :: "pystr option"
  a_line :: "int option"
  a_severity :: pystr
  a_confidence :: pynum
  a_root_cause :: pystr
  a_recommended_fix :: pystr
  a_timestamp :: pynum
  a_fingerprint :: pystr
  a_trace_id :: "pystr option"
  a_context :: dict

definition check_opt_text1 :: "string \<Rightarrow> nat \<Rightarrow> pyval \<Rightarrow> pystr option result" where
  "check_opt_text1 name maximum v =
     (case v of
        VNone \<Rightarrow> Inr None
      | VStr s \<Rightarrow>
          if s = [] \<or> maximum < length s
          then Inl (ValueError (name @ '' must be null or contain 1 to maximum characters''))
          else Inr (Some s)
      | _ \<Rightarrow> Inl (ValueError (name @ '' must be null or contain 1 to maximum characters'')))"

definition alert_post_init :: "(pystr \<Rightarrow> pyval) \<Rightarrow> alert result" where
  "alert_post_init get =
     bind_r (check_uuid ''id'' (get (lit ''id''))) (\<lambda>id'.
     bind_r (check_uuid ''api_finding_id'' (get (lit ''api_finding_id''))) (\<lambda>api_id.
     bind_r (check_uuid ''code_finding_id'' (get (lit ''code_finding_id''))) (\<lambda>code_id.
     bind_r (check_member finding_type_of (get (lit ''api_error''))) (\<lambda>api_error.
     bind_r (check_member finding_type_of (get (lit ''code_issue''))) (\<lambda>code_issue.
     bind_r (check_severity (get (lit ''severity''))) (\<lambda>severity.
     bind_r (check_text ''service'' 200 (get (lit ''service''))) (\<lambda>service.
     bind_r (check_text ''system'' 200 (get (lit ''system''))) (\<lambda>system.
     bind_r (check_text ''root_cause'' 4000 (get (lit ''root_cause''))) (\<lambda>root_cause.
     bind_r (check_text ''recommended_fix'' 4000 (get (lit ''recommended_fix''))) (\<lambda>fix'.
     bind_r (check_opt_text1 ''endpoint'' 2048 (get (lit ''endpoint''))) (\<lambda>endpoint.
     bind_r (check_opt_text1 ''file'' 4096 (get (lit ''file''))) (\<lambda>file.
     bind_r (check_opt_text1 ''trace_id'' 256 (get (lit ''trace_id''))) (\<lambda>trace_id.
     bind_r (check_line (get (lit ''line''))) (\<lambda>line.
     bind_r (check_confidence (get (lit ''confidence''))) (\<lambda>confidence.
     bind_r (check_timestamp (get (lit ''timestamp''))) (\<lambda>timestamp.
     bind_r (check_fingerprint (get (lit ''fingerprint''))) (\<lambda>fingerprint.
     bind_r (check_context (get (lit ''context''))) (\<lambda>context.
       Inr \<lparr>a_id = id', a_service = service, a_system = system, a_endpoint = endpoint,
            a_api_finding_id = api_id, a_code_finding_id = code_id, a_api_error = api_error,
            a_code_issue = code_issue, a_file = file, a_line = line, a_severity = severity,
            a_confidence = confidence, a_root_cause = root_cause, a_recommended_fix = fix',
            a_timestamp = timestamp, a_fingerprint = fingerprint, a_trace_id = trace_id,
            a_context = context\<rparr>))))))))))))))))))"

definition alert_to_dict :: "alert \<Rightarrow> dict" where
  "alert_to_dict a =
     [(lit ''id'', VStr (a_id a)), (lit ''service'', VStr (a_service a)),
      (lit ''system'', VStr (a_system a)), (lit ''endpoint'', val_of_text (a_endpoint a)),
      (lit ''api_finding_id'', VStr (a_api_finding_id a)),
      (lit ''code_finding_id'', VStr (a_code_finding_id a)),
      (lit ''api_error'', VStr (a_api_error a)), (lit ''code_issue'', VStr (a_code_issue a)),
      (lit ''file'', val_of_text (a_file a)), (lit ''line'', val_of_int (a_line a)),
      (lit ''severity'', VStr (a_severity a)), (lit ''confidence'', val_of_num (a_confidence a)),
      (lit ''root_cause'', VStr (a_root_cause a)),
      (lit ''recommended_fix'', VStr (a_recommended_fix a)),
      (lit ''timestamp'', val_of_num (a_timestamp a)), (lit ''fingerprint'', VStr (a_fingerprint a)),
      (lit ''trace_id'', val_of_text (a_trace_id a)), (lit ''context'', VDict (a_context a))]"

definition alert_to_json :: "alert \<Rightarrow> pystr result" where
  "alert_to_json a = json_dumps (VDict (alert_to_dict a))"

text \<open>\<open>CorrelatedAlert(...)\<close> called with all its fields.\<close>

definition alert_ctor :: "alert \<Rightarrow> alert result" where
  "alert_ctor a =
     alert_post_init (\<lambda>n. case map_of (alert_to_dict a) n of Some v \<Rightarrow> v | None \<Rightarrow> VNone)"

text \<open>\<open>x or y\<close> on optional texts.\<close>

definition text_or :: "pystr option \<Rightarrow> pystr option \<Rightarrow> pystr option" where
  "text_or x y = (if x = None \<or> x = Some [] then y else x)"

definition max_severity :: "int \<Rightarrow> int \<Rightarrow> severity" where
  "max_severity sev_a sev_c =
     (if max sev_a sev_c \<ge> 4 then CRITICAL
      else if max sev_a sev_c \<ge> 3 then HIGH
      else if max sev_a sev_c \<ge> 2 then MEDIUM
      else LOW)"

definition new_correlated_alert ::
  "finding \<Rightarrow> finding \<Rightarrow> float64 \<Rightarrow> pystr \<Rightarrow> pystr \<Rightarrow> 128 word \<Rightarrow> float64 \<Rightarrow> alert result" where
  "new_correlated_alert api code confidence root_cause recommended_fix rnd now =
     bind_r (severity_from_string (f_severity api)) (\<lambda>sev_a.
     bind_r (severity_from_string (f_severity code)) (\<lambda>sev_c.
     bind_r (compute_fingerprint
               [FPText (Some (f_service api)), FPText (f_endpoint api), FPText (Some (f_type api)),
                FPText (f_file code), FPInt (f_line code)]) (\<lambda>fingerprint.
       alert_ctor
         \<lparr>a_id = uuid4_text rnd, a_service = f_service api, a_system = f_system api,
          a_endpoint = f_endpoint api, a_api_finding_id = f_id api, a_code_finding_id = f_id code,
          a_api_error = f_type api, a_code_issue = f_type code, a_file = f_file code,
          a_line = f_line code,
          a_severity = severity_value (max_severity (numeric sev_a) (numeric sev_c)),
          a_confidence = NFloat confidence, a_root_cause = root_cause,
          a_recommended_fix = recommended_fix, a_timestamp = NFloat now,
          a_fingerprint = fingerprint, a_trace_id = text_or (f_trace_id api) (f_trace_id code),
          a_context = [(lit ''api_context'', VDict (f_context api)),
                       (lit ''code_context'', VDict (f_context code))]\<rparr>)))"

section \<open>Valid alerts\<close>

definition opt_text1_ok :: "nat \<Rightarrow> pystr option \<Rightarrow> bool" where
  "opt_text1_ok maximum x = (case x of None \<Rightarrow> True | Some s \<Rightarrow> s \<noteq> [] \<and> length s \<le> maximum)"

lemma check_opt_text1_Inr [result_simps]:
  "check_opt_text1 n k v = Inr x \<longleftrightarrow> v = val_of_text x \<and> opt_text1_ok k x"
  by (auto simp: check_opt_text1_def opt_text1_ok_def val_of_text_def
      split: pyval.splits option.splits if_splits)

definition alert_valid :: "alert \<Rightarrow> bool" where
  "alert_valid a \<longleftrightarrow>
     uuid_ok (a_id a) \<and> uuid_ok (a_api_finding_id a) \<and> uuid_ok (a_code_finding_id a) \<and>
     returns (finding_type_of (a_api_error a)) \<and> returns (finding_type_of (a_code_issue a)) \<and>
     returns (severity_from_string (a_severity a)) \<and>
     text_ok 200 (a_service a) \<and> text_ok 200 (a_system a) \<and> text_ok 4000 (a_root_cause a) \<and>
     text_ok 4000 (a_recommended_fix a) \<and> opt_text1_ok 2048 (a_endpoint a) \<and>
     opt_text1_ok 4096 (a_file a) \<and> opt_text1_ok 256 (a_trace_id a) \<and> line_ok (a_line a) \<and>
     confidence_ok (a_confidence a) \<and> timestamp_ok (a_timestamp a) \<and>
     fingerprint_ok (a_fingerprint a) \<and> json_ok (VDict (a_context a))"

lemma alert_ctor_Inr: "alert_ctor a = Inr b \<longleftrightarrow> alert_valid a \<and> b = a"
  by (cases a) (auto simp: alert_ctor_def alert_to_dict_def alert_post_init_def alert_valid_def
      result_simps)

section \<open>The factory\<close>

lemma max_severity_is_max: "max_severity (numeric a) (numeric b) = max a b"
  by (cases a; cases b) (simp_all add: max_severity_def max_def less_eq_severity_def)

definition alert_parts :: "finding \<Rightarrow> finding \<Rightarrow> fp_part list" where
  "alert_parts api code =
     [FPText (Some (f_service api)), FPText (f_endpoint api), FPText (Some (f_type api)),
      FPText (f_file code), FPInt (f_line code)]"

definition alert_record ::
  "finding \<Rightarrow> finding \<Rightarrow> float64 \<Rightarrow> pystr \<Rightarrow> pystr \<Rightarrow> 128 word \<Rightarrow> float64 \<Rightarrow> pystr \<Rightarrow> severity \<Rightarrow> alert" where
  "alert_record api code confidence root_cause fix' rnd now fp sev =
     \<lparr>a_id = uuid4_text rnd, a_service = f_service api, a_system = f_system api,
      a_endpoint = f_endpoint api, a_api_finding_id = f_id api, a_code_finding_id = f_id code,
      a_api_error = f_type api, a_code_issue = f_type code, a_file = f_file code,
      a_line = f_line code, a_severity = severity_value sev,
      a_confidence = NFloat confidence, a_root_cause = root_cause,
      a_recommended_fix = fix', a_timestamp = NFloat now,
      a_fingerprint = fp, a_trace_id = text_or (f_trace_id api) (f_trace_id code),
      a_context = [(lit ''api_context'', VDict (f_context api)),
                   (lit ''code_context'', VDict (f_context code))]\<rparr>"

text \<open>
  What a pair of valid findings needs beyond validity: no empty text where an alert refuses it,
  and texts that can be encoded.
\<close>

definition pair_ok :: "finding \<Rightarrow> finding \<Rightarrow> bool" where
  "pair_ok api code \<longleftrightarrow>
     f_endpoint api \<noteq> Some [] \<and> f_file code \<noteq> Some [] \<and>
     text_or (f_trace_id api) (f_trace_id code) \<noteq> Some [] \<and>
     returns (compute_fingerprint (alert_parts api code))"

lemma opt_text1_ok_iff: "opt_text1_ok k x \<longleftrightarrow> opt_text_ok k x \<and> x \<noteq> Some []"
  by (auto simp: opt_text1_ok_def opt_text_ok_def split: option.splits)

lemma opt_text_ok_text_or: "opt_text_ok k x \<Longrightarrow> opt_text_ok k y \<Longrightarrow> opt_text_ok k (text_or x y)"
  by (simp add: text_or_def)

lemma finding_severity_of: "finding_valid f \<Longrightarrow> \<exists>s. finding_severity f = Inr s"
  by (auto simp: finding_valid_def finding_severity_def returns_iff)

lemma new_correlated_alert_Inr:
  assumes "finding_valid api" "finding_valid code" "text_ok 4000 root_cause" "text_ok 4000 fix'"
    and "confidence_ok (NFloat confidence)" "timestamp_ok (NFloat now)"
  shows "new_correlated_alert api code confidence root_cause fix' rnd now = Inr a \<longleftrightarrow>
    pair_ok api code \<and>
    (\<exists>fp sa sc. compute_fingerprint (alert_parts api code) = Inr fp \<and>
       finding_severity api = Inr sa \<and> finding_severity code = Inr sc \<and>
       a = alert_record api code confidence root_cause fix' rnd now fp (max sa sc))"
proof -
  have valid: "alert_valid (alert_record api code confidence root_cause fix' rnd now fp sev) \<longleftrightarrow>
      f_endpoint api \<noteq> Some [] \<and> f_file code \<noteq> Some [] \<and>
      text_or (f_trace_id api) (f_trace_id code) \<noteq> Some []"
    if "compute_fingerprint (alert_parts api code) = Inr fp" for fp sev
    using assms compute_fingerprint_ok [OF that]
    by (auto simp: alert_valid_def alert_record_def finding_valid_def opt_text1_ok_iff
        opt_text_ok_text_or uuid4_text_ok)
  show ?thesis
    using valid
    by (auto simp: new_correlated_alert_def bind_r_Inr_iff alert_ctor_Inr max_severity_is_max
        alert_parts_def [symmetric] alert_record_def [symmetric] finding_severity_def pair_ok_def
        returns_iff)
qed

section \<open>Errors of the factory\<close>

lemma check_value_errors:
  "check_uuid n v = Inl e \<Longrightarrow> is_value_error e"
  "check_text n k v = Inl e \<Longrightarrow> is_value_error e"
  "check_opt_text1 n k v = Inl e \<Longrightarrow> is_value_error e"
  "check_line v = Inl e \<Longrightarrow> is_value_error e"
  "check_fingerprint v = Inl e \<Longrightarrow> is_value_error e"
  "check_context v = Inl e \<Longrightarrow> is_value_error e"
  by (auto simp: check_uuid_def check_text_def check_opt_text1_def check_line_def
      check_fingerprint_def check_context_def split: pyval.splits if_splits)

lemma enum_value_errors:
  "check_member finding_type_of v = Inl e \<Longrightarrow> is_value_error e"
  "check_severity (VStr s) = Inl e \<Longrightarrow> is_value_error e"
  by (auto simp: check_member_def check_severity_def bind_r_Inl_iff finding_type_of_def
      severity_from_string_def dest!: enum_of_error split: pyval.splits)

lemma check_confidence_not_Inl: "confidence_ok n \<Longrightarrow> check_confidence (val_of_num n) \<noteq> Inl e"
  using check_confidence_Inr [of "val_of_num n" n] by auto

lemma check_timestamp_not_Inl: "timestamp_ok n \<Longrightarrow> check_timestamp (val_of_num n) \<noteq> Inl e"
  using check_timestamp_Inr [of "val_of_num n" n] by auto

lemma alert_ctor_error:
  assumes "alert_ctor a = Inl e" "confidence_ok (a_confidence a)" "timestamp_ok (a_timestamp a)"
  shows "is_value_error e"
  using assms
  by (auto simp: alert_ctor_def alert_post_init_def alert_to_dict_def bind_r_Inl_iff
      check_confidence_not_Inl check_timestamp_not_Inl dest: check_value_errors enum_value_errors)

lemma parts_text_error: "parts_text ps = Inl e \<Longrightarrow> is_value_error e"
proof (induction ps)
  case (Cons p ps)
  then show ?case
    by (cases p rule: part_text.cases) (auto simp: bind_r_Inl_iff split: if_splits)
qed simp

lemma compute_fingerprint_error: "compute_fingerprint ps = Inl e \<Longrightarrow> is_value_error e"
  by (auto simp: compute_fingerprint_def bind_r_Inl_iff dest!: parts_text_error utf8_encode_error)

text \<open>Every exception of the factory on a pair of valid findings is a \<open>ValueError\<close>.\<close>

lemma new_correlated_alert_error:
  assumes "finding_valid api" "finding_valid code"
    and "confidence_ok (NFloat confidence)" "timestamp_ok (NFloat now)"
    and "new_correlated_alert api code confidence root_cause fix' rnd now = Inl e"
  shows "is_value_error e"
  using assms(5) finding_severity_of [OF assms(1)] finding_severity_of [OF assms(2)] assms(3,4)
  by (auto simp: new_correlated_alert_def bind_r_Inl_iff finding_severity_def
      dest: compute_fingerprint_error alert_ctor_error)

section \<open>Produced alerts can be printed\<close>

lemma json_ok_val [simp]: "json_ok (val_of_text x)"
  by (simp add: val_of_text_def split: option.splits)

lemma line_json_ok:
  "compute_fingerprint (alert_parts api code) = Inr fp \<Longrightarrow> json_ok (val_of_int (f_line code))"
  by (auto simp: compute_fingerprint_def alert_parts_def bind_r_Inr_iff val_of_int_def
      split: option.splits if_splits)

lemma confidence_ok_finite: "confidence_ok (NFloat x) \<Longrightarrow> finite_f x"
  by (simp add: confidence_ok_def num_float_def)

lemma timestamp_ok_finite: "timestamp_ok (NFloat x) \<Longrightarrow> finite_f x"
  by (simp add: timestamp_ok_def num_float_def)

lemma alert_record_to_json:
  assumes "finding_valid api" "finding_valid code"
    and "confidence_ok (NFloat confidence)" "timestamp_ok (NFloat now)"
    and "compute_fingerprint (alert_parts api code) = Inr fp"
  shows "returns (alert_to_json (alert_record api code confidence rc fix' rnd now fp sev))"
  using line_json_ok [OF assms(5)] finding_valid_context [OF assms(1)] finding_valid_context [OF assms(2)]
    confidence_ok_finite [OF assms(3)] timestamp_ok_finite [OF assms(4)]
  by (simp add: alert_to_json_def json_dumps_def alert_to_dict_def alert_record_def)

end
