(* ===== verification/Effects.thy ===== *)
theory Effects
  imports PyStr PyFloat "HOL-Library.Word"
begin

text \<open>
  Everything the program asks of the outside is a function of an environment \<open>'w env\<close> over a
  world \<open>'w\<close> of any type: the clocks, the random bits of \<open>uuid4\<close>, sleeping, the stop event and
  the commands sent to the Redis server.  An operation of the code is an action
  \<open>'w \<Rightarrow> 'a result \<times> 'w\<close>, so the order of its effects is the order in which it passes the world
  on; an exception keeps the effects before it.
\<close>

section \<open>Redis commands and replies\<close>

datatype redis_cmd =
    Ping
  | LPush pystr pystr
  | BRPop pystr int
  | Publish pystr pystr
  | SetEx pystr int pystr
  | SetNxEx pystr pystr int
  | Exists pystr
  | EvalRelease pystr pystr

datatype redis_reply =
    RNone
  | RBool bool
  | RInt int
  | RPair pystr pystr

text \<open>Truth value of a reply, as \<open>bool(reply)\<close> or \<open>if reply\<close>.\<close>

fun truthy :: "redis_reply \<Rightarrow> bool" where
  "truthy RNone = False"
| "truthy (RBool b) = b"
| "truthy (RInt i) = (i \<noteq> 0)"
| "truthy (RPair _ _) = True"

section \<open>Environments and actions\<close>

record 'w env =
  e_time :: "'w \<Rightarrow> float64 \<times> 'w"
  e_monotonic :: "'w \<Rightarrow> float64 \<times> 'w"
  e_uuid :: "'w \<Rightarrow> 128 word \<times> 'w"
  e_sleep :: "float64 \<Rightarrow> 'w \<Rightarrow> 'w"
  e_stopped :: "'w \<Rightarrow> bool \<times> 'w"
  e_stop_wait :: "float64 \<Rightarrow> 'w \<Rightarrow> 'w"
  e_redis :: "redis_cmd \<Rightarrow> 'w \<Rightarrow> redis_reply result \<times> 'w"

type_synonym ('w, 'a) act = "'w \<Rightarrow> 'a result \<times> 'w"

definition ret :: "'a \<Rightarrow> ('w, 'a) act" where
  "ret x w = (Inr x, w)"

definition throw :: "py_exn \<Rightarrow> ('w, 'a) act" where
  "throw e w = (Inl e, w)"

definition of_result :: "'a result \<Rightarrow> ('w, 'a) act" where
  "of_result r w = (r, w)"

definition bind_a :: "('w, 'a) act \<Rightarrow> ('a \<Rightarrow> ('w, 'b) act) \<Rightarrow> ('w, 'b) act" where
  "bind_a m f w = (case m w of (Inl e, w') \<Rightarrow> (Inl e, w') | (Inr x, w') \<Rightarrow> f x w')"

definition catch_a :: "('w, 'a) act \<Rightarrow> (py_exn \<Rightarrow> ('w, 'a) act) \<Rightarrow> ('w, 'a) act" where
  "catch_a m h w = (case m w of (Inl e, w') \<Rightarrow> h e w' | (Inr x, w') \<Rightarrow> (Inr x, w'))"

definition reads :: "('w \<Rightarrow> 'a \<times> 'w) \<Rightarrow> ('w, 'a) act" where
  "reads f w = (case f w of (x, w') \<Rightarrow> (Inr x, w'))"

definition does :: "('w \<Rightarrow> 'w) \<Rightarrow> ('w, unit) act" where
  "does f w = (Inr (), f w)"

named_theorems act_simps "unfolding of actions"

declare ret_def [act_simps] throw_def [act_simps] of_result_def [act_simps] bind_a_def [act_simps]
  catch_a_def [act_simps] reads_def [act_simps] does_def [act_simps]

lemma bind_a_cases:
  obtains (raises) e w' where "m w = (Inl e, w')" "bind_a m f w = (Inl e, w')"
    | (continues) x w' where "m w = (Inr x, w')" "bind_a m f w = f x w'"
  by (cases "m w"; cases "fst (m w)") (auto simp: bind_a_def)

lemma bind_a_Inr_iff:
  "bind_a m f w = (Inr y, w2) \<longleftrightarrow> (\<exists>x w1. m w = (Inr x, w1) \<and> f x w1 = (Inr y, w2))"
  by (auto simp: bind_a_def split: prod.splits sum.splits)

lemma bind_a_ret [simp]: "bind_a (ret x) f = f x" "bind_a m ret = m"
  by (auto simp: act_simps fun_eq_iff split: prod.splits sum.splits)

lemma bind_a_assoc: "bind_a (bind_a m f) g = bind_a m (\<lambda>x. bind_a (f x) g)"
  by (auto simp: act_simps fun_eq_iff split: prod.splits sum.splits)

lemma catch_a_throw [simp]: "catch_a (throw e) h = h e" "catch_a (ret x) h = ret x"
  by (auto simp: act_simps)

section \<open>What an action keeps\<close>

text \<open>\<open>keeps I m\<close>: the action \<open>m\<close> preserves the invariant \<open>I\<close> of the world, whatever its outcome.\<close>

definition keeps :: "('w \<Rightarrow> bool) \<Rightarrow> ('w, 'a) act \<Rightarrow> bool" where
  "keeps I m \<longleftrightarrow> (\<forall>w. I w \<longrightarrow> I (snd (m w)))"

named_theorems keeps_intros "invariants of actions"

lemma keepsI: "(\<And>w. I w \<Longrightarrow> I (snd (m w))) \<Longrightarrow> keeps I m"
  by (simp add: keeps_def)

lemma keepsD: "keeps I m \<Longrightarrow> I w \<Longrightarrow> m w = (r, w') \<Longrightarrow> I w'"
  by (metis keeps_def snd_conv)

lemma keeps_ret [keeps_intros]: "keeps I (ret x)"
  by (simp add: keeps_def ret_def)

lemma keeps_throw [keeps_intros]: "keeps I (throw e)"
  by (simp add: keeps_def throw_def)

lemma keeps_of_result [keeps_intros]: "keeps I (of_result r)"
  by (simp add: keeps_def of_result_def)

lemma keeps_bind [keeps_intros]: "keeps I m \<Longrightarrow> (\<And>x. keeps I (f x)) \<Longrightarrow> keeps I (bind_a m f)"
  by (auto simp: keeps_def bind_a_def split: prod.splits sum.splits)

lemma keeps_catch [keeps_intros]: "keeps I m \<Longrightarrow> (\<And>e. keeps I (h e)) \<Longrightarrow> keeps I (catch_a m h)"
  by (auto simp: keeps_def catch_a_def split: prod.splits sum.splits)

lemma keeps_reads: "(\<And>w. I w \<Longrightarrow> I (snd (f w))) \<Longrightarrow> keeps I (reads f)"
  by (auto simp: keeps_def reads_def split: prod.splits) (metis snd_conv)

lemma keeps_does: "(\<And>w. I w \<Longrightarrow> I (f w)) \<Longrightarrow> keeps I (does f)"
  by (simp add: keeps_def does_def)

lemma keeps_if [keeps_intros]: "keeps I a \<Longrightarrow> keeps I b \<Longrightarrow> keeps I (if c then a else b)"
  by simp

end
