(* ===== verification/RedisClient.thy ===== *)
theory RedisClient
  imports Effects PyUuid
begin

text \<open>
  \<open>src/watchers/redis_client.py\<close>: the bounded retry \<open>_with_retry\<close>, the queue and record
  operations and the alert claims.  The server is \<open>e_redis\<close> of the environment; what the
  code relies on of it is the locale \<open>redis_server\<close>, with the documented effect and reply of
  each command.  A failed command may or may not have reached the server.
\<close>

section \<open>Retrying\<close>

definition retryable :: "py_exn \<Rightarrow> bool" where
  "retryable e \<longleftrightarrow> e = RedisConnectionError \<or> e = RedisTimeoutError"

definition is_redis_error :: "py_exn \<Rightarrow> bool" where
  "is_redis_error e = (case e of RedisConnectionError \<Rightarrow> True | RedisTimeoutError \<Rightarrow> True
     | RedisOtherError _ \<Rightarrow> True | _ \<Rightarrow> False)"

text \<open>\<open>base_delay * (2 ** (attempt - 1))\<close>\<close>

definition retry_delay :: "float64 \<Rightarrow> nat \<Rightarrow> float64 result" where
  "retry_delay base_delay attempt =
     bind_r (num_float (NInt (2 ^ (attempt - 1)))) (\<lambda>k. Inr (fmul base_delay k))"

text \<open>The loop over the attempts that are left, and the code after it.\<close>

fun retry_loop ::
  "'w env \<Rightarrow> ('w, 'a) act \<Rightarrow> nat \<Rightarrow> float64 \<Rightarrow> nat list \<Rightarrow> py_exn option \<Rightarrow> ('w, 'a) act" where
  "retry_loop E operation max_attempts base_delay [] last_error w =
     (case last_error of
        None \<Rightarrow> (Inl (RuntimeError ''Redis operation failed without an exception''), w)
      | Some e \<Rightarrow> (Inl e, w))"
| "retry_loop E operation max_attempts base_delay (attempt # attempts) last_error w =
     (case operation w of
        (Inr x, w') \<Rightarrow> (Inr x, w')
      | (Inl e, w') \<Rightarrow>
          if retryable e then
            (if attempt = max_attempts
             then retry_loop E operation max_attempts base_delay [] (Some e) w'
             else (case retry_delay base_delay attempt of
                 Inl e' \<Rightarrow> (Inl e', w')
               | Inr delay \<Rightarrow>
                   retry_loop E operation max_attempts base_delay attempts (Some e)
                     (e_sleep E delay w')))
          else (Inl e, w'))"

definition with_retry :: "'w env \<Rightarrow> ('w, 'a) act \<Rightarrow> int \<Rightarrow> float64 \<Rightarrow> ('w, 'a) act" where
  "with_retry E operation max_attempts base_delay w =
     (if max_attempts < 1 then (Inl (ValueError ''max_attempts must be positive''), w)
      else retry_loop E operation (nat max_attempts) base_delay
             [1..<nat max_attempts + 1] None w)"

text \<open>\<open>_with_retry(operation)\<close> with the default arguments, as every caller has it.\<close>

definition retry :: "'w env \<Rightarrow> ('w, 'a) act \<Rightarrow> ('w, 'a) act" where
  "retry E operation = with_retry E operation 3 (fl (1 / 2))"

definition command :: "'w env \<Rightarrow> redis_cmd \<Rightarrow> ('w, redis_reply) act" where
  "command E c = e_redis E c"

section \<open>Operations\<close>

definition ping :: "'w env \<Rightarrow> ('w, bool) act" where
  "ping E =
     catch_a (bind_a (command E Ping) (\<lambda>r. ret (truthy r)))
       (\<lambda>e. if is_redis_error e then ret False else throw e)"

text \<open>The polling loop; \<open>None\<close> when the fuel is used up before the loop ends.\<close>

definition fmax0 :: "float64 \<Rightarrow> float64" where
  "fmax0 x = (if flt (Fin 0) x then x else Fin 0)"

fun wait_loop :: "nat \<Rightarrow> 'w env \<Rightarrow> float64 \<Rightarrow> float64 \<Rightarrow> 'w \<Rightarrow> (unit result \<times> 'w) option" where
  "wait_loop 0 E check_interval deadline w = None"
| "wait_loop (Suc n) E check_interval deadline w =
     (case e_monotonic E w of (now, w1) \<Rightarrow>
        if \<not> flt now deadline
        then Some (Inl (RuntimeError ''Redis was unavailable''), w1)
        else (case ping E w1 of
            (Inl e, w2) \<Rightarrow> Some (Inl e, w2)
          | (Inr True, w2) \<Rightarrow> Some (Inr (), w2)
          | (Inr False, w2) \<Rightarrow>
              (case e_monotonic E w2 of (now', w3) \<Rightarrow>
                 wait_loop n E check_interval deadline
                   (e_sleep E (fmin check_interval (fmax0 (fsub deadline now'))) w3))))"

definition wait_for_redis ::
  "nat \<Rightarrow> 'w env \<Rightarrow> float64 \<Rightarrow> float64 \<Rightarrow> 'w \<Rightarrow> (unit result \<times> 'w) option" where
  "wait_for_redis fuel E timeout_secs check_interval w =
     (if fle timeout_secs (Fin 0) \<or> fle check_interval (Fin 0)
      then Some (Inl (ValueError ''Redis wait timeouts must be positive''), w)
      else (case e_monotonic E w of (now, w1) \<Rightarrow>
        wait_loop fuel E check_interval (fadd now timeout_secs) w1))"

definition findings_queue :: pystr where
  "findings_queue = lit ''watchtower:findings''"

definition publish_channel :: pystr where
  "publish_channel = lit ''watchtower:alerts''"

text \<open>\<open>x or default\<close> on an optional queue or channel.\<close>

definition target_or :: "pystr option \<Rightarrow> pystr \<Rightarrow> pystr" where
  "target_or x d = (case x of None \<Rightarrow> d | Some s \<Rightarrow> if s = [] then d else s)"

definition push_finding :: "'w env \<Rightarrow> pystr \<Rightarrow> pystr option \<Rightarrow> ('w, unit) act" where
  "push_finding E finding_json queue =
     bind_a (retry E (command E (LPush (target_or queue findings_queue) finding_json)))
       (\<lambda>_. ret ())"

text \<open>\<open>math.ceil\<close> of a float.\<close>

fun fceil :: "float64 \<Rightarrow> int result" where
  "fceil (Fin x) = Inr \<lceil>x\<rceil>"
| "fceil NaN = Inl (ValueError ''cannot convert float NaN to integer'')"
| "fceil _ = Inl OverflowError"

definition pop_once :: "'w env \<Rightarrow> float64 \<Rightarrow> pystr \<Rightarrow> ('w, pystr option) act" where
  "pop_once E timeout_secs target =
     bind_a (of_result (fceil timeout_secs)) (\<lambda>secs.
     bind_a (command E (BRPop target (max 1 secs))) (\<lambda>result.
       ret (case result of RPair _ v \<Rightarrow> Some v | _ \<Rightarrow> None)))"

definition pop_finding :: "'w env \<Rightarrow> float64 \<Rightarrow> pystr option \<Rightarrow> ('w, pystr option) act" where
  "pop_finding E timeout_secs queue =
     (if fle timeout_secs (Fin 0) then throw (ValueError ''timeout_secs must be positive'')
      else retry E (pop_once E timeout_secs (target_or queue findings_queue)))"

definition publish_alert :: "'w env \<Rightarrow> pystr \<Rightarrow> pystr option \<Rightarrow> ('w, unit) act" where
  "publish_alert E alert_json channel =
     bind_a (retry E (command E (Publish (target_or channel publish_channel) alert_json)))
       (\<lambda>_. ret ())"

definition set_with_ttl :: "'w env \<Rightarrow> pystr \<Rightarrow> pystr \<Rightarrow> int \<Rightarrow> ('w, unit) act" where
  "set_with_ttl E key v ttl_secs =
     (if ttl_secs < 1 then throw (ValueError ''ttl_secs must be positive'')
      else bind_a (retry E (command E (SetEx key ttl_secs v))) (\<lambda>_. ret ()))"

definition key_exists :: "'w env \<Rightarrow> pystr \<Rightarrow> ('w, bool) act" where
  "key_exists E key = bind_a (retry E (command E (Exists key))) (\<lambda>r. ret (truthy r))"

definition finding_key :: "pystr \<Rightarrow> pystr" where
  "finding_key finding_id = lit ''watchtower:findings:record:'' @ finding_id"

definition alert_key :: "pystr \<Rightarrow> pystr" where
  "alert_key fingerprint = lit ''watchtower:alerts:record:'' @ fingerprint"

definition cooldown_key :: "pystr \<Rightarrow> pystr" where
  "cooldown_key fingerprint = lit ''watchtower:alert_cooldown:'' @ fingerprint"

definition store_finding_record :: "'w env \<Rightarrow> pystr \<Rightarrow> pystr \<Rightarrow> int \<Rightarrow> ('w, unit) act" where
  "store_finding_record E finding_id finding_json ttl_secs =
     set_with_ttl E (finding_key finding_id) finding_json ttl_secs"

definition store_alert_record :: "'w env \<Rightarrow> pystr \<Rightarrow> pystr \<Rightarrow> int \<Rightarrow> ('w, unit) act" where
  "store_alert_record E alert_fingerprint alert_json ttl_secs =
     set_with_ttl E (alert_key alert_fingerprint) alert_json ttl_secs"

text \<open>\<open>uuid.uuid4().hex\<close>\<close>

definition claim_token :: "128 word \<Rightarrow> pystr" where
  "claim_token bits = hex_fixed 32 (unat (uuid4_bits bits))"

definition claim_alert :: "'w env \<Rightarrow> pystr \<Rightarrow> int \<Rightarrow> ('w, pystr option) act" where
  "claim_alert E fingerprint cooldown_secs =
     (if cooldown_secs < 1 then throw (ValueError ''cooldown_secs must be positive'')
      else bind_a (reads (e_uuid E)) (\<lambda>bits.
        bind_a (retry E (command E
                  (SetNxEx (cooldown_key fingerprint) (claim_token bits) cooldown_secs)))
          (\<lambda>claimed. ret (if truthy claimed then Some (claim_token bits) else None))))"

definition release_alert_claim :: "'w env \<Rightarrow> pystr \<Rightarrow> pystr \<Rightarrow> ('w, bool) act" where
  "release_alert_claim E fingerprint token =
     (if token = [] then throw (ValueError ''claim token is required'')
      else bind_a (retry E (command E (EvalRelease (cooldown_key fingerprint) token)))
        (\<lambda>r. ret (truthy r)))"

definition is_alert_suppressed :: "'w env \<Rightarrow> pystr \<Rightarrow> ('w, bool) act" where
  "is_alert_suppressed E fingerprint = key_exists E (cooldown_key fingerprint)"

definition suppress_alert :: "'w env \<Rightarrow> pystr \<Rightarrow> int \<Rightarrow> ('w, unit) act" where
  "suppress_alert E fingerprint cooldown_secs =
     set_with_ttl E (cooldown_key fingerprint) (lit ''1'') cooldown_secs"

section \<open>What the retry does\<close>

text \<open>The world after \<open>k\<close> failed attempts from attempt \<open>a\<close> on, with the sleeps between them.\<close>

fun after_failures ::
  "'w env \<Rightarrow> ('w, 'a) act \<Rightarrow> float64 \<Rightarrow> nat \<Rightarrow> nat \<Rightarrow> 'w \<Rightarrow> 'w option" where
  "after_failures E operation base_delay 0 a w = Some w"
| "after_failures E operation base_delay (Suc k) a w =
     (case operation w of
        (Inr x, w') \<Rightarrow> None
      | (Inl e, w') \<Rightarrow>
          (case retry_delay base_delay a of
             Inl _ \<Rightarrow> None
           | Inr delay \<Rightarrow>
               if retryable e
               then after_failures E operation base_delay k (Suc a) (e_sleep E delay w') else None))"

lemma retry_loop_outcome:
  assumes "\<forall>b. a \<le> b \<and> b < m \<longrightarrow> returns (retry_delay base b)" "a \<le> m"
  shows "\<exists>k v. a + k \<le> m \<and> after_failures E op base k a w = Some v \<and>
     retry_loop E op m base [a..<m + 1] prev w = op v \<and>
     (\<forall>e v'. op v = (Inl e, v') \<and> retryable e \<longrightarrow> a + k = m)"
  using assms
proof (induction "m - a" arbitrary: a w prev)
  case 0
  then show ?case
    by (intro exI [of _ 0] exI [of _ w]) (auto split: prod.splits sum.splits)
next
  case (Suc n)
  then have up: "[a..<Suc m] = a # [Suc a..<Suc m]" and am: "a < m"
    by (simp_all add: upt_conv_Cons)
  obtain r w' where op: "op w = (r, w')" by force
  show ?case
  proof (cases "\<exists>e. r = Inl e \<and> retryable e")
    case True
    then obtain e where e: "r = Inl e" "retryable e" by blast
    obtain d where d: "retry_delay base a = Inr d"
      using Suc.prems am by (auto simp: returns_iff)
    have "n = m - Suc a" "\<forall>b. Suc a \<le> b \<and> b < m \<longrightarrow> returns (retry_delay base b)" "Suc a \<le> m"
      using Suc(2,3) am by auto
    from Suc(1) [OF this, of "e_sleep E d w'" "Some e"]
    obtain k v where "Suc a + k \<le> m" "after_failures E op base k (Suc a) (e_sleep E d w') = Some v"
        "retry_loop E op m base [Suc a..<m + 1] (Some e) (e_sleep E d w') = op v"
        "\<forall>e v'. op v = (Inl e, v') \<and> retryable e \<longrightarrow> Suc a + k = m"
      by blast
    then show ?thesis
      using op e d am by (intro exI [of _ "Suc k"] exI [of _ v]) (auto simp: up simp del: upt_Suc)
  next
    case False
    then show ?thesis
      using op am by (intro exI [of _ 0] exI [of _ w])
        (auto simp: up simp del: upt_Suc split: sum.splits)
  qed
qed

lemma with_retry_outcome:
  assumes "1 \<le> m" "\<forall>b. 1 \<le> b \<and> b < nat m \<longrightarrow> returns (retry_delay base b)"
  shows "\<exists>k v. k < nat m \<and> after_failures E op base k 1 w = Some v \<and>
     with_retry E op m base w = op v \<and>
     (\<forall>e v'. op v = (Inl e, v') \<and> retryable e \<longrightarrow> Suc k = nat m)"
proof -
  have "1 \<le> nat m" using assms(1) by simp
  from retry_loop_outcome [OF assms(2) this, of E op w None]
  obtain k v where "1 + k \<le> nat m" "after_failures E op base k 1 w = Some v"
    "retry_loop E op (nat m) base [1..<nat m + 1] None w = op v"
    "\<forall>e v'. op v = (Inl e, v') \<and> retryable e \<longrightarrow> 1 + k = nat m"
    by blast
  with assms show ?thesis by (intro exI [of _ k] exI [of _ v]) (auto simp: with_retry_def)
qed

lemma after_failures_invariant:
  assumes step: "\<And>i u e u' d. Q i u \<Longrightarrow> op u = (Inl e, u') \<Longrightarrow> retryable e \<Longrightarrow> Q (Suc i) (e_sleep E d u')"
  shows "after_failures E op base k a w = Some v \<Longrightarrow> Q i w \<Longrightarrow> Q (i + k) v"
proof (induction k arbitrary: a i w)
  case (Suc k)
  then obtain e w' d where "op w = (Inl e, w')" "retryable e"
    and af: "after_failures E op base k (Suc a) (e_sleep E d w') = Some v"
    by (auto split: prod.splits sum.splits if_splits)
  with step [of i w e w' d] Suc.prems(2) have "Q (Suc i) (e_sleep E d w')" by simp
  from Suc.IH [OF af this] show ?case by simp
qed simp

lemma retry_delay_returns: "b < 3 \<Longrightarrow> returns (retry_delay base b)"
proof -
  assume "b < 3"
  then have "b - 1 = 0 \<or> b - 1 = 1" by linarith
  moreover have "returns (num_float (NInt 1))" "returns (num_float (NInt 2))" by code_simp+
  ultimately show ?thesis
    by (auto simp: retry_delay_def bind_r_def split: sum.splits)
qed

text \<open>
  The default retry: at most two failed attempts, each of them retryable and followed by a
  sleep, and then an attempt whose outcome is the outcome of the whole; an invariant that
  counts the failed attempts holds before that last attempt.
\<close>

lemma retry_outcome:
  assumes step: "\<And>i u e u' d. Q i u \<Longrightarrow> op u = (Inl e, u') \<Longrightarrow> retryable e \<Longrightarrow> Q (Suc i) (e_sleep E d u')"
    and init: "Q 0 w"
  shows "\<exists>k v. k < 3 \<and> Q k v \<and> retry E op w = op v"
proof -
  have "\<forall>b. 1 \<le> b \<and> b < nat 3 \<longrightarrow> returns (retry_delay (fl (1 / 2)) b)"
    by (simp add: retry_delay_returns)
  from with_retry_outcome [OF _ this, of E op w]
  obtain k v where "k < 3" "after_failures E op (fl (1 / 2)) k 1 w = Some v" "retry E op w = op v"
    by (auto simp: retry_def)
  with after_failures_invariant [where Q = Q, OF step _ init] show ?thesis by force
qed

lemma keeps_retry [keeps_intros]:
  assumes "keeps I op" "\<And>d w. I w \<Longrightarrow> I (e_sleep E d w)"
  shows "keeps I (retry E op)"
proof (rule keepsI)
  fix w assume "I w"
  with retry_outcome [of "\<lambda>_. I" op E w] assms obtain v where "I v" "retry E op w = op v"
    by (metis keepsD)
  with assms(1) show "I (snd (retry E op w))" by (simp add: keeps_def)
qed

section \<open>The server\<close>

text \<open>
  The part of the data the program uses: string keys with a value and a deadline, and lists.
  Expired keys are as good as absent.
\<close>

record keyspace =
  ks_strings :: "pystr \<Rightarrow> (pystr \<times> rat) option"
  ks_lists :: "pystr \<Rightarrow> pystr list"

definition ks_get :: "keyspace \<Rightarrow> rat \<Rightarrow> pystr \<Rightarrow> pystr option" where
  "ks_get s t k =
     (case ks_strings s k of Some (v, d) \<Rightarrow> if t < d then Some v else None | None \<Rightarrow> None)"

definition ks_put :: "pystr \<Rightarrow> pystr \<Rightarrow> rat \<Rightarrow> keyspace \<Rightarrow> keyspace" where
  "ks_put k v d s = s\<lparr>ks_strings := (ks_strings s)(k \<mapsto> (v, d))\<rparr>"

text \<open>The Lua script of \<open>release_alert_claim\<close>: does it delete the key that holds \<open>stored\<close>?\<close>

definition release_script :: "pystr option \<Rightarrow> pystr \<Rightarrow> bool" where
  "release_script stored token \<longleftrightarrow> stored = Some token"

fun redis_effect :: "redis_cmd \<Rightarrow> rat \<Rightarrow> keyspace \<Rightarrow> keyspace" where
  "redis_effect (LPush k v) t s = s\<lparr>ks_lists := (ks_lists s)(k := v # ks_lists s k)\<rparr>"
| "redis_effect (BRPop k _) t s = s\<lparr>ks_lists := (ks_lists s)(k := butlast (ks_lists s k))\<rparr>"
| "redis_effect (SetEx k ttl v) t s = ks_put k v (t + of_int ttl) s"
| "redis_effect (SetNxEx k v ttl) t s =
     (if ks_get s t k = None then ks_put k v (t + of_int ttl) s else s)"
| "redis_effect (EvalRelease k token) t s =
     (if release_script (ks_get s t k) token
      then s\<lparr>ks_strings := (ks_strings s)(k := None)\<rparr> else s)"
| "redis_effect _ t s = s"

fun redis_replies :: "redis_cmd \<Rightarrow> rat \<Rightarrow> keyspace \<Rightarrow> redis_reply \<Rightarrow> bool" where
  "redis_replies Ping t s r = (r = RBool True)"
| "redis_replies (LPush k v) t s r = (r = RInt (int (length (ks_lists s k)) + 1))"
| "redis_replies (BRPop k _) t s r =
     (r = (if ks_lists s k = [] then RNone else RPair k (last (ks_lists s k))))"
| "redis_replies (Publish ch m) t s r = (case r of RInt n \<Rightarrow> 0 \<le> n | _ \<Rightarrow> False)"
| "redis_replies (SetEx k ttl v) t s r = (r = RBool True)"
| "redis_replies (SetNxEx k v ttl) t s r = (r = (if ks_get s t k = None then RBool True else RNone))"
| "redis_replies (Exists k) t s r = (r = RInt (if ks_get s t k = None then 0 else 1))"
| "redis_replies (EvalRelease k token) t s r =
     (r = RInt (if release_script (ks_get s t k) token then 1 else 0))"

text \<open>
  What is relied on: an answered command took effect once, at some time during the call; a
  failed one raised an error of the client library and took effect once or not at all; sleeping
  and drawing random bits leave the data alone; the clock of the server does not go back.
\<close>

locale redis_server =
  fixes E :: "'w env" and store :: "'w \<Rightarrow> keyspace" and clock :: "'w \<Rightarrow> rat"
  assumes answered: "e_redis E c w = (Inr r, w') \<Longrightarrow>
      \<exists>t. clock w \<le> t \<and> t \<le> clock w' \<and> redis_replies c t (store w) r \<and>
          store w' = redis_effect c t (store w)"
    and failed: "e_redis E c w = (Inl e, w') \<Longrightarrow> is_redis_error e \<and> clock w \<le> clock w' \<and>
      (store w' = store w \<or>
       (\<exists>t. clock w \<le> t \<and> t \<le> clock w' \<and> store w' = redis_effect c t (store w)))"
    and sleep_store: "store (e_sleep E d w) = store w"
    and sleep_clock: "clock w \<le> clock (e_sleep E d w)"
    and uuid_store: "store (snd (e_uuid E w)) = store w"
    and uuid_clock: "clock w \<le> clock (snd (e_uuid E w))"
begin

lemma any_outcome:
  assumes "e_redis E c w = (r, w')"
  shows "clock w \<le> clock w' \<and>
    (store w' = store w \<or> (\<exists>t. clock w \<le> t \<and> t \<le> clock w' \<and> store w' = redis_effect c t (store w)))"
proof (cases r)
  case (Inl e)
  with assms failed show ?thesis by blast
next
  case (Inr x)
  with assms answered [of c w x w'] show ?thesis by force
qed

text \<open>A command that cannot change the data up to some time leaves it alone, retried or not.\<close>

lemma retry_unchanged:
  assumes "\<And>t. clock w \<le> t \<Longrightarrow> t \<le> clock w' \<Longrightarrow> redis_effect c t (store w) = store w"
    and "retry E (command E c) w = (r, w')"
  shows "store w' = store w"
proof -
  define I where "I = (\<lambda>u. clock w \<le> clock u \<and> (clock u \<le> clock w' \<longrightarrow> store u = store w))"
  have "keeps I (command E c)"
  proof (rule keepsI)
    fix u assume I: "I u"
    obtain x u' where u': "e_redis E c u = (x, u')" by force
    with any_outcome [OF u'] I assms(1) show "I (snd (command E c u))"
      by (auto simp: I_def command_def)
  qed
  moreover have "I (e_sleep E d u)" if "I u" for d u
    using that sleep_store [of d u] sleep_clock [of u d] by (auto simp: I_def)
  ultimately have "keeps I (retry E (command E c))" by (rule keeps_retry)
  moreover have "I w" by (simp add: I_def)
  ultimately have "I w'" using assms(2) by (metis keepsD)
  then show ?thesis by (simp add: I_def)
qed

text \<open>A retried command that is answered: the last attempt decides, after at most two failures.\<close>

lemma retry_clock: "retry E (command E c) w = (r, w') \<Longrightarrow> clock w \<le> clock w'"
proof -
  have "keeps (\<lambda>u. clock w \<le> clock u) (retry E (command E c))"
    by (rule keeps_retry)
      (auto simp: keeps_def command_def intro: order_trans [OF _ sleep_clock]
        dest: any_outcome order_trans split: prod.splits,
       metis any_outcome order_trans prod.collapse)
  then show "retry E (command E c) w = (r, w') \<Longrightarrow> clock w \<le> clock w'"
    by (metis keepsD order_refl)
qed

lemma retry_last_attempt:
  "\<exists>v. clock w \<le> clock v \<and> retry E (command E c) w = e_redis E c v"
proof -
  have "\<exists>(k::nat) v. k < 3 \<and> clock w \<le> clock v \<and> retry E (command E c) w = command E c v"
  proof (rule retry_outcome [where Q = "\<lambda>k v. clock w \<le> clock v"])
    fix i :: nat and u e u' d
    assume "clock w \<le> clock u" "command E c u = (Inl e, u')"
    with any_outcome [of c u "Inl e" u'] sleep_clock [of u' d] show "clock w \<le> clock (e_sleep E d u')"
      by (auto simp: command_def)
  qed simp
  then show ?thesis by (auto simp: command_def)
qed

text \<open>The claims.\<close>

lemma claim_cases:
  assumes "claim_alert E fp cooldown w = (Inr r, w')"
  obtains bits w0 reply where "1 \<le> cooldown" "e_uuid E w = (bits, w0)"
    "retry E (command E (SetNxEx (cooldown_key fp) (claim_token bits) cooldown)) w0 = (Inr reply, w')"
    "r = (if truthy reply then Some (claim_token bits) else None)"
    "store w0 = store w" "clock w \<le> clock w0"
proof -
  obtain bits w0 where u: "e_uuid E w = (bits, w0)" by force
  with uuid_store [of w] uuid_clock [of w] have "store w0 = store w" "clock w \<le> clock w0" by auto
  with assms u show thesis
    by (auto simp: claim_alert_def throw_def reads_def ret_def bind_a_def
        split: if_splits prod.splits sum.splits intro!: that)
qed

lemma claim_takes:
  assumes "claim_alert E fp cooldown w = (Inr (Some token), w')"
  shows "\<exists>d. ks_strings (store w') (cooldown_key fp) = Some (token, d) \<and> clock w + of_int cooldown \<le> d"
  using assms
proof (cases rule: claim_cases)
  case (1 bits w0 reply)
  from retry_last_attempt [of w0] 1(3) obtain v where v: "clock w0 \<le> clock v"
    "e_redis E (SetNxEx (cooldown_key fp) (claim_token bits) cooldown) v = (Inr reply, w')"
    by metis
  from answered [OF v(2)] 1 v(1) show ?thesis
    by (auto simp: ks_put_def split: if_splits)
qed

lemma claim_refused:
  assumes "ks_strings (store w) (cooldown_key fp) = Some (holder, d)"
    and "claim_alert E fp cooldown w = (Inr r, w')" "clock w' < d"
  shows "r = None \<and> store w' = store w"
  using assms(2)
proof (cases rule: claim_cases)
  case (1 bits w0 reply)
  have live: "ks_get (store w0) t (cooldown_key fp) = Some holder" if "t \<le> clock w'" for t
    using that assms(1,3) 1(5) by (simp add: ks_get_def)
  have same: "store w' = store w0"
    by (rule retry_unchanged [OF _ 1(3)]) (simp add: live)
  define I where "I = (\<lambda>u. clock u \<le> clock w' \<longrightarrow> store u = store w0)"
  have "\<exists>(k::nat) v. k < 3 \<and> I v \<and>
      retry E (command E (SetNxEx (cooldown_key fp) (claim_token bits) cooldown)) w0 =
      command E (SetNxEx (cooldown_key fp) (claim_token bits) cooldown) v"
  proof (rule retry_outcome [where Q = "\<lambda>k. I"])
    fix i :: nat and u e u' s
    assume I: "I u" and c: "command E (SetNxEx (cooldown_key fp) (claim_token bits) cooldown) u = (Inl e, u')"
    then have "clock u' \<le> clock w' \<Longrightarrow> store u' = store w0"
      using any_outcome [of _ u "Inl e" u'] live by (fastforce simp: I_def command_def)
    then show "I (e_sleep E s u')"
      using sleep_store sleep_clock [of u' s] by (simp add: I_def)
  qed (simp add: I_def)
  then obtain v where v: "I v" "e_redis E (SetNxEx (cooldown_key fp) (claim_token bits) cooldown) v = (Inr reply, w')"
    using 1(3) by (auto simp: command_def)
  from answered [OF v(2)] obtain t where t: "clock v \<le> t" "t \<le> clock w'"
    "reply = (if ks_get (store v) t (cooldown_key fp) = None then RBool True else RNone)"
    by auto
  with v(1) have "store v = store w0" by (simp add: I_def)
  with t live [OF t(2)] have "reply = RNone" by simp
  with same 1 show ?thesis by simp
qed

lemma release_cases:
  assumes "release_alert_claim E fp token w = (Inr b, w')"
  obtains reply where "token \<noteq> []"
    "retry E (command E (EvalRelease (cooldown_key fp) token)) w = (Inr reply, w')" "b = truthy reply"
  using assms
  by (auto simp: release_alert_claim_def throw_def ret_def bind_a_def
      split: if_splits prod.splits sum.splits)

lemma release_leaves_others:
  assumes "ks_strings (store w) (cooldown_key fp) = Some (holder, d)" "holder \<noteq> token"
    and "release_alert_claim E fp token w = (r, w')"
  shows "store w' = store w"
proof (cases "token = []")
  case True
  with assms(3) show ?thesis by (simp add: release_alert_claim_def throw_def)
next
  case False
  then obtain reply where "retry E (command E (EvalRelease (cooldown_key fp) token)) w = (reply, w')"
    using assms(3)
    by (auto simp: release_alert_claim_def ret_def bind_a_def split: prod.splits sum.splits)
  then show ?thesis
    by (rule retry_unchanged [rotated]) (simp add: release_script_def ks_get_def assms(1,2))
qed

lemma release_frees:
  assumes "release_alert_claim E fp token w = (Inr True, w')"
  shows "ks_strings (store w') (cooldown_key fp) = None"
  using assms
proof (cases rule: release_cases)
  case (1 reply)
  from retry_last_attempt [of w] 1(2) obtain v where
    "e_redis E (EvalRelease (cooldown_key fp) token) v = (Inr reply, w')" by metis
  from answered [OF this] 1(3) show ?thesis by (auto split: if_splits)
qed

end

end
