(* ===== verification/RedisInterfaces.thy ===== *)
theory RedisInterfaces
  imports RedisClient
begin

text \<open>
  The two interfaces that the other components use of \<open>redis_client.py\<close>: the claims of alerts
  (\<open>alert_claims\<close>) and the queue of findings (\<open>delivery_queue\<close>).  The operations of the code
  provide both over every server that keeps the contract \<open>redis_server\<close>, and over the
  executable reference server \<open>ref_env\<close>, whose faults are scripted.
\<close>

section \<open>Claims\<close>

text \<open>
  \<open>holder w fp\<close> is the token stored for a fingerprint with its deadline.  The laws: a claim that
  returns a token stored it until at least the cooldown later; while a stored token is alive a
  claim returns none and changes nothing; releasing with another token changes nothing;
  a release that reports success frees the fingerprint.
\<close>

locale alert_claims =
  fixes claim :: "pystr \<Rightarrow> int \<Rightarrow> ('w, pystr option) act"
    and release :: "pystr \<Rightarrow> pystr \<Rightarrow> ('w, bool) act"
    and holder :: "'w \<Rightarrow> pystr \<Rightarrow> (pystr \<times> rat) option"
    and clock :: "'w \<Rightarrow> rat"
  assumes takes: "claim fp n w = (Inr (Some token), w') \<Longrightarrow>
      \<exists>d. holder w' fp = Some (token, d) \<and> clock w + of_int n \<le> d"
    and refused: "holder w fp = Some (h, d) \<Longrightarrow> claim fp n w = (Inr r, w') \<Longrightarrow> clock w' < d \<Longrightarrow>
      r = None \<and> holder w' = holder w"
    and leaves_others: "holder w fp = Some (h, d) \<Longrightarrow> h \<noteq> token \<Longrightarrow>
      release fp token w = (b, w') \<Longrightarrow> holder w' = holder w"
    and frees: "release fp token w = (Inr True, w') \<Longrightarrow> holder w' fp = None"
begin

text \<open>Between a successful claim and its deadline nobody else gets the fingerprint.\<close>

lemma exclusive:
  assumes "claim fp n w = (Inr (Some token), w1)" "holder u fp = holder w1 fp"
    and "claim fp m u = (Inr r, u')" "clock u' < clock w + of_int n"
  shows "r = None"
proof -
  obtain d where d: "holder w1 fp = Some (token, d)" "clock w + of_int n \<le> d"
    using takes [OF assms(1)] by blast
  from d(1) assms(2) have "holder u fp = Some (token, d)" by simp
  from refused [OF this assms(3)] d(2) assms(4) show ?thesis by simp
qed

text \<open>A late release by the owner of an expired claim cannot take the claim of the next owner.\<close>

lemma late_release:
  assumes "claim fp n w = (Inr (Some token), w1)" "token \<noteq> old"
    and "release fp old w1 = (b, w2)" "claim fp m w2 = (Inr r, w3)" "clock w3 < clock w + of_int n"
  shows "r = None"
proof -
  obtain d where d: "holder w1 fp = Some (token, d)" "clock w + of_int n \<le> d"
    using takes [OF assms(1)] by blast
  from leaves_others [OF d(1) assms(2,3)] d(1) have "holder w2 fp = Some (token, d)" by simp
  from refused [OF this assms(4)] d(2) assms(5) show ?thesis by simp
qed

end

definition claim_holder :: "('w \<Rightarrow> keyspace) \<Rightarrow> 'w \<Rightarrow> pystr \<Rightarrow> (pystr \<times> rat) option" where
  "claim_holder store w fp = ks_strings (store w) (cooldown_key fp)"

sublocale redis_server \<subseteq> claims: alert_claims
  "claim_alert E" "release_alert_claim E" "claim_holder store" clock
proof
  fix fp n w token w'
  assume "claim_alert E fp n w = (Inr (Some token), w')"
  from claim_takes [OF this]
  show "\<exists>d. claim_holder store w' fp = Some (token, d) \<and> clock w + of_int n \<le> d"
    by (simp add: claim_holder_def)
next
  fix w fp h d n r w'
  assume "claim_holder store w fp = Some (h, d)" "claim_alert E fp n w = (Inr r, w')" "clock w' < d"
  from claim_refused [OF _ this(2,3)] this(1) show "r = None \<and> claim_holder store w' = claim_holder store w"
    by (simp add: claim_holder_def fun_eq_iff)
next
  fix w fp h d token b w'
  assume "claim_holder store w fp = Some (h, d)" "h \<noteq> token" "release_alert_claim E fp token w = (b, w')"
  from release_leaves_others [OF _ this(2,3)] this(1) show "claim_holder store w' = claim_holder store w"
    by (simp add: claim_holder_def fun_eq_iff)
next
  fix fp token w w'
  assume "release_alert_claim E fp token w = (Inr True, w')"
  from release_frees [OF this] show "claim_holder store w' fp = None"
    by (simp add: claim_holder_def)
qed

context redis_server
begin

lemmas claim_exclusive = claims.exclusive
lemmas claim_survives_late_release = claims.late_release
lemmas claim_freed = claims.frees
lemmas claim_kept = claims.leaves_others

end

section \<open>The queue\<close>

text \<open>
  \<open>items w\<close> is the queue, oldest first.  A push that returns put its text in at least once and at
  most three times, a failed one at most three times; a pop takes from the front, after losing
  at most two elements whose replies got lost.
\<close>

locale delivery_queue =
  fixes push :: "pystr \<Rightarrow> ('w, unit) act"
    and pop :: "('w, pystr option) act"
    and items :: "'w \<Rightarrow> pystr list"
  assumes pushed: "push x w = (Inr (), w') \<Longrightarrow>
      \<exists>n. 1 \<le> n \<and> n \<le> 3 \<and> items w' = items w @ replicate n x"
    and push_failed: "push x w = (Inl e, w') \<Longrightarrow> \<exists>n. n \<le> 3 \<and> items w' = items w @ replicate n x"
    and popped: "pop w = (Inr (Some x), w') \<Longrightarrow>
      \<exists>k. k \<le> 2 \<and> drop k (items w) = x # items w'"
    and pop_none: "pop w = (Inr None, w') \<Longrightarrow> items w' = [] \<and> length (items w) \<le> 2"
begin

text \<open>What is popped was in the queue, and what stays behind keeps its order.\<close>

lemma popped_member: "pop w = (Inr (Some x), w') \<Longrightarrow> x \<in> set (items w)"
  by (metis popped in_set_dropD list.set_intros(1))

lemma popped_suffix: "pop w = (Inr (Some x), w') \<Longrightarrow> suffix (items w') (items w)"
  using popped [of w x w'] by (metis append_take_drop_id suffixI suffix_ConsI suffix_appendI suffix_order.refl)

lemma pushed_member: "push x w = (Inr (), w') \<Longrightarrow> x \<in> set (items w')"
  using pushed [of x w w'] by fastforce

end

lemma rev_butlast: "rev (butlast xs) = drop 1 (rev xs)"
  by (induction xs rule: rev_induct) auto

lemma rev_last: "xs \<noteq> [] \<Longrightarrow> rev xs = last xs # rev (butlast xs)"
  by (induction xs rule: rev_induct) auto

definition queue_items :: "('w \<Rightarrow> keyspace) \<Rightarrow> 'w \<Rightarrow> pystr list" where
  "queue_items store w = rev (ks_lists (store w) findings_queue)"

context redis_server
begin

lemma push_attempts:
  "\<exists>v k. k < 3 \<and> (\<exists>n \<le> k. queue_items store v = queue_items store w @ replicate n x) \<and>
     retry E (command E (LPush findings_queue x)) w = e_redis E (LPush findings_queue x) v"
proof -
  define Q where "Q = (\<lambda>(k::nat) v. \<exists>n \<le> k. queue_items store v = queue_items store w @ replicate n x)"
  have "\<exists>k v. k < 3 \<and> Q k v \<and>
      retry E (command E (LPush findings_queue x)) w = command E (LPush findings_queue x) v"
  proof (rule retry_outcome)
    fix i u e u' d
    assume Q: "Q i u" and c: "command E (LPush findings_queue x) u = (Inl e, u')"
    then obtain n where n: "n \<le> i" "queue_items store u = queue_items store w @ replicate n x"
      by (auto simp: Q_def)
    from any_outcome [of "LPush findings_queue x" u "Inl e" u'] c
    have "queue_items store u' = queue_items store u \<or> queue_items store u' = queue_items store u @ [x]"
      by (auto simp: command_def queue_items_def)
    then show "Q (Suc i) (e_sleep E d u')"
    proof
      assume "queue_items store u' = queue_items store u"
      with n show ?thesis by (auto simp: Q_def queue_items_def sleep_store)
    next
      assume "queue_items store u' = queue_items store u @ [x]"
      with n have "queue_items store u' = queue_items store w @ replicate (Suc n) x"
        by (simp add: replicate_append_same)
      with n(1) show ?thesis
        unfolding Q_def by (intro exI [of _ "Suc n"]) (simp add: queue_items_def sleep_store)
    qed
  qed (simp add: Q_def)
  then show ?thesis by (auto simp: command_def Q_def)
qed

lemma push_attempt_end:
  assumes "e_redis E (LPush findings_queue x) v = (r, v')"
  shows "(queue_items store v' = queue_items store v @ [x]) \<or>
    (\<not> returns r \<and> queue_items store v' = queue_items store v)"
proof (cases r)
  case (Inl e)
  with any_outcome [OF assms] show ?thesis by (auto simp: queue_items_def)
next
  case (Inr y)
  with answered [of _ v y v'] assms show ?thesis by (fastforce simp: queue_items_def)
qed

lemma push_end:
  assumes "push_finding E x None w = (r, w')"
  obtains k n where "k < 3" "n \<le> Suc k" "queue_items store w' = queue_items store w @ replicate n x"
    "returns r \<Longrightarrow> 1 \<le> n"
proof -
  obtain v k n where v: "k < 3" "n \<le> k" "queue_items store v = queue_items store w @ replicate n x"
    "retry E (command E (LPush findings_queue x)) w = e_redis E (LPush findings_queue x) v"
    using push_attempts [of w x] by blast
  obtain s v' where s: "e_redis E (LPush findings_queue x) v = (s, v')" by force
  with assms v(4) have w': "w' = v'" "returns r = returns s"
    by (auto simp: push_finding_def target_or_def act_simps split: sum.splits)
  from push_attempt_end [OF s] show thesis
  proof
    assume "queue_items store v' = queue_items store v @ [x]"
    with v have "queue_items store w' = queue_items store w @ replicate (Suc n) x"
      by (simp add: w' replicate_append_same)
    with v(1,2) show thesis by (intro that [of k "Suc n"]) auto
  next
    assume "\<not> returns s \<and> queue_items store v' = queue_items store v"
    with v w' show thesis by (intro that [of k n]) auto
  qed
qed

lemma pop_attempts:
  assumes "fceil t = Inr secs"
  shows "\<exists>v k. k \<le> 2 \<and> queue_items store v = drop k (queue_items store w) \<and>
     retry E (pop_once E t findings_queue) w = pop_once E t findings_queue v"
proof -
  define c where "c = BRPop findings_queue (max 1 secs)"
  define Q where "Q = (\<lambda>(k::nat) v. \<exists>n \<le> k. queue_items store v = drop n (queue_items store w))"
  have once: "pop_once E t findings_queue u =
      (case e_redis E c u of (Inl e, u') \<Rightarrow> (Inl e, u')
       | (Inr r, u') \<Rightarrow> (Inr (case r of RPair _ v \<Rightarrow> Some v | _ \<Rightarrow> None), u'))" for u
    using assms by (simp add: pop_once_def act_simps c_def command_def split: prod.splits sum.splits)
  have "\<exists>k v. k < 3 \<and> Q k v \<and> retry E (pop_once E t findings_queue) w = pop_once E t findings_queue v"
  proof (rule retry_outcome)
    fix i u e u' d
    assume Q: "Q i u" and "pop_once E t findings_queue u = (Inl e, u')"
    then have "e_redis E c u = (Inl e, u')" by (auto simp: once split: prod.splits sum.splits)
    from any_outcome [OF this]
    have "queue_items store u' = queue_items store u \<or> queue_items store u' = drop 1 (queue_items store u)"
      by (auto simp: c_def queue_items_def rev_butlast)
    moreover obtain n where n: "n \<le> i" "queue_items store u = drop n (queue_items store w)"
      using Q by (auto simp: Q_def)
    ultimately have "queue_items store u' = drop n (queue_items store w) \<or>
        queue_items store u' = drop (Suc n) (queue_items store w)"
      by simp
    with n(1) show "Q (Suc i) (e_sleep E d u')"
      unfolding Q_def by (metis Suc_le_mono le_SucI queue_items_def sleep_store)
  qed (auto simp: Q_def)
  then obtain k v n where "k < 3" "n \<le> k" "queue_items store v = drop n (queue_items store w)"
    "retry E (pop_once E t findings_queue) w = pop_once E t findings_queue v"
    by (auto simp: Q_def)
  then show ?thesis by (intro exI [of _ v] exI [of _ n]) auto
qed

lemma pop_error: "fceil t = Inl e \<Longrightarrow> pop_finding E t None w = (r, w') \<Longrightarrow> \<not> returns r"
proof -
  assume e: "fceil t = Inl e"
  have "\<exists>(k::nat) v. k < 3 \<and> True \<and> retry E (pop_once E t findings_queue) w = pop_once E t findings_queue v"
    by (rule retry_outcome) simp_all
  then show "pop_finding E t None w = (r, w') \<Longrightarrow> \<not> returns r"
    using e by (auto simp: pop_finding_def throw_def target_or_def pop_once_def act_simps split: if_splits)
qed

lemma pop_end:
  assumes "pop_finding E t None w = (Inr x, w')"
  obtains k where "k \<le> 2"
    "drop k (queue_items store w) = (case x of None \<Rightarrow> [] | Some y \<Rightarrow> y # queue_items store w')"
    "x = None \<Longrightarrow> queue_items store w' = []"
proof -
  obtain secs where secs: "fceil t = Inr secs"
    using pop_error [OF _ assms] by (cases "fceil t") auto
  have "retry E (pop_once E t findings_queue) w = (Inr x, w')"
    using assms by (simp add: pop_finding_def throw_def target_or_def split: if_splits)
  with pop_attempts [OF secs, of w] obtain v k where v: "k \<le> 2"
    "queue_items store v = drop k (queue_items store w)" "pop_once E t findings_queue v = (Inr x, w')"
    by auto
  then obtain r where r: "e_redis E (BRPop findings_queue (max 1 secs)) v = (Inr r, w')"
    "x = (case r of RPair _ v \<Rightarrow> Some v | _ \<Rightarrow> None)"
    using secs by (auto simp: pop_once_def act_simps command_def split: prod.splits sum.splits)
  from answered [OF r(1)] have
    "r = (if ks_lists (store v) findings_queue = [] then RNone
          else RPair findings_queue (last (ks_lists (store v) findings_queue)))"
    "ks_lists (store w') findings_queue = butlast (ks_lists (store v) findings_queue)"
    by auto
  with rev_last [of "ks_lists (store v) findings_queue"]
  have "queue_items store v = (case x of None \<Rightarrow> [] | Some y \<Rightarrow> y # queue_items store w')"
    "x = None \<Longrightarrow> queue_items store w' = []"
    using r(2) by (auto simp: queue_items_def split: if_splits)
  with v(1,2) show thesis by (intro that [of k]) auto
qed

end

text \<open>A consumer polls with a timeout of its own.\<close>

locale polled_server = redis_server E store clock
  for E :: "'w env" and store :: "'w \<Rightarrow> keyspace" and clock :: "'w \<Rightarrow> rat" +
  fixes timeout :: float64

sublocale polled_server \<subseteq> queue: delivery_queue
  "\<lambda>x. push_finding E x None" "pop_finding E timeout None" "queue_items store"
proof
  fix x w w'
  assume "push_finding E x None w = (Inr (), w')"
  from push_end [OF this]
  show "\<exists>n. 1 \<le> n \<and> n \<le> 3 \<and> queue_items store w' = queue_items store w @ replicate n x"
    by (metis Suc_leI le_trans numeral_3_eq_3 returns_simps(1))
next
  fix x w e w'
  assume "push_finding E x None w = (Inl e, w')"
  from push_end [OF this]
  show "\<exists>n. n \<le> 3 \<and> queue_items store w' = queue_items store w @ replicate n x"
    by (metis Suc_leI le_trans)
next
  fix w x w'
  assume "pop_finding E timeout None w = (Inr (Some x), w')"
  from pop_end [OF this] show "\<exists>k. k \<le> 2 \<and> drop k (queue_items store w) = x # queue_items store w'"
    by (metis option.simps(5))
next
  fix w w'
  assume "pop_finding E timeout None w = (Inr None, w')"
  from pop_end [OF this] obtain k where "k \<le> 2" "drop k (queue_items store w) = []"
    "queue_items store w' = []" by (metis option.simps(4))
  then show "queue_items store w' = [] \<and> length (queue_items store w) \<le> 2" by simp
qed

context polled_server
begin

lemmas push_delivers = queue.pushed
lemmas push_failure = queue.push_failed
lemmas pop_delivers = queue.popped
lemmas pop_empty = queue.pop_none
lemmas popped_suffix = queue.popped_suffix

end

section \<open>A reference server\<close>

text \<open>
  An executable world that keeps the contract: the data, a clock, and a script of the faults of
  the next commands (\<open>Refused\<close>: the command did not arrive; \<open>ReplyLost\<close>: it took effect and
  the reply timed out).
\<close>

datatype fault = NoFault | Refused | ReplyLost

record ref_world =
  rw_store :: keyspace
  rw_clock :: rat
  rw_faults :: "fault list"
  rw_bits :: "128 word"
  rw_stops :: "bool list"

definition ref_reply :: "redis_cmd \<Rightarrow> rat \<Rightarrow> keyspace \<Rightarrow> redis_reply" where
  "ref_reply c t s =
     (case c of
        Ping \<Rightarrow> RBool True
      | LPush k v \<Rightarrow> RInt (int (length (ks_lists s k)) + 1)
      | BRPop k n \<Rightarrow> (if ks_lists s k = [] then RNone else RPair k (last (ks_lists s k)))
      | Publish ch m \<Rightarrow> RInt 0
      | SetEx k n v \<Rightarrow> RBool True
      | SetNxEx k v n \<Rightarrow> (if ks_get s t k = None then RBool True else RNone)
      | Exists k \<Rightarrow> RInt (if ks_get s t k = None then 0 else 1)
      | EvalRelease k token \<Rightarrow> RInt (if release_script (ks_get s t k) token then 1 else 0))"

definition ref_redis :: "redis_cmd \<Rightarrow> ref_world \<Rightarrow> redis_reply result \<times> ref_world" where
  "ref_redis c w =
     (case rw_faults w of
        Refused # fs \<Rightarrow> (Inl RedisConnectionError, w\<lparr>rw_faults := fs\<rparr>)
      | ReplyLost # fs \<Rightarrow>
          (Inl RedisTimeoutError,
           w\<lparr>rw_faults := fs, rw_store := redis_effect c (rw_clock w) (rw_store w)\<rparr>)
      | fs \<Rightarrow>
          (Inr (ref_reply c (rw_clock w) (rw_store w)),
           w\<lparr>rw_faults := tl fs, rw_store := redis_effect c (rw_clock w) (rw_store w)\<rparr>))"

definition ref_env :: "ref_world env" where
  "ref_env =
     \<lparr>e_time = (\<lambda>w. (Fin (rw_clock w), w)),
      e_monotonic = (\<lambda>w. (Fin (rw_clock w), w)),
      e_uuid = (\<lambda>w. (rw_bits w, w\<lparr>rw_bits := rw_bits w + 1\<rparr>)),
      e_sleep = (\<lambda>d w. case d of Fin x \<Rightarrow> w\<lparr>rw_clock := rw_clock w + max 0 x\<rparr> | _ \<Rightarrow> w),
      e_stopped = (\<lambda>w. case rw_stops w of [] \<Rightarrow> (True, w) | b # bs \<Rightarrow> (b, w\<lparr>rw_stops := bs\<rparr>)),
      e_stop_wait = (\<lambda>d w. case d of Fin x \<Rightarrow> w\<lparr>rw_clock := rw_clock w + max 0 x\<rparr> | _ \<Rightarrow> w),
      e_redis = ref_redis\<rparr>"

lemma ref_reply_allowed: "redis_replies c t s (ref_reply c t s)"
  by (cases c) (auto simp: ref_reply_def)

interpretation ref: redis_server ref_env rw_store rw_clock
proof
  fix c w r w'
  assume "e_redis ref_env c w = (Inr r, w')"
  then show "\<exists>t. rw_clock w \<le> t \<and> t \<le> rw_clock w' \<and> redis_replies c t (rw_store w) r \<and>
      rw_store w' = redis_effect c t (rw_store w)"
    by (intro exI [of _ "rw_clock w"])
      (auto simp: ref_env_def ref_redis_def ref_reply_allowed split: list.splits fault.splits)
next
  fix c w e w'
  assume "e_redis ref_env c w = (Inl e, w')"
  then show "is_redis_error e \<and> rw_clock w \<le> rw_clock w' \<and>
      (rw_store w' = rw_store w \<or>
       (\<exists>t. rw_clock w \<le> t \<and> t \<le> rw_clock w' \<and> rw_store w' = redis_effect c t (rw_store w)))"
    by (auto simp: ref_env_def ref_redis_def is_redis_error_def split: list.splits fault.splits)
qed (auto simp: ref_env_def split: float64.splits)

interpretation ref_polled: polled_server ref_env rw_store rw_clock "Fin 5"
  by unfold_locales

definition ref_start :: "fault list \<Rightarrow> ref_world" where
  "ref_start fs = \<lparr>rw_store = \<lparr>ks_strings = (\<lambda>_. None), ks_lists = (\<lambda>_. [])\<rparr>, rw_clock = 1000,
     rw_faults = fs, rw_bits = 1, rw_stops = []\<rparr>"

text \<open>Without faults every command is answered at the first attempt.\<close>

lemma ref_command:
  "rw_faults w = [] \<Longrightarrow> e_redis ref_env c w =
     (Inr (ref_reply c (rw_clock w) (rw_store w)),
      w\<lparr>rw_store := redis_effect c (rw_clock w) (rw_store w)\<rparr>)"
  by (cases w) (simp add: ref_env_def ref_redis_def)

lemma three_attempts: "[1..<nat 3 + 1] = [1, 2, 3]"
  by (simp add: upt_rec)

lemma retry_first: "op w = (Inr x, w') \<Longrightarrow> retry E op w = (Inr x, w')"
  unfolding retry_def with_retry_def three_attempts by simp

lemma ref_retry:
  "rw_faults w = [] \<Longrightarrow> retry ref_env (command ref_env c) w =
     (Inr (ref_reply c (rw_clock w) (rw_store w)),
      w\<lparr>rw_store := redis_effect c (rw_clock w) (rw_store w)\<rparr>)"
  by (rule retry_first) (simp add: command_def ref_command)

end
