(* ===== verification/Correlator.thy ===== *)
theory Correlator
  imports Alert RedisInterfaces
begin

text \<open>
  \<open>src/watchers/correlator.py\<close>: the knowledge base, the scope test and the confidence score,
  the buffer of unmatched findings (\<open>_CorrelationBuffer\<close>) and the loop \<open>correlate\<close>.  The
  notifier is the argument \<open>notify\<close> of the loop.  Findings in the buffer are valid ones, since
  \<open>finding_from_json\<close> returns nothing else; on those no arithmetic of the matching raises.
\<close>

section \<open>Knowledge base\<close>

definition correlation_kb :: "((pystr \<times> pystr) \<times> (pystr \<times> pystr)) list" where
  "correlation_kb =
     [((finding_type_value HTTP_5XX, finding_type_value NULL_DEREFERENCE),
       (lit ''A NullPointerException in the handler is causing unhandled 500 responses.'',
        lit ''Add None-guards before chained attribute access. Use Optional[T] typing.'')),
      ((finding_type_value HTTP_5XX, finding_type_value SQL_INJECTION_RISK),
       (lit ''Unsanitized user input in the SQL query is likely causing DB errors and 500s.'',
        lit ''Replace f-string / concatenated SQL with parameterized queries (ORM or cursor.execute with params tuple).'')),
      ((finding_type_value HTTP_5XX, finding_type_value REENTRANCY_RISK),
       (lit ''Smart contract reentrancy is likely causing transaction reversions which surface as 500 errors.'',
        lit ''Implement CEI pattern (Checks-Effects-Interactions) + add OpenZeppelin ReentrancyGuard.'')),
      ((finding_type_value AUTH_FAILURE, finding_type_value MISSING_AUTH_CHECK),
       (lit ''The endpoint is returning 401/403 because the auth decorator or middleware guard is absent in the handler.'',
        lit ''Add @login_required / @require_auth / JWT middleware to the route handler.'')),
      ((finding_type_value AUTH_FAILURE, finding_type_value HARDCODED_SECRET),
       (lit ''Hardcoded credentials in source may have been rotated/revoked, causing authentication failures.'',
        lit ''Remove hardcoded secrets immediately. Load from environment variables or a secrets manager (Vault/AWS SSM).'')),
      ((finding_type_value HTTP_5XX, finding_type_value EVAL_USAGE),
       (lit ''eval()/exec() with untrusted input is likely raising exceptions that become 500 responses.'',
        lit ''Remove eval()/exec(). Use safe deserialization (json.loads) or a whitelist-based dispatcher.'')),
      ((finding_type_value HTTP_5XX, finding_type_value HARDCODED_SECRET),
       (lit ''Hardcoded secret may have been rotated, causing authentication with downstream services to fail.'',
        lit ''Externalize all secrets to environment variables or a secrets manager. Rotate immediately.'')),
      ((finding_type_value ENDPOINT_DOWN, finding_type_value NULL_DEREFERENCE),
       (lit ''Startup crash due to null dereference is preventing the service from starting.'',
        lit ''Add defensive None checks at initialization. Add startup health assertions.'')),
      ((finding_type_value HIGH_LATENCY, finding_type_value SQL_INJECTION_RISK),
       (lit ''Non-parameterized query is likely causing full table scans (missing index path), producing high latency.'',
        lit ''Parameterize queries. Add EXPLAIN ANALYZE and add appropriate indexes.'')),
      ((finding_type_value HTTP_5XX, finding_type_value SSRF_RISK),
       (lit ''SSRF attempt on the endpoint may be causing timeout or connection errors that return 500.'',
        lit ''Validate and whitelist all outbound URLs. Use a URL allow-list + DNS rebinding protection.'')),
      ((finding_type_value RATE_LIMIT_HIT, finding_type_value MISSING_AUTH_CHECK),
       (lit ''Unauthenticated endpoint is being hammered '' @ [8212] @ lit '' no auth gate to filter bots/scrapers.'',
        lit ''Add authentication to this endpoint. Enforce per-IP rate limiting independently.''))]"

definition default_root_cause :: "pystr \<times> pystr" where
  "default_root_cause =
     (lit ''An API-layer anomaly correlates with a code-level security issue on the same service/endpoint.'',
      lit ''Review the linked code finding for security hardening. Add defensive error handling.'')"

definition lookup_root_cause :: "pystr \<Rightarrow> pystr \<Rightarrow> pystr \<times> pystr" where
  "lookup_root_cause api_type code_type =
     (case map_of correlation_kb (api_type, code_type) of
        Some x \<Rightarrow> x | None \<Rightarrow> default_root_cause)"

definition in_kb :: "pystr \<Rightarrow> pystr \<Rightarrow> bool" where
  "in_kb api_type code_type \<longleftrightarrow> (api_type, code_type) \<in> set (map fst correlation_kb)"

section \<open>Configuration\<close>

text \<open>The fields of \<open>settings.correlator\<close> and \<open>settings.notifier\<close> which the loop reads.\<close>

record correlator_cfg =
  correlation_window_secs :: float64
  buffer_max_size :: nat
  min_confidence :: float64
  poll_timeout_secs :: float64
  alert_cooldown_secs :: int

section \<open>Scope and confidence\<close>

text \<open>Truth value of an optional text.\<close>

definition has_text :: "pystr option \<Rightarrow> bool" where
  "has_text x = (case x of None \<Rightarrow> False | Some s \<Rightarrow> s \<noteq> [])"

text \<open>\<open>abs(api.timestamp - code.timestamp)\<close>\<close>

definition time_gap :: "finding \<Rightarrow> finding \<Rightarrow> pynum result" where
  "time_gap api code =
     bind_r (num_sub (f_timestamp api) (f_timestamp code)) (\<lambda>d. Inr (num_abs d))"

definition findings_share_scope :: "correlator_cfg \<Rightarrow> finding \<Rightarrow> finding \<Rightarrow> bool result" where
  "findings_share_scope cfg api code =
     (if f_source api \<noteq> finding_source_value API \<or> f_source code \<noteq> finding_source_value CODE \<or>
         f_service api \<noteq> f_service code
      then Inr False
      else bind_r (time_gap api code) (\<lambda>gap.
        if num_lt (NFloat (correlation_window_secs cfg)) gap then Inr False
        else if has_text (f_endpoint api) \<and> has_text (f_endpoint code)
        then Inr (f_endpoint api = f_endpoint code)
        else Inr (in_kb (f_type api) (f_type code))))"

definition add_if :: "bool \<Rightarrow> rat \<Rightarrow> float64 \<Rightarrow> float64" where
  "add_if c x score = (if c then fadd score (fl x) else score)"

text \<open>The score of the links, the bonus for closeness in time, those for the issues, the weight.\<close>

definition link_score :: "finding \<Rightarrow> finding \<Rightarrow> float64" where
  "link_score api code =
     add_if (has_text (f_endpoint api) \<and> has_text (f_endpoint code) \<and>
             f_endpoint api = f_endpoint code) (10 / 100)
       (add_if (has_text (f_trace_id api) \<and> has_text (f_trace_id code) \<and>
                f_trace_id api = f_trace_id code) (35 / 100) (fl (1 / 2)))"

definition time_bonus :: "pynum \<Rightarrow> float64 \<Rightarrow> float64" where
  "time_bonus dt score =
     (if num_le dt (NInt 60) then fadd score (fl (10 / 100))
      else if num_le dt (NInt 300) then fadd score (fl (5 / 100))
      else score)"

definition issue_bonus :: "bool \<Rightarrow> bool \<Rightarrow> float64 \<Rightarrow> float64" where
  "issue_bonus both_high known score = add_if known (12 / 100) (add_if both_high (8 / 100) score)"

definition confidence_weight :: "float64 \<Rightarrow> float64 \<Rightarrow> float64" where
  "confidence_weight ca cc = fadd (fmul ca (fl (1 / 2))) (fmul cc (fl (1 / 2)))"

definition compute_confidence :: "finding \<Rightarrow> finding \<Rightarrow> float64 result" where
  "compute_confidence api code =
     bind_r (time_gap api code) (\<lambda>dt.
     bind_r (severity_numeric api) (\<lambda>na.
     bind_r (if na \<ge> 3 then bind_r (severity_numeric code) (\<lambda>nc. Inr (nc \<ge> 3)) else Inr False)
       (\<lambda>both_high.
     bind_r (num_float (f_confidence api)) (\<lambda>ca.
     bind_r (num_float (f_confidence code)) (\<lambda>cc.
       let score = issue_bonus both_high (in_kb (f_type api) (f_type code))
                     (time_bonus dt (link_score api code))
       in Inr (fmin (fround 3 (fmul score (confidence_weight ca cc))) (fl (99 / 100))))))))"

section \<open>Equality of findings\<close>

text \<open>
  Python's \<open>==\<close> on values: numbers compare by value whatever their type, dicts regardless of the
  order of their keys.
\<close>

fun as_num :: "pyval \<Rightarrow> float64 option" where
  "as_num (VBool b) = Some (Fin (if b then 1 else 0))"
| "as_num (VInt i) = Some (Fin (of_int i))"
| "as_num (VFloat f) = Some f"
| "as_num _ = None"

definition same_num :: "float64 option \<Rightarrow> float64 option \<Rightarrow> bool" where
  "same_num x y \<longleftrightarrow> x \<noteq> None \<and> x = y \<and> x \<noteq> Some NaN"

fun py_eq :: "pyval \<Rightarrow> pyval \<Rightarrow> bool" where
  "py_eq VNone w = (w = VNone)"
| "py_eq (VStr s) w = (w = VStr s)"
| "py_eq (VList vs) w =
     (case w of VList ws \<Rightarrow> list_all2 py_eq vs ws | _ \<Rightarrow> False)"
| "py_eq (VDict kvs) w =
     (case w of
        VDict ws \<Rightarrow>
          length kvs = length ws \<and>
          (\<forall>kv \<in> set kvs. case map_of ws (fst kv) of Some x \<Rightarrow> py_eq (snd kv) x | None \<Rightarrow> False)
      | _ \<Rightarrow> False)"
| "py_eq v w = same_num (as_num v) (as_num w)"

text \<open>The equality of the dataclass compares the fields in turn.\<close>

definition finding_eq :: "finding \<Rightarrow> finding \<Rightarrow> bool" where
  "finding_eq f g \<longleftrightarrow>
     list_all2 (\<lambda>(n, v) (m, w). n = m \<and> py_eq v w) (finding_to_dict f) (finding_to_dict g)"

section \<open>The buffer\<close>

record corr_buffer =
  cb_window :: float64
  cb_maxsize :: nat
  cb_api :: "finding list"
  cb_code :: "finding list"

text \<open>\<open>deque(xs, maxlen=n)\<close> keeps the last \<open>n\<close> elements.\<close>

definition bounded_deque :: "nat \<Rightarrow> 'a list \<Rightarrow> 'a list" where
  "bounded_deque n xs = drop (length xs - n) xs"

definition deque_append :: "nat \<Rightarrow> 'a \<Rightarrow> 'a list \<Rightarrow> 'a list" where
  "deque_append n x xs = bounded_deque n (xs @ [x])"

definition new_buffer :: "float64 \<Rightarrow> nat \<Rightarrow> corr_buffer" where
  "new_buffer window_secs max_size =
     \<lparr>cb_window = window_secs, cb_maxsize = max_size, cb_api = [], cb_code = []\<rparr>"

definition buffer_add :: "finding \<Rightarrow> corr_buffer \<Rightarrow> corr_buffer" where
  "buffer_add f b =
     (if f_source f = finding_source_value API
      then b\<lparr>cb_api := deque_append (cb_maxsize b) f (cb_api b)\<rparr>
      else if f_source f = finding_source_value CODE
      then b\<lparr>cb_code := deque_append (cb_maxsize b) f (cb_code b)\<rparr>
      else b)"

text \<open>\<open>[f for f in fs if now - f.timestamp < window]\<close>\<close>

fun fresh_findings :: "float64 \<Rightarrow> float64 \<Rightarrow> finding list \<Rightarrow> finding list result" where
  "fresh_findings now window [] = Inr []"
| "fresh_findings now window (f # fs) =
     bind_r (num_sub (NFloat now) (f_timestamp f)) (\<lambda>age.
     bind_r (fresh_findings now window fs) (\<lambda>rest.
       Inr (if num_lt age (NFloat window) then f # rest else rest)))"

type_synonym match_state = "(finding \<times> finding) list \<times> pystr list \<times> pystr list"

text \<open>The inner loop over the code findings and the outer loop over the API findings.\<close>

fun match_codes ::
  "correlator_cfg \<Rightarrow> finding \<Rightarrow> finding list \<Rightarrow> match_state \<Rightarrow> match_state result" where
  "match_codes cfg api [] st = Inr st"
| "match_codes cfg api (code # codes) (matches, used_api, used_code) =
     (if f_id api \<notin> set used_api \<and> f_id code \<notin> set used_code
      then bind_r (findings_share_scope cfg api code) (\<lambda>share.
        match_codes cfg api codes
          (if share
           then (matches @ [(api, code)], f_id api # used_api, f_id code # used_code)
           else (matches, used_api, used_code)))
      else match_codes cfg api codes (matches, used_api, used_code))"

fun match_apis ::
  "correlator_cfg \<Rightarrow> finding list \<Rightarrow> finding list \<Rightarrow> match_state \<Rightarrow> match_state result" where
  "match_apis cfg [] codes st = Inr st"
| "match_apis cfg (api # apis) codes st =
     bind_r (match_codes cfg api codes st) (match_apis cfg apis codes)"

definition find_matches ::
  "correlator_cfg \<Rightarrow> float64 \<Rightarrow> corr_buffer \<Rightarrow> ((finding \<times> finding) list \<times> corr_buffer) result" where
  "find_matches cfg now b =
     bind_r (fresh_findings now (cb_window b) (cb_api b)) (\<lambda>fresh_api.
     bind_r (fresh_findings now (cb_window b) (cb_code b)) (\<lambda>fresh_code.
     bind_r (match_apis cfg fresh_api fresh_code ([], [], [])) (\<lambda>(matches, _, _).
       Inr (matches,
            b\<lparr>cb_api := bounded_deque (cb_maxsize b) fresh_api,
              cb_code := bounded_deque (cb_maxsize b) fresh_code\<rparr>))))"

text \<open>\<open>deque.remove\<close>; the \<open>ValueError\<close> for a missing element is swallowed.\<close>

fun remove_finding :: "finding \<Rightarrow> finding list \<Rightarrow> finding list" where
  "remove_finding f [] = []"
| "remove_finding f (g # gs) = (if finding_eq g f then gs else g # remove_finding f gs)"

definition remove_pair :: "finding \<Rightarrow> finding \<Rightarrow> corr_buffer \<Rightarrow> corr_buffer" where
  "remove_pair api code b =
     b\<lparr>cb_api := remove_finding api (cb_api b), cb_code := remove_finding code (cb_code b)\<rparr>"

section \<open>One matched pair\<close>

text \<open>\<open>except Exception\<close> around a call whose result is not used.\<close>

definition attempt :: "('w, 'a) act \<Rightarrow> ('w, unit) act" where
  "attempt m = catch_a (bind_a m (\<lambda>_. ret ())) (\<lambda>_. ret ())"

text \<open>The first \<open>try\<close>: store the record and claim; \<open>None\<close> stands for the handler.\<close>

definition persist_and_claim ::
  "'w env \<Rightarrow> correlator_cfg \<Rightarrow> alert \<Rightarrow> ('w, pystr option option) act" where
  "persist_and_claim E cfg a =
     catch_a
       (bind_a (of_result (alert_to_json a)) (\<lambda>j.
        bind_a (store_alert_record E (a_fingerprint a) j 86400) (\<lambda>_.
        bind_a (claim_alert E (a_fingerprint a) (alert_cooldown_secs cfg)) (\<lambda>tok. ret (Some tok)))))
       (\<lambda>_. ret None)"

text \<open>The second \<open>try\<close>: whether the alert was published.\<close>

definition try_publish :: "'w env \<Rightarrow> alert \<Rightarrow> ('w, bool) act" where
  "try_publish E a =
     catch_a
       (bind_a (of_result (alert_to_json a)) (\<lambda>j. bind_a (publish_alert E j None) (\<lambda>_. ret True)))
       (\<lambda>_. ret False)"

definition try_notify :: "(alert \<Rightarrow> ('w, bool) act) \<Rightarrow> alert \<Rightarrow> ('w, bool) act" where
  "try_notify notify a = catch_a (notify a) (\<lambda>_. ret False)"

text \<open>From the finished alert on.\<close>

definition emit_alert ::
  "'w env \<Rightarrow> correlator_cfg \<Rightarrow> (alert \<Rightarrow> ('w, bool) act) \<Rightarrow> alert \<Rightarrow> ('w, unit) act" where
  "emit_alert E cfg notify a =
     bind_a (persist_and_claim E cfg a) (\<lambda>claimed.
       case claimed of
         None \<Rightarrow> ret ()
       | Some None \<Rightarrow> ret ()
       | Some (Some token) \<Rightarrow>
           bind_a (try_publish E a) (\<lambda>published.
             if \<not> published then attempt (release_alert_claim E (a_fingerprint a) token)
             else bind_a (try_notify notify a) (\<lambda>delivered.
               if delivered then ret ()
               else attempt (release_alert_claim E (a_fingerprint a) token))))"

definition build_alert :: "'w env \<Rightarrow> finding \<Rightarrow> finding \<Rightarrow> float64 \<Rightarrow> ('w, alert) act" where
  "build_alert E api code confidence =
     bind_a (reads (e_uuid E)) (\<lambda>bits.
     bind_a (reads (e_time E)) (\<lambda>now.
       of_result (case lookup_root_cause (f_type api) (f_type code) of
         (root_cause, fix') \<Rightarrow> new_correlated_alert api code confidence root_cause fix' bits now)))"

definition handle_match ::
  "'w env \<Rightarrow> correlator_cfg \<Rightarrow> (alert \<Rightarrow> ('w, bool) act) \<Rightarrow> finding \<times> finding \<Rightarrow> corr_buffer \<Rightarrow>
   ('w, corr_buffer) act" where
  "handle_match E cfg notify p b =
     (case p of (api, code) \<Rightarrow>
        bind_a (of_result (compute_confidence api code)) (\<lambda>confidence.
          if flt confidence (min_confidence cfg) then ret (remove_pair api code b)
          else bind_a (build_alert E api code confidence) (\<lambda>a.
               bind_a (emit_alert E cfg notify a) (\<lambda>_. ret (remove_pair api code b)))))"

fun handle_matches ::
  "'w env \<Rightarrow> correlator_cfg \<Rightarrow> (alert \<Rightarrow> ('w, bool) act) \<Rightarrow> (finding \<times> finding) list \<Rightarrow> corr_buffer \<Rightarrow>
   ('w, corr_buffer) act" where
  "handle_matches E cfg notify [] b = ret b"
| "handle_matches E cfg notify (p # ps) b =
     bind_a (handle_match E cfg notify p b) (handle_matches E cfg notify ps)"

section \<open>The loop\<close>

text \<open>\<open>stop_event.wait(2)\<close>, or \<open>time.sleep(2)\<close> without an event.\<close>

definition pause :: "'w env \<Rightarrow> bool \<Rightarrow> float64 \<Rightarrow> ('w, unit) act" where
  "pause E has_stop d = does ((if has_stop then e_stop_wait E else e_sleep E) d)"

text \<open>The periodic statistics only move the time of the next ones.\<close>

definition stats_due :: "'w env \<Rightarrow> float64 \<Rightarrow> ('w, float64) act" where
  "stats_due E next_stats_at =
     bind_a (reads (e_monotonic E)) (\<lambda>t.
       if fle next_stats_at t
       then bind_a (reads (e_monotonic E)) (\<lambda>t'. ret (fadd t' (Fin 60)))
       else ret next_stats_at)"

type_synonym corr_state = "corr_buffer \<times> float64"

definition process_finding ::
  "'w env \<Rightarrow> correlator_cfg \<Rightarrow> (alert \<Rightarrow> ('w, bool) act) \<Rightarrow> corr_state \<Rightarrow> finding \<Rightarrow> ('w, corr_state) act" where
  "process_finding E cfg notify s f =
     (case s of (b, next_stats_at) \<Rightarrow>
        if f_source f \<notin> {finding_source_value API, finding_source_value CODE} then ret s
        else bind_a (reads (e_time E)) (\<lambda>now.
             bind_a (of_result (find_matches cfg now (buffer_add f b))) (\<lambda>(matches, b1).
             bind_a (handle_matches E cfg notify matches b1) (\<lambda>b2.
             bind_a (stats_due E next_stats_at) (\<lambda>n. ret (b2, n))))))"

text \<open>The body of the \<open>while\<close> loop; a caught exception or a timeout ends the iteration.\<close>

definition correlate_iter ::
  "'w env \<Rightarrow> correlator_cfg \<Rightarrow> (alert \<Rightarrow> ('w, bool) act) \<Rightarrow> bool \<Rightarrow> corr_state \<Rightarrow> ('w, corr_state) act" where
  "correlate_iter E cfg notify has_stop s w =
     (case pop_finding E (poll_timeout_secs cfg) None w of
        (Inl e, w1) \<Rightarrow> bind_a (pause E has_stop (Fin 2)) (\<lambda>_. ret s) w1
      | (Inr None, w1) \<Rightarrow> (Inr s, w1)
      | (Inr (Some raw), w1) \<Rightarrow>
          (case finding_from_json raw of
             Inl e \<Rightarrow> (Inr s, w1)
           | Inr f \<Rightarrow> process_finding E cfg notify s f w1))"

text \<open>The loop; \<open>None\<close> when the fuel is used up while it is still running.\<close>

fun correlate_loop ::
  "nat \<Rightarrow> 'w env \<Rightarrow> correlator_cfg \<Rightarrow> (alert \<Rightarrow> ('w, bool) act) \<Rightarrow> bool \<Rightarrow> corr_state \<Rightarrow> 'w \<Rightarrow>
   (corr_state result \<times> 'w) option" where
  "correlate_loop 0 E cfg notify has_stop s w = None"
| "correlate_loop (Suc n) E cfg notify has_stop s w =
     (case (if has_stop then e_stopped E w else (False, w)) of (stopped, w1) \<Rightarrow>
        if stopped then Some (Inr s, w1)
        else (case correlate_iter E cfg notify has_stop s w1 of
            (Inl e, w2) \<Rightarrow> Some (Inl e, w2)
          | (Inr s', w2) \<Rightarrow> correlate_loop n E cfg notify has_stop s' w2))"

definition correlate ::
  "nat \<Rightarrow> 'w env \<Rightarrow> correlator_cfg \<Rightarrow> (alert \<Rightarrow> ('w, bool) act) \<Rightarrow> bool \<Rightarrow> 'w \<Rightarrow>
   (corr_state result \<times> 'w) option" where
  "correlate fuel E cfg notify has_stop w =
     (case e_monotonic E w of (t, w1) \<Rightarrow>
        correlate_loop fuel E cfg notify has_stop
          (new_buffer (correlation_window_secs cfg) (buffer_max_size cfg), fadd t (Fin 60)) w1)"

section \<open>Arithmetic on valid findings\<close>

lemma timestamp_returns: "finding_valid f \<Longrightarrow> returns (num_float (f_timestamp f))"
  by (auto simp: finding_valid_def timestamp_ok_def returns_def split: sum.splits)

lemma time_gap_returns: "finding_valid api \<Longrightarrow> finding_valid code \<Longrightarrow> returns (time_gap api code)"
  using num_sub_returns [OF timestamp_returns timestamp_returns, of api code]
  by (auto simp: time_gap_def returns_iff)

lemma share_scope_returns:
  "finding_valid api \<Longrightarrow> finding_valid code \<Longrightarrow> returns (findings_share_scope cfg api code)"
  using time_gap_returns [of api code]
  by (auto simp: findings_share_scope_def returns_iff)

definition shares :: "correlator_cfg \<Rightarrow> finding \<Rightarrow> finding \<Rightarrow> bool" where
  "shares cfg api code \<longleftrightarrow> findings_share_scope cfg api code = Inr True"

lemma share_scope_eq:
  "finding_valid api \<Longrightarrow> finding_valid code \<Longrightarrow> findings_share_scope cfg api code = Inr (shares cfg api code)"
  using share_scope_returns [of api code cfg] by (auto simp: shares_def returns_iff)

text \<open>A score in the range of the additions.\<close>

definition in_range :: "rat \<Rightarrow> float64 \<Rightarrow> bool" where
  "in_range b x \<longleftrightarrow> (\<exists>r. x = Fin r \<and> 0 \<le> r \<and> r \<le> b)"

lemma fl_small_nat:
  "fl 1 = Fin 1" "fl 2 = Fin 2" "fl 4 = Fin 4" "fl 8 = Fin 8" "fl 16 = Fin 16" "fl 32 = Fin 32" "fl 64 = Fin 64"
  by code_simp+

lemma fl_in_range: "0 \<le> x \<Longrightarrow> x \<le> b \<Longrightarrow> fl b = Fin b \<Longrightarrow> in_range b (fl x)"
  using fl_nonneg [of x] fl_mono [of x b] fl_not_NaN [of x]
  by (cases "fl x") (auto simp: in_range_def)

lemma fadd_in_range:
  "in_range b x \<Longrightarrow> in_range c y \<Longrightarrow> b + c \<le> d \<Longrightarrow> fl d = Fin d \<Longrightarrow> in_range d (fadd x y)"
  by (auto simp: in_range_def [of b] in_range_def [of c] intro!: fl_in_range)

lemma in_range_mono: "in_range b x \<Longrightarrow> b \<le> c \<Longrightarrow> in_range c x"
  by (auto simp: in_range_def)

lemma fmul_in_range:
  "in_range b x \<Longrightarrow> in_range c y \<Longrightarrow> b * c \<le> d \<Longrightarrow> fl d = Fin d \<Longrightarrow> in_range d (fmul x y)"
  by (auto simp: in_range_def [of b] in_range_def [of c] intro!: fl_in_range
      order_trans [OF mult_mono, of _ b _ c d])

lemma confidence_in_range:
  assumes "finding_valid f" "num_float (f_confidence f) = Inr c"
  shows "in_range 1 c"
  using assms by (cases c) (auto simp: finding_valid_def confidence_ok_def in_range_def)

lemma const_in_range: "0 \<le> x \<Longrightarrow> x \<le> 1 \<Longrightarrow> in_range 1 (fl x)"
  by (rule fl_in_range) (simp_all add: fl_small_nat)

lemma add_if_in_range:
  assumes "in_range b score" "0 \<le> x" "x \<le> 1" "b + 1 \<le> d" "fl d = Fin d"
  shows "in_range d (add_if c x score)"
  using fadd_in_range [OF assms(1) const_in_range [OF assms(2,3)] assms(4,5)] assms
  by (auto simp: add_if_def intro: in_range_mono)

lemma fround_in_range:
  assumes "in_range (of_int b) x" "fl (of_int b) = Fin (of_int b)"
  shows "in_range (of_int b) (fround 3 x)"
proof -
  obtain r where r: "x = Fin r" "0 \<le> r" "r \<le> of_int b" using assms(1) by (auto simp: in_range_def)
  have "0 \<le> rne (r * 1000)" using r(2) by (intro rne_lower) simp
  moreover have "rne (r * 1000) \<le> b * 1000" using r(3) by (intro rne_upper) simp
  then have "of_int (rne (r * 1000)) \<le> (of_int (b * 1000) :: rat)" by (simp only: of_int_le_iff)
  ultimately have "0 \<le> of_int (rne (r * 1000)) / (1000 :: rat)"
    "of_int (rne (r * 1000)) / (1000 :: rat) \<le> of_int b"
    by simp_all
  with fl_in_range [OF this assms(2)] r(1) show ?thesis by simp
qed

lemma fl_99: "in_range 1 (fl (99 / 100))"
  by (rule const_in_range) simp_all

lemma capped_in_range:
  assumes "in_range b x"
  shows "in_range 1 (fmin x (fl (99 / 100)))" "fle (fmin x (fl (99 / 100))) (fl (99 / 100))"
  using assms fl_99 by (auto simp: in_range_def fmin_def)

text \<open>The score of two valid findings is a number from 0 to 0.99.\<close>

lemma severity_numeric_returns: "finding_valid f \<Longrightarrow> returns (severity_numeric f)"
  by (auto simp: finding_valid_def severity_numeric_def finding_severity_def returns_iff)

lemma confidence_returns: "finding_valid f \<Longrightarrow> returns (num_float (f_confidence f))"
  by (auto simp: finding_valid_def confidence_ok_def returns_def split: sum.splits)

lemma link_score_range: "in_range 4 (link_score api code)"
proof -
  have "in_range 1 (fl (1 / 2))" by (rule const_in_range) simp_all
  then show ?thesis unfolding link_score_def
    by (intro add_if_in_range [of 2] add_if_in_range [of 1]) (simp_all add: fl_small_nat)
qed

lemma time_bonus_range: "in_range 4 s \<Longrightarrow> in_range 8 (time_bonus dt s)"
  unfolding time_bonus_def
  by (auto intro: in_range_mono fadd_in_range [OF _ const_in_range] simp: fl_small_nat)

lemma issue_bonus_range: "in_range 8 s \<Longrightarrow> in_range 32 (issue_bonus h k s)"
  unfolding issue_bonus_def
  by (intro add_if_in_range [of 16] add_if_in_range [of 8]) (simp_all add: fl_small_nat)

lemma confidence_weight_range:
  assumes "in_range 1 ca" "in_range 1 cc"
  shows "in_range 2 (confidence_weight ca cc)"
proof -
  have half: "in_range 1 (fl (1 / 2))" by (rule const_in_range) simp_all
  have "in_range 1 (fmul ca (fl (1 / 2)))" "in_range 1 (fmul cc (fl (1 / 2)))"
    using assms half by (auto intro!: fmul_in_range [of 1 _ 1] simp: fl_small_nat)
  then show ?thesis unfolding confidence_weight_def
    by (intro fadd_in_range [of 1 _ 1]) (simp_all add: fl_small_nat)
qed

lemma compute_confidence_shape:
  assumes "compute_confidence api code = Inr c" "finding_valid api" "finding_valid code"
  obtains x where "in_range 64 x" "c = fmin x (fl (99 / 100))"
proof -
  obtain h k dt ca cc where
    ca: "num_float (f_confidence api) = Inr ca" and cc: "num_float (f_confidence code) = Inr cc"
    and c: "c = fmin (fround 3 (fmul (issue_bonus h k (time_bonus dt (link_score api code)))
        (confidence_weight ca cc))) (fl (99 / 100))"
    using assms(1) by (auto simp: compute_confidence_def Let_def bind_r_Inr_iff split: if_splits)
  have "in_range (of_int 64) (fmul (issue_bonus h k (time_bonus dt (link_score api code)))
      (confidence_weight ca cc))"
    using issue_bonus_range [OF time_bonus_range [OF link_score_range]]
      confidence_weight_range [OF confidence_in_range [OF assms(2) ca] confidence_in_range [OF assms(3) cc]]
    by (intro fmul_in_range [of 32 _ 2]) (simp_all add: fl_small_nat)
  from fround_in_range [OF this] show thesis
    by (intro that [OF _ c]) (simp add: fl_small_nat)
qed

lemma compute_confidence_returns:
  assumes "finding_valid api" "finding_valid code"
  shows "returns (compute_confidence api code)"
proof -
  obtain dt na nc ca cc where "time_gap api code = Inr dt" "severity_numeric api = Inr na"
    "severity_numeric code = Inr nc" "num_float (f_confidence api) = Inr ca"
    "num_float (f_confidence code) = Inr cc"
    using time_gap_returns [OF assms] severity_numeric_returns confidence_returns assms
    by (meson returns_iff)
  then show ?thesis by (simp add: compute_confidence_def Let_def)
qed

lemma compute_confidence_range:
  assumes "compute_confidence api code = Inr c" "finding_valid api" "finding_valid code"
  shows "in_range 1 c" "fle c (fl (99 / 100))"
  using compute_confidence_shape [OF assms] capped_in_range by metis+

lemma in_range_confidence_ok: "in_range 1 c \<Longrightarrow> confidence_ok (NFloat c)"
  by (auto simp: in_range_def confidence_ok_def num_float_def)

section \<open>The knowledge base\<close>

lemma in_kb_lookup:
  "in_kb a c \<longleftrightarrow> (\<exists>x. map_of correlation_kb (a, c) = Some x \<and> lookup_root_cause a c = x)"
proof -
  have "in_kb a c \<longleftrightarrow> map_of correlation_kb (a, c) \<noteq> None"
    by (simp add: in_kb_def map_of_eq_None_iff)
  then show ?thesis by (auto simp: lookup_root_cause_def)
qed

fun int_length :: "'a list \<Rightarrow> int" where
  "int_length [] = 0"
| "int_length (x # xs) = 1 + int_length xs"

lemma int_length_eq: "int_length xs = int (length xs)"
  by (induction xs) auto

definition kb_text_ok :: "pystr \<Rightarrow> bool" where
  "kb_text_ok s = (case s of [] \<Rightarrow> False | c # cs \<Rightarrow> \<not> is_space c \<and> int_length cs < 4000)"

lemma kb_text_ok: "kb_text_ok s \<Longrightarrow> text_ok 4000 s"
  by (auto simp: kb_text_ok_def text_ok_def strip_by_Nil_iff int_length_eq split: list.splits)

lemma kb_text_ok_lit:
  "kb_text_ok (lit (c # s)) \<longleftrightarrow> \<not> is_space (of_char c) \<and> int_length s < 4000"
  "kb_text_ok (lit (c # s) @ xs) \<longleftrightarrow> \<not> is_space (of_char c) \<and> int_length s + int_length xs < 4000"
  "int_length (lit s) = int_length s" "int_length (lit s @ xs) = int_length s + int_length xs"
  by (auto simp: kb_text_ok_def int_length_eq lit_Cons)

lemma kb_texts_ok:
  "\<forall>x \<in> set (default_root_cause # map snd correlation_kb). kb_text_ok (fst x) \<and> kb_text_ok (snd x)"
  by (simp add: default_root_cause_def correlation_kb_def kb_text_ok_lit is_space_def)

lemma lookup_texts_ok:
  assumes "lookup_root_cause a c = (rc, fx)"
  shows "text_ok 4000 rc \<and> text_ok 4000 fx"
proof -
  have "(rc, fx) \<in> set (default_root_cause # map snd correlation_kb)"
    using assms
    by (auto simp: lookup_root_cause_def split: option.splits dest!: map_of_SomeD intro: rev_image_eqI)
  with kb_texts_ok show ?thesis by (metis fst_conv snd_conv kb_text_ok)
qed

end
