(* ===== verification/Settings.thy ===== *)
theory Settings
  imports Correlator
begin

text \<open>
  The settings dataclasses of \<open>src/watchers/config.py\<close> as records.  An optional text that the
  environment does not set is \<open>None\<close>.  The correlator's own record of settings is a
  part of them.
\<close>

definition package_version :: string where
  "package_version = ''3.0.0''"

definition user_agent :: pystr where
  "user_agent = lit ''SecurityWatchtower/'' @ lit package_version"

record redis_settings =
  rd_host :: pystr
  rd_port :: int
  rd_db :: int
  rd_password :: "pystr option"
  rd_max_connections :: int
  rd_socket_timeout :: float64
  rd_retry_on_timeout :: bool
  rd_decode_responses :: bool

record notifier_settings =
  nt_slack_webhook_url :: "pystr option"
  nt_telegram_bot_token :: "pystr option"
  nt_telegram_chat_id :: "pystr option"
  nt_generic_webhook_url :: "pystr option"
  nt_alert_cooldown_secs :: int
  nt_min_alert_severity :: pystr
  nt_request_timeout_secs :: float64
  nt_max_retries :: int

record api_settings =
  ap_target_urls :: "pystr list"
  ap_poll_interval_secs :: float64
  ap_request_timeout_secs :: float64
  ap_failure_threshold :: int
  ap_latency_warn_ms :: float64
  ap_max_concurrent :: int
  ap_user_agent :: pystr

record code_settings =
  cd_watch_paths :: "pystr list"
  cd_watch_extensions :: "pystr list"
  cd_scan_on_start :: bool
  cd_secret_patterns_enabled :: bool
  cd_ignore_paths :: "pystr list"

record correlator_settings =
  co_correlation_window_secs :: float64
  co_buffer_max_size :: int
  co_min_confidence :: float64
  co_poll_timeout_secs :: float64
  co_publish_channel :: pystr
  co_findings_queue :: pystr

record settings =
  s_redis :: redis_settings
  s_notifier :: notifier_settings
  s_api :: api_settings
  s_code :: code_settings
  s_correlator :: correlator_settings
  s_env :: pystr
  s_platform :: pystr
  s_log_level :: pystr

definition correlator_view :: "settings \<Rightarrow> correlator_cfg" where
  "correlator_view s =
     \<lparr>correlation_window_secs = co_correlation_window_secs (s_correlator s),
      buffer_max_size = nat (co_buffer_max_size (s_correlator s)),
      min_confidence = co_min_confidence (s_correlator s),
      poll_timeout_secs = co_poll_timeout_secs (s_correlator s),
      alert_cooldown_secs = nt_alert_cooldown_secs (s_notifier s)\<rparr>"

end
