(* ===== verification/CodePatterns.thy ===== *)
theory CodePatterns
  imports PyRegex Settings
begin

text \<open>
  The table \<open>SECURITY_PATTERNS\<close> of \<open>src/watchers/code_watcher.py\<close>: sixteen patterns with the
  type, severity, title and confidence of the finding they stand for, in the order in which a
  line is compared with them.
\<close>

section \<open>Parts of the patterns\<close>

definition blanks :: rx where
  "blanks = Many is_space 0 None"

definition anything :: rx where
  "anything = Many (\<lambda>c. c \<noteq> 10) 0 None"

definition something :: rx where
  "something = Many (\<lambda>c. c \<noteq> 10) 1 None"

definition is_quote :: "nat \<Rightarrow> bool" where
  "is_quote c \<longleftrightarrow> c = 34 \<or> c = 39"

definition sign :: "string \<Rightarrow> rx" where
  "sign s = Chr (one_of s)"

text \<open>A name, the sign of an assignment and a quoted value.\<close>

definition assigned :: "rx list \<Rightarrow> (nat \<Rightarrow> bool) \<Rightarrow> nat \<Rightarrow> rx" where
  "assigned names value_char least =
     seqs [alts names, blanks, sign ''=:'', blanks, Chr is_quote, Many value_char least None, Chr is_quote]"

section \<open>The patterns\<close>

definition api_key_pattern :: rx where
  "api_key_pattern =
     assigned
       [seqs [word_ci ''api'', Opt (sign ''_-''), word_ci ''key''],
        word_ci ''apikey'',
        seqs [word_ci ''secret'', Opt (sign ''_-''), word_ci ''key''],
        seqs [word_ci ''private'', Opt (sign ''_-''), word_ci ''key'']]
       (\<lambda>c. is_alnum_folded c \<or> one_of ''+/=_-'' c) 16"

definition password_pattern :: rx where
  "password_pattern =
     assigned [word_ci ''password'', word_ci ''passwd'', word_ci ''pwd''] (\<lambda>c. \<not> is_quote c) 4"

definition auth_token_pattern :: rx where
  "auth_token_pattern =
     assigned [word_ci ''access_token'', word_ci ''auth_token'', word_ci ''bearer'']
       (\<lambda>c. is_alnum_folded c \<or> one_of ''._-'' c) 20"

definition source_key_pattern :: rx where
  "source_key_pattern =
     seqs [word ''-----BEGIN '',
           Opt (alts [word ''RSA '', word ''EC '', word ''OPENSSH '', word ''PGP '']),
           word ''PRIVATE KEY-----'']"

definition github_pattern :: rx where
  "github_pattern =
     seqs [alts [word ''ghp'', word ''gho'', word ''ghu'', word ''ghs'', word ''ghr''], word ''_'',
           Many is_alnum_ascii 36 (Some 36)]"

definition openai_pattern :: rx where
  "openai_pattern = seqs [word ''sk-'', Many is_alnum_ascii 48 (Some 48)]"

definition query_format_pattern :: rx where
  "query_format_pattern =
     alts
       [seqs [alts [word_ci ''execute'', word_ci ''cursor.execute'', word_ci ''db.query'', word_ci ''.raw(''],
              blanks, sign ''('', blanks, Chr is_quote, anything, sign ''%'', blanks, Chr is_quote],
        seqs [word_ci ''f'', Chr is_quote, anything, sign ''{'', anything, sign ''}'', anything,
              word_ci ''select''],
        seqs [word_ci ''f'', Chr is_quote, anything, sign ''{'', anything, sign ''}'', anything,
              word_ci ''where'']]"

definition query_concat_pattern :: rx where
  "query_concat_pattern =
     seqs [Chr is_quote, blanks, word_ci ''select'', something, word_ci ''from'', something,
           word_ci ''where'', something, Chr is_quote, word '' +'']"

definition eval_pattern :: rx where
  "eval_pattern = seqs [Bound, alts [word ''eval'', word ''exec''], blanks, sign ''('']"

definition ssrf_pattern :: rx where
  "ssrf_pattern =
     seqs [alts [word_ci ''requests.get'', word_ci ''requests.post'', word_ci ''urllib.request'',
                 word_ci ''httpx.get'', word_ci ''aiohttp.get''],
           blanks, sign ''('', Many (\<lambda>c. c \<noteq> 41) 0 None, sign ''+'']"

definition weak_hash_pattern :: rx where
  "weak_hash_pattern =
     alts [seqs [Bound, alts [word_ci ''md5'', word_ci ''sha1''], blanks, sign ''(''],
           seqs [word_ci ''hashlib.'', alts [word_ci ''md5'', word_ci ''sha1''], sign ''('']]"

definition weak_cipher_pattern :: rx where
  "weak_cipher_pattern = alts [word_ci ''des.new'', word_ci ''des.encrypt'', word_ci ''ecb'']"

definition all_fields_pattern :: rx where
  "all_fields_pattern =
     alts [seqs [word ''__fields__'', blanks, sign ''='', blanks, Chr is_quote, word ''__all__'', Chr is_quote],
           seqs [word ''fields'', blanks, sign ''='', blanks, Chr is_quote, word ''__all__'', Chr is_quote]]"

definition redirect_pattern :: rx where
  "redirect_pattern =
     seqs [word_ci ''redirect'', blanks, sign ''('', blanks, word_ci ''request.'',
           alts [word_ci ''get'', word_ci ''post'', word_ci ''args''], sign ''['']"

definition missing_auth_pattern :: rx where
  "missing_auth_pattern =
     seqs [word ''@app.route('', Many (\<lambda>c. c \<noteq> 41) 1 None, sign '')'', blanks, Chr ((=) 10),
           word ''def'', Many is_space 1 None, Many is_word 1 None, sign ''('',
           Many (\<lambda>c. c \<noteq> 41) 0 None, sign '')'', blanks, sign '':'', blanks, Chr ((=) 10),
           NotAhead (seqs [blanks, word ''@login_required''])]"

definition external_call_pattern :: rx where
  "external_call_pattern = alts [word ''.transfer('', word ''.send('', word ''.call{'']"

section \<open>The table\<close>

record code_pattern =
  pt_pattern :: rx
  pt_type :: finding_type
  pt_severity :: severity
  pt_title :: pystr
  pt_confidence :: rat

definition security_patterns :: "code_pattern list" where
  "security_patterns =
     [\<lparr>pt_pattern = api_key_pattern, pt_type = HARDCODED_SECRET, pt_severity = CRITICAL,
       pt_title = lit ''Hardcoded API/Secret Key detected'', pt_confidence = 90 / 100\<rparr>,
      \<lparr>pt_pattern = password_pattern, pt_type = HARDCODED_SECRET, pt_severity = CRITICAL,
       pt_title = lit ''Hardcoded Password detected'', pt_confidence = 85 / 100\<rparr>,
      \<lparr>pt_pattern = auth_token_pattern, pt_type = HARDCODED_SECRET, pt_severity = CRITICAL,
       pt_title = lit ''Hardcoded Auth Token detected'', pt_confidence = 88 / 100\<rparr>,
      \<lparr>pt_pattern = source_key_pattern, pt_type = HARDCODED_SECRET, pt_severity = CRITICAL,
       pt_title = lit ''Private Key material found in source'', pt_confidence = 99 / 100\<rparr>,
      \<lparr>pt_pattern = github_pattern, pt_type = HARDCODED_SECRET, pt_severity = CRITICAL,
       pt_title = lit ''GitHub Personal Access Token detected'', pt_confidence = 97 / 100\<rparr>,
      \<lparr>pt_pattern = openai_pattern, pt_type = HARDCODED_SECRET, pt_severity = CRITICAL,
       pt_title = lit ''OpenAI API Key detected'', pt_confidence = 97 / 100\<rparr>,
      \<lparr>pt_pattern = query_format_pattern, pt_type = SQL_INJECTION_RISK, pt_severity = HIGH,
       pt_title = lit ''Potential SQL injection: f-string or % in query'', pt_confidence = 75 / 100\<rparr>,
      \<lparr>pt_pattern = query_concat_pattern, pt_type = SQL_INJECTION_RISK, pt_severity = HIGH,
       pt_title = lit ''SQL string concatenation detected'', pt_confidence = 80 / 100\<rparr>,
      \<lparr>pt_pattern = eval_pattern, pt_type = EVAL_USAGE, pt_severity = HIGH,
       pt_title = lit ''eval()/exec() usage detected '' @ [8212] @ lit '' potential code injection'',
       pt_confidence = 80 / 100\<rparr>,
      \<lparr>pt_pattern = ssrf_pattern, pt_type = SSRF_RISK, pt_severity = HIGH,
       pt_title = lit ''Potential SSRF: HTTP client called with concatenated URL'',
       pt_confidence = 65 / 100\<rparr>,
      \<lparr>pt_pattern = weak_hash_pattern, pt_type = WEAK_CRYPTO, pt_severity = MEDIUM,
       pt_title = lit ''Weak hash algorithm (MD5/SHA1) detected'', pt_confidence = 88 / 100\<rparr>,
      \<lparr>pt_pattern = weak_cipher_pattern, pt_type = WEAK_CRYPTO, pt_severity = HIGH,
       pt_title = lit ''Weak encryption algorithm (DES/ECB) detected'', pt_confidence = 85 / 100\<rparr>,
      \<lparr>pt_pattern = all_fields_pattern, pt_type = MASS_ASSIGNMENT, pt_severity = HIGH,
       pt_title = lit ''Mass assignment risk: __all__ field exposure'', pt_confidence = 80 / 100\<rparr>,
      \<lparr>pt_pattern = redirect_pattern, pt_type = OPEN_REDIRECT, pt_severity = HIGH,
       pt_title = lit ''Potential open redirect via unvalidated user input'', pt_confidence = 72 / 100\<rparr>,
      \<lparr>pt_pattern = missing_auth_pattern, pt_type = MISSING_AUTH_CHECK, pt_severity = MEDIUM,
       pt_title = lit ''Route handler potentially missing auth decorator'', pt_confidence = 55 / 100\<rparr>,
      \<lparr>pt_pattern = external_call_pattern, pt_type = REENTRANCY_RISK, pt_severity = CRITICAL,
       pt_title = lit ''Solidity external call detected '' @ [8212] @ lit '' verify CEI pattern'',
       pt_confidence = 70 / 100\<rparr>]"

text \<open>The patterns that count for a scan: those of secrets can be switched off.\<close>

definition enabled_patterns :: "bool \<Rightarrow> code_pattern list" where
  "enabled_patterns secrets = filter (\<lambda>p. \<not> (pt_type p = HARDCODED_SECRET \<and> \<not> secrets)) security_patterns"

end
