(* ===== verification/PySource.thy ===== *)
theory PySource
  imports PyStr
begin

text \<open>
  What the code watcher takes from the standard library to look at a file: decoding of its
  bytes (\<open>bytes.decode('utf-8', errors='ignore')\<close>), its lines
  (\<open>str.splitlines(keepends=True)\<close>), and the parts of a POSIX path (\<open>pathlib.Path\<close>).
\<close>

section \<open>Decoding\<close>

definition continues_char :: "nat \<Rightarrow> bool" where
  "continues_char b \<longleftrightarrow> 128 \<le> b \<and> b \<le> 191"

text \<open>
  The code point at the head of the bytes and the bytes behind it, if the head is well-formed:
  the shortest form of a code point that is no surrogate and not above 0x10FFFF.
\<close>

definition two_bytes :: "nat \<Rightarrow> nat \<Rightarrow> nat" where
  "two_bytes b0 b1 = (b0 - 192) * 64 + (b1 - 128)"

definition three_bytes :: "nat \<Rightarrow> nat \<Rightarrow> nat \<Rightarrow> nat" where
  "three_bytes b0 b1 b2 = (b0 - 224) * 4096 + (b1 - 128) * 64 + (b2 - 128)"

definition four_bytes :: "nat \<Rightarrow> nat \<Rightarrow> nat \<Rightarrow> nat \<Rightarrow> nat" where
  "four_bytes b0 b1 b2 b3 =
     (b0 - 240) * 262144 + (b1 - 128) * 4096 + (b2 - 128) * 64 + (b3 - 128)"

definition utf8_head :: "nat \<Rightarrow> nat list \<Rightarrow> (nat \<times> nat list) option" where
  "utf8_head b0 bs =
     (if b0 < 128 then Some (b0, bs)
      else if 194 \<le> b0 \<and> b0 \<le> 223 then
        (case bs of
           b1 # rest \<Rightarrow> if continues_char b1 then Some (two_bytes b0 b1, rest) else None
         | _ \<Rightarrow> None)
      else if 224 \<le> b0 \<and> b0 \<le> 239 then
        (case bs of
           b1 # b2 # rest \<Rightarrow>
             if continues_char b1 \<and> continues_char b2 \<and> 2048 \<le> three_bytes b0 b1 b2 \<and>
                \<not> is_surrogate (three_bytes b0 b1 b2)
             then Some (three_bytes b0 b1 b2, rest) else None
         | _ \<Rightarrow> None)
      else if 240 \<le> b0 \<and> b0 \<le> 244 then
        (case bs of
           b1 # b2 # b3 # rest \<Rightarrow>
             if continues_char b1 \<and> continues_char b2 \<and> continues_char b3 \<and>
                65536 \<le> four_bytes b0 b1 b2 b3 \<and> four_bytes b0 b1 b2 b3 \<le> 1114111
             then Some (four_bytes b0 b1 b2 b3, rest) else None
         | _ \<Rightarrow> None)
      else None)"

lemma utf8_head_shorter: "utf8_head b bs = Some (c, rest) \<Longrightarrow> length rest \<le> length bs"
  by (auto simp: utf8_head_def split: if_splits list.splits)

text \<open>
  Bytes that start no well-formed sequence are dropped one by one; since a continuation byte
  starts none either, this drops as much as the module does.
\<close>

function utf8_decode_ignore :: "nat list \<Rightarrow> pystr" where
  "utf8_decode_ignore [] = []"
| "utf8_decode_ignore (b # bs) =
     (case utf8_head b bs of
        Some (c, rest) \<Rightarrow> c # utf8_decode_ignore rest
      | None \<Rightarrow> utf8_decode_ignore bs)"
  by pat_completeness auto
termination
  by (relation "measure length") (auto dest: utf8_head_shorter)

lemma utf8_head_no_surrogate: "utf8_head b bs = Some (c, rest) \<Longrightarrow> \<not> is_surrogate c"
  by (auto simp: utf8_head_def is_surrogate_def two_bytes_def continues_char_def
      split: if_splits list.splits)

lemma decoded_no_surrogate: "c \<in> set (utf8_decode_ignore bs) \<Longrightarrow> \<not> is_surrogate c"
  by (induction bs rule: utf8_decode_ignore.induct)
    (auto split: option.splits dest: utf8_head_no_surrogate)

lemma split_base64: "(n::nat) = n div 64 * 64 + n mod 64"
  by simp

lemma utf8_head_char:
  assumes "c \<le> 1114111" "\<not> is_surrogate c"
  shows "\<exists>b bs. utf8_char c = b # bs \<and> utf8_head b (bs @ rest) = Some (c, rest)"
proof -
  have three: "c div 4096 * 4096 + c div 64 mod 64 * 64 + c mod 64 = c"
  proof -
    have "c div 4096 = c div 64 div 64" by (simp add: div_mult2_eq [symmetric])
    then show ?thesis
      using div_mult_mod_eq [of "c div 64" 64] div_mult_mod_eq [of c 64] by linarith
  qed
  have four: "c div 262144 * 262144 + c div 4096 mod 64 * 4096 + c div 64 mod 64 * 64 + c mod 64 = c"
  proof -
    have "c div 262144 = c div 4096 div 64" by (simp add: div_mult2_eq [symmetric])
    then show ?thesis using three div_mult_mod_eq [of "c div 4096" 64] by linarith
  qed
  consider "c < 128" | "128 \<le> c" "c < 2048" | "2048 \<le> c" "c < 65536" | "65536 \<le> c" by linarith
  then show ?thesis
  proof cases
    case 1
    then show ?thesis by (simp add: utf8_char_def utf8_head_def)
  next
    case 2
    then have "2 \<le> c div 64" "c div 64 < 32" by (simp_all add: less_mult_imp_div_less div_le_mono [of 128 c 64, simplified])
    with 2 show ?thesis
      by (simp add: utf8_char_def utf8_head_def two_bytes_def continues_char_def less_Suc_eq_le [symmetric])
  next
    case 3
    then have "c div 4096 < 16" by (simp add: less_mult_imp_div_less)
    with 3 assms show ?thesis
      by (simp add: utf8_char_def utf8_head_def three_bytes_def continues_char_def three less_Suc_eq_le [symmetric])
  next
    case 4
    then have "c div 262144 < 5" using assms by (simp add: less_mult_imp_div_less)
    with 4 assms show ?thesis
      by (simp add: utf8_char_def utf8_head_def four_bytes_def continues_char_def four less_Suc_eq_le [symmetric])
  qed
qed

lemma utf8_decode_char:
  assumes "c \<le> 1114111" "\<not> is_surrogate c"
  shows "utf8_decode_ignore (utf8_char c @ bs) = c # utf8_decode_ignore bs"
  using utf8_head_char [OF assms, of bs] by auto

text \<open>Decoding undoes encoding.\<close>

lemma utf8_decode_encode:
  assumes "utf8_encode s = Inr bs" "\<forall>c \<in> set s. c \<le> 1114111"
  shows "utf8_decode_ignore bs = s"
proof -
  have "utf8_decode_ignore (concat (map utf8_char s)) = s"
    if "\<forall>c \<in> set s. c \<le> 1114111 \<and> \<not> is_surrogate c"
    using that by (induction s) (simp_all add: utf8_decode_char)
  with assms show ?thesis by (auto simp: utf8_encode_def split: if_splits)
qed

section \<open>Lines\<close>

definition is_line_break :: "nat \<Rightarrow> bool" where
  "is_line_break c \<longleftrightarrow> c \<in> {10, 11, 12, 13, 28, 29, 30, 133, 8232, 8233}"

fun splitlines :: "pystr \<Rightarrow> pystr list" where
  "splitlines [] = []"
| "splitlines [c] = [[c]]"
| "splitlines (c # d # s) =
     (if c = 13 \<and> d = 10 then [13, 10] # splitlines s
      else if is_line_break c then [c] # splitlines (d # s)
      else (case splitlines (d # s) of [] \<Rightarrow> [[c]] | l # ls \<Rightarrow> (c # l) # ls))"

lemma splitlines_Nil_iff [simp]: "splitlines s = [] \<longleftrightarrow> s = []"
  by (induction s rule: splitlines.induct) (auto split: list.splits)

lemma concat_splitlines: "concat (splitlines s) = s"
proof (induction s rule: splitlines.induct)
  case (3 c d s)
  have "splitlines (d # s) \<noteq> []" by simp
  with 3 show ?case by (cases "splitlines (d # s)") (auto simp: splitlines_Nil_iff)
qed simp_all

lemma splitlines_no_Nil: "[] \<notin> set (splitlines s)"
  by (induction s rule: splitlines.induct) (auto split: list.splits)

text \<open>Inside a line there is no line feed: it may only be the last character.\<close>

lemma splitlines_feed_last: "l \<in> set (splitlines s) \<Longrightarrow> 10 \<notin> set (butlast l)"
proof (induction s arbitrary: l rule: splitlines.induct)
  case (3 c d s)
  consider "c = 13 \<and> d = 10" | "\<not> (c = 13 \<and> d = 10)" "is_line_break c"
    | "\<not> (c = 13 \<and> d = 10)" "\<not> is_line_break c" by blast
  then show ?case
  proof cases
    case 3
    then have "c \<noteq> 10" by (auto simp: is_line_break_def)
    with 3 "3.IH" "3.prems" show ?thesis by (auto split: list.splits if_splits)
  qed (use "3.IH" "3.prems" in auto)
qed auto

section \<open>Paths\<close>

definition path_root :: "pystr \<Rightarrow> pystr" where
  "path_root s =
     (if starts_with [47, 47] s \<and> \<not> starts_with [47, 47, 47] s then [47, 47]
      else if starts_with [47] s then [47] else [])"

definition path_rel :: "pystr \<Rightarrow> pystr list" where
  "path_rel s = filter (\<lambda>p. p \<noteq> [] \<and> p \<noteq> [46]) (split_char 47 s)"

definition path_parts :: "pystr \<Rightarrow> pystr list" where
  "path_parts s = (if path_root s = [] then [] else [path_root s]) @ path_rel s"

definition last_part :: "pystr list \<Rightarrow> pystr" where
  "last_part ps = (if ps = [] then [] else last ps)"

definition path_name :: "pystr \<Rightarrow> pystr" where
  "path_name s = last_part (path_rel s)"

definition path_parent_name :: "pystr \<Rightarrow> pystr" where
  "path_parent_name s = last_part (butlast (path_rel s))"

text \<open>The suffix starts at the last dot, unless that is the first or the last character.\<close>

definition path_suffix :: "pystr \<Rightarrow> pystr" where
  "path_suffix s =
     (let name = path_name s; tail = rev (takeWhile (\<lambda>c. c \<noteq> 46) (rev name))
      in if length tail + 1 < length name \<and> tail \<noteq> [] then 46 # tail else [])"

lemma last_part_subset: "set (last_part ps) \<subseteq> \<Union> (set ` set ps)"
proof (cases "ps = []")
  case False
  then have "last_part ps \<in> set ps" by (simp add: last_part_def)
  then show ?thesis by (rule UN_upper)
qed (simp add: last_part_def)

lemma split_char_subset: "p \<in> set (split_char c s) \<Longrightarrow> set p \<subseteq> set s"
proof (induction s arbitrary: p)
  case (Cons x s)
  then show ?case by (cases "split_char c s") (fastforce split: if_splits)+
qed simp

lemma path_name_subset: "set (path_name s) \<subseteq> set s"
  using last_part_subset [of "path_rel s"] split_char_subset
  by (fastforce simp: path_name_def path_rel_def)

lemma path_rel_length: "p \<in> set (split_char c s) \<Longrightarrow> length p \<le> length s"
proof (induction s arbitrary: p)
  case (Cons x s)
  then show ?case by (cases "split_char c s") (fastforce split: if_splits)+
qed simp

lemma path_name_length: "length (path_name s) \<le> length s"
proof (cases "path_rel s = []")
  case False
  then have "last (path_rel s) \<in> set (split_char 47 s)"
    using last_in_set [OF False] by (simp add: path_rel_def)
  then show ?thesis using False by (simp add: path_name_def last_part_def path_rel_length)
qed (simp add: path_name_def last_part_def)

end
