(* ===== verification/PyNet.thy ===== *)
theory PyNet
  imports PyStr "HOL-Library.Word"
begin

text \<open>
  URLs and IP addresses of the standard library: \<open>urllib.parse.urlsplit\<close> with the properties of
  its result, and \<open>ipaddress.ip_address\<close> with the classification of addresses that the code
  consults.  An address is a machine word of 32 or 128 bits; the zone of an IPv6 address does
  not take part in any test.  The check of host names under Unicode normalization is written
  with the characters that normalize to one of the delimiters.
\<close>

section \<open>Cutting texts\<close>

text \<open>\<open>s.partition(c)\<close>: the text before the first separator, whether there is one, and the rest.\<close>

definition partition_at :: "nat \<Rightarrow> pystr \<Rightarrow> pystr \<times> bool \<times> pystr" where
  "partition_at c s =
     (let pre = takeWhile ((\<noteq>) c) s
      in if c \<in> set s then (pre, True, drop (Suc (length pre)) s) else (s, False, []))"

text \<open>\<open>s.rpartition(c)\<close>; without a separator the text is the last part.\<close>

definition rpartition_at :: "nat \<Rightarrow> pystr \<Rightarrow> pystr \<times> bool \<times> pystr" where
  "rpartition_at c s =
     (if c \<in> set s
      then let after = rev (takeWhile ((\<noteq>) c) (rev s))
           in (take (length s - Suc (length after)) s, True, after)
      else ([], False, s))"

definition rstrip_by :: "(nat \<Rightarrow> bool) \<Rightarrow> pystr \<Rightarrow> pystr" where
  "rstrip_by P s = rev (dropWhile P (rev s))"

definition all_digits :: "pystr \<Rightarrow> bool" where
  "all_digits s \<longleftrightarrow> s \<noteq> [] \<and> (\<forall>c \<in> set s. is_digit c)"

section \<open>IP addresses\<close>

datatype ip_addr = IPv4 "32 word" | IPv6 "128 word"

definition parse_octet :: "pystr \<Rightarrow> nat option" where
  "parse_octet s =
     (if \<not> all_digits s \<or> 3 < length s \<or> (s \<noteq> [48] \<and> hd s = 48) \<or> 255 < undec s then None
      else Some (undec s))"

definition those_nats :: "nat option list \<Rightarrow> nat list option" where
  "those_nats xs = (if None \<in> set xs then None else Some (map the xs))"

definition parse_ipv4 :: "pystr \<Rightarrow> 32 word option" where
  "parse_ipv4 s =
     (let octets = split_char 46 s
      in if length octets \<noteq> 4 then None
         else map_option (\<lambda>ns. word_of_nat (digits_value 256 ns)) (those_nats (map parse_octet octets)))"

definition hex_digit_value :: "nat \<Rightarrow> nat option" where
  "hex_digit_value c =
     (case digit_of c of Some d \<Rightarrow> if d < 16 then Some d else None | None \<Rightarrow> None)"

definition parse_hextet :: "pystr \<Rightarrow> nat option" where
  "parse_hextet s =
     (if s = [] \<or> 4 < length s then None
      else map_option (digits_value 16) (those_nats (map hex_digit_value s)))"

fun hex_nat :: "nat \<Rightarrow> pystr" where
  "hex_nat n = (if n < 16 then [hex_digit n] else hex_nat (n div 16) @ [hex_digit (n mod 16)])"

declare hex_nat.simps [simp del]

text \<open>An IPv4 suffix becomes two groups of hexadecimal digits.\<close>

definition expand_ipv4_suffix :: "pystr list \<Rightarrow> pystr list option" where
  "expand_ipv4_suffix parts =
     (if 46 \<in> set (last parts)
      then map_option
             (\<lambda>v. butlast parts @ [hex_nat (unat v div 65536), hex_nat (unat v mod 65536)])
             (parse_ipv4 (last parts))
      else Some parts)"

text \<open>
  How many groups stand before and after the \<open>::\<close>; without one all eight are before.  A group
  at an end may be empty as a part of the \<open>::\<close> only.
\<close>

definition group_counts :: "pystr list \<Rightarrow> (nat \<times> nat) option" where
  "group_counts parts =
     (let n = length parts;
          skips = filter (\<lambda>i. parts ! i = []) [1..<n - 1]
      in case skips of
           [] \<Rightarrow> if n \<noteq> 8 \<or> hd parts = [] \<or> last parts = [] then None else Some (8, 0)
         | [k] \<Rightarrow>
             let hi = (if hd parts = [] then k - 1 else k);
                 lo = (if last parts = [] then n - k - 2 else n - k - 1)
             in if (hd parts = [] \<and> hi \<noteq> 0) \<or> (last parts = [] \<and> lo \<noteq> 0) \<or> 8 < hi + lo + 1
                then None else Some (hi, lo)
         | _ \<Rightarrow> None)"

definition ipv6_groups :: "pystr list \<Rightarrow> nat list option" where
  "ipv6_groups parts =
     (case group_counts parts of
        None \<Rightarrow> None
      | Some (hi, lo) \<Rightarrow>
          (case (those_nats (map parse_hextet (take hi parts)),
                 those_nats (map parse_hextet (drop (length parts - lo) parts))) of
             (Some his, Some los) \<Rightarrow> Some (his @ replicate (8 - (hi + lo)) 0 @ los)
           | _ \<Rightarrow> None))"

definition parse_ipv6 :: "pystr \<Rightarrow> 128 word option" where
  "parse_ipv6 text =
     (case partition_at 37 text of (s, scoped, zone) \<Rightarrow>
        if 47 \<in> set text \<or> (scoped \<and> (zone = [] \<or> 37 \<in> set zone)) then None
        else
          let parts = split_char 58 s
          in if length parts < 3 then None
             else (case expand_ipv4_suffix parts of
                 None \<Rightarrow> None
               | Some ps \<Rightarrow>
                   if 9 < length ps then None
                   else map_option (\<lambda>gs. word_of_nat (digits_value 65536 gs)) (ipv6_groups ps)))"

definition ip_address :: "pystr \<Rightarrow> ip_addr option" where
  "ip_address s =
     (case parse_ipv4 s of
        Some v \<Rightarrow> Some (IPv4 v)
      | None \<Rightarrow> map_option IPv6 (parse_ipv6 s))"

subsection \<open>Classification\<close>

text \<open>\<open>addr in net\<close> for a network given by its address and prefix length.\<close>

definition in_net :: "'a :: len word \<Rightarrow> 'a word \<times> nat \<Rightarrow> bool" where
  "in_net a net =
     (case net of (n, p) \<Rightarrow> drop_bit (LENGTH('a) - p) a = drop_bit (LENGTH('a) - p) n)"

definition quad :: "nat \<Rightarrow> nat \<Rightarrow> nat \<Rightarrow> nat \<Rightarrow> 32 word" where
  "quad a b c d = word_of_nat (digits_value 256 [a, b, c, d])"

definition private4 :: "(32 word \<times> nat) list" where
  "private4 =
     [(quad 0 0 0 0, 8), (quad 10 0 0 0, 8), (quad 127 0 0 0, 8), (quad 169 254 0 0, 16),
      (quad 172 16 0 0, 12), (quad 192 0 0 0, 24), (quad 192 0 0 170, 31), (quad 192 0 2 0, 24),
      (quad 192 168 0 0, 16), (quad 198 18 0 0, 15), (quad 198 51 100 0, 24),
      (quad 203 0 113 0, 24), (quad 240 0 0 0, 4), (quad 255 255 255 255, 32)]"

definition private4_exceptions :: "(32 word \<times> nat) list" where
  "private4_exceptions = [(quad 192 0 0 9, 32), (quad 192 0 0 10, 32)]"

definition is_private4 :: "32 word \<Rightarrow> bool" where
  "is_private4 a \<longleftrightarrow> list_ex (in_net a) private4 \<and> \<not> list_ex (in_net a) private4_exceptions"

text \<open>The upper groups of an IPv6 network.\<close>

definition groups :: "nat list \<Rightarrow> 128 word" where
  "groups gs = word_of_nat (digits_value 65536 (gs @ replicate (8 - length gs) 0))"

definition private6 :: "(128 word \<times> nat) list" where
  "private6 =
     [(1, 128), (0, 128), (groups [0, 0, 0, 0, 0, 65535], 96), (groups [100, 65435, 1], 48),
      (groups [256], 64), (groups [8193], 23), (groups [8193, 3512], 32), (groups [8194], 16),
      (groups [64512], 7), (groups [65152], 10)]"

definition private6_exceptions :: "(128 word \<times> nat) list" where
  "private6_exceptions =
     [(groups [8193, 1, 0, 0, 0, 0, 0, 1], 128), (groups [8193, 1, 0, 0, 0, 0, 0, 2], 128),
      (groups [8193, 3], 32), (groups [8193, 4, 274], 48), (groups [8193, 32], 28),
      (groups [8193, 48], 28)]"

definition reserved6 :: "(128 word \<times> nat) list" where
  "reserved6 =
     [(groups [0], 8), (groups [256], 8), (groups [512], 7), (groups [1024], 6),
      (groups [2048], 5), (groups [4096], 4), (groups [16384], 3), (groups [24576], 3),
      (groups [32768], 3), (groups [40960], 3), (groups [49152], 3), (groups [57344], 4),
      (groups [61440], 5), (groups [63488], 6), (groups [65024], 9)]"

text \<open>The IPv4 address in the low bits of a mapped address \<open>::ffff:a.b.c.d\<close>.\<close>

definition ipv4_mapped :: "128 word \<Rightarrow> 32 word option" where
  "ipv4_mapped a = (if drop_bit 32 a = 65535 then Some (ucast a) else None)"

fun is_private :: "ip_addr \<Rightarrow> bool" where
  "is_private (IPv4 a) = is_private4 a"
| "is_private (IPv6 a) =
     (case ipv4_mapped a of
        Some b \<Rightarrow> is_private4 b
      | None \<Rightarrow> list_ex (in_net a) private6 \<and> \<not> list_ex (in_net a) private6_exceptions)"

fun is_reserved :: "ip_addr \<Rightarrow> bool" where
  "is_reserved (IPv4 a) = in_net a (quad 240 0 0 0, 4)"
| "is_reserved (IPv6 a) = list_ex (in_net a) reserved6"

fun is_link_local :: "ip_addr \<Rightarrow> bool" where
  "is_link_local (IPv4 a) = in_net a (quad 169 254 0 0, 16)"
| "is_link_local (IPv6 a) = in_net a (groups [65152], 10)"

fun is_multicast :: "ip_addr \<Rightarrow> bool" where
  "is_multicast (IPv4 a) = in_net a (quad 224 0 0 0, 4)"
| "is_multicast (IPv6 a) = in_net a (groups [65280], 8)"

fun is_unspecified :: "ip_addr \<Rightarrow> bool" where
  "is_unspecified (IPv4 a) = (a = 0)"
| "is_unspecified (IPv6 a) = (a = 0)"

fun is_loopback :: "ip_addr \<Rightarrow> bool" where
  "is_loopback (IPv4 a) = in_net a (quad 127 0 0 0, 8)"
| "is_loopback (IPv6 a) = (a = 1)"

section \<open>URLs\<close>

record split_url =
  u_scheme :: pystr
  u_netloc :: pystr
  u_path :: pystr
  u_query :: pystr
  u_fragment :: pystr

definition is_ascii_alpha :: "nat \<Rightarrow> bool" where
  "is_ascii_alpha c \<longleftrightarrow> (65 \<le> c \<and> c \<le> 90) \<or> (97 \<le> c \<and> c \<le> 122)"

definition is_scheme_char :: "nat \<Rightarrow> bool" where
  "is_scheme_char c \<longleftrightarrow> is_ascii_alpha c \<or> is_digit c \<or> c \<in> {43, 45, 46}"

definition clean_url :: "pystr \<Rightarrow> pystr" where
  "clean_url s = filter (\<lambda>c. c \<notin> {9, 10, 13}) (dropWhile (\<lambda>c. c \<le> 32) s)"

definition split_scheme :: "pystr \<Rightarrow> pystr \<times> pystr" where
  "split_scheme url =
     (case partition_at 58 url of (s, found, rest) \<Rightarrow>
        if found \<and> s \<noteq> [] \<and> is_ascii_alpha (hd s) \<and> list_all is_scheme_char s
        then (str_lower s, rest) else ([], url))"

text \<open>\<open>_check_bracketed_host\<close>: an IPv6 address, or the future form \<open>v1.text\<close>.\<close>

definition bracketed_ok :: "pystr \<Rightarrow> bool" where
  "bracketed_ok host =
     (if starts_with [118] host
      then (case partition_at 46 (tl host) of (version, found, rest) \<Rightarrow>
              found \<and> version \<noteq> [] \<and> list_all (\<lambda>c. hex_digit_value c \<noteq> None) version \<and>
              rest \<noteq> [] \<and> 10 \<notin> set rest)
      else (case ip_address host of Some (IPv6 _) \<Rightarrow> True | _ \<Rightarrow> False))"

definition brackets_ok :: "pystr \<Rightarrow> bool" where
  "brackets_ok netloc \<longleftrightarrow>
     (91 \<in> set netloc \<longleftrightarrow> 93 \<in> set netloc) \<and>
     (91 \<in> set netloc \<longrightarrow>
        bracketed_ok (fst (partition_at 93 (snd (snd (partition_at 91 netloc))))))"

text \<open>The characters outside ASCII whose compatibility form holds a delimiter of a host name.\<close>

definition expands_to_delimiter :: "nat \<Rightarrow> bool" where
  "expands_to_delimiter c \<longleftrightarrow>
     c \<in> {8263, 8264, 8265, 8448, 8449, 8453, 8454, 10868, 65043, 65046, 65109, 65110, 65119, 65131,
          65283, 65295, 65306, 65311, 65312}"

definition split_netloc :: "pystr \<Rightarrow> pystr \<times> pystr" where
  "split_netloc url =
     (if starts_with [47, 47] url
      then (takeWhile (\<lambda>c. c \<notin> {47, 63, 35}) (drop 2 url), dropWhile (\<lambda>c. c \<notin> {47, 63, 35}) (drop 2 url))
      else ([], url))"

definition urlsplit :: "pystr \<Rightarrow> split_url option" where
  "urlsplit text =
     (case split_scheme (clean_url text) of (scheme, url) \<Rightarrow>
      case split_netloc url of (netloc, rest) \<Rightarrow>
      case partition_at 35 rest of (rest', _, fragment) \<Rightarrow>
      case partition_at 63 rest' of (path, _, query) \<Rightarrow>
        if \<not> brackets_ok netloc \<or> list_ex expands_to_delimiter netloc then None
        else Some \<lparr>u_scheme = scheme, u_netloc = netloc, u_path = path, u_query = query,
                   u_fragment = fragment\<rparr>)"

subsection \<open>Properties of the result\<close>

definition userinfo :: "split_url \<Rightarrow> pystr option \<times> pystr option" where
  "userinfo u =
     (case rpartition_at 64 (u_netloc u) of (info, found, _) \<Rightarrow>
        if found
        then (case partition_at 58 info of (name, has_password, password) \<Rightarrow>
                (Some name, if has_password then Some password else None))
        else (None, None))"

definition hostinfo :: "split_url \<Rightarrow> pystr \<times> pystr option" where
  "hostinfo u =
     (case rpartition_at 64 (u_netloc u) of (_, _, info) \<Rightarrow>
      case partition_at 91 info of (_, bracket, bracketed) \<Rightarrow>
      case (if bracket
            then (case partition_at 93 bracketed of (host, _, rest) \<Rightarrow>
                    (host, snd (snd (partition_at 58 rest))))
            else (case partition_at 58 info of (host, _, port) \<Rightarrow> (host, port))) of
        (host, port) \<Rightarrow> (host, if port = [] then None else Some port))"

definition url_hostname :: "split_url \<Rightarrow> pystr option" where
  "url_hostname u =
     (case fst (hostinfo u) of
        [] \<Rightarrow> None
      | host \<Rightarrow> (case partition_at 37 host of (name, found, zone) \<Rightarrow>
          Some (str_lower name @ (if found then 37 # zone else []))))"

text \<open>The outer option is the \<open>ValueError\<close>.\<close>

definition url_port :: "split_url \<Rightarrow> int option option" where
  "url_port u =
     (case snd (hostinfo u) of
        None \<Rightarrow> Some None
      | Some port \<Rightarrow>
          if all_digits port \<and> length port \<le> 4300 \<and> undec port \<le> 65535 then Some (Some (int (undec port)))
          else None)"

end
