(* ===== verification/Config.thy ===== *)
theory Config
  imports Settings PyJson PyNet PyRegex
begin

text \<open>
  \<open>src/watchers/config.py\<close>: reading the settings from the environment, a map from names to
  texts, and \<open>Settings.validate\<close> with the checks in their order.  \<open>float_of_str\<close> is
  \<open>float(text)\<close> and \<open>abspath\<close> is \<open>os.path.abspath\<close> in a working directory.
\<close>

section \<open>Conversions of the standard library\<close>

text \<open>Underscores are allowed between digits only.\<close>

fun underscores_ok :: "nat option \<Rightarrow> pystr \<Rightarrow> bool" where
  "underscores_ok prev [] = (prev \<noteq> Some 95)"
| "underscores_ok prev (c # s) =
     ((if c = 95 then (\<exists>d. prev = Some d \<and> is_digit d) else prev = Some 95 \<longrightarrow> is_digit c)
      \<and> underscores_ok (Some c) s)"

definition float_body :: "pystr \<Rightarrow> float64 option" where
  "float_body s =
     (let ip = takeWhile is_digit s;
          r = dropWhile is_digit s;
          fp = (if take 1 r = [46] then takeWhile is_digit (drop 1 r) else []);
          r' = (if take 1 r = [46] then dropWhile is_digit (drop 1 r) else r)
      in if ip @ fp = [] then None
         else (case scan_exponent r' of
             (ex, []) \<Rightarrow> Some (fl (decimal_rat (ip, fp, ex)))
           | _ \<Rightarrow> None))"

definition float_of_str :: "pystr \<Rightarrow> float64 option" where
  "float_of_str text =
     (let s = strip_by ascii_space (to_ascii text);
          neg = (take 1 s = [45]);
          s' = (if take 1 s \<in> {[45], [43]} then drop 1 s else s);
          low = str_lower s'
      in map_option (\<lambda>x. if neg then fneg x else x)
           (if low = lit ''inf'' \<or> low = lit ''infinity'' then Some PInf
            else if low = lit ''nan'' then Some NaN
            else if underscores_ok None s then float_body (filter (\<lambda>c. c \<noteq> 95) s') else None))"

text \<open>\<open>posixpath.normpath\<close>: two leading slashes stay two, three or more become one.\<close>

fun collapse :: "bool \<Rightarrow> pystr list \<Rightarrow> pystr list \<Rightarrow> pystr list" where
  "collapse rooted stack [] = rev stack"
| "collapse rooted stack (c # cs) =
     (if c = [] \<or> c = [46] then collapse rooted stack cs
      else if c \<noteq> [46, 46] \<or> (\<not> rooted \<and> stack = []) \<or> (stack \<noteq> [] \<and> hd stack = [46, 46])
      then collapse rooted (c # stack) cs
      else collapse rooted (tl stack) cs)"

definition leading_slashes :: "pystr \<Rightarrow> nat" where
  "leading_slashes p =
     (if \<not> starts_with [47] p then 0
      else if starts_with [47, 47] p \<and> \<not> starts_with [47, 47, 47] p then 2 else 1)"

definition normpath :: "pystr \<Rightarrow> pystr" where
  "normpath p =
     (let n = leading_slashes p;
          s = replicate n 47 @ str_join [47] (collapse (0 < n) [] (split_char 47 p))
      in if s = [] then [46] else s)"

definition abspath :: "pystr \<Rightarrow> pystr \<Rightarrow> pystr" where
  "abspath cwd p =
     normpath (if starts_with [47] p then p
               else if cwd = [] \<or> last cwd = 47 then cwd @ p else cwd @ 47 # p)"

section \<open>Reading the environment\<close>

type_synonym environ = "pystr \<Rightarrow> pystr option"

definition getenv :: "environ \<Rightarrow> string \<Rightarrow> pystr \<Rightarrow> pystr" where
  "getenv env name dflt = (case env (lit name) of None \<Rightarrow> dflt | Some s \<Rightarrow> s)"

definition env_int :: "environ \<Rightarrow> string \<Rightarrow> int \<Rightarrow> int \<Rightarrow> int \<Rightarrow> int result" where
  "env_int env name dflt minimum maximum =
     (case env (lit name) of
        None \<Rightarrow> Inr dflt
      | Some raw \<Rightarrow>
          (case int_of_str 10 raw of
             None \<Rightarrow> Inl (ValueError (name @ '' must be an integer''))
           | Some n \<Rightarrow>
               if \<not> (minimum \<le> n \<and> n \<le> maximum)
               then Inl (ValueError (name @ '' must be between minimum and maximum''))
               else Inr n))"

definition env_float :: "environ \<Rightarrow> string \<Rightarrow> float64 \<Rightarrow> float64 \<Rightarrow> float64 \<Rightarrow> float64 result" where
  "env_float env name dflt minimum maximum =
     (case env (lit name) of
        None \<Rightarrow> Inr dflt
      | Some raw \<Rightarrow>
          (case float_of_str raw of
             None \<Rightarrow> Inl (ValueError (name @ '' must be numeric''))
           | Some x \<Rightarrow>
               if \<not> (fle minimum x \<and> fle x maximum)
               then Inl (ValueError (name @ '' must be between minimum and maximum''))
               else Inr x))"

definition env_bool :: "environ \<Rightarrow> string \<Rightarrow> bool \<Rightarrow> bool result" where
  "env_bool env name dflt =
     (case env (lit name) of
        None \<Rightarrow> Inr dflt
      | Some raw \<Rightarrow>
          let normalized = str_lower (str_strip raw)
          in if normalized \<in> {lit ''1'', lit ''true'', lit ''yes'', lit ''on''} then Inr True
             else if normalized \<in> {lit ''0'', lit ''false'', lit ''no'', lit ''off''} then Inr False
             else Inl (ValueError (name @ '' must be true or false'')))"

definition env_csv :: "environ \<Rightarrow> string \<Rightarrow> string \<Rightarrow> pystr list" where
  "env_csv env name dflt =
     map str_strip (filter (\<lambda>item. str_strip item \<noteq> []) (split_char 44 (getenv env name (lit dflt))))"

text \<open>The names of \<open>logging\<close> that are integers.\<close>

definition log_levels :: "pystr list" where
  "log_levels =
     [lit ''CRITICAL'', lit ''FATAL'', lit ''ERROR'', lit ''WARNING'', lit ''WARN'', lit ''INFO'',
      lit ''DEBUG'', lit ''NOTSET'']"

definition setup_logging :: "pystr \<Rightarrow> unit result" where
  "setup_logging level =
     check_r (str_upper (str_strip level) \<notin> set log_levels) (ValueError ''invalid LOG_LEVEL'')"

section \<open>The settings\<close>

definition read_redis :: "environ \<Rightarrow> redis_settings result" where
  "read_redis env =
     bind_r (env_int env ''REDIS_PORT'' 6379 1 65535) (\<lambda>port.
     bind_r (env_int env ''REDIS_DB'' 0 0 15) (\<lambda>db.
     bind_r (env_int env ''REDIS_MAX_CONNECTIONS'' 20 1 1000) (\<lambda>conns.
     bind_r (env_float env ''REDIS_SOCKET_TIMEOUT'' (Fin 5) (fl (1 / 10)) (Fin 120)) (\<lambda>timeout.
       Inr \<lparr>rd_host = str_strip (getenv env ''REDIS_HOST'' (lit ''localhost'')), rd_port = port,
            rd_db = db, rd_password = env (lit ''REDIS_PASSWORD''), rd_max_connections = conns,
            rd_socket_timeout = timeout, rd_retry_on_timeout = True, rd_decode_responses = True\<rparr>))))"

definition read_notifier :: "environ \<Rightarrow> notifier_settings result" where
  "read_notifier env =
     bind_r (env_int env ''ALERT_COOLDOWN_SECS'' 300 1 86400) (\<lambda>cooldown.
     bind_r (env_float env ''NOTIFIER_TIMEOUT'' (Fin 10) (fl (1 / 10)) (Fin 120)) (\<lambda>timeout.
     bind_r (env_int env ''NOTIFIER_MAX_RETRIES'' 3 0 10) (\<lambda>retries.
       Inr \<lparr>nt_slack_webhook_url = env (lit ''SLACK_WEBHOOK_URL''),
            nt_telegram_bot_token = env (lit ''TELEGRAM_BOT_TOKEN''),
            nt_telegram_chat_id = env (lit ''TELEGRAM_CHAT_ID''),
            nt_generic_webhook_url = env (lit ''GENERIC_WEBHOOK_URL''),
            nt_alert_cooldown_secs = cooldown,
            nt_min_alert_severity =
              str_upper (str_strip (getenv env ''MIN_ALERT_SEVERITY'' (lit ''HIGH''))),
            nt_request_timeout_secs = timeout, nt_max_retries = retries\<rparr>)))"

definition read_api :: "environ \<Rightarrow> api_settings result" where
  "read_api env =
     bind_r (env_float env ''API_POLL_INTERVAL'' (Fin 15) (Fin 1) (Fin 3600)) (\<lambda>interval.
     bind_r (env_float env ''API_REQUEST_TIMEOUT'' (Fin 8) (fl (1 / 10)) (Fin 300)) (\<lambda>timeout.
     bind_r (env_int env ''API_FAILURE_THRESHOLD'' 3 1 100) (\<lambda>threshold.
     bind_r (env_float env ''API_LATENCY_WARN_MS'' (Fin 2000) (Fin 1) (Fin 300000)) (\<lambda>latency.
     bind_r (env_int env ''API_MAX_CONCURRENT'' 10 1 500) (\<lambda>concurrent.
       Inr \<lparr>ap_target_urls = env_csv env ''API_WATCHER_TARGETS'' '''',
            ap_poll_interval_secs = interval, ap_request_timeout_secs = timeout,
            ap_failure_threshold = threshold, ap_latency_warn_ms = latency,
            ap_max_concurrent = concurrent, ap_user_agent = user_agent\<rparr>)))))"

definition read_code :: "environ \<Rightarrow> code_settings result" where
  "read_code env =
     bind_r (env_bool env ''CODE_SCAN_ON_START'' True) (\<lambda>scan.
     bind_r (env_bool env ''CODE_SECRET_SCAN'' True) (\<lambda>secrets.
       Inr \<lparr>cd_watch_paths = env_csv env ''CODE_WATCH_PATHS'' ''./src'',
            cd_watch_extensions = env_csv env ''CODE_WATCH_EXTENSIONS'' ''.py,.js,.ts,.go,.java'',
            cd_scan_on_start = scan, cd_secret_patterns_enabled = secrets,
            cd_ignore_paths =
              env_csv env ''CODE_IGNORE_PATHS'' ''node_modules,.git,__pycache__,.venv,dist,build''\<rparr>))"

definition read_correlator :: "environ \<Rightarrow> correlator_settings result" where
  "read_correlator env =
     bind_r (env_float env ''CORRELATOR_WINDOW'' (Fin 300) (Fin 1) (Fin 86400)) (\<lambda>window.
     bind_r (env_int env ''CORRELATOR_BUFFER_SIZE'' 500 1 100000) (\<lambda>size.
     bind_r (env_float env ''CORRELATOR_MIN_CONFIDENCE'' (fl (6 / 10)) (Fin 0) (Fin 1)) (\<lambda>conf.
     bind_r (env_float env ''CORRELATOR_POLL_TIMEOUT'' (Fin 5) (Fin 1) (Fin 60)) (\<lambda>timeout.
       Inr \<lparr>co_correlation_window_secs = window, co_buffer_max_size = size,
            co_min_confidence = conf, co_poll_timeout_secs = timeout,
            co_publish_channel = publish_channel, co_findings_queue = findings_queue\<rparr>))))"

definition read_settings :: "environ \<Rightarrow> settings result" where
  "read_settings env =
     bind_r (read_redis env) (\<lambda>redis.
     bind_r (read_notifier env) (\<lambda>notifier.
     bind_r (read_api env) (\<lambda>api.
     bind_r (read_code env) (\<lambda>code.
     bind_r (read_correlator env) (\<lambda>correlator.
       Inr \<lparr>s_redis = redis, s_notifier = notifier, s_api = api, s_code = code,
            s_correlator = correlator,
            s_env = str_lower (str_strip (getenv env ''WATCHTOWER_ENV'' (lit ''production''))),
            s_platform = str_strip (getenv env ''PLATFORM_NAME'' (lit ''multi-service-platform'')),
            s_log_level = str_upper (str_strip (getenv env ''LOG_LEVEL'' (lit ''INFO'')))\<rparr>)))))"

section \<open>Validation\<close>

definition prohibited :: "ip_addr \<Rightarrow> bool" where
  "prohibited a \<longleftrightarrow>
     is_private a \<or> is_reserved a \<or> is_link_local a \<or> is_multicast a \<or> is_unspecified a"

text \<open>The checks of the host, once it is there.\<close>

definition check_host :: "string \<Rightarrow> bool \<Rightarrow> pystr \<Rightarrow> unit result" where
  "check_host name allow_loopback host =
     (let hostname = rstrip_by (\<lambda>c. c = 46) (str_lower host)
      in bind_r (check_r (hostname = lit ''localhost'' \<and> \<not> allow_loopback)
                   (ValueError (name @ '' must not target localhost''))) (\<lambda>_.
         case ip_address hostname of
           None \<Rightarrow> Inr ()
         | Some address \<Rightarrow>
             bind_r (check_r (prohibited address)
                       (ValueError (name @ '' targets a prohibited address range''))) (\<lambda>_.
               check_r (is_loopback address \<and> \<not> allow_loopback)
                 (ValueError (name @ '' must not target a loopback address'')))))"

definition validate_http_url :: "pystr \<Rightarrow> string \<Rightarrow> bool \<Rightarrow> bool \<Rightarrow> unit result" where
  "validate_http_url value name require_https allow_loopback =
     (case urlsplit value of
        None \<Rightarrow> Inl (ValueError (name @ '' contains an invalid URL''))
      | Some u \<Rightarrow>
          (case url_port u of
             None \<Rightarrow> Inl (ValueError (name @ '' contains an invalid URL''))
           | Some port \<Rightarrow>
               bind_r (check_r
                 (str_lower (u_scheme u) \<notin>
                    (if require_https then {lit ''https''} else {lit ''http'', lit ''https''}))
                 (ValueError (name @ '' must use '' @ (if require_https then ''HTTPS'' else ''HTTP or HTTPS''))))
                 (\<lambda>_.
               bind_r (check_r (\<not> has_text (url_hostname u))
                 (ValueError (name @ '' must include a hostname''))) (\<lambda>_.
               bind_r (check_r (has_text (fst (userinfo u)) \<or> has_text (snd (userinfo u)))
                 (ValueError (name @ '' must not contain credentials''))) (\<lambda>_.
               bind_r (check_r (u_fragment u \<noteq> [] \<or> u_query u \<noteq> [])
                 (ValueError (name @ '' must not contain a query string or fragment''))) (\<lambda>_.
               bind_r (check_r (u_path u = [] \<or> u_path u = [47])
                 (ValueError (name @ '' must identify an explicit health endpoint path''))) (\<lambda>_.
               bind_r (check_r (case port of None \<Rightarrow> False | Some p \<Rightarrow> \<not> (1 \<le> p \<and> p \<le> 65535))
                 (ValueError (name @ '' contains an invalid port''))) (\<lambda>_.
                 check_host name allow_loopback
                   (case url_hostname u of None \<Rightarrow> [] | Some h \<Rightarrow> h)))))))))"

fun validate_targets :: "pystr list \<Rightarrow> unit result" where
  "validate_targets [] = Inr ()"
| "validate_targets (t # ts) =
     bind_r (validate_http_url t ''API_WATCHER_TARGETS'' True False) (\<lambda>_. validate_targets ts)"

definition bot_token_pattern :: rx where
  "bot_token_pattern =
     seqs [Many is_digit 6 (Some 15), Chr ((=) 58),
           Many (\<lambda>c. is_alnum_ascii c \<or> one_of ''_-'' c) 20 None]"

definition chat_id_pattern :: rx where
  "chat_id_pattern = Seq (Many ((=) 45) 0 (Some 1)) (Many is_digit 1 (Some 24))"

definition validate_notifier :: "notifier_settings \<Rightarrow> unit result" where
  "validate_notifier n =
     bind_r (check_r
       (nt_min_alert_severity n \<notin> {lit ''LOW'', lit ''MEDIUM'', lit ''HIGH'', lit ''CRITICAL''})
       (ValueError ''MIN_ALERT_SEVERITY is invalid'')) (\<lambda>_.
     bind_r (check_r (has_text (nt_telegram_bot_token n) \<noteq> has_text (nt_telegram_chat_id n))
       (ValueError ''TELEGRAM_BOT_TOKEN and TELEGRAM_CHAT_ID must be configured together'')) (\<lambda>_.
     bind_r (check_r
       (case nt_telegram_bot_token n of None \<Rightarrow> False
        | Some s \<Rightarrow> s \<noteq> [] \<and> \<not> rx_fullmatch bot_token_pattern s)
       (ValueError ''TELEGRAM_BOT_TOKEN has an invalid format'')) (\<lambda>_.
     bind_r (check_r
       (case nt_telegram_chat_id n of None \<Rightarrow> False
        | Some s \<Rightarrow> s \<noteq> [] \<and> \<not> rx_fullmatch chat_id_pattern s)
       (ValueError ''TELEGRAM_CHAT_ID has an invalid format'')) (\<lambda>_.
     bind_r (case nt_slack_webhook_url n of None \<Rightarrow> Inr ()
             | Some url \<Rightarrow> if url = [] then Inr ()
                           else validate_http_url url ''SLACK_WEBHOOK_URL'' True False) (\<lambda>_.
       case nt_generic_webhook_url n of None \<Rightarrow> Inr ()
       | Some url \<Rightarrow> if url = [] then Inr ()
                     else validate_http_url url ''GENERIC_WEBHOOK_URL'' True False)))))"

definition unsafe_path :: "pystr \<Rightarrow> pystr \<Rightarrow> bool" where
  "unsafe_path cwd p \<longleftrightarrow> 4096 < length p \<or> 0 \<in> set p \<or> abspath cwd p = [47]"

definition bad_extension :: "pystr \<Rightarrow> bool" where
  "bad_extension e \<longleftrightarrow> \<not> starts_with [46] e \<or> 47 \<in> set e \<or> 92 \<in> set e"

definition validate_code :: "pystr \<Rightarrow> code_settings \<Rightarrow> unit result" where
  "validate_code cwd c =
     bind_r (check_r (cd_watch_paths c = [])
       (ValueError ''CODE_WATCH_PATHS must contain at least one path'')) (\<lambda>_.
     bind_r (check_r (list_ex (unsafe_path cwd) (cd_watch_paths c))
       (ValueError ''CODE_WATCH_PATHS contains an unsafe path'')) (\<lambda>_.
       check_r (list_ex bad_extension (cd_watch_extensions c))
         (ValueError ''CODE_WATCH_EXTENSIONS contains an invalid extension'')))"

definition weak_password :: "pystr option \<Rightarrow> bool" where
  "weak_password x =
     (case x of None \<Rightarrow> True | Some s \<Rightarrow> s = [] \<or> length s < 20 \<or> starts_with (lit ''replace-with-'') s)"

definition validate_settings :: "pystr \<Rightarrow> settings \<Rightarrow> unit result" where
  "validate_settings cwd s =
     bind_r (check_r (s_env s \<noteq> lit ''production'')
       (RuntimeError ''this Watchtower build is production-only'')) (\<lambda>_.
     bind_r (check_r (s_platform s = [] \<or> 100 < length (s_platform s))
       (ValueError ''PLATFORM_NAME must contain 1 to 100 characters'')) (\<lambda>_.
     bind_r (check_r (rd_host (s_redis s) = [] \<or> list_ex is_space (rd_host (s_redis s)))
       (ValueError ''REDIS_HOST is invalid'')) (\<lambda>_.
     bind_r (check_r (weak_password (rd_password (s_redis s)))
       (ValueError ''REDIS_PASSWORD must be a non-placeholder secret of at least 20 characters'')) (\<lambda>_.
     bind_r (check_r (ap_target_urls (s_api s) = [])
       (ValueError ''API_WATCHER_TARGETS must contain at least one endpoint'')) (\<lambda>_.
     bind_r (check_r (100 < length (ap_target_urls (s_api s)))
       (ValueError ''API_WATCHER_TARGETS cannot contain more than 100 endpoints'')) (\<lambda>_.
     bind_r (validate_targets (ap_target_urls (s_api s))) (\<lambda>_.
     bind_r (validate_notifier (s_notifier s)) (\<lambda>_.
       validate_code cwd (s_code s)))))))))"

end
