(* ===== verification/ApiWatcher.thy ===== *)
theory ApiWatcher
  imports Config RedisClient
begin

text \<open>
  \<open>src/watchers/api_watcher.py\<close>.  What one GET probe ends with is a \<open>probe_outcome\<close>; the two
  module dictionaries are a \<open>probe_state\<close>.  Between two points where a probe waits, its code runs
  without interruption, so \<open>probe_decide\<close>, everything after the answer up to the arguments
  of \<open>new_finding\<close>, is one step on the state.  \<open>gather_probes\<close> runs the steps of one poll in
  the order in which the probes are answered, and \<open>watch\<close> is the loop over the polls.
\<close>

section \<open>The resolver\<close>

text \<open>
  \<open>results\<close> are the host texts which the default resolver found.  \<open>split('%', 1)[0]\<close> takes the
  zone away.
\<close>

definition check_address :: "bool \<Rightarrow> pystr \<Rightarrow> unit result" where
  "check_address allow_loopback host =
     (case ip_address (fst (partition_at 37 host)) of
        None \<Rightarrow> Inl (ValueError ''does not appear to be an IPv4 or IPv6 address'')
      | Some a \<Rightarrow>
          if is_loopback a
          then (if \<not> allow_loopback then Inl (OSError ''hostname resolved to a prohibited address'')
                else Inr ())
          else check_r (prohibited a) (OSError ''hostname resolved to a prohibited address''))"

fun check_addresses :: "bool \<Rightarrow> pystr list \<Rightarrow> unit result" where
  "check_addresses allow_loopback [] = Inr ()"
| "check_addresses allow_loopback (h # hs) =
     bind_r (check_address allow_loopback h) (\<lambda>_. check_addresses allow_loopback hs)"

definition resolve :: "bool \<Rightarrow> pystr list \<Rightarrow> pystr list result" where
  "resolve allow_loopback results =
     (if results = [] then Inl (OSError ''hostname did not resolve'')
      else bind_r (check_addresses allow_loopback results) (\<lambda>_. Inr results))"

section \<open>Targets and status codes\<close>

definition target_metadata :: "pystr \<Rightarrow> (pystr \<times> pystr) result" where
  "target_metadata url =
     (case urlsplit url of
        None \<Rightarrow> Inl (ValueError ''Invalid URL'')
      | Some u \<Rightarrow>
          let hostname = (case url_hostname u of Some h \<Rightarrow> if h = [] then lit ''unknown-service'' else h
                          | None \<Rightarrow> lit ''unknown-service'')
          in Inr (fst (partition_at 46 hostname), u_path u))"

definition classify_status :: "int \<Rightarrow> finding_type" where
  "classify_status status =
     (if status \<in> {401, 403} then AUTH_FAILURE
      else if status = 429 then RATE_LIMIT_HIT
      else if 500 \<le> status \<and> status \<le> 599 then HTTP_5XX
      else if 400 \<le> status \<and> status \<le> 499 then HTTP_4XX
      else ANOMALOUS_RESPONSE)"

section \<open>The state of the endpoints\<close>

datatype endpoint_state = UP | DOWN | DEGRADED

fun endpoint_state_text :: "endpoint_state \<Rightarrow> pystr" where
  "endpoint_state_text UP = lit ''UP''"
| "endpoint_state_text DOWN = lit ''DOWN''"
| "endpoint_state_text DEGRADED = lit ''DEGRADED''"

text \<open>The default dictionaries: a key that is not there counts 0 failures and is up.\<close>

record probe_state =
  failure_counts :: "pystr \<Rightarrow> int"
  endpoint_states :: "pystr \<Rightarrow> endpoint_state"

definition initial_probes :: probe_state where
  "initial_probes = \<lparr>failure_counts = (\<lambda>_. 0), endpoint_states = (\<lambda>_. UP)\<rparr>"

definition record_failure :: "pystr \<Rightarrow> probe_state \<Rightarrow> int \<times> probe_state" where
  "record_failure key st =
     (let n = failure_counts st key + 1
      in (n, st\<lparr>failure_counts := (failure_counts st)(key := n)\<rparr>))"

definition set_state :: "pystr \<Rightarrow> endpoint_state \<Rightarrow> probe_state \<Rightarrow> probe_state" where
  "set_state key x st = st\<lparr>endpoint_states := (endpoint_states st)(key := x)\<rparr>"

definition record_success :: "pystr \<Rightarrow> probe_state \<Rightarrow> probe_state" where
  "record_success key st = set_state key UP (st\<lparr>failure_counts := (failure_counts st)(key := 0)\<rparr>)"

section \<open>Findings\<close>

definition failure_confidence :: "rat \<Rightarrow> int \<Rightarrow> float64" where
  "failure_confidence base failures =
     fmin (fadd (fl base) (fmul (fl (of_int failures)) (fl (5 / 100)))) (fl (99 / 100))"

text \<open>The arguments that every finding of the watcher has.\<close>

definition api_args :: "pystr \<Rightarrow> pystr \<Rightarrow> pystr \<Rightarrow> finding_args" where
  "api_args platform service endpoint =
     default_args
       \<lparr>na_source := finding_source_value API, na_service := service, na_system := platform,
        na_endpoint := Some endpoint\<rparr>"

definition down_finding ::
  "pystr \<Rightarrow> pystr \<Rightarrow> pystr \<Rightarrow> pystr \<Rightarrow> int \<Rightarrow> pystr \<Rightarrow> pystr \<Rightarrow> finding_args" where
  "down_finding platform url service endpoint failures title error_kind =
     (api_args platform service endpoint)
       \<lparr>na_type := finding_type_value ENDPOINT_DOWN, na_severity := severity_value CRITICAL,
        na_title := title,
        na_description := lit ''GET health probe failed for '' @ service @ endpoint
          @ lit ''; consecutive failures: '' @ dec_int failures,
        na_confidence := NFloat (failure_confidence (8 / 10) failures),
        na_context := Some
          [(lit ''failures'', VInt failures), (lit ''error_kind'', VStr error_kind),
           (lit ''target_scheme'', VStr (case urlsplit url of Some u \<Rightarrow> u_scheme u | None \<Rightarrow> []))]\<rparr>"

definition slow_finding ::
  "pystr \<Rightarrow> pystr \<Rightarrow> pystr \<Rightarrow> int \<Rightarrow> float64 \<Rightarrow> float64 \<Rightarrow> finding_args" where
  "slow_finding platform service endpoint status latency_ms latency_warn_ms =
     (api_args platform service endpoint)
       \<lparr>na_type := finding_type_value HIGH_LATENCY, na_severity := severity_value MEDIUM,
        na_title := lit ''High latency on '' @ service @ endpoint,
        na_description := lit ''Health endpoint responded in '' @ format_0f latency_ms
          @ lit '' ms; threshold is '' @ format_0f latency_warn_ms @ lit '' ms'',
        na_confidence := NFloat (fl (9 / 10)),
        na_context := Some
          [(lit ''latency_ms'', VFloat (fround 2 latency_ms)), (lit ''http_status'', VInt status),
           (lit ''threshold_ms'', VFloat latency_warn_ms)]\<rparr>"

definition status_finding ::
  "pystr \<Rightarrow> pystr \<Rightarrow> pystr \<Rightarrow> int \<Rightarrow> float64 \<Rightarrow> int \<Rightarrow> endpoint_state \<Rightarrow> finding_args" where
  "status_finding platform service endpoint status latency_ms failures state =
     (api_args platform service endpoint)
       \<lparr>na_type := finding_type_value (classify_status status),
        na_severity := severity_value (if status \<ge> 500 then CRITICAL else HIGH),
        na_title := lit ''Persistent HTTP '' @ dec_int status @ lit '' on '' @ service @ endpoint,
        na_description := lit ''GET health probe returned HTTP '' @ dec_int status
          @ lit ''; consecutive failures: '' @ dec_int failures,
        na_confidence := NFloat (failure_confidence (7 / 10) failures),
        na_context := Some
          [(lit ''http_status'', VInt status), (lit ''latency_ms'', VFloat (fround 2 latency_ms)),
           (lit ''method'', VStr (lit ''GET'')), (lit ''failures'', VInt failures),
           (lit ''endpoint_state'', VStr (endpoint_state_text state))]\<rparr>"

definition tls_finding :: "pystr \<Rightarrow> pystr \<Rightarrow> pystr \<Rightarrow> finding_args" where
  "tls_finding platform service endpoint =
     (api_args platform service endpoint)
       \<lparr>na_type := finding_type_value SSL_ERROR, na_severity := severity_value HIGH,
        na_title := lit ''TLS validation failed: '' @ service @ endpoint,
        na_description := lit ''The health probe could not validate the endpoint certificate'',
        na_confidence := NFloat (fl (99 / 100)),
        na_context := Some [(lit ''error_kind'', VStr (lit ''tls_validation''))]\<rparr>"

section \<open>One probe\<close>

text \<open>
  What the GET ends with: a response with its status and the two readings of the monotonic
  clock, or one of the exceptions that the handlers tell apart; a client error carries the name
  of its class.
\<close>

datatype probe_outcome =
    Responded int float64 float64
  | TimedOut
  | TlsFailed
  | ClientFailed pystr
  | Raised py_exn

datatype decision = Quiet | Emit finding_args | Fail py_exn

definition on_response ::
  "api_settings \<Rightarrow> pystr \<Rightarrow> pystr \<Rightarrow> pystr \<Rightarrow> pystr \<Rightarrow> int \<Rightarrow> float64 \<Rightarrow> probe_state \<Rightarrow>
   decision \<times> probe_state" where
  "on_response cfg platform key service endpoint status latency_ms st =
     (if 200 \<le> status \<and> status \<le> 299 then
        (if fle latency_ms (ap_latency_warn_ms cfg) then Quiet
         else Emit (slow_finding platform service endpoint status latency_ms (ap_latency_warn_ms cfg)),
         record_success key st)
      else
        (case record_failure key st of (failures, st1) \<Rightarrow>
           if failures < ap_failure_threshold cfg then (Quiet, st1)
           else
             let state = (if status \<ge> 500 then DOWN else DEGRADED)
             in (Emit (status_finding platform service endpoint status latency_ms failures state),
                 set_state key state st1)))"

text \<open>The handlers of a time-out and of a client error.\<close>

definition on_unreachable ::
  "api_settings \<Rightarrow> pystr \<Rightarrow> pystr \<Rightarrow> pystr \<Rightarrow> pystr \<Rightarrow> string \<Rightarrow> pystr \<Rightarrow> probe_state \<Rightarrow>
   decision \<times> probe_state" where
  "on_unreachable cfg platform url service endpoint heading error_kind st =
     (case record_failure url st of (failures, st1) \<Rightarrow>
        if failures < ap_failure_threshold cfg then (Quiet, st1)
        else (Emit (down_finding platform url service endpoint failures
                      (lit heading @ service @ endpoint) error_kind),
              set_state url DOWN st1))"

definition probe_decide ::
  "settings \<Rightarrow> pystr \<Rightarrow> probe_outcome \<Rightarrow> probe_state \<Rightarrow> decision \<times> probe_state" where
  "probe_decide s url outcome st =
     (case target_metadata url of
        Inl e \<Rightarrow> (Fail e, st)
      | Inr (service, endpoint) \<Rightarrow>
          (case outcome of
             Responded status started finished \<Rightarrow>
               on_response (s_api s) (s_platform s) url service endpoint status
                 (fmul (fsub finished started) (Fin 1000)) st
           | TimedOut \<Rightarrow>
               on_unreachable (s_api s) (s_platform s) url service endpoint ''Endpoint timeout: ''
                 (lit ''timeout'') st
           | TlsFailed \<Rightarrow>
               (Emit (tls_finding (s_platform s) service endpoint), set_state url DOWN st)
           | ClientFailed kind \<Rightarrow>
               on_unreachable (s_api s) (s_platform s) url service endpoint ''Service unreachable: ''
                 kind st
           | Raised e \<Rightarrow> (Fail e, st)))"

text \<open>\<open>new_finding\<close> reads the random bits and the clock.\<close>

definition make_finding :: "'w env \<Rightarrow> finding_args \<Rightarrow> ('w, finding) act" where
  "make_finding E a =
     bind_a (reads (e_uuid E)) (\<lambda>bits.
     bind_a (reads (e_time E)) (\<lambda>now. of_result (new_finding a bits now)))"

definition probe_endpoint ::
  "'w env \<Rightarrow> settings \<Rightarrow> pystr \<Rightarrow> probe_outcome \<Rightarrow> probe_state \<Rightarrow> 'w \<Rightarrow>
   (finding option result \<times> 'w) \<times> probe_state" where
  "probe_endpoint E s url outcome st w =
     (case probe_decide s url outcome st of (d, st1) \<Rightarrow>
        ((case d of
            Quiet \<Rightarrow> ret None w
          | Fail e \<Rightarrow> throw e w
          | Emit a \<Rightarrow> bind_a (make_finding E a) (\<lambda>f. ret (Some f)) w), st1))"

section \<open>Emission\<close>

definition persist_finding :: "'w env \<Rightarrow> finding \<Rightarrow> ('w, unit) act" where
  "persist_finding E f =
     bind_a (of_result (finding_to_json f)) (\<lambda>payload.
     bind_a (push_finding E payload None) (\<lambda>_.
       store_finding_record E (f_id f) payload 86400))"

definition wait_for_next_poll :: "'w env \<Rightarrow> bool \<Rightarrow> float64 \<Rightarrow> ('w, unit) act" where
  "wait_for_next_poll E has_stop timeout = does ((if has_stop then e_stop_wait E else e_sleep E) timeout)"

section \<open>The loop\<close>

text \<open>
  The probes of one poll in the order in which they are answered: pairs of the index of the
  target and its outcome.  The results are collected by index.
\<close>

fun gather_probes ::
  "'w env \<Rightarrow> settings \<Rightarrow> (nat \<times> probe_outcome) list \<Rightarrow> (nat \<Rightarrow> finding option result) \<Rightarrow>
   probe_state \<Rightarrow> 'w \<Rightarrow> (nat \<Rightarrow> finding option result) \<times> probe_state \<times> 'w" where
  "gather_probes E s [] results st w = (results, st, w)"
| "gather_probes E s ((i, outcome) # rest) results st w =
     (case probe_endpoint E s (ap_target_urls (s_api s) ! i) outcome st w of
        ((r, w1), st1) \<Rightarrow> gather_probes E s rest (results(i := r)) st1 w1)"

fun handle_results :: "'w env \<Rightarrow> finding option result list \<Rightarrow> ('w, unit) act" where
  "handle_results E [] = ret ()"
| "handle_results E (r # rs) =
     (case r of
        Inr (Some f) \<Rightarrow> bind_a (persist_finding E f) (\<lambda>_. handle_results E rs)
      | Inr None \<Rightarrow> handle_results E rs
      | Inl CancelledError \<Rightarrow> throw CancelledError
      | Inl e \<Rightarrow> throw (RuntimeError ''probe task failed''))"

text \<open>
  \<open>p_gather\<close> sends the requests of a poll and says in which order they are answered and with
  what; every target is answered once (\<open>answers_all\<close>).
\<close>

record get_request =
  gq_url :: pystr
  gq_total_timeout :: float64
  gq_headers :: "(pystr \<times> pystr) list"
  gq_allow_redirects :: bool

definition probe_request :: "api_settings \<Rightarrow> pystr \<Rightarrow> get_request" where
  "probe_request cfg url =
     \<lparr>gq_url = url, gq_total_timeout = ap_request_timeout_secs cfg,
      gq_headers = [(lit ''User-Agent'', ap_user_agent cfg),
                    (lit ''Accept'', lit ''application/json, text/plain;q=0.9, */*;q=0.1'')],
      gq_allow_redirects = False\<rparr>"

record 'w probe_env =
  p_gather :: "get_request list \<Rightarrow> 'w \<Rightarrow> (nat \<times> probe_outcome) list \<times> 'w"

definition answers_all :: "nat \<Rightarrow> (nat \<times> probe_outcome) list \<Rightarrow> bool" where
  "answers_all n order \<longleftrightarrow> distinct (map fst order) \<and> set (map fst order) = {..<n}"

definition poll_once ::
  "'w env \<Rightarrow> 'w probe_env \<Rightarrow> settings \<Rightarrow> probe_state \<Rightarrow> 'w \<Rightarrow> unit result \<times> 'w \<times> probe_state" where
  "poll_once E P s st w =
     (case p_gather P (map (probe_request (s_api s)) (ap_target_urls (s_api s))) w of (order, w1) \<Rightarrow>
      case gather_probes E s order (\<lambda>_. Inr None) st w1 of (results, st1, w2) \<Rightarrow>
      case handle_results E (map results [0..<length (ap_target_urls (s_api s))]) w2 of (r, w3) \<Rightarrow>
        (r, w3, st1))"

fun watch_loop ::
  "nat \<Rightarrow> 'w env \<Rightarrow> 'w probe_env \<Rightarrow> settings \<Rightarrow> bool \<Rightarrow> probe_state \<Rightarrow> 'w \<Rightarrow>
   (unit result \<times> 'w \<times> probe_state) option" where
  "watch_loop 0 E P s has_stop st w = None"
| "watch_loop (Suc n) E P s has_stop st w =
     (case (if has_stop then e_stopped E w else (False, w)) of (stopped, w1) \<Rightarrow>
        if stopped then Some (Inr (), w1, st)
        else (case poll_once E P s st w1 of (r, w2, st1) \<Rightarrow>
          (case r of
             Inl e \<Rightarrow> Some (Inl e, w2, st1)
           | Inr _ \<Rightarrow>
               (case wait_for_next_poll E has_stop (ap_poll_interval_secs (s_api s)) w2 of
                  (_, w3) \<Rightarrow> watch_loop n E P s has_stop st1 w3))))"

definition watch ::
  "nat \<Rightarrow> 'w env \<Rightarrow> 'w probe_env \<Rightarrow> settings \<Rightarrow> bool \<Rightarrow> 'w \<Rightarrow>
   (unit result \<times> 'w \<times> probe_state) option" where
  "watch fuel E P s has_stop w = watch_loop fuel E P s has_stop initial_probes w"

end
