(* ===== verification/CodeWatcher.thy ===== *)
theory CodeWatcher
  imports CodePatterns PySource ApiWatcher Sha256 "HOL-Library.AList"
begin

text \<open>
  \<open>src/watchers/code_watcher.py\<close>.  The operating system, the parser \<open>ast.parse\<close> and the
  observer of the package \<open>watchdog\<close> are functions of a \<open>code_env\<close>.  The module dictionary
  \<open>_file_hashes\<close> is an association list with the oldest entry first (\<open>tracker\<close>); operations
  that use it act on the world paired with it.  Log messages are left out.
\<close>

section \<open>The environment\<close>

record file_stat =
  st_regular :: bool
  st_dev :: int
  st_ino :: int
  st_size :: int
  st_mtime_ns :: int

text \<open>What the visitor looks at in a syntax tree; all other nodes have their children in field order.\<close>

datatype expr_context = Load | Store | Del

datatype py_const = PyTrue | OtherConst

datatype py_ast =
    CallNode int py_ast "py_ast list" "py_ast list"
  | AttrNode int py_ast pystr expr_context
  | NameNode pystr
  | ConstNode py_const
  | KeywordNode "pystr option" py_ast
  | OtherNode "py_ast list"

datatype fs_event = Modified bool pystr | Created bool pystr

record 'w code_env =
  c_open :: "pystr \<Rightarrow> ('w, nat) act"
  c_fstat :: "nat \<Rightarrow> ('w, file_stat) act"
  c_read :: "nat \<Rightarrow> nat \<Rightarrow> ('w, nat list) act"
  c_close :: "nat \<Rightarrow> ('w, unit) act"
  c_rglob :: "pystr \<Rightarrow> ('w, pystr list) act"
  c_is_file :: "pystr \<Rightarrow> ('w, bool) act"
  c_is_symlink :: "pystr \<Rightarrow> ('w, bool) act"
  c_is_dir :: "pystr \<Rightarrow> ('w, bool) act"
  c_parse :: "pystr \<Rightarrow> py_ast result"
  c_watchdog :: bool
  c_schedule :: "pystr \<Rightarrow> ('w, unit) act"
  c_start :: "('w, unit) act"
  c_alive :: "'w \<Rightarrow> bool \<times> 'w"
  c_stop_join :: "'w \<Rightarrow> 'w"
  c_events :: "'w \<Rightarrow> fs_event list \<times> 'w"

text \<open>\<open>try: m finally: c\<close>: an exception of \<open>c\<close> replaces the outcome of \<open>m\<close>.\<close>

definition finally_a :: "('w, 'a) act \<Rightarrow> ('w, unit) act \<Rightarrow> ('w, 'a) act" where
  "finally_a m c w =
     (case m w of (r, w1) \<Rightarrow> (case c w1 of (Inl e, w2) \<Rightarrow> (Inl e, w2) | (Inr _, w2) \<Rightarrow> (r, w2)))"

definition guard_a :: "bool \<Rightarrow> py_exn \<Rightarrow> ('w, unit) act" where
  "guard_a bad e = of_result (check_r bad e)"

fun is_os_error :: "py_exn \<Rightarrow> bool" where
  "is_os_error (OSError _) = True"
| "is_os_error _ = False"

section \<open>Snapshots of files\<close>

definition max_file_size :: nat where
  "max_file_size = 1024 * 1024"

function read_chunks :: "'w code_env \<Rightarrow> nat \<Rightarrow> nat list \<Rightarrow> 'w \<Rightarrow> nat list result \<times> 'w" where
  "read_chunks C fd got w =
     (case c_read C fd (min (64 * 1024) (max_file_size + 1 - length got)) w of
        (Inl e, w1) \<Rightarrow> (Inl e, w1)
      | (Inr chunk, w1) \<Rightarrow>
          if chunk = [] then (Inr got, w1)
          else if max_file_size < length (got @ chunk)
          then (Inl (OSError ''scan target grew beyond the file-size limit''), w1)
          else read_chunks C fd (got @ chunk) w1)"
  by pat_completeness auto
termination
proof (relation "measure (\<lambda>(C, fd, got, w). max_file_size + 1 - length got)", goal_cases)
  case (2 C fd got w r w1 chunk)
  then have "chunk \<noteq> []" "length got + length chunk \<le> max_file_size" by simp_all
  then have "0 < length chunk" "length got + length chunk \<le> max_file_size" by simp_all
  then have "max_file_size + 1 - (length got + length chunk) < max_file_size + 1 - length got"
    by linarith
  then show ?case by simp
qed simp

declare read_chunks.simps [simp del]

definition stat_identity :: "file_stat \<Rightarrow> int \<times> int \<times> int \<times> int" where
  "stat_identity st = (st_dev st, st_ino st, st_size st, st_mtime_ns st)"

definition read_descriptor :: "'w code_env \<Rightarrow> nat \<Rightarrow> ('w, nat list \<times> file_stat) act" where
  "read_descriptor C fd =
     bind_a (c_fstat C fd) (\<lambda>before_st.
     bind_a (guard_a (\<not> st_regular before_st) (OSError ''scan target is not a regular file'')) (\<lambda>_.
     bind_a (guard_a (int max_file_size < st_size before_st)
               (OSError ''scan target exceeds the file-size limit'')) (\<lambda>_.
     bind_a (read_chunks C fd []) (\<lambda>content.
     bind_a (c_fstat C fd) (\<lambda>after_st.
     bind_a (guard_a (stat_identity before_st \<noteq> stat_identity after_st
                      \<or> int (length content) \<noteq> st_size after_st)
               (OSError ''scan target changed while it was being read'')) (\<lambda>_.
       ret (content, after_st)))))))"

definition read_file_snapshot :: "'w code_env \<Rightarrow> pystr \<Rightarrow> ('w, nat list \<times> file_stat) act" where
  "read_file_snapshot C path =
     bind_a (c_open C path) (\<lambda>fd. finally_a (read_descriptor C fd) (c_close C fd))"

definition file_hash :: "'w code_env \<Rightarrow> pystr \<Rightarrow> ('w, pystr) act" where
  "file_hash C path =
     bind_a (read_file_snapshot C path) (\<lambda>snapshot. ret (sha256_hexdigest (fst snapshot)))"

section \<open>The tracker of changes\<close>

type_synonym tracker = "(pystr \<times> pystr) list"

definition max_tracked_files :: nat where
  "max_tracked_files = 100000"

definition move_to_end :: "pystr \<Rightarrow> tracker \<Rightarrow> tracker" where
  "move_to_end path st =
     (case map_of st path of None \<Rightarrow> st | Some h \<Rightarrow> filter (\<lambda>e. fst e \<noteq> path) st @ [(path, h)])"

function evict_oldest :: "nat \<Rightarrow> tracker \<Rightarrow> tracker" where
  "evict_oldest limit st = (if limit < length st then evict_oldest limit (tl st) else st)"
  by pat_completeness auto
termination
  by (relation "measure (\<lambda>(limit, st). length st)") auto

declare evict_oldest.simps [simp del]

text \<open>The body under the lock: the answer and the dictionary after it.\<close>

definition note_hash :: "nat \<Rightarrow> pystr \<Rightarrow> pystr \<Rightarrow> tracker \<Rightarrow> bool \<times> tracker" where
  "note_hash limit path current st =
     (if map_of st path = Some current then (False, move_to_end path st)
      else (True, evict_oldest limit (move_to_end path (AList.update path current st))))"

text \<open>An action of the world, and a step on the dictionary, as actions of both.\<close>

definition on_world :: "('w, 'a) act \<Rightarrow> ('w \<times> tracker, 'a) act" where
  "on_world m = (\<lambda>(w, st). case m w of (r, w1) \<Rightarrow> (r, (w1, st)))"

definition on_tracker :: "(tracker \<Rightarrow> 'a \<times> tracker) \<Rightarrow> ('w \<times> tracker, 'a) act" where
  "on_tracker f = (\<lambda>(w, st). case f st of (x, st1) \<Rightarrow> (Inr x, (w, st1)))"

definition has_changed :: "'w code_env \<Rightarrow> pystr \<Rightarrow> ('w \<times> tracker, bool) act" where
  "has_changed C path =
     catch_a
       (bind_a (on_world (file_hash C path)) (\<lambda>current.
          on_tracker (note_hash max_tracked_files path current)))
       (\<lambda>e. if is_os_error e then ret False else throw e)"

section \<open>Service and system\<close>

definition after_marker :: "string \<Rightarrow> pystr list \<Rightarrow> pystr option" where
  "after_marker marker parts =
     (case dropWhile (\<lambda>p. p \<noteq> lit marker) parts of
        _ # part # _ \<Rightarrow> (if str_strip part = [] then None else Some (str_strip part))
      | _ \<Rightarrow> None)"

definition infer_service :: "pystr \<Rightarrow> pystr" where
  "infer_service path =
     take 200
       (case after_marker ''services'' (path_parts path) of
          Some c \<Rightarrow> c
        | None \<Rightarrow>
            (case after_marker ''components'' (path_parts path) of
               Some c \<Rightarrow> c
             | None \<Rightarrow>
                 let parent = str_strip (path_parent_name path)
                 in if parent = [] then lit ''unknown-service'' else parent))"

definition infer_service_system :: "settings \<Rightarrow> pystr \<Rightarrow> pystr \<times> pystr" where
  "infer_service_system s path = (infer_service path, s_platform s)"

definition code_args :: "settings \<Rightarrow> pystr \<Rightarrow> finding_args" where
  "code_args s path =
     (case infer_service_system s path of (service, system) \<Rightarrow>
        default_args
          \<lparr>na_source := finding_source_value CODE, na_service := service, na_system := system,
           na_file := Some path\<rparr>)"

text \<open>\<open>f"{title} [{Path(path).name}:{lineno}]"\<close>\<close>

definition located :: "pystr \<Rightarrow> pystr \<Rightarrow> int \<Rightarrow> pystr" where
  "located title path lineno = title @ lit '' ['' @ path_name path @ lit '':'' @ dec_int lineno @ lit '']''"

section \<open>The scanner of lines\<close>

definition is_comment :: "pystr \<Rightarrow> bool" where
  "is_comment line =
     list_ex (\<lambda>p. starts_with (lit p) (str_strip line)) [''#'', ''//'', ''*'', ''<!--'']"

definition pattern_finding ::
  "settings \<Rightarrow> pystr \<Rightarrow> int \<Rightarrow> code_pattern \<Rightarrow> pystr \<Rightarrow> finding_args" where
  "pattern_finding s path lineno p line_hash =
     (code_args s path)
       \<lparr>na_type := finding_type_value (pt_type p), na_severity := severity_value (pt_severity p),
        na_title := located (pt_title p) path lineno,
        na_description := lit ''Security pattern matched in '' @ path @ lit '' at line '' @ dec_int lineno,
        na_line := Some lineno, na_confidence := NFloat (fl (pt_confidence p)),
        na_context := Some
          [(lit ''pattern_type'', VStr (finding_type_value (pt_type p))),
           (lit ''file_path'', VStr path), (lit ''line_sha256'', VStr line_hash),
           (lit ''evidence'', VStr (lit ''[REDACTED]''))]\<rparr>"

text \<open>The first enabled pattern that is found in the line.\<close>

definition line_pattern :: "settings \<Rightarrow> pystr \<Rightarrow> code_pattern option" where
  "line_pattern s line =
     (if is_comment line then None
      else find (\<lambda>p. rx_search (pt_pattern p) line)
             (enabled_patterns (cd_secret_patterns_enabled (s_code s))))"

definition scan_line ::
  "'w env \<Rightarrow> settings \<Rightarrow> pystr \<Rightarrow> int \<Rightarrow> pystr \<Rightarrow> ('w, finding option) act" where
  "scan_line E s path lineno line =
     (case line_pattern s line of
        None \<Rightarrow> ret None
      | Some p \<Rightarrow>
          bind_a (of_result (utf8_encode line)) (\<lambda>bytes.
          bind_a (make_finding E (pattern_finding s path lineno p (sha256_hexdigest bytes))) (\<lambda>f.
            ret (Some f))))"

text \<open>
  The generator, consumed by \<open>list.extend\<close>: the findings it yielded before it ended or raised,
  and how it ended.
\<close>

fun scan_lines ::
  "'w env \<Rightarrow> settings \<Rightarrow> pystr \<Rightarrow> int \<Rightarrow> pystr list \<Rightarrow> 'w \<Rightarrow> (finding list \<times> unit result) \<times> 'w" where
  "scan_lines E s path lineno [] w = (([], Inr ()), w)"
| "scan_lines E s path lineno (line # ls) w =
     (case scan_line E s path lineno line w of
        (Inl e, w1) \<Rightarrow> (([], Inl e), w1)
      | (Inr x, w1) \<Rightarrow>
          (case scan_lines E s path (lineno + 1) ls w1 of
             ((fs, r), w2) \<Rightarrow> (((case x of None \<Rightarrow> fs | Some f \<Rightarrow> f # fs), r), w2)))"

definition scan_file_regex ::
  "'w env \<Rightarrow> settings \<Rightarrow> pystr \<Rightarrow> pystr \<Rightarrow> 'w \<Rightarrow> (finding list \<times> unit result) \<times> 'w" where
  "scan_file_regex E s path source = scan_lines E s path 1 (splitlines source)"

section \<open>The visitor of syntax trees\<close>

record ast_report =
  ar_node :: string
  ar_line :: int
  ar_type :: finding_type
  ar_severity :: severity
  ar_title :: string
  ar_desc :: pystr
  ar_confidence :: rat

definition report_finding :: "settings \<Rightarrow> pystr \<Rightarrow> ast_report \<Rightarrow> finding_args" where
  "report_finding s path r =
     (code_args s path)
       \<lparr>na_type := finding_type_value (ar_type r), na_severity := severity_value (ar_severity r),
        na_title := located (lit (ar_title r)) path (ar_line r), na_description := ar_desc r,
        na_line := Some (ar_line r), na_confidence := NFloat (fl (ar_confidence r)),
        na_context := Some [(lit ''ast_node'', VStr (lit (ar_node r)))]\<rparr>"

fun emit_reports :: "'w env \<Rightarrow> settings \<Rightarrow> pystr \<Rightarrow> ast_report list \<Rightarrow> ('w, finding list) act" where
  "emit_reports E s path [] = ret []"
| "emit_reports E s path (r # rs) =
     bind_a (make_finding E (report_finding s path r)) (\<lambda>f.
     bind_a (emit_reports E s path rs) (\<lambda>fs. ret (f # fs)))"

definition eval_reports :: "int \<Rightarrow> py_ast \<Rightarrow> ast_report list" where
  "eval_reports line func =
     (case func of
        NameNode n \<Rightarrow>
          if n \<in> {lit ''eval'', lit ''exec''}
          then [\<lparr>ar_node = ''Call'', ar_line = line, ar_type = EVAL_USAGE, ar_severity = HIGH,
                 ar_title = ''eval()/exec() call detected'',
                 ar_desc = lit ''Direct use of eval()/exec() can execute arbitrary code.'',
                 ar_confidence = 88 / 100\<rparr>]
          else []
      | _ \<Rightarrow> [])"

fun is_shell_true :: "py_ast \<Rightarrow> bool" where
  "is_shell_true (KeywordNode (Some name) (ConstNode PyTrue)) = (name = lit ''shell'')"
| "is_shell_true _ = False"

definition shell_reports :: "int \<Rightarrow> py_ast \<Rightarrow> py_ast list \<Rightarrow> ast_report list" where
  "shell_reports line func keywords =
     (case func of
        AttrNode _ _ attr _ \<Rightarrow>
          if attr \<in> {lit ''run'', lit ''call'', lit ''Popen''}
          then map (\<lambda>_. \<lparr>ar_node = ''Call'', ar_line = line, ar_type = SUSPICIOUS_PATTERN,
                         ar_severity = HIGH, ar_title = ''subprocess shell=True detected'',
                         ar_desc = lit ''shell=True allows shell injection via unsanitized input.'',
                         ar_confidence = 85 / 100\<rparr>)
                 (filter is_shell_true keywords)
          else []
      | _ \<Rightarrow> [])"

definition chain_reports :: "int \<Rightarrow> py_ast \<Rightarrow> expr_context \<Rightarrow> ast_report list" where
  "chain_reports line val ctx =
     (case (ctx, val) of
        (Load, AttrNode _ _ attr _) \<Rightarrow>
          if attr \<in> {lit ''password'', lit ''token'', lit ''secret'', lit ''key''}
          then [\<lparr>ar_node = ''Attribute'', ar_line = line, ar_type = NULL_DEREFERENCE,
                 ar_severity = MEDIUM, ar_title = ''Possible null dereference on sensitive field'',
                 ar_desc = lit ''Attribute chain on sensitive field '' @ [39] @ attr @ [39]
                   @ lit '' without None guard.'',
                 ar_confidence = 55 / 100\<rparr>]
          else []
      | _ \<Rightarrow> [])"

fun visit :: "'w env \<Rightarrow> settings \<Rightarrow> pystr \<Rightarrow> py_ast \<Rightarrow> ('w, finding list) act"
  and visit_all :: "'w env \<Rightarrow> settings \<Rightarrow> pystr \<Rightarrow> py_ast list \<Rightarrow> ('w, finding list) act"
where
  "visit E s path (CallNode line func args keywords) =
     bind_a (emit_reports E s path (eval_reports line func)) (\<lambda>fs1.
     bind_a (emit_reports E s path (shell_reports line func keywords)) (\<lambda>fs2.
     bind_a (visit E s path func) (\<lambda>fs3.
     bind_a (visit_all E s path args) (\<lambda>fs4.
     bind_a (visit_all E s path keywords) (\<lambda>fs5. ret (fs1 @ fs2 @ fs3 @ fs4 @ fs5))))))"
| "visit E s path (AttrNode line val attr ctx) =
     bind_a (emit_reports E s path (chain_reports line val ctx)) (\<lambda>fs1.
     bind_a (visit E s path val) (\<lambda>fs2. ret (fs1 @ fs2)))"
| "visit E s path (NameNode n) = ret []"
| "visit E s path (ConstNode c) = ret []"
| "visit E s path (KeywordNode arg val) = visit E s path val"
| "visit E s path (OtherNode ts) = visit_all E s path ts"
| "visit_all E s path [] = ret []"
| "visit_all E s path (t # ts) =
     bind_a (visit E s path t) (\<lambda>fs.
     bind_a (visit_all E s path ts) (\<lambda>gs. ret (fs @ gs)))"

definition scan_file_ast ::
  "'w env \<Rightarrow> 'w code_env \<Rightarrow> settings \<Rightarrow> pystr \<Rightarrow> pystr \<Rightarrow> ('w, finding list) act" where
  "scan_file_ast E C s path source =
     (if \<not> ends_with (lit ''.py'') path then ret []
      else (case c_parse C source of
              Inl _ \<Rightarrow> ret []
            | Inr tree \<Rightarrow> catch_a (visit E s path tree) (\<lambda>_. ret [])))"

section \<open>A whole file\<close>

fun dedup_findings :: "(pystr \<times> int option) list \<Rightarrow> finding list \<Rightarrow> finding list" where
  "dedup_findings seen [] = []"
| "dedup_findings seen (f # fs) =
     (if (f_type f, f_line f) \<in> set seen then dedup_findings seen fs
      else f # dedup_findings ((f_type f, f_line f) # seen) fs)"

definition scan_source ::
  "'w env \<Rightarrow> 'w code_env \<Rightarrow> settings \<Rightarrow> pystr \<Rightarrow> pystr \<Rightarrow> 'w \<Rightarrow> finding list \<times> 'w" where
  "scan_source E C s path source w =
     (case scan_file_regex E s path source w of
        ((fs, Inl _), w1) \<Rightarrow> (fs, w1)
      | ((fs, Inr _), w1) \<Rightarrow>
          (case scan_file_ast E C s path source w1 of
             (Inl _, w2) \<Rightarrow> (fs, w2)
           | (Inr gs, w2) \<Rightarrow> (fs @ gs, w2)))"

definition scan_file ::
  "'w env \<Rightarrow> 'w code_env \<Rightarrow> settings \<Rightarrow> pystr \<Rightarrow> ('w, finding list) act" where
  "scan_file E C s path w =
     (case read_file_snapshot C path w of
        (Inl e, w1) \<Rightarrow> if is_os_error e then (Inr [], w1) else (Inl e, w1)
      | (Inr (raw_source, _), w1) \<Rightarrow>
          (case scan_source E C s path (utf8_decode_ignore raw_source) w1 of
             (fs, w2) \<Rightarrow> (Inr (dedup_findings [] fs), w2)))"

definition emit_finding :: "'w env \<Rightarrow> finding \<Rightarrow> ('w, unit) act" where
  "emit_finding E f =
     bind_a (of_result (finding_to_json f)) (\<lambda>payload.
     bind_a (push_finding E payload None) (\<lambda>_.
       store_finding_record E (f_id f) payload 86400))"

fun emit_findings :: "'w env \<Rightarrow> finding list \<Rightarrow> ('w, unit) act" where
  "emit_findings E [] = ret ()"
| "emit_findings E (f # fs) = bind_a (emit_finding E f) (\<lambda>_. emit_findings E fs)"

section \<open>A directory\<close>

definition is_ignored :: "pystr \<Rightarrow> pystr list \<Rightarrow> bool" where
  "is_ignored path ignore_names = list_ex (\<lambda>part. part \<in> set ignore_names) (path_parts path)"

definition is_target :: "'w code_env \<Rightarrow> settings \<Rightarrow> pystr \<Rightarrow> ('w, bool) act" where
  "is_target C s path =
     (if is_ignored path (cd_ignore_paths (s_code s)) then ret False
      else bind_a (c_is_file C path) (\<lambda>file.
        if \<not> file then ret False
        else bind_a (c_is_symlink C path) (\<lambda>link.
          ret (\<not> link \<and> path_suffix path \<in> set (cd_watch_extensions (s_code s))))))"

definition scan_path ::
  "'w env \<Rightarrow> 'w code_env \<Rightarrow> settings \<Rightarrow> bool \<Rightarrow> pystr \<Rightarrow> ('w \<times> tracker, nat) act" where
  "scan_path E C s changed_only path =
     bind_a (on_world (is_target C s path)) (\<lambda>target.
     if \<not> target then ret 0
     else bind_a (has_changed C path) (\<lambda>changed.
       if changed_only \<and> \<not> changed then ret 0
       else bind_a (on_world (scan_file E C s path)) (\<lambda>fs.
         bind_a (on_world (emit_findings E fs)) (\<lambda>_. ret (length fs)))))"

fun scan_paths ::
  "'w env \<Rightarrow> 'w code_env \<Rightarrow> settings \<Rightarrow> bool \<Rightarrow> nat \<Rightarrow> pystr list \<Rightarrow> ('w \<times> tracker, nat) act" where
  "scan_paths E C s changed_only count [] = ret count"
| "scan_paths E C s changed_only count (p # ps) =
     bind_a (scan_path E C s changed_only p) (\<lambda>n. scan_paths E C s changed_only (count + n) ps)"

definition scan_directory ::
  "'w env \<Rightarrow> 'w code_env \<Rightarrow> settings \<Rightarrow> bool \<Rightarrow> pystr \<Rightarrow> ('w \<times> tracker, nat) act" where
  "scan_directory E C s changed_only directory =
     bind_a (on_world (c_rglob C directory)) (\<lambda>paths. scan_paths E C s changed_only 0 paths)"

section \<open>Events of the file system\<close>

definition should_scan :: "'w code_env \<Rightarrow> settings \<Rightarrow> pystr \<Rightarrow> ('w, bool) act" where
  "should_scan C s path =
     (if path_suffix path \<notin> set (cd_watch_extensions (s_code s)) then ret False
      else bind_a (c_is_symlink C path) (\<lambda>link.
        ret (\<not> link \<and> \<not> is_ignored path (cd_ignore_paths (s_code s)))))"

definition modified_finding :: "settings \<Rightarrow> pystr \<Rightarrow> finding_args" where
  "modified_finding s path =
     (code_args s path)
       \<lparr>na_type := finding_type_value FILE_MODIFIED, na_severity := severity_value LOW,
        na_title := lit ''File Modified: '' @ path_name path,
        na_description := lit ''Monitored file changed: '' @ path,
        na_confidence := NFloat (Fin 1),
        na_context := Some [(lit ''event'', VStr (lit ''modified''))]\<rparr>"

definition scan_and_emit :: "'w env \<Rightarrow> 'w code_env \<Rightarrow> settings \<Rightarrow> pystr \<Rightarrow> ('w, unit) act" where
  "scan_and_emit E C s path = bind_a (scan_file E C s path) (\<lambda>fs. emit_findings E fs)"

definition on_modified ::
  "'w env \<Rightarrow> 'w code_env \<Rightarrow> settings \<Rightarrow> bool \<Rightarrow> pystr \<Rightarrow> ('w \<times> tracker, unit) act" where
  "on_modified E C s is_directory path =
     (if is_directory then ret ()
      else bind_a (on_world (should_scan C s path)) (\<lambda>wanted.
        if \<not> wanted then ret ()
        else bind_a (has_changed C path) (\<lambda>changed.
          if \<not> changed then ret ()
          else on_world
            (bind_a (make_finding E (modified_finding s path)) (\<lambda>f.
             bind_a (emit_finding E f) (\<lambda>_. scan_and_emit E C s path))))))"

definition on_created ::
  "'w env \<Rightarrow> 'w code_env \<Rightarrow> settings \<Rightarrow> bool \<Rightarrow> pystr \<Rightarrow> ('w \<times> tracker, unit) act" where
  "on_created E C s is_directory path =
     (if is_directory then ret ()
      else bind_a (on_world (should_scan C s path)) (\<lambda>wanted.
        if \<not> wanted then ret ()
        else bind_a (has_changed C path) (\<lambda>_. on_world (scan_and_emit E C s path))))"

text \<open>The handler keeps the first exception that an event caused.\<close>

definition record_handler_failure :: "py_exn \<Rightarrow> py_exn option \<Rightarrow> py_exn option" where
  "record_handler_failure e failure = (if failure = None then Some e else failure)"

fun event_body :: "'w env \<Rightarrow> 'w code_env \<Rightarrow> settings \<Rightarrow> fs_event \<Rightarrow> ('w \<times> tracker, unit) act" where
  "event_body E C s (Modified d path) = on_modified E C s d path"
| "event_body E C s (Created d path) = on_created E C s d path"

fun handle_events ::
  "'w env \<Rightarrow> 'w code_env \<Rightarrow> settings \<Rightarrow> fs_event list \<Rightarrow> py_exn option \<Rightarrow> 'w \<times> tracker \<Rightarrow>
   py_exn option \<times> ('w \<times> tracker)" where
  "handle_events E C s [] failure v = (failure, v)"
| "handle_events E C s (ev # evs) failure v =
     (case event_body E C s ev v of
        (Inl e, v1) \<Rightarrow> handle_events E C s evs (record_handler_failure e failure) v1
      | (Inr _, v1) \<Rightarrow> handle_events E C s evs failure v1)"

section \<open>The watcher\<close>

definition is_active :: "'w code_env \<Rightarrow> pystr \<Rightarrow> ('w, bool) act" where
  "is_active C path =
     bind_a (c_is_dir C path) (\<lambda>dir.
       if \<not> dir then ret False else bind_a (c_is_symlink C path) (\<lambda>link. ret (\<not> link)))"

fun active_paths :: "'w code_env \<Rightarrow> pystr list \<Rightarrow> ('w, pystr list) act" where
  "active_paths C [] = ret []"
| "active_paths C (p # ps) =
     bind_a (is_active C p) (\<lambda>active.
     bind_a (active_paths C ps) (\<lambda>qs. ret (if active then p # qs else qs)))"

fun scan_roots :: "'w env \<Rightarrow> 'w code_env \<Rightarrow> settings \<Rightarrow> bool \<Rightarrow> pystr list \<Rightarrow> ('w \<times> tracker, unit) act" where
  "scan_roots E C s changed_only [] = ret ()"
| "scan_roots E C s changed_only (p # ps) =
     bind_a (scan_directory E C s changed_only p) (\<lambda>_. scan_roots E C s changed_only ps)"

fun schedule_all :: "'w code_env \<Rightarrow> pystr list \<Rightarrow> ('w, unit) act" where
  "schedule_all C [] = ret ()"
| "schedule_all C (p # ps) = bind_a (c_schedule C p) (\<lambda>_. schedule_all C ps)"

definition stop_requested :: "'w env \<Rightarrow> bool \<Rightarrow> ('w, bool) act" where
  "stop_requested E has_stop = (if has_stop then reads (e_stopped E) else ret False)"

definition code_pause :: "'w env \<Rightarrow> bool \<Rightarrow> rat \<Rightarrow> ('w, unit) act" where
  "code_pause E has_stop secs = does ((if has_stop then e_stop_wait E else e_sleep E) (Fin secs))"

text \<open>
  One round of the loop over the observer: \<open>None\<close> when it ends.  The events that the observer
  delivers while the loop sleeps are handled before the next round.
\<close>

definition observe_round ::
  "'w env \<Rightarrow> 'w code_env \<Rightarrow> bool \<Rightarrow> py_exn option \<Rightarrow> ('w, fs_event list option) act" where
  "observe_round E C has_stop failure =
     bind_a (stop_requested E has_stop) (\<lambda>stopped.
     if stopped then ret None
     else bind_a (guard_a (failure \<noteq> None) (RuntimeError ''code watcher event handling failed'')) (\<lambda>_.
       bind_a (reads (c_alive C)) (\<lambda>alive.
       bind_a (guard_a (\<not> alive) (RuntimeError ''code watcher observer stopped unexpectedly'')) (\<lambda>_.
       bind_a (code_pause E has_stop 1) (\<lambda>_.
       bind_a (reads (c_events C)) (\<lambda>evs. ret (Some evs)))))))"

fun observe_loop ::
  "nat \<Rightarrow> 'w env \<Rightarrow> 'w code_env \<Rightarrow> settings \<Rightarrow> bool \<Rightarrow> py_exn option \<Rightarrow> 'w \<times> tracker \<Rightarrow>
   (unit result \<times> ('w \<times> tracker)) option" where
  "observe_loop 0 E C s has_stop failure v = None"
| "observe_loop (Suc n) E C s has_stop failure v =
     (case on_world (observe_round E C has_stop failure) v of
        (Inl e, v1) \<Rightarrow> Some (Inl e, v1)
      | (Inr None, v1) \<Rightarrow> Some (Inr (), v1)
      | (Inr (Some evs), v1) \<Rightarrow>
          (case handle_events E C s evs failure v1 of
             (failure', v2) \<Rightarrow> observe_loop n E C s has_stop failure' v2))"

text \<open>The \<open>finally\<close> clause.\<close>

definition stop_observer :: "'w code_env \<Rightarrow> ('w, unit) act" where
  "stop_observer C =
     bind_a (does (c_stop_join C)) (\<lambda>_.
     bind_a (reads (c_alive C)) (\<lambda>alive.
       guard_a alive (RuntimeError ''code watcher observer did not stop'')))"

definition watch_observer ::
  "nat \<Rightarrow> 'w env \<Rightarrow> 'w code_env \<Rightarrow> settings \<Rightarrow> bool \<Rightarrow> pystr list \<Rightarrow> 'w \<times> tracker \<Rightarrow>
   (unit result \<times> ('w \<times> tracker)) option" where
  "watch_observer fuel E C s has_stop paths v =
     (case on_world (bind_a (schedule_all C paths) (\<lambda>_. c_start C)) v of
        (Inl e, v1) \<Rightarrow> Some (Inl e, v1)
      | (Inr _, v1) \<Rightarrow>
          map_option (\<lambda>(r, v2). finally_a (\<lambda>v. (r, v)) (on_world (stop_observer C)) v2)
            (observe_loop fuel E C s has_stop None v1))"

fun poll_loop ::
  "nat \<Rightarrow> 'w env \<Rightarrow> 'w code_env \<Rightarrow> settings \<Rightarrow> bool \<Rightarrow> pystr list \<Rightarrow> 'w \<times> tracker \<Rightarrow>
   (unit result \<times> ('w \<times> tracker)) option" where
  "poll_loop 0 E C s has_stop paths v = None"
| "poll_loop (Suc n) E C s has_stop paths v =
     (case on_world (stop_requested E has_stop) v of
        (Inl e, v1) \<Rightarrow> Some (Inl e, v1)
      | (Inr stopped, v1) \<Rightarrow>
          if stopped then Some (Inr (), v1)
          else (case bind_a (scan_roots E C s True paths) (\<lambda>_. on_world (code_pause E has_stop 60)) v1 of
                  (Inl e, v2) \<Rightarrow> Some (Inl e, v2)
                | (Inr _, v2) \<Rightarrow> poll_loop n E C s has_stop paths v2))"

definition start_watch ::
  "'w env \<Rightarrow> 'w code_env \<Rightarrow> settings \<Rightarrow> ('w \<times> tracker, pystr list) act" where
  "start_watch E C s =
     bind_a (on_world (active_paths C (cd_watch_paths (s_code s)))) (\<lambda>paths.
     bind_a (guard_a (paths = [])
               (RuntimeError ''none of the configured code watch paths is a directory'')) (\<lambda>_.
     bind_a (if cd_scan_on_start (s_code s) then scan_roots E C s False paths else ret ()) (\<lambda>_.
       ret paths)))"

definition watch_code ::
  "nat \<Rightarrow> 'w env \<Rightarrow> 'w code_env \<Rightarrow> settings \<Rightarrow> bool \<Rightarrow> 'w \<times> tracker \<Rightarrow>
   (unit result \<times> ('w \<times> tracker)) option" where
  "watch_code fuel E C s has_stop v =
     (case start_watch E C s v of
        (Inl e, v1) \<Rightarrow> Some (Inl e, v1)
      | (Inr paths, v1) \<Rightarrow>
          (if c_watchdog C then watch_observer else poll_loop) fuel E C s has_stop paths v1)"

end
