(* ===== verification/Notifier.thy ===== *)
theory Notifier
  imports Settings PyRegex
begin

text \<open>
  The delivery of alerts, \<open>src/watchers/notifier.py\<close>: the threshold, the sanitizer which
  removes control characters and credential shapes, the payloads of the three channels, the
  thread's HTTP session with its retry policy, and \<open>send_alert\<close>.  What \<open>requests\<close> does with
  a POST is a function of the environment \<open>http_env\<close>, whose outcomes are those that
  \<open>_post\<close> distinguishes.
\<close>

section \<open>Tables\<close>

definition sev_order :: "(pystr \<times> int) list" where
  "sev_order =
     [(severity_value LOW, 1), (severity_value MEDIUM, 2), (severity_value HIGH, 3),
      (severity_value CRITICAL, 4)]"

definition sev_emoji :: "(pystr \<times> pystr) list" where
  "sev_emoji =
     [(severity_value CRITICAL, [128308]), (severity_value HIGH, [128992]),
      (severity_value MEDIUM, [128993]), (severity_value LOW, [128994])]"

definition sev_color_hex :: "(pystr \<times> pystr) list" where
  "sev_color_hex =
     [(severity_value CRITICAL, lit ''#FF1744''), (severity_value HIGH, lit ''#FF6D00''),
      (severity_value MEDIUM, lit ''#FFAB00''), (severity_value LOW, lit ''#00E676'')]"

definition get_or :: "(pystr \<times> 'a) list \<Rightarrow> pystr \<Rightarrow> 'a \<Rightarrow> 'a" where
  "get_or kvs k d = (case map_of kvs k of Some v \<Rightarrow> v | None \<Rightarrow> d)"

definition should_notify :: "notifier_settings \<Rightarrow> alert \<Rightarrow> bool result" where
  "should_notify cfg a =
     (case map_of sev_order (nt_min_alert_severity cfg) of
        None \<Rightarrow> Inl KeyError
      | Some threshold \<Rightarrow> Inr (get_or sev_order (a_severity a) 0 \<ge> threshold))"

section \<open>The sanitizer\<close>

definition is_control :: "nat \<Rightarrow> bool" where
  "is_control c \<longleftrightarrow> c \<le> 8 \<or> c = 11 \<or> c = 12 \<or> (14 \<le> c \<and> c \<le> 31) \<or> c = 127"

text \<open>\<open>[_-]?\<close> and the classes of the patterns.\<close>

definition opt_joint :: rx where
  "opt_joint = Many (one_of ''_-'') 0 (Some 1)"

definition credential_pattern :: rx where
  "credential_pattern =
     seqs
       [Bound,
        alts
          [word_ci ''authorization'',
           seqs [word_ci ''api'', opt_joint, word_ci ''key''],
           seqs [word_ci ''access'', opt_joint, word_ci ''token''],
           seqs [word_ci ''auth'', opt_joint, word_ci ''token''],
           word_ci ''password'', word_ci ''passwd'', word_ci ''secret''],
        Bound, Many is_space 0 None, Chr (one_of '':=''), Many is_space 0 None,
        Opt (Seq (word_ci ''bearer'') (Many is_space 1 None)),
        Many (\<lambda>c. \<not> is_space c \<and> \<not> one_of '',;'' c) 1 None]"

definition bearer_pattern :: rx where
  "bearer_pattern =
     seqs
       [Bound, word_ci ''bearer'', Many is_space 1 None,
        Many (\<lambda>c. is_alnum_folded c \<or> one_of ''._~+/=-'' c) 12 None]"

definition private_key_pattern :: rx where
  "private_key_pattern =
     seqs
       [word ''-----BEGIN '', Many (\<lambda>c. is_upper_ascii c \<or> is_digit c \<or> c = 32) 0 None,
        word ''PRIVATE KEY-----'']"

definition token_pattern :: rx where
  "token_pattern =
     seqs
       [Bound,
        Alt
          (seqs [word ''gh'', Chr (one_of ''pousr''), word ''_'', Many is_alnum_ascii 20 None])
          (seqs [word ''sk-'', Many (\<lambda>c. is_alnum_ascii c \<or> one_of ''_-'' c) 20 None]),
        Bound]"

definition is_blob_char :: "nat \<Rightarrow> bool" where
  "is_blob_char c \<longleftrightarrow> is_alnum_ascii c \<or> one_of ''+/=_-'' c"

definition blob_pattern :: rx where
  "blob_pattern = seqs [Bound, Many is_blob_char 40 None, Bound]"

definition secret_patterns :: "rx list" where
  "secret_patterns =
     [credential_pattern, bearer_pattern, private_key_pattern, token_pattern, blob_pattern]"

definition redact :: "pystr \<Rightarrow> pystr" where
  "redact s = foldl (\<lambda>t p. rx_sub p (lit ''[REDACTED]'') t) s secret_patterns"

definition normalize_space :: "pystr \<Rightarrow> pystr" where
  "normalize_space s = str_join [32] (split_space s)"

definition clip :: "nat \<Rightarrow> pystr \<Rightarrow> pystr" where
  "clip max_len s = take max_len s @ (if max_len < length s then [8230] else [])"

text \<open>The values which the payloads sanitize are optional texts and the line.\<close>

datatype note_arg = NoteText "pystr option" | NoteLine "int option"

definition note_str :: "note_arg \<Rightarrow> pystr option result" where
  "note_str v =
     (case v of
        NoteText None \<Rightarrow> Inr None
      | NoteText (Some s) \<Rightarrow> Inr (if s = [] then None else Some s)
      | NoteLine None \<Rightarrow> Inr None
      | NoteLine (Some i) \<Rightarrow>
          if 4300 < length (dec_nat (nat \<bar>i\<bar>))
          then Inl (ValueError ''Exceeds the limit for integer string conversion'')
          else Inr (Some (dec_int i)))"

definition sanitize_text :: "pystr \<Rightarrow> nat \<Rightarrow> pystr" where
  "sanitize_text s max_len =
     clip max_len (normalize_space (redact (filter (\<lambda>c. \<not> is_control c) s)))"

definition sanitize :: "note_arg \<Rightarrow> nat \<Rightarrow> pystr result" where
  "sanitize v max_len =
     bind_r (note_str v) (\<lambda>t.
       Inr (case t of None \<Rightarrow> lit ''N/A'' | Some s \<Rightarrow> sanitize_text s max_len))"

text \<open>A text that is there: \<open>_sanitize\<close> of a string.\<close>

definition clean :: "pystr \<Rightarrow> nat \<Rightarrow> pystr" where
  "clean s max_len = (if s = [] then lit ''N/A'' else sanitize_text s max_len)"

definition clean_opt :: "pystr option \<Rightarrow> nat \<Rightarrow> pystr" where
  "clean_opt x max_len = (case x of None \<Rightarrow> lit ''N/A'' | Some s \<Rightarrow> clean s max_len)"

lemma sanitize_NoteText [simp]: "sanitize (NoteText x) n = Inr (clean_opt x n)"
  by (auto simp: sanitize_def note_str_def clean_opt_def clean_def split: option.splits)

section \<open>Payloads\<close>

definition percent :: "pynum \<Rightarrow> pystr" where
  "percent n =
     (case n of NInt i \<Rightarrow> format_0f (fl (of_int (i * 100))) | NFloat f \<Rightarrow> format_0f (fmul f (Fin 100)))
     @ lit ''%''"

definition plain :: "pystr \<Rightarrow> pyval" where
  "plain s = VDict [(lit ''type'', VStr (lit ''plain_text'')), (lit ''text'', VStr s)]"

definition slack_fields :: "alert \<Rightarrow> (string \<times> note_arg) list" where
  "slack_fields a =
     [(''System'', NoteText (Some (a_system a))), (''Service'', NoteText (Some (a_service a))),
      (''Endpoint'', NoteText (a_endpoint a)), (''Confidence'', NoteText (Some (percent (a_confidence a)))),
      (''API error'', NoteText (Some (a_api_error a))), (''Code issue'', NoteText (Some (a_code_issue a))),
      (''File'', NoteText (a_file a)), (''Line'', NoteLine (a_line a))]"

fun slack_field_items :: "(string \<times> note_arg) list \<Rightarrow> pyval list result" where
  "slack_field_items [] = Inr []"
| "slack_field_items ((label, v) # rest) =
     bind_r (sanitize v 250) (\<lambda>t.
     bind_r (slack_field_items rest) (\<lambda>items.
       Inr (plain (lit label @ lit '': '' @ t) # items)))"

definition build_slack_payload :: "alert \<Rightarrow> pyval result" where
  "build_slack_payload a =
     bind_r (slack_field_items (slack_fields a)) (\<lambda>fields.
       Inr (VDict [(lit ''attachments'', VList [VDict
         [(lit ''color'', VStr (get_or sev_color_hex (a_severity a) (lit ''#888888''))),
          (lit ''blocks'', VList
            [VDict
              [(lit ''type'', VStr (lit ''header'')),
               (lit ''text'', plain (clean
                  (get_or sev_emoji (a_severity a) [9898] @ lit '' Security alert: ''
                   @ a_severity a @ [32, 8212, 32] @ a_service a) 150))],
             VDict [(lit ''type'', VStr (lit ''section'')), (lit ''fields'', VList fields)],
             VDict
              [(lit ''type'', VStr (lit ''section'')),
               (lit ''text'', plain
                  (lit ''Root cause: '' @ clean (a_root_cause a) 1000 @ [10]
                   @ lit ''Recommended fix: '' @ clean (a_recommended_fix a) 1000))],
             VDict
              [(lit ''type'', VStr (lit ''context'')),
               (lit ''elements'', VList [plain
                  (lit ''Alert '' @ clean (take 8 (a_id a)) 16 @ lit '' | Fingerprint ''
                   @ clean (take 12 (a_fingerprint a)) 16 @ lit '' | Trace ''
                   @ clean_opt (a_trace_id a) 128)])]])]])]))"

definition telegram_lines :: "alert \<Rightarrow> pystr \<Rightarrow> pystr list" where
  "telegram_lines a line_text =
     [clean (get_or sev_emoji (a_severity a) [9898] @ lit '' SECURITY ALERT '' @ [8212, 32]
             @ a_severity a) 100,
      [],
      lit ''Service: '' @ clean (a_service a) 300,
      lit ''System: '' @ clean (a_system a) 300,
      lit ''Endpoint: '' @ clean_opt (a_endpoint a) 300,
      lit ''Confidence: '' @ percent (a_confidence a),
      lit ''API error: '' @ clean (a_api_error a) 300,
      lit ''Code issue: '' @ clean (a_code_issue a) 300,
      lit ''File: '' @ clean_opt (a_file a) 300 @ lit '':'' @ line_text,
      [],
      lit ''Root cause: '' @ clean (a_root_cause a) 500,
      lit ''Fix: '' @ clean (a_recommended_fix a) 500,
      lit ''ID: '' @ clean (take 8 (a_id a)) 16]"

definition build_telegram_payload :: "alert \<Rightarrow> pystr \<Rightarrow> pyval result" where
  "build_telegram_payload a chat_id =
     bind_r (sanitize (NoteLine (a_line a)) 20) (\<lambda>line_text.
       Inr (VDict [(lit ''chat_id'', VStr chat_id),
                   (lit ''text'', VStr (str_join [10] (telegram_lines a line_text)))]))"

definition clean_or_null :: "pystr option \<Rightarrow> nat \<Rightarrow> pyval" where
  "clean_or_null x max_len = (case x of None \<Rightarrow> VNone | Some s \<Rightarrow> VStr (clean s max_len))"

definition build_webhook_payload :: "alert \<Rightarrow> pyval" where
  "build_webhook_payload a =
     VDict
       [(lit ''alert_id'', VStr (a_id a)), (lit ''fingerprint'', VStr (a_fingerprint a)),
        (lit ''severity'', VStr (a_severity a)), (lit ''confidence'', val_of_num (a_confidence a)),
        (lit ''service'', VStr (clean (a_service a) 200)),
        (lit ''system'', VStr (clean (a_system a) 200)),
        (lit ''endpoint'', clean_or_null (a_endpoint a) 2048),
        (lit ''api_error'', VStr (a_api_error a)), (lit ''code_issue'', VStr (a_code_issue a)),
        (lit ''file'', clean_or_null (a_file a) 4096), (lit ''line'', val_of_int (a_line a)),
        (lit ''root_cause'', VStr (clean (a_root_cause a) 4000)),
        (lit ''recommended_fix'', VStr (clean (a_recommended_fix a) 4000)),
        (lit ''trace_id'', clean_or_null (a_trace_id a) 256),
        (lit ''timestamp'', val_of_num (a_timestamp a)),
        (lit ''source'', VStr (lit ''security-watchtower-v'' @ lit package_version))]"

section \<open>The session\<close>

text \<open>The \<open>Retry\<close> object of \<open>urllib3\<close>; \<open>None\<close> is no limit of its own.\<close>

record retry_policy =
  rp_total :: "int option"
  rp_connect :: int
  rp_read :: int
  rp_redirect :: int
  rp_status :: int
  rp_other :: int
  rp_backoff_factor :: float64
  rp_allowed_methods :: "pystr list"
  rp_raise_on_status :: bool

record session =
  ss_mounts :: "(pystr \<times> retry_policy) list"

definition build_session :: "notifier_settings \<Rightarrow> session" where
  "build_session cfg =
     \<lparr>ss_mounts = [(lit ''https://'',
        \<lparr>rp_total = None, rp_connect = nt_max_retries cfg, rp_read = 0, rp_redirect = 0,
         rp_status = 0, rp_other = 0, rp_backoff_factor = fl (8 / 10),
         rp_allowed_methods = [lit ''POST''], rp_raise_on_status = False\<rparr>)]\<rparr>"

text \<open>A POST as \<open>requests\<close> receives it.\<close>

record post_request =
  pq_url :: pystr
  pq_json :: pyval
  pq_timeout :: float64
  pq_allow_redirects :: bool
  pq_stream :: bool
  pq_headers :: "(pystr \<times> pystr) list"

datatype post_outcome =
    Response int
  | PostTimeout
  | PostError
  | PostRaises py_exn

record 'w http_env =
  h_session :: "'w \<Rightarrow> session option"
  h_keep_session :: "session \<Rightarrow> 'w \<Rightarrow> 'w"
  h_post :: "session \<Rightarrow> post_request \<Rightarrow> 'w \<Rightarrow> post_outcome \<times> 'w"

definition get_session :: "'w http_env \<Rightarrow> notifier_settings \<Rightarrow> ('w, session) act" where
  "get_session H cfg w =
     (case h_session H w of
        Some s \<Rightarrow> (Inr s, w)
      | None \<Rightarrow> let s = build_session cfg in (Inr s, h_keep_session H s w))"

definition response_ok :: "int \<Rightarrow> bool" where
  "response_ok status \<longleftrightarrow> \<not> (400 \<le> status \<and> status < 600)"

definition post_headers :: "pystr \<Rightarrow> (pystr \<times> pystr) list" where
  "post_headers idempotency_key =
     [(lit ''Content-Type'', lit ''application/json''), (lit ''Idempotency-Key'', idempotency_key),
      (lit ''User-Agent'', user_agent)]"

definition post ::
  "'w http_env \<Rightarrow> notifier_settings \<Rightarrow> pystr \<Rightarrow> pyval \<Rightarrow> pystr \<Rightarrow> ('w, bool) act" where
  "post H cfg url payload idempotency_key =
     bind_a (get_session H cfg) (\<lambda>s.
     bind_a (reads (h_post H s
       \<lparr>pq_url = url, pq_json = payload, pq_timeout = nt_request_timeout_secs cfg,
        pq_allow_redirects = False, pq_stream = True, pq_headers = post_headers idempotency_key\<rparr>))
       (\<lambda>outcome.
         case outcome of
           Response status \<Rightarrow> ret (response_ok status)
         | PostTimeout \<Rightarrow> ret False
         | PostError \<Rightarrow> ret False
         | PostRaises e \<Rightarrow> throw e))"

section \<open>send_alert\<close>

definition telegram_url :: "pystr \<Rightarrow> pystr" where
  "telegram_url token = lit ''https://api.telegram.org/'' @ lit ''bot'' @ token @ lit ''/sendMessage''"

text \<open>
  One channel: \<open>configured\<close> is the condition of its \<open>if\<close>; the counters are \<open>attempted\<close> and
  \<open>delivered\<close>.
\<close>

definition channel ::
  "bool \<Rightarrow> 'w http_env \<Rightarrow> notifier_settings \<Rightarrow> pystr \<Rightarrow> pyval result \<Rightarrow> pystr \<Rightarrow> nat \<times> nat \<Rightarrow>
   ('w, nat \<times> nat) act" where
  "channel configured H cfg url payload idempotency_key counts =
     (if \<not> configured then ret counts
      else bind_a (of_result payload) (\<lambda>p.
           bind_a (post H cfg url p idempotency_key) (\<lambda>ok.
             ret (fst counts + 1, snd counts + (if ok then 1 else 0)))))"

definition text_of :: "pystr option \<Rightarrow> pystr" where
  "text_of x = (case x of None \<Rightarrow> [] | Some s \<Rightarrow> s)"

definition send_alert :: "'w http_env \<Rightarrow> notifier_settings \<Rightarrow> alert \<Rightarrow> ('w, bool) act" where
  "send_alert H cfg a =
     bind_a (of_result (should_notify cfg a)) (\<lambda>wanted.
       if \<not> wanted then ret True
       else
         bind_a (channel (has_text (nt_slack_webhook_url cfg)) H cfg
                   (text_of (nt_slack_webhook_url cfg)) (build_slack_payload a) (a_fingerprint a)
                   (0, 0)) (\<lambda>c1.
         bind_a (channel (has_text (nt_telegram_bot_token cfg) \<and> has_text (nt_telegram_chat_id cfg))
                   H cfg (telegram_url (text_of (nt_telegram_bot_token cfg)))
                   (build_telegram_payload a (text_of (nt_telegram_chat_id cfg)))
                   (a_fingerprint a) c1) (\<lambda>c2.
         bind_a (channel (has_text (nt_generic_webhook_url cfg)) H cfg
                   (text_of (nt_generic_webhook_url cfg)) (Inr (build_webhook_payload a))
                   (a_fingerprint a) c2) (\<lambda>(attempted, delivered).
           ret (if attempted = 0 then False else if delivered = 0 then False else True)))))"

end
