(* ===== verification/NotifierSanitize.thy ===== *)
theory NotifierSanitize
  imports Notifier
begin

text \<open>
  What the sanitizer of \<open>src/watchers/notifier.py\<close> leaves in a text.  \<open>contains_blob\<close> says
  without reference to the matcher that a text holds what the last secret pattern describes, a
  run of at least 40 token characters between word boundaries.  The substitution leaves no such
  run (\<open>sub_no_blob\<close>), and normalizing the white space makes none.
\<close>

section \<open>Token runs\<close>

definition word_end :: "pystr \<Rightarrow> bool" where
  "word_end u \<longleftrightarrow> u \<noteq> [] \<and> is_word (last u)"

definition word_start :: "pystr \<Rightarrow> bool" where
  "word_start v \<longleftrightarrow> v \<noteq> [] \<and> is_word (hd v)"

definition blob_at :: "pystr \<Rightarrow> pystr \<Rightarrow> pystr \<Rightarrow> bool" where
  "blob_at u w v \<longleftrightarrow>
     list_all is_blob_char w \<and> 40 \<le> length w \<and> word_end u \<noteq> word_start w \<and> word_end w \<noteq> word_start v"

definition contains_blob :: "pystr \<Rightarrow> bool" where
  "contains_blob t \<longleftrightarrow> (\<exists>u w v. t = u @ w @ v \<and> blob_at u w v)"

definition end_of :: "nat option \<Rightarrow> pystr \<Rightarrow> nat option" where
  "end_of prev u = (if u = [] then prev else Some (last u))"

lemma end_of_simps [simp]: "end_of prev [] = prev" "end_of prev (u @ [c]) = Some c"
  by (simp_all add: end_of_def)

lemma end_of_append: "end_of (end_of prev u) v = end_of prev (u @ v)"
  by (simp add: end_of_def)

lemma word_before_end_of: "word_before (end_of None u, s) = word_end u"
  by (simp add: word_before_def end_of_def word_end_def)

lemma word_after_start: "word_after (prev, s) = word_start s"
  by (cases s) (simp_all add: word_after_def word_start_def)

lemma split_Cons_ex:
  "(\<exists>u v. c # s = u @ v \<and> P u v) \<longleftrightarrow> P [] (c # s) \<or> (\<exists>u v. s = u @ v \<and> P (c # u) v)"
  by (auto simp: Cons_eq_append_conv)

lemma rx_search_from_iff:
  "rx_search_from r prev s \<longleftrightarrow> (\<exists>u v. s = u @ v \<and> (\<exists>q. rx_match r (end_of prev u, v) q))"
proof (induction s arbitrary: prev)
  case Nil
  show ?case by (simp only: rx_search_from.simps rx_ends_Nil_iff) simp
next
  case (Cons c s)
  have "end_of prev (c # u) = end_of (Some c) u" for u by (simp add: end_of_def)
  then show ?case
    by (simp only: rx_search_from.simps rx_ends_Nil_iff Cons split_Cons_ex end_of_simps not_not)
qed

lemma word_before_last: "fst q = Some (last w) \<Longrightarrow> w \<noteq> [] \<Longrightarrow> word_before q = word_end w"
  by (simp add: word_before_def word_end_def)

lemma word_after_append: "w \<noteq> [] \<Longrightarrow> word_after (prev, w @ s) = word_start w"
  by (simp add: word_after_start word_start_def)

lemma word_after_snd: "word_after q = word_start (snd q)"
  by (cases q) (simp add: word_after_start)

lemma match_Bound_first: "rx_match (Seq Bound r) p q \<longleftrightarrow> word_before p \<noteq> word_after p \<and> rx_match r p q"
  by auto

lemma match_Bound_last: "rx_match (Seq r Bound) p q \<longleftrightarrow> rx_match r p q \<and> word_before q \<noteq> word_after q"
  by (simp only: rx_match.simps) blast

lemma blob_match_iff:
  "rx_match blob_pattern (prev, s) q \<longleftrightarrow>
     (\<exists>w. list_all is_blob_char w \<and> 40 \<le> length w \<and> s = w @ snd q \<and> fst q = Some (last w) \<and>
          word_before (prev, s) \<noteq> word_start w \<and> word_end w \<noteq> word_start (snd q))"
    (is "_ \<longleftrightarrow> (\<exists>w. ?R w)")
proof -
  let ?L = "\<lambda>w. list_all is_blob_char w \<and> s = w @ snd q \<and> 40 \<le> length w \<and>
      fst q = (if w = [] then prev else Some (last w)) \<and>
      word_before (prev, s) \<noteq> word_after (prev, s) \<and> word_before q \<noteq> word_after q"
  have "rx_match blob_pattern (prev, s) q \<longleftrightarrow> (\<exists>w. ?L w)"
    unfolding blob_pattern_def seqs.simps match_Bound_first match_Bound_last by auto
  moreover have "?L w \<longleftrightarrow> ?R w" for w
  proof (cases "s = w @ snd q \<and> 40 \<le> length w \<and> fst q = Some (last w)")
    case True
    then have "w \<noteq> []" by auto
    with True have "word_after (prev, s) = word_start w" "word_before q = word_end w"
      using word_after_append [of w prev "snd q"] word_before_last [of q w] by auto
    with True \<open>w \<noteq> []\<close> show ?thesis by (auto simp: word_after_snd)
  next
    case False
    then show ?thesis by auto
  qed
  ultimately show ?thesis by simp
qed

lemma rx_search_blob_iff: "rx_search blob_pattern t \<longleftrightarrow> contains_blob t"
proof
  assume "rx_search blob_pattern t"
  then obtain u v q where t: "t = u @ v" and m: "rx_match blob_pattern (end_of None u, v) q"
    by (auto simp: rx_search_def rx_search_from_iff)
  from m obtain w where "list_all is_blob_char w" "40 \<le> length w" "v = w @ snd q"
      "word_end u \<noteq> word_start w" "word_end w \<noteq> word_start (snd q)"
    by (auto simp: blob_match_iff word_before_end_of)
  with t show "contains_blob t" by (auto simp: contains_blob_def blob_at_def)
next
  assume "contains_blob t"
  then obtain u w v where t: "t = u @ w @ v" and b: "blob_at u w v"
    by (auto simp: contains_blob_def)
  then have "rx_match blob_pattern (end_of None u, w @ v) (Some (last w), v)"
    by (auto simp: blob_match_iff blob_at_def word_before_end_of)
  with t show "rx_search blob_pattern t"
    unfolding rx_search_def rx_search_from_iff by blast
qed

section \<open>Separators\<close>

lemma contains_blob_short: "length t < 40 \<Longrightarrow> \<not> contains_blob t"
  by (auto simp: contains_blob_def blob_at_def)

lemma contains_blob_left:
  assumes "\<not> is_word c" "contains_blob x"
  shows "contains_blob (x @ c # y)"
proof -
  obtain u w v where x: "x = u @ w @ v" and b: "blob_at u w v"
    using assms(2) by (auto simp: contains_blob_def)
  from b assms(1) have "blob_at u w (v @ c # y)"
    by (cases v) (auto simp: blob_at_def word_start_def)
  with x show ?thesis by (auto simp: contains_blob_def)
qed

lemma contains_blob_right:
  assumes "\<not> is_word c" "contains_blob y"
  shows "contains_blob (x @ c # y)"
proof -
  obtain u w v where y: "y = u @ w @ v" and b: "blob_at u w v"
    using assms(2) by (auto simp: contains_blob_def)
  from b assms(1) have "blob_at (x @ c # u) w v"
    by (cases u rule: rev_cases) (auto simp: blob_at_def word_end_def)
  with y have "x @ c # y = (x @ c # u) @ w @ v \<and> blob_at (x @ c # u) w v" by simp
  then show ?thesis unfolding contains_blob_def by blast
qed

text \<open>A factor without the letter \<open>c\<close> lies on one side of it.\<close>

lemma factor_beside:
  assumes t: "x @ c # y = u @ w @ v" and c: "c \<notin> set w" "w \<noteq> []"
  obtains (left_side) x' where "x = u @ w @ x'" "v = x' @ c # y"
    | (right_side) u' where "u = x @ c # u'" "y = u' @ w @ v"
proof -
  from t consider (inside) us where "x = u @ us" "us @ c # y = w @ v"
    | (beyond) us where "u = x @ us" "c # y = us @ w @ v"
    by (auto simp: append_eq_append_conv2)
  then show thesis
  proof cases
    case inside
    from inside(2) obtain z where
      "us = w @ z \<and> z @ c # y = v \<or> us @ z = w \<and> c # y = z @ v"
      by (auto simp: append_eq_append_conv2)
    with c obtain x' where "us = w @ x'" "v = x' @ c # y" by (cases z) auto
    with inside(1) show thesis by (intro left_side) simp_all
  next
    case beyond
    with c show thesis by (cases us) (auto simp: Cons_eq_append_conv intro: right_side)
  qed
qed

lemma contains_blob_separated:
  assumes c: "\<not> is_blob_char c" "\<not> is_word c"
  shows "contains_blob (x @ c # y) \<longleftrightarrow> contains_blob x \<or> contains_blob y"
proof
  assume "contains_blob (x @ c # y)"
  then obtain u w v where t: "x @ c # y = u @ w @ v" and b: "blob_at u w v"
    by (auto simp: contains_blob_def)
  from b have "w \<noteq> []" "c \<notin> set w" using c by (auto simp: blob_at_def list_all_iff)
  show "contains_blob x \<or> contains_blob y"
  proof (rule factor_beside [OF t \<open>c \<notin> set w\<close> \<open>w \<noteq> []\<close>])
    fix x' assume left_side: "x = u @ w @ x'" "v = x' @ c # y"
    with b c have "blob_at u w x'" by (cases x') (auto simp: blob_at_def word_start_def)
    with left_side show ?thesis by (auto simp: contains_blob_def)
  next
    fix u' assume right_side: "u = x @ c # u'" "y = u' @ w @ v"
    with b c have "blob_at u' w v"
      by (cases u' rule: rev_cases) (auto simp: blob_at_def word_end_def)
    with right_side show ?thesis by (auto simp: contains_blob_def)
  qed
qed (use c contains_blob_left contains_blob_right in blast)

lemma contains_blob_behind:
  "\<not> is_blob_char c \<Longrightarrow> \<not> is_word c \<Longrightarrow> contains_blob (c # y) \<longleftrightarrow> contains_blob y"
  using contains_blob_separated [of c "[]" y] contains_blob_short [of "[]"] by simp

section \<open>After the substitution\<close>

lemma is_blob_char_bracket: "\<not> is_blob_char 91" "\<not> is_blob_char 93"
  by (simp_all add: is_blob_char_def is_alnum_ascii_def is_digit_def is_upper_ascii_def
      is_lower_ascii_def one_of_def lit_Cons)

lemma is_word_bracket: "\<not> is_word 91" "\<not> is_word 93"
  by (simp_all add: is_word_def)

lemma contains_blob_redacted:
  "contains_blob (x @ lit ''[REDACTED]'' @ y) \<longleftrightarrow> contains_blob x \<or> contains_blob y"
proof -
  have "contains_blob (x @ lit ''[REDACTED]'' @ y) \<longleftrightarrow>
      contains_blob x \<or> contains_blob (lit ''REDACTED'' @ 93 # y)"
    using contains_blob_separated [OF is_blob_char_bracket(1) is_word_bracket(1),
        of x "lit ''REDACTED'' @ 93 # y"] by (simp add: lit_Cons)
  also have "contains_blob (lit ''REDACTED'' @ 93 # y) \<longleftrightarrow> contains_blob y"
    using contains_blob_separated [OF is_blob_char_bracket(2) is_word_bracket(2)]
      contains_blob_short [of "lit ''REDACTED''"] by simp
  finally show ?thesis .
qed

text \<open>
  \<open>u\<close> is the text kept since the last match, \<open>prev\<close> the character before it: no match starts
  inside \<open>u\<close> in the original text, which goes on with \<open>s\<close>.
\<close>

definition scanned :: "nat option \<Rightarrow> pystr \<Rightarrow> pystr \<Rightarrow> bool" where
  "scanned prev u s \<longleftrightarrow>
     (\<forall>u1 u2. u = u1 @ u2 \<longrightarrow> u2 \<noteq> [] \<longrightarrow> (\<nexists>q. rx_match blob_pattern (end_of prev u1, u2 @ s) q)) \<and>
     (word_start (u @ s) \<longrightarrow> \<not> word_before (prev, u @ s))"

lemma scanned_no_blob:
  assumes sc: "scanned prev u s" and stop: "word_end u \<Longrightarrow> \<not> word_start s"
  shows "\<not> contains_blob u"
proof
  assume "contains_blob u"
  then obtain x w v where u: "u = x @ w @ v" and b: "blob_at x w v"
    by (auto simp: contains_blob_def)
  from b have w: "w \<noteq> []" by (auto simp: blob_at_def)
  have before: "word_before (end_of prev x, w @ v @ s) \<noteq> word_start w"
  proof (cases "x = []")
    case True
    with b have "word_start w" by (simp add: blob_at_def word_end_def)
    moreover from this have "word_start (u @ s)" using True u by (simp add: word_start_def)
    ultimately show ?thesis using sc True u by (simp add: scanned_def word_before_def)
  next
    case False
    with b show ?thesis by (simp add: blob_at_def word_before_def end_of_def word_end_def)
  qed
  have after: "word_end w \<noteq> word_start (v @ s)"
  proof (cases "v = []")
    case True
    with b have "word_end w" by (simp add: blob_at_def word_start_def)
    moreover from this have "word_end u" using True u w by (simp add: word_end_def)
    ultimately show ?thesis using stop True by simp
  next
    case False
    with b show ?thesis by (simp add: blob_at_def word_start_def)
  qed
  from b before after have "rx_match blob_pattern (end_of prev x, w @ v @ s) (Some (last w), v @ s)"
    by (auto simp: blob_match_iff blob_at_def)
  with sc u w show False by (force simp: scanned_def)
qed

lemma scanned_snoc:
  assumes "scanned prev u (c # s)" "\<nexists>q. rx_match blob_pattern (end_of prev u, c # s) q"
  shows "scanned prev (u @ [c]) s"
proof -
  have "\<nexists>q. rx_match blob_pattern (end_of prev u1, u2 @ s) q"
    if u: "u @ [c] = u1 @ u2" "u2 \<noteq> []" for u1 u2
  proof -
    from u obtain v where v: "u2 = v @ [c]" "u = u1 @ v"
      by (metis append_butlast_last_id butlast_append last_appendR last_snoc butlast_snoc)
    show ?thesis
    proof (cases "v = []")
      case True
      with assms(2) v show ?thesis by simp
    next
      case False
      with assms(1) v show ?thesis by (simp add: scanned_def)
    qed
  qed
  with assms(1) show ?thesis by (simp add: scanned_def)
qed

lemma sub_from_no_blob:
  "scanned prev u s \<Longrightarrow>
   \<not> contains_blob (u @ rx_sub_from blob_pattern (lit ''[REDACTED]'') (end_of prev u) s)"
proof (induction "length s" arbitrary: prev u s rule: less_induct)
  case less
  show ?case
  proof (cases s)
    case Nil
    then show ?thesis using scanned_no_blob [OF less.prems] by (simp add: word_start_def)
  next
    case (Cons c s')
    show ?thesis
    proof (cases "rx_first blob_pattern (end_of prev u, c # s')")
      case None
      then have "\<nexists>q. rx_match blob_pattern (end_of prev u, c # s') q"
        by (simp add: rx_first_None_iff)
      then have "scanned prev (u @ [c]) s'" using less.prems Cons by (intro scanned_snoc) simp_all
      from less.hyps [OF _ this] None Cons show ?thesis by simp
    next
      case (Some q)
      then have m: "rx_match blob_pattern (end_of prev u, c # s') q" by (rule rx_first_match)
      from m [unfolded blob_match_iff]
      obtain w where w: "40 \<le> length w" "c # s' = w @ snd q" "fst q = Some (last w)"
          "word_before (end_of prev u, c # s') \<noteq> word_start w" "word_end w \<noteq> word_start (snd q)"
        by (elim exE conjE) (rule that)
      have short: "length (snd q) < length (c # s')" using w(1) unfolding w(2) by auto
      have "scanned (fst q) [] (snd q)"
        using w by (auto simp: scanned_def word_before_def word_end_def)
      then have "\<not> contains_blob (rx_sub_from blob_pattern (lit ''[REDACTED]'') (fst q) (snd q))"
        using less.hyps [of "snd q" "fst q" "[]"] short Cons by simp
      moreover have "\<not> contains_blob u"
      proof (rule scanned_no_blob [OF less.prems])
        assume "word_end u"
        then have "word_before (end_of prev u, c # s')"
          by (auto simp: word_before_def end_of_def word_end_def)
        moreover have "word_start w = word_start s" using w(1,2) Cons
          by (cases w) (auto simp: word_start_def)
        ultimately show "\<not> word_start s" using w(4) by simp
      qed
      ultimately show ?thesis
        using Some short Cons by (cases q) (simp add: contains_blob_redacted)
    qed
  qed
qed

theorem sub_no_blob: "\<not> contains_blob (rx_sub blob_pattern (lit ''[REDACTED]'') s)"
  using sub_from_no_blob [of None "[]" s]
  by (simp add: rx_sub_def scanned_def word_before_def)

section \<open>White space\<close>

text \<open>Every range of word characters lies between two of the white space characters.\<close>

definition between_spaces :: "nat \<times> nat \<Rightarrow> bool" where
  "between_spaces r =
     (case r of (lo, hi) \<Rightarrow>
        12288 < lo \<or> (160 < lo \<and> hi < 5760) \<or> (5760 < lo \<and> hi < 8192) \<or>
        (8287 < lo \<and> hi < 12288) \<or> (128 \<le> lo \<and> hi < 133) \<or> (133 < lo \<and> hi < 160) \<or>
        (8202 < lo \<and> hi < 8232) \<or> (8233 < lo \<and> hi < 8239) \<or> (8239 < lo \<and> hi < 8287))"

lemma word_ranges_between: "list_all between_spaces word_ranges"
  by (simp add: word_ranges_def between_spaces_def)

lemma is_space_not_word: "is_space c \<Longrightarrow> \<not> is_word c"
proof
  assume s: "is_space c" and w: "is_word c"
  show False
  proof (cases "c < 128")
    case True
    with s w show False by (auto simp: is_space_def is_word_def)
  next
    case False
    with w obtain lo hi where r: "(lo, hi) \<in> set word_ranges" "lo \<le> c" "c \<le> hi"
      by (auto simp: is_word_def)
    with word_ranges_between have "between_spaces (lo, hi)" by (auto simp: list_all_iff)
    with s r(2,3) False show False by (auto simp: is_space_def between_spaces_def)
  qed
qed

lemma is_space_not_blob: "is_space c \<Longrightarrow> \<not> is_blob_char c"
  by (auto simp: is_space_def is_blob_char_def is_alnum_ascii_def is_digit_def is_upper_ascii_def
      is_lower_ascii_def one_of_def lit_Cons)

lemma contains_blob_space:
  "is_space c \<Longrightarrow> contains_blob (x @ c # y) \<longleftrightarrow> contains_blob x \<or> contains_blob y"
  by (rule contains_blob_separated [OF is_space_not_blob is_space_not_word])

lemma contains_blob_Nil [simp]: "\<not> contains_blob []"
  by (simp add: contains_blob_short)

lemma contains_blob_dropWhile: "contains_blob (dropWhile is_space t) \<longleftrightarrow> contains_blob t"
  by (induction t) (use contains_blob_space [of _ "[]"] in auto)

lemma contains_blob_words: "contains_blob t \<longleftrightarrow> (\<exists>x \<in> set (split_space t). contains_blob x)"
proof (induction t rule: split_space.induct)
  case (1 t)
  let ?w = "\<lambda>c. \<not> is_space c"
  obtain s where s: "s = dropWhile is_space t" by simp
  have eq: "contains_blob t \<longleftrightarrow> contains_blob s" by (simp add: s contains_blob_dropWhile)
  have sp: "split_space t =
      (if s = [] then [] else takeWhile ?w s # split_space (dropWhile ?w s))"
    by (subst split_space.simps) (simp only: s Let_def)
  show ?case
  proof (cases "s = []")
    case True
    then show ?thesis using eq sp by simp
  next
    case False
    have "contains_blob s \<longleftrightarrow> contains_blob (takeWhile ?w s) \<or> contains_blob (dropWhile ?w s)"
    proof (cases "dropWhile ?w s")
      case Nil
      then have "takeWhile ?w s = s" by (metis append_Nil2 takeWhile_dropWhile_id)
      with Nil show ?thesis by (simp only: contains_blob_Nil) simp
    next
      case (Cons c r)
      then have "is_space c" by (metis hd_dropWhile list.distinct(1) list.sel(1))
      then have "contains_blob (takeWhile ?w s @ c # r) \<longleftrightarrow>
          contains_blob (takeWhile ?w s) \<or> contains_blob (c # r)"
        using contains_blob_space [of c "[]" r] contains_blob_space [of c] by simp
      with Cons show ?thesis by (metis takeWhile_dropWhile_id)
    qed
    with 1 [OF s False] eq sp False show ?thesis by simp
  qed
qed

lemma contains_blob_join: "contains_blob (str_join [32] ws) \<longleftrightarrow> (\<exists>x \<in> set ws. contains_blob x)"
  by (induction "[32] :: pystr" ws rule: str_join.induct)
    (simp_all add: contains_blob_space is_space_def)

lemma contains_blob_normalize: "contains_blob (normalize_space t) \<longleftrightarrow> contains_blob t"
  by (simp add: normalize_space_def contains_blob_join contains_blob_words [of t])

section \<open>Sanitized texts\<close>

text \<open>The substitutions add only the characters of their replacement.\<close>

lemma rx_sub_from_set: "set (rx_sub_from r new prev s) \<subseteq> set new \<union> set s"
proof (induction r new prev s rule: rx_sub_from.induct)
  case (2 r new prev c cs)
  show ?case
  proof (cases "rx_first r (prev, c # cs)")
    case None
    with 2 show ?thesis by auto
  next
    case (Some q)
    from rx_match_consumes [OF rx_first_match [OF Some]] obtain w where "c # cs = w @ snd q"
      by auto
    then have sub: "set (snd q) \<subseteq> set (c # cs)" by (metis Un_upper2 set_append)
    show ?thesis
    proof (cases "length (snd q) < length (c # cs)")
      case True
      have "set (rx_sub_from r new (fst q) (snd q)) \<subseteq> set new \<union> set (snd q)"
        using "2.IH"(2) [OF Some, of "fst q" "snd q"] True by simp
      with sub True Some show ?thesis by (cases q) auto
    next
      case False
      have "set (rx_sub_from r new (Some c) cs) \<subseteq> set new \<union> set cs"
        using "2.IH"(3) [OF Some, of "fst q" "snd q"] False by simp
      with False Some show ?thesis by (cases q) auto
    qed
  qed
qed simp

lemma rx_sub_set: "set (rx_sub r new s) \<subseteq> set new \<union> set s"
  unfolding rx_sub_def by (rule rx_sub_from_set)

lemma redact_set: "set (redact s) \<subseteq> set (lit ''[REDACTED]'') \<union> set s"
proof -
  have "set (foldl (\<lambda>t p. rx_sub p (lit ''[REDACTED]'') t) s ps) \<subseteq> set (lit ''[REDACTED]'') \<union> set s" for ps
  proof (induction ps arbitrary: s)
    case (Cons p ps)
    then show ?case using rx_sub_set [of p "lit ''[REDACTED]''" s] by (simp del: lit_simps) blast
  qed simp
  then show ?thesis by (simp add: redact_def)
qed

lemma redact_no_blob: "\<not> contains_blob (redact s)"
  by (simp add: redact_def secret_patterns_def sub_no_blob)

lemma normalize_space_chars:
  "c \<in> set (normalize_space s) \<Longrightarrow> c = 32 \<or> (c \<in> set s \<and> \<not> is_space c)"
  using set_str_join [of "[32]" "split_space s"] split_space_words [of _ s]
  by (fastforce simp: normalize_space_def)

lemma printable_redacted: "c \<in> set (lit ''[REDACTED]'') \<Longrightarrow> 32 \<le> c \<and> c \<noteq> 127"
  by (auto simp: lit_Cons)

lemma not_control_or_space: "\<not> is_control c \<Longrightarrow> \<not> is_space c \<Longrightarrow> 32 \<le> c \<and> c \<noteq> 127"
  by (auto simp: is_control_def is_space_def)

lemma sanitized_chars:
  assumes "c \<in> set (normalize_space (redact (filter (\<lambda>c. \<not> is_control c) s)))"
  shows "32 \<le> c \<and> c \<noteq> 127"
  using normalize_space_chars [OF assms] redact_set [of "filter (\<lambda>c. \<not> is_control c) s"]
    printable_redacted not_control_or_space by fastforce

lemma clip_length: "length (clip n s) \<le> Suc n"
  by (simp add: clip_def)

end
