(* ===== verification/CorrelatorMatching.thy ===== *)
theory CorrelatorMatching
  imports Correlator
begin

text \<open>
  What \<open>find_matches\<close> and \<open>remove_pair\<close> do on buffers of well-formed findings: the pairs found
  are disjoint, in scope and a maximal set, nothing raises, and removing the pairs found leaves
  a buffer without any pair in scope (\<open>no_pending\<close>).
\<close>

section \<open>Removing from the buffer\<close>

lemma py_eq_refl: "json_ok v \<Longrightarrow> keys_ok v \<Longrightarrow> py_eq v v"
proof (induction v)
  case (VFloat f)
  then show ?case by (cases f) (auto simp: same_num_def)
next
  case (VList vs)
  then show ?case by (auto simp: list_all2_same)
next
  case (VDict kvs)
  then show ?case by (auto simp: snds.simps split: option.splits) (metis map_of_is_SomeI option.inject option.simps(3))+
qed (auto simp: same_num_def)

lemma py_eq_val_refl [simp]: "py_eq (val_of_text x) (val_of_text x)" "py_eq (val_of_int i) (val_of_int i)"
  by (simp_all add: val_of_text_def val_of_int_def same_num_def split: option.splits)

lemma py_eq_num_refl: "num_float n = Inr x \<Longrightarrow> finite_f x \<Longrightarrow> py_eq (val_of_num n) (val_of_num n)"
  by (cases n) (auto simp: same_num_def num_float_def)

lemma finding_eq_refl:
  assumes "finding_wf f"
  shows "finding_eq f f"
proof -
  from assms have v: "finding_valid f" "keys_ok (VDict (f_context f))" by (simp_all add: finding_wf_def)
  then have "py_eq (VDict (f_context f)) (VDict (f_context f))"
    by (intro py_eq_refl finding_valid_context)
  moreover have "py_eq (val_of_num (f_confidence f)) (val_of_num (f_confidence f))"
    using v(1) by (auto simp: finding_valid_def confidence_ok_def intro: py_eq_num_refl split: sum.splits)
  moreover have "py_eq (val_of_num (f_timestamp f)) (val_of_num (f_timestamp f))"
    using v(1) by (auto simp: finding_valid_def timestamp_ok_def intro: py_eq_num_refl split: sum.splits)
  ultimately show ?thesis
    unfolding finding_eq_def finding_to_dict_def by (simp del: py_eq.simps(4))
qed

lemma finding_eq_id: "finding_eq g f \<Longrightarrow> f_id g = f_id f"
  by (simp add: finding_eq_def finding_to_dict_def)

lemma remove_finding_subset: "set (remove_finding f fs) \<subseteq> set fs"
  by (induction fs) auto

lemma length_remove_finding: "length (remove_finding f fs) \<le> length fs"
  by (induction fs) auto

text \<open>With distinct ids, a finding is removed by its id.\<close>

lemma remove_finding_filter:
  assumes "finding_eq f f" "distinct (map f_id fs)" "\<forall>g \<in> set fs. f_id g = f_id f \<longrightarrow> g = f"
  shows "remove_finding f fs = filter (\<lambda>g. f_id g \<noteq> f_id f) fs"
  using assms(2,3)
proof (induction fs)
  case (Cons g gs)
  show ?case
  proof (cases "f_id g = f_id f")
    case True
    with Cons.prems have "g = f" by simp
    moreover have "filter (\<lambda>h. f_id h \<noteq> f_id f) gs = gs"
      using Cons.prems(1) True
      by (intro filter_True ballI) (metis distinct.simps(2) image_eqI list.set_map list.simps(9))
    ultimately show ?thesis using assms(1) by simp
  next
    case False
    with finding_eq_id have "\<not> finding_eq g f" by blast
    with False Cons show ?thesis by simp
  qed
qed simp

section \<open>Matching\<close>

text \<open>
  The invariant of the nested loops: the pairs so far are disjoint pairs in scope, and the used
  ids are theirs.
\<close>

definition match_inv :: "correlator_cfg \<Rightarrow> finding set \<Rightarrow> finding set \<Rightarrow> match_state \<Rightarrow> bool" where
  "match_inv cfg A C st \<longleftrightarrow>
     (case st of (ms, ua, uc) \<Rightarrow>
        set ua = f_id ` fst ` set ms \<and> set uc = f_id ` snd ` set ms \<and>
        distinct (map (f_id \<circ> fst) ms) \<and> distinct (map (f_id \<circ> snd) ms) \<and>
        (\<forall>(a, c) \<in> set ms. a \<in> A \<and> c \<in> C \<and> shares cfg a c))"

definition used_grow :: "match_state \<Rightarrow> match_state \<Rightarrow> bool" where
  "used_grow st st' \<longleftrightarrow>
     set (fst (snd st)) \<subseteq> set (fst (snd st')) \<and> set (snd (snd st)) \<subseteq> set (snd (snd st'))"

definition blocked :: "match_state \<Rightarrow> finding \<Rightarrow> finding \<Rightarrow> bool" where
  "blocked st a c \<longleftrightarrow> f_id a \<in> set (fst (snd st)) \<or> f_id c \<in> set (snd (snd st))"

lemma used_grow_refl [simp]: "used_grow st st"
  by (simp add: used_grow_def)

lemma used_grow_trans: "used_grow st st' \<Longrightarrow> used_grow st' st'' \<Longrightarrow> used_grow st st''"
  by (auto simp: used_grow_def)

lemma blocked_grow: "blocked st a c \<Longrightarrow> used_grow st st' \<Longrightarrow> blocked st' a c"
  by (auto simp: blocked_def used_grow_def)

lemma match_codes_ok:
  assumes "finding_valid api" "api \<in> A"
  shows "\<forall>c \<in> set codes. finding_valid c \<and> c \<in> C \<Longrightarrow> match_inv cfg A C st \<Longrightarrow>
    \<exists>st'. match_codes cfg api codes st = Inr st' \<and> match_inv cfg A C st' \<and> used_grow st st' \<and>
      (\<forall>c \<in> set codes. shares cfg api c \<longrightarrow> blocked st' api c)"
proof (induction codes arbitrary: st)
  case (Cons c cs)
  obtain ms ua uc where st: "st = (ms, ua, uc)" by (cases st) auto
  show ?case
  proof (cases "f_id api \<notin> set ua \<and> f_id c \<notin> set uc")
    case True
    define st1 where "st1 = (if shares cfg api c
      then (ms @ [(api, c)], f_id api # ua, f_id c # uc) else (ms, ua, uc))"
    have step: "match_codes cfg api (c # cs) st = match_codes cfg api cs st1"
      using True Cons.prems(1) assms(1) by (simp add: st st1_def share_scope_eq)
    have inv: "match_inv cfg A C st1"
      using Cons.prems True assms(2) by (auto simp: match_inv_def st st1_def)
    have grow: "used_grow st st1" by (auto simp: used_grow_def st st1_def)
    have now: "shares cfg api c \<Longrightarrow> blocked st1 api c" by (simp add: blocked_def st1_def)
    obtain st' where "match_codes cfg api cs st1 = Inr st'" "match_inv cfg A C st'" "used_grow st1 st'"
      "\<forall>c \<in> set cs. shares cfg api c \<longrightarrow> blocked st' api c"
      using Cons.IH [OF _ inv] Cons.prems(1) by auto
    with step grow now show ?thesis
      by (auto intro: used_grow_trans blocked_grow)
  next
    case False
    then have step: "match_codes cfg api (c # cs) st = match_codes cfg api cs st" by (auto simp: st)
    have now: "blocked st api c" using False by (auto simp: blocked_def st)
    obtain st' where "match_codes cfg api cs st = Inr st'" "match_inv cfg A C st'" "used_grow st st'"
      "\<forall>c \<in> set cs. shares cfg api c \<longrightarrow> blocked st' api c"
      using Cons.IH [OF _ Cons.prems(2)] Cons.prems(1) by auto
    with step now show ?thesis by (auto intro: blocked_grow)
  qed
qed simp

lemma match_apis_ok:
  assumes "\<forall>c \<in> set codes. finding_valid c \<and> c \<in> C"
  shows "\<forall>a \<in> set apis. finding_valid a \<and> a \<in> A \<Longrightarrow> match_inv cfg A C st \<Longrightarrow>
    \<exists>st'. match_apis cfg apis codes st = Inr st' \<and> match_inv cfg A C st' \<and> used_grow st st' \<and>
      (\<forall>a \<in> set apis. \<forall>c \<in> set codes. shares cfg a c \<longrightarrow> blocked st' a c)"
proof (induction apis arbitrary: st)
  case (Cons a as)
  from Cons.prems(1) have a: "finding_valid a" "a \<in> A" by auto
  from match_codes_ok [OF a assms Cons.prems(2)] obtain st1 where st1:
    "match_codes cfg a codes st = Inr st1" "match_inv cfg A C st1" "used_grow st st1"
    "\<forall>c \<in> set codes. shares cfg a c \<longrightarrow> blocked st1 a c" by blast
  from Cons.IH [OF _ st1(2)] Cons.prems(1) obtain st' where
    "match_apis cfg as codes st1 = Inr st'" "match_inv cfg A C st'" "used_grow st1 st'"
    "\<forall>a \<in> set as. \<forall>c \<in> set codes. shares cfg a c \<longrightarrow> blocked st' a c" by auto
  with st1 show ?case by (auto intro: used_grow_trans blocked_grow)
qed simp

section \<open>Eviction\<close>

definition is_fresh :: "float64 \<Rightarrow> float64 \<Rightarrow> finding \<Rightarrow> bool" where
  "is_fresh now window f =
     (case num_sub (NFloat now) (f_timestamp f) of
        Inr age \<Rightarrow> num_lt age (NFloat window) | Inl _ \<Rightarrow> False)"

lemma age_returns: "finding_valid f \<Longrightarrow> returns (num_sub (NFloat now) (f_timestamp f))"
  by (rule num_sub_returns [OF _ timestamp_returns]) (simp_all add: num_float_def)

lemma fresh_findings_eq:
  "\<forall>f \<in> set fs. finding_valid f \<Longrightarrow> fresh_findings now window fs = Inr (filter (is_fresh now window) fs)"
proof (induction fs)
  case (Cons f fs)
  then obtain age where "num_sub (NFloat now) (f_timestamp f) = Inr age"
    using age_returns [of f now] by (auto simp: returns_iff)
  with Cons show ?case by (simp add: is_fresh_def)
qed simp

section \<open>The buffer invariant\<close>

definition buffer_inv :: "corr_buffer \<Rightarrow> bool" where
  "buffer_inv b \<longleftrightarrow>
     (\<forall>f \<in> set (cb_api b). finding_wf f \<and> f_source f = finding_source_value API) \<and>
     (\<forall>f \<in> set (cb_code b). finding_wf f \<and> f_source f = finding_source_value CODE) \<and>
     length (cb_api b) \<le> cb_maxsize b \<and> length (cb_code b) \<le> cb_maxsize b"

definition distinct_ids :: "corr_buffer \<Rightarrow> bool" where
  "distinct_ids b \<longleftrightarrow> distinct (map f_id (cb_api b)) \<and> distinct (map f_id (cb_code b))"

definition no_pending :: "correlator_cfg \<Rightarrow> corr_buffer \<Rightarrow> bool" where
  "no_pending cfg b \<longleftrightarrow> (\<forall>a \<in> set (cb_api b). \<forall>c \<in> set (cb_code b). \<not> shares cfg a c)"

lemma bounded_deque_id: "length xs \<le> n \<Longrightarrow> bounded_deque n xs = xs"
  by (simp add: bounded_deque_def)

lemma set_bounded_deque: "set (bounded_deque n xs) \<subseteq> set xs"
  by (auto simp: bounded_deque_def dest: in_set_dropD)

lemma length_bounded_deque: "length (bounded_deque n xs) \<le> n"
  by (simp add: bounded_deque_def)

lemma new_buffer_inv: "buffer_inv (new_buffer w n)" "no_pending cfg (new_buffer w n)"
  by (simp_all add: buffer_inv_def new_buffer_def no_pending_def)

lemma buffer_add_inv:
  assumes "buffer_inv b" "finding_wf f"
  shows "buffer_inv (buffer_add f b)"
  using assms set_bounded_deque length_bounded_deque
  by (fastforce simp: buffer_inv_def buffer_add_def deque_append_def)

lemma remove_pair_inv: "buffer_inv b \<Longrightarrow> buffer_inv (remove_pair a c b)"
  using remove_finding_subset length_remove_finding order_trans
  by (fastforce simp: buffer_inv_def remove_pair_def)

text \<open>
  What a pass over the buffer finds: \<open>matching_of\<close> collects the properties of its pairs relative
  to the fresh part of the buffer.
\<close>

definition matching_of ::
  "correlator_cfg \<Rightarrow> finding list \<Rightarrow> finding list \<Rightarrow> (finding \<times> finding) list \<Rightarrow> bool" where
  "matching_of cfg apis codes ms \<longleftrightarrow>
     distinct (map (f_id \<circ> fst) ms) \<and> distinct (map (f_id \<circ> snd) ms) \<and>
     (\<forall>(a, c) \<in> set ms. a \<in> set apis \<and> c \<in> set codes \<and> shares cfg a c) \<and>
     (\<forall>a \<in> set apis. \<forall>c \<in> set codes. shares cfg a c \<longrightarrow>
        f_id a \<in> f_id ` fst ` set ms \<or> f_id c \<in> f_id ` snd ` set ms)"

definition evict :: "float64 \<Rightarrow> corr_buffer \<Rightarrow> corr_buffer" where
  "evict now b = b\<lparr>cb_api := filter (is_fresh now (cb_window b)) (cb_api b),
                   cb_code := filter (is_fresh now (cb_window b)) (cb_code b)\<rparr>"

lemma buffer_inv_valid:
  "buffer_inv b \<Longrightarrow> f \<in> set (cb_api b) \<or> f \<in> set (cb_code b) \<Longrightarrow> finding_valid f"
  by (auto simp: buffer_inv_def finding_wf_def)

lemma length_filter_bound: "length xs \<le> n \<Longrightarrow> length (filter P xs) \<le> n"
  by (rule order_trans [OF length_filter_le])

lemma evict_inv: "buffer_inv b \<Longrightarrow> buffer_inv (evict now b)"
  by (simp add: buffer_inv_def evict_def length_filter_bound)

lemma find_matches_ok:
  assumes "buffer_inv b"
  shows "\<exists>ms. find_matches cfg now b = Inr (ms, evict now b) \<and>
    matching_of cfg (cb_api (evict now b)) (cb_code (evict now b)) ms"
proof -
  define apis where "apis = filter (is_fresh now (cb_window b)) (cb_api b)"
  define codes where "codes = filter (is_fresh now (cb_window b)) (cb_code b)"
  have va: "\<forall>a \<in> set apis. finding_valid a \<and> a \<in> set apis"
    and vc: "\<forall>c \<in> set codes. finding_valid c \<and> c \<in> set codes"
    using buffer_inv_valid [OF assms] by (auto simp: apis_def codes_def)
  have "match_inv cfg (set apis) (set codes) ([], [], [])" by (simp add: match_inv_def)
  from match_apis_ok [OF vc va this] obtain ms ua uc where
    m: "match_apis cfg apis codes ([], [], []) = Inr (ms, ua, uc)"
      "match_inv cfg (set apis) (set codes) (ms, ua, uc)"
      "\<forall>a \<in> set apis. \<forall>c \<in> set codes. shares cfg a c \<longrightarrow> blocked (ms, ua, uc) a c"
    by auto
  have fresh: "fresh_findings now (cb_window b) (cb_api b) = Inr apis"
    "fresh_findings now (cb_window b) (cb_code b) = Inr codes"
    using buffer_inv_valid [OF assms] by (simp_all add: fresh_findings_eq apis_def codes_def)
  have "length apis \<le> cb_maxsize b" "length codes \<le> cb_maxsize b"
    using assms by (simp_all add: buffer_inv_def apis_def codes_def length_filter_bound)
  then have "find_matches cfg now b = Inr (ms, evict now b)"
    by (simp add: find_matches_def fresh m(1) bounded_deque_id evict_def apis_def [symmetric]
        codes_def [symmetric])
  moreover have "matching_of cfg apis codes ms"
    using m(2,3) by (auto simp: matching_of_def match_inv_def blocked_def)
  ultimately show ?thesis by (auto simp: evict_def apis_def codes_def)
qed

section \<open>After the pairs are removed\<close>

definition remove_pairs :: "(finding \<times> finding) list \<Rightarrow> corr_buffer \<Rightarrow> corr_buffer" where
  "remove_pairs ms b = fold (\<lambda>(a, c). remove_pair a c) ms b"

definition ids_identify :: "finding list \<Rightarrow> finding list \<Rightarrow> bool" where
  "ids_identify xs fs \<longleftrightarrow> distinct (map f_id fs) \<and>
     (\<forall>x \<in> set xs. finding_eq x x \<and> (\<forall>g \<in> set fs. f_id g = f_id x \<longrightarrow> g = x))"

lemma remove_findings_filter:
  "ids_identify xs fs \<Longrightarrow> fold remove_finding xs fs = filter (\<lambda>g. f_id g \<notin> f_id ` set xs) fs"
proof (induction xs arbitrary: fs)
  case (Cons x xs)
  have one: "remove_finding x fs = filter (\<lambda>g. f_id g \<noteq> f_id x) fs"
    using Cons.prems by (intro remove_finding_filter) (auto simp: ids_identify_def)
  have "ids_identify xs (filter (\<lambda>g. f_id g \<noteq> f_id x) fs)"
    using Cons.prems by (auto simp: ids_identify_def distinct_map_filter)
  from Cons.IH [OF this] show ?case
    by (auto simp: one filter_filter intro: filter_cong)
qed simp

lemma remove_pairs_eq:
  "cb_api (remove_pairs ms b) = fold remove_finding (map fst ms) (cb_api b)"
  "cb_code (remove_pairs ms b) = fold remove_finding (map snd ms) (cb_code b)"
  by (induction ms arbitrary: b) (auto simp: remove_pairs_def remove_pair_def)

lemma remove_pairs_inv: "buffer_inv b \<Longrightarrow> buffer_inv (remove_pairs ms b)"
  by (induction ms arbitrary: b) (auto simp: remove_pairs_def remove_pair_inv)

lemma no_pending_after:
  assumes "buffer_inv b" "distinct_ids b" "matching_of cfg (cb_api b) (cb_code b) ms"
  shows "no_pending cfg (remove_pairs ms b)"
proof -
  have mem: "a \<in> set (cb_api b) \<and> c \<in> set (cb_code b)" if "(a, c) \<in> set ms" for a c
    using assms(3) that by (auto simp: matching_of_def)
  have wf: "finding_eq f f" if "f \<in> set (cb_api b) \<or> f \<in> set (cb_code b)" for f
    using assms(1) that by (auto simp: buffer_inv_def intro: finding_eq_refl)
  have same: "g = f" if "distinct (map f_id fs)" "g \<in> set fs" "f \<in> set fs" "f_id g = f_id f" for fs f g
    using that by (auto simp: distinct_map inj_on_def)
  have "ids_identify (map fst ms) (cb_api b)" "ids_identify (map snd ms) (cb_code b)"
    using assms(2) mem wf same by (fastforce simp: ids_identify_def distinct_ids_def)+
  then have
    "cb_api (remove_pairs ms b) = filter (\<lambda>g. f_id g \<notin> f_id ` fst ` set ms) (cb_api b)"
    "cb_code (remove_pairs ms b) = filter (\<lambda>g. f_id g \<notin> f_id ` snd ` set ms) (cb_code b)"
    by (simp_all add: remove_pairs_eq remove_findings_filter)
  with assms(3) show ?thesis by (auto simp: no_pending_def matching_of_def)
qed

lemma distinct_ids_evict: "distinct_ids b \<Longrightarrow> distinct_ids (evict now b)"
  by (simp add: distinct_ids_def evict_def distinct_map_filter)

end
