(* ===== verification/CorrelatorLoop.thy ===== *)
theory CorrelatorLoop
  imports CorrelatorMatching
begin

text \<open>
  What one iteration of \<open>correlate\<close> and the loop do: the exceptions that can escape and those
  that cannot, the buffer after an iteration, the reachable states, and what the alert claims
  mean for emitting an alert.
\<close>

section \<open>Emitting an alert never raises\<close>

lemma catch_all_returns: "(\<And>e w. \<exists>x w'. h e w = (Inr x, w')) \<Longrightarrow> \<exists>x w'. catch_a m h w = (Inr x, w')"
  by (cases "m w"; cases "fst (m w)") (auto simp: catch_a_def)

lemma attempt_returns: "\<exists>w'. attempt m w = (Inr (), w')"
  using catch_all_returns [of "\<lambda>_. ret ()" "bind_a m (\<lambda>_. ret ())" w]
  by (auto simp: attempt_def ret_def)

lemma persist_and_claim_returns: "\<exists>x w'. persist_and_claim E cfg a w = (Inr x, w')"
  unfolding persist_and_claim_def by (rule catch_all_returns) (auto simp: ret_def)

lemma try_publish_returns: "\<exists>x w'. try_publish E a w = (Inr x, w')"
  unfolding try_publish_def by (rule catch_all_returns) (auto simp: ret_def)

lemma try_notify_returns: "\<exists>x w'. try_notify notify a w = (Inr x, w')"
  unfolding try_notify_def by (rule catch_all_returns) (auto simp: ret_def)

lemma emit_alert_returns: "\<exists>w'. emit_alert E cfg notify a w = (Inr (), w')"
proof -
  obtain x w1 where 1: "persist_and_claim E cfg a w = (Inr x, w1)"
    using persist_and_claim_returns [of E cfg a w] by blast
  obtain p w2 where 2: "try_publish E a w1 = (Inr p, w2)" using try_publish_returns [of E a w1] by blast
  obtain d w3 where 3: "try_notify notify a w2 = (Inr d, w3)" using try_notify_returns [of notify a w2] by blast
  show ?thesis
    using 1 2 3 attempt_returns
    by (auto simp: emit_alert_def bind_a_def ret_def split: option.splits)
qed

section \<open>One matched pair\<close>

text \<open>The wall clock reads as a positive finite number.\<close>

definition clock_reads_ok :: "'w env \<Rightarrow> bool" where
  "clock_reads_ok E \<longleftrightarrow> (\<forall>w. timestamp_ok (NFloat (fst (e_time E w))))"

lemma build_alert_result:
  assumes "finding_valid api" "finding_valid code" "in_range 1 c" "clock_reads_ok E"
  shows "(pair_ok api code \<and> (\<exists>a w'. build_alert E api code c w = (Inr a, w'))) \<or>
    (\<not> pair_ok api code \<and> (\<exists>e w'. build_alert E api code c w = (Inl e, w') \<and> is_value_error e))"
proof -
  obtain bits w1 where u: "e_uuid E w = (bits, w1)" by force
  obtain now w2 where t: "e_time E w1 = (now, w2)" by force
  then have now: "timestamp_ok (NFloat now)" using assms(4) by (metis clock_reads_ok_def fst_conv)
  obtain rc fx where l: "lookup_root_cause (f_type api) (f_type code) = (rc, fx)" by force
  note texts = lookup_texts_ok [OF l, THEN conjunct1] lookup_texts_ok [OF l, THEN conjunct2]
  note c = in_range_confidence_ok [OF assms(3)]
  let ?r = "new_correlated_alert api code c rc fx bits now"
  have b: "build_alert E api code c w = (?r, w2)"
    using u t by (simp add: build_alert_def act_simps l)
  note iff = new_correlated_alert_Inr [OF assms(1,2) texts c now]
  show ?thesis
  proof (cases ?r)
    case (Inl e)
    then have "is_value_error e" using new_correlated_alert_error [OF assms(1,2) c now] by blast
    moreover have "\<not> pair_ok api code"
    proof
      assume ok: "pair_ok api code"
      then obtain fp where "compute_fingerprint (alert_parts api code) = Inr fp"
        by (auto simp: pair_ok_def returns_iff)
      moreover obtain sa sc where "finding_severity api = Inr sa" "finding_severity code = Inr sc"
        using finding_severity_of assms(1,2) by blast
      ultimately have "\<exists>a. ?r = Inr a" using ok by (auto simp: iff)
      with Inl show False by simp
    qed
    ultimately show ?thesis using Inl b by auto
  next
    case (Inr a)
    then have "pair_ok api code" by (simp add: iff)
    with Inr b show ?thesis by auto
  qed
qed

text \<open>
  The outcome for a pair of well-formed findings: the pair leaves the buffer, unless it is
  confident enough and refused as an alert; then a \<open>ValueError\<close> escapes.
\<close>

definition confident :: "correlator_cfg \<Rightarrow> finding \<Rightarrow> finding \<Rightarrow> bool" where
  "confident cfg api code =
     (case compute_confidence api code of
        Inr c \<Rightarrow> \<not> flt c (min_confidence cfg) | Inl _ \<Rightarrow> False)"

lemma handle_match_outcome:
  assumes "finding_valid api" "finding_valid code" "clock_reads_ok E"
  shows "if confident cfg api code \<and> \<not> pair_ok api code
    then \<exists>e w'. handle_match E cfg notify (api, code) b w = (Inl e, w') \<and> is_value_error e
    else \<exists>w'. handle_match E cfg notify (api, code) b w = (Inr (remove_pair api code b), w')"
proof -
  obtain c where c: "compute_confidence api code = Inr c"
    using compute_confidence_returns [OF assms(1,2)] by (auto simp: returns_iff)
  note range = compute_confidence_range(1) [OF c assms(1,2)]
  have h: "handle_match E cfg notify (api, code) b w =
      (if flt c (min_confidence cfg) then (Inr (remove_pair api code b), w)
       else bind_a (build_alert E api code c)
         (\<lambda>a. bind_a (emit_alert E cfg notify a) (\<lambda>_. ret (remove_pair api code b))) w)"
    by (simp add: handle_match_def c bind_a_def of_result_def ret_def)
  show ?thesis
  proof (cases "flt c (min_confidence cfg)")
    case True
    then show ?thesis by (simp add: h confident_def c)
  next
    case False
    then have conf: "confident cfg api code" by (simp add: confident_def c)
    from build_alert_result [OF assms(1,2) range assms(3)] show ?thesis
    proof
      assume "pair_ok api code \<and> (\<exists>a w'. build_alert E api code c w = (Inr a, w'))"
      then obtain a w1 where ok: "pair_ok api code" and a: "build_alert E api code c w = (Inr a, w1)"
        by blast
      obtain w2 where "emit_alert E cfg notify a w1 = (Inr (), w2)"
        using emit_alert_returns [of E cfg notify a w1] by blast
      with a False ok show ?thesis by (simp add: h bind_a_def ret_def)
    next
      assume "\<not> pair_ok api code \<and> (\<exists>e w'. build_alert E api code c w = (Inl e, w') \<and> is_value_error e)"
      with False conf show ?thesis by (auto simp: h bind_a_def)
    qed
  qed
qed

lemma handle_match_removes:
  "handle_match E cfg notify (api, code) b w = (Inr b', w') \<Longrightarrow> b' = remove_pair api code b"
  by (auto simp: handle_match_def bind_a_Inr_iff ret_def of_result_def split: if_splits)

lemma handle_matches_removes:
  "handle_matches E cfg notify ms b w = (Inr b', w') \<Longrightarrow> b' = remove_pairs ms b"
proof (induction ms arbitrary: b w)
  case (Cons p ms)
  then show ?case
    by (cases p) (auto simp: bind_a_Inr_iff remove_pairs_def dest: handle_match_removes)
qed (simp add: ret_def remove_pairs_def)

lemma handle_matches_returns:
  assumes "clock_reads_ok E"
    and "\<forall>(a, c) \<in> set ms. finding_valid a \<and> finding_valid c \<and> (confident cfg a c \<longrightarrow> pair_ok a c)"
  shows "\<exists>w'. handle_matches E cfg notify ms b w = (Inr (remove_pairs ms b), w')"
  using assms(2)
proof (induction ms arbitrary: b w)
  case (Cons p ms)
  obtain a c where p: "p = (a, c)" by force
  with Cons.prems have "finding_valid a" "finding_valid c" "\<not> (confident cfg a c \<and> \<not> pair_ok a c)" by auto
  with handle_match_outcome [OF this(1,2) assms(1), of cfg notify b w] obtain w1 where
    "handle_match E cfg notify (a, c) b w = (Inr (remove_pair a c b), w1)" by auto
  with Cons.IH [of "remove_pair a c b" w1] Cons.prems p show ?case
    by (auto simp: bind_a_def remove_pairs_def)
qed (simp add: ret_def remove_pairs_def)

section \<open>One iteration\<close>

definition state_inv :: "corr_state \<Rightarrow> bool" where
  "state_inv s \<longleftrightarrow> buffer_inv (fst s)"

lemma buffer_of_reads:
  "bind_a (stats_due E n) (\<lambda>m. ret (b, m)) w = (Inr s, w') \<Longrightarrow> fst s = b"
  by (auto simp: bind_a_Inr_iff ret_def)

text \<open>The sources that are buffered.\<close>

definition watched_source :: "finding \<Rightarrow> bool" where
  "watched_source f \<longleftrightarrow> f_source f \<in> {finding_source_value API, finding_source_value CODE}"

lemma process_finding_skips:
  "\<not> watched_source f \<Longrightarrow> process_finding E cfg notify s f w = (Inr s, w)"
  by (cases s) (simp add: process_finding_def ret_def watched_source_def)

lemma process_finding_matched:
  assumes "process_finding E cfg notify (b, n) f w = (Inr s, w')" "buffer_inv b" "finding_wf f"
    and "watched_source f"
  obtains now ms where "fst s = remove_pairs ms (evict now (buffer_add f b))"
    "matching_of cfg (cb_api (evict now (buffer_add f b))) (cb_code (evict now (buffer_add f b))) ms"
proof -
  obtain now w1 where t: "e_time E w = (now, w1)" by force
  from find_matches_ok [OF buffer_add_inv [OF assms(2,3)], of cfg now] obtain ms where ms:
    "find_matches cfg now (buffer_add f b) = Inr (ms, evict now (buffer_add f b))"
    "matching_of cfg (cb_api (evict now (buffer_add f b))) (cb_code (evict now (buffer_add f b))) ms"
    by blast
  from assms(1,4) t ms(1) obtain b2 w2 where
    "handle_matches E cfg notify ms (evict now (buffer_add f b)) w1 = (Inr b2, w2)"
    "bind_a (stats_due E n) (\<lambda>m. ret (b2, m)) w2 = (Inr s, w')"
    by (auto simp: process_finding_def watched_source_def bind_a_Inr_iff reads_def of_result_def)
  with handle_matches_removes buffer_of_reads ms(2) show thesis by (metis that)
qed

lemma process_finding_inv:
  assumes "process_finding E cfg notify s f w = (Inr s', w')" "state_inv s" "finding_wf f"
  shows "state_inv s'"
proof -
  obtain b n where s: "s = (b, n)" by force
  with assms have b: "buffer_inv b" by (simp add: state_inv_def)
  show ?thesis
  proof (cases "watched_source f")
    case True
    from process_finding_matched [OF assms(1) [unfolded s] b assms(3) True] obtain now ms where
      "fst s' = remove_pairs ms (evict now (buffer_add f b))" by blast
    then show ?thesis
      by (simp add: state_inv_def remove_pairs_inv evict_inv buffer_add_inv b assms(3))
  next
    case False
    from process_finding_skips [OF this, of E cfg notify s w] assms(1,2) show ?thesis by simp
  qed
qed

lemma iter_cases:
  assumes "correlate_iter E cfg notify has_stop s w = (r, w')"
  obtains (idle) "r = Inr s"
    | (finding) raw w1 f where "pop_finding E (poll_timeout_secs cfg) None w = (Inr (Some raw), w1)"
        "finding_from_json raw = Inr f" "process_finding E cfg notify s f w1 = (r, w')"
  using assms
  by (auto simp: correlate_iter_def bind_a_def pause_def does_def ret_def
      split: prod.splits sum.splits option.splits)

lemma correlate_iter_inv:
  assumes "correlate_iter E cfg notify has_stop s w = (Inr s', w')" "state_inv s"
  shows "state_inv s'"
  using assms(1)
proof (cases rule: iter_cases)
  case idle
  with assms(2) show ?thesis by simp
next
  case finding
  with assms(2) show ?thesis by (auto intro: process_finding_inv finding_from_json_wf)
qed

text \<open>An iteration that took a finding leaves no pair in scope behind, if ids are distinct.\<close>

lemma process_finding_no_pending:
  assumes "process_finding E cfg notify (b, n) f w = (Inr s, w')" "buffer_inv b" "finding_wf f"
    and "distinct_ids (buffer_add f b)"
    and "watched_source f"
  shows "no_pending cfg (fst s)"
proof -
  from process_finding_matched [OF assms(1,2,3,5)] obtain now ms where
    s: "fst s = remove_pairs ms (evict now (buffer_add f b))"
    and m: "matching_of cfg (cb_api (evict now (buffer_add f b)))
      (cb_code (evict now (buffer_add f b))) ms"
    by blast
  show ?thesis unfolding s
    by (rule no_pending_after [OF evict_inv [OF buffer_add_inv [OF assms(2,3)]]
          distinct_ids_evict [OF assms(4)] m])
qed

section \<open>The reachable states\<close>

text \<open>The states at the head of the loop, with the world there.\<close>

inductive corr_reach ::
  "'w env \<Rightarrow> correlator_cfg \<Rightarrow> (alert \<Rightarrow> ('w, bool) act) \<Rightarrow> bool \<Rightarrow> corr_state \<Rightarrow> 'w \<Rightarrow>
   corr_state \<Rightarrow> 'w \<Rightarrow> bool"
  for E cfg notify has_stop s0 w0 where
  start: "corr_reach E cfg notify has_stop s0 w0 s0 w0"
| step: "corr_reach E cfg notify has_stop s0 w0 s w \<Longrightarrow>
    (if has_stop then e_stopped E w else (False, w)) = (False, w1) \<Longrightarrow>
    correlate_iter E cfg notify has_stop s w1 = (Inr s', w2) \<Longrightarrow>
    corr_reach E cfg notify has_stop s0 w0 s' w2"

lemma corr_reach_inv:
  "corr_reach E cfg notify has_stop s0 w0 s w \<Longrightarrow> state_inv s0 \<Longrightarrow> state_inv s"
  by (induction rule: corr_reach.induct) (auto intro: correlate_iter_inv)

lemma correlate_loop_mono:
  "correlate_loop n E cfg notify has_stop s w = Some r \<Longrightarrow>
   correlate_loop (n + k) E cfg notify has_stop s w = Some r"
proof (induction n arbitrary: s w)
  case (Suc n)
  then show ?case by (auto split: prod.splits sum.splits if_splits)
qed simp

section \<open>Findings that can be alerted\<close>

definition encodable :: "pystr \<Rightarrow> bool" where
  "encodable s \<longleftrightarrow> (\<forall>c \<in> set (str_lower s). \<not> is_surrogate c)"

definition opt_encodable :: "pystr option \<Rightarrow> bool" where
  "opt_encodable x = (case x of None \<Rightarrow> True | Some s \<Rightarrow> s \<noteq> [] \<and> encodable s)"

definition alertable :: "finding \<Rightarrow> bool" where
  "alertable f \<longleftrightarrow>
     encodable (f_service f) \<and> encodable (f_type f) \<and> opt_encodable (f_endpoint f) \<and>
     opt_encodable (f_file f) \<and> f_trace_id f \<noteq> Some [] \<and> returns (part_text (FPInt (f_line f)))"

lemma utf8_encode_join:
  assumes "\<forall>s \<in> set ss. \<forall>c \<in> set s. \<not> is_surrogate c"
  shows "returns (utf8_encode (str_join [124] ss))"
  using assms set_str_join [of "[124]" ss] by (fastforce simp: utf8_encode_returns is_surrogate_def)

lemma dec_int_encodable: "\<forall>c \<in> set (str_lower (dec_int i)). \<not> is_surrogate c"
proof -
  have "lower_char c = [c]" if "c = 45 \<or> is_digit c" for c
  proof -
    have "\<forall>c \<in> set (45 # [48..<58]). lower_char c = [c]" by code_simp
    moreover have "c \<in> set (45 # [48..<58])"
      using that by (simp only: list.set set_upt insert_iff atLeastLessThan_iff is_digit_def) arith
    ultimately show ?thesis by blast
  qed
  then show ?thesis
    by (auto simp: dec_int_def str_lower_def is_surrogate_def is_digit_def dest!: dec_nat_digits
        split: if_splits)
qed

lemma pair_ok_alertable:
  assumes "alertable api" "alertable code"
  shows "pair_ok api code"
proof -
  have opt: "\<exists>s. part_text (FPText x) = Inr s \<and> (\<forall>c \<in> set (str_lower s). \<not> is_surrogate c)"
    if "opt_encodable x" for x
    using that by (cases x) (auto simp: opt_encodable_def encodable_def str_lower_def)
  obtain l where l: "part_text (FPInt (f_line code)) = Inr l"
    using assms(2) by (auto simp: alertable_def returns_iff)
  then have l_ok: "\<forall>c \<in> set (str_lower l). \<not> is_surrogate c"
    using dec_int_encodable
    by (cases "f_line code") (auto simp: str_lower_def split: if_splits)
  obtain e f where "part_text (FPText (f_endpoint api)) = Inr e"
    "part_text (FPText (f_file code)) = Inr f"
    "\<forall>c \<in> set (str_lower e). \<not> is_surrogate c" "\<forall>c \<in> set (str_lower f). \<not> is_surrogate c"
    using opt assms by (meson alertable_def)
  with l l_ok assms have "returns (compute_fingerprint (alert_parts api code))"
    using utf8_encode_join [of "[str_lower (f_service api), str_lower e, str_lower (f_type api),
        str_lower f, str_lower l]"]
    by (auto simp: compute_fingerprint_def alert_parts_def alertable_def encodable_def returns_iff)
  with assms show ?thesis
    by (auto simp: pair_ok_def alertable_def opt_encodable_def text_or_def)
qed

section \<open>The loop does not raise on findings that can be alerted\<close>

definition all_alertable :: "corr_buffer \<Rightarrow> bool" where
  "all_alertable b \<longleftrightarrow> (\<forall>f \<in> set (cb_api b) \<union> set (cb_code b). alertable f)"

lemma all_alertable_add: "all_alertable b \<Longrightarrow> alertable f \<Longrightarrow> all_alertable (buffer_add f b)"
  using set_bounded_deque
  by (fastforce simp: all_alertable_def buffer_add_def deque_append_def)

lemma all_alertable_evict: "all_alertable b \<Longrightarrow> all_alertable (evict now b)"
  by (auto simp: all_alertable_def evict_def)

lemma all_alertable_remove: "all_alertable b \<Longrightarrow> all_alertable (remove_pairs ms b)"
proof (induction ms arbitrary: b)
  case (Cons p ms)
  have "all_alertable (remove_pair (fst p) (snd p) b)"
    using Cons.prems remove_finding_subset by (fastforce simp: all_alertable_def remove_pair_def)
  from Cons.IH [OF this] show ?case by (cases p) (simp add: remove_pairs_def)
qed (simp add: remove_pairs_def)

lemma stats_due_returns: "\<exists>m w'. stats_due E n w = (Inr m, w')"
  by (auto simp: stats_due_def act_simps split: prod.splits)

lemma process_finding_returns:
  assumes "buffer_inv b" "finding_wf f" "clock_reads_ok E" "all_alertable b"
    and "watched_source f \<Longrightarrow> alertable f"
  shows "\<exists>s w'. process_finding E cfg notify (b, n) f w = (Inr s, w') \<and> all_alertable (fst s)"
proof (cases "watched_source f")
  case False
  then show ?thesis using assms(4) by (simp add: process_finding_skips)
next
  case True
  obtain now w1 where t: "e_time E w = (now, w1)" by force
  define b1 where "b1 = evict now (buffer_add f b)"
  have b1: "buffer_inv b1" "all_alertable b1"
    using assms True
    by (auto simp: b1_def evict_inv buffer_add_inv all_alertable_evict all_alertable_add)
  from find_matches_ok [OF buffer_add_inv [OF assms(1,2)], of cfg now] obtain ms where ms:
    "find_matches cfg now (buffer_add f b) = Inr (ms, b1)" "matching_of cfg (cb_api b1) (cb_code b1) ms"
    by (auto simp: b1_def)
  have "\<forall>(a, c) \<in> set ms. finding_valid a \<and> finding_valid c \<and> (confident cfg a c \<longrightarrow> pair_ok a c)"
    using ms(2) b1 buffer_inv_valid [OF b1(1)]
    by (auto simp: matching_of_def all_alertable_def intro!: pair_ok_alertable)
  from handle_matches_returns [OF assms(3) this, of notify b1 w1] obtain w2 where
    h: "handle_matches E cfg notify ms b1 w1 = (Inr (remove_pairs ms b1), w2)" by blast
  obtain m w3 where "stats_due E n w2 = (Inr m, w3)" using stats_due_returns [of E n w2] by blast
  with True t ms(1) h all_alertable_remove [OF b1(2)] show ?thesis
    by (auto simp: process_finding_def watched_source_def bind_a_def reads_def of_result_def ret_def)
qed

definition pops_alertable :: "'w env \<Rightarrow> correlator_cfg \<Rightarrow> bool" where
  "pops_alertable E cfg \<longleftrightarrow>
     (\<forall>w raw w1 f. pop_finding E (poll_timeout_secs cfg) None w = (Inr (Some raw), w1) \<longrightarrow>
        finding_from_json raw = Inr f \<longrightarrow> watched_source f \<longrightarrow> alertable f)"

lemma correlate_iter_returns:
  assumes "clock_reads_ok E" "pops_alertable E cfg" "state_inv s" "all_alertable (fst s)"
  shows "\<exists>s' w'. correlate_iter E cfg notify has_stop s w = (Inr s', w') \<and> all_alertable (fst s')"
proof -
  obtain r w' where r: "correlate_iter E cfg notify has_stop s w = (r, w')" by force
  then show ?thesis
  proof (cases rule: iter_cases)
    case idle
    with r assms(4) show ?thesis by simp
  next
    case (finding raw w1 f)
    obtain b n where s: "s = (b, n)" by force
    have "watched_source f \<Longrightarrow> alertable f"
      using assms(2) finding(1,2) by (auto simp: pops_alertable_def)
    with process_finding_returns [of b f E cfg notify n w1] assms finding finding_from_json_wf r
    show ?thesis by (fastforce simp: s state_inv_def)
  qed
qed

lemma correlate_loop_safe:
  assumes "clock_reads_ok E" "pops_alertable E cfg"
  shows "state_inv s \<Longrightarrow> all_alertable (fst s) \<Longrightarrow>
    correlate_loop n E cfg notify has_stop s w \<noteq> Some (Inl e, w')"
proof (induction n arbitrary: s w)
  case (Suc n)
  obtain stopped w1 where st: "(if has_stop then e_stopped E w else (False, w)) = (stopped, w1)"
    by force
  obtain s' w2 where i: "correlate_iter E cfg notify has_stop s w1 = (Inr s', w2)"
    "all_alertable (fst s')"
    using correlate_iter_returns [OF assms Suc.prems, of notify has_stop w1] by blast
  have "state_inv s'" using correlate_iter_inv [OF i(1) Suc.prems(1)] .
  from Suc.IH [OF this i(2)] i(1) show ?case by (simp add: st)
qed simp

lemma new_buffer_start: "state_inv (new_buffer w n, t)" "all_alertable (fst (new_buffer w n, t))"
  by (simp_all add: state_inv_def new_buffer_inv) (simp add: all_alertable_def new_buffer_def)

section \<open>Claims and emitted alerts\<close>

lemma keys_differ: "alert_key x \<noteq> cooldown_key y"
  by (simp add: alert_key_def cooldown_key_def lit_Cons)

context redis_server
begin

lemma store_record_keeps:
  assumes "store_alert_record E fp j ttl w = (r, w1)"
  shows "ks_strings (store w1) (cooldown_key k) = ks_strings (store w) (cooldown_key k) \<and> clock w \<le> clock w1"
proof -
  define I where "I = (\<lambda>u. ks_strings (store u) (cooldown_key k) = ks_strings (store w) (cooldown_key k) \<and>
    clock w \<le> clock u)"
  have "keeps I (command E (SetEx (alert_key fp) ttl j))"
  proof (rule keepsI)
    fix u assume I: "I u"
    obtain x u' where u': "e_redis E (SetEx (alert_key fp) ttl j) u = (x, u')" by force
    with any_outcome [OF u'] I keys_differ [of fp k] show "I (snd (command E (SetEx (alert_key fp) ttl j) u))"
      by (auto simp: I_def command_def ks_put_def)
  qed
  moreover have "I (e_sleep E d u)" if "I u" for d u
    using that sleep_store [of d u] sleep_clock [of u d] by (auto simp: I_def)
  ultimately have "keeps I (store_alert_record E fp j ttl)"
    unfolding store_alert_record_def set_with_ttl_def
    by (intro keeps_if keeps_throw keeps_bind keeps_ret keeps_retry)
  from keepsD [OF this _ assms] show ?thesis by (simp add: I_def)
qed

lemma persist_cases:
  assumes "persist_and_claim E cfg a w = (Inr (Some x), w')"
  obtains j w1 where "alert_to_json a = Inr j" "store_alert_record E (a_fingerprint a) j 86400 w = (Inr (), w1)"
    "claim_alert E (a_fingerprint a) (alert_cooldown_secs cfg) w1 = (Inr x, w')"
  using assms
  by (auto simp: persist_and_claim_def catch_a_def bind_a_def of_result_def ret_def
      split: prod.splits sum.splits)

text \<open>A claim that was got while emitting is held for the cooldown.\<close>

lemma persist_takes:
  assumes "persist_and_claim E cfg a w = (Inr (Some (Some token)), w')"
  shows "\<exists>d. claim_holder store w' (a_fingerprint a) = Some (token, d) \<and>
    clock w + of_int (alert_cooldown_secs cfg) \<le> d"
  using assms
proof (cases rule: persist_cases)
  case (1 j w1)
  from store_record_keeps [OF 1(2)] claim_takes [OF 1(3)] show ?thesis
    by (force simp: claim_holder_def)
qed

text \<open>While a claim is alive, an alert with its fingerprint goes no further.\<close>

lemma emit_suppressed:
  assumes "claim_holder store w (a_fingerprint a) = Some (h, d)"
    and "persist_and_claim E cfg a w = (x, w')" "clock w' < d"
  shows "emit_alert E cfg notify a w = (Inr (), w')"
proof -
  obtain y where y: "x = Inr y" using persist_and_claim_returns [of E cfg a w] assms(2) by auto
  have "y = None \<or> y = Some None"
  proof (cases y)
    case (Some z)
    then obtain j w1 where j: "store_alert_record E (a_fingerprint a) j 86400 w = (Inr (), w1)"
      "claim_alert E (a_fingerprint a) (alert_cooldown_secs cfg) w1 = (Inr z, w')"
      using assms(2) y by (auto elim: persist_cases)
    from store_record_keeps [OF j(1)] assms(1)
    have "ks_strings (store w1) (cooldown_key (a_fingerprint a)) = Some (h, d)"
      by (simp add: claim_holder_def)
    from claim_refused [OF this j(2) assms(3)] Some show ?thesis by simp
  qed simp
  with assms(2) y show ?thesis by (auto simp: emit_alert_def bind_a_def ret_def)
qed

text \<open>An undelivered alert gives its claim back, provided that the release is answered.\<close>

lemma release_own:
  assumes "claim_holder store w fp = Some (token, d)" "token \<noteq> []"
    and "release_alert_claim E fp token w = (Inr b, w')"
  shows "ks_get (store w') (clock w') (cooldown_key fp) = None"
  using assms(3)
proof (cases rule: release_cases)
  case (1 reply)
  define I where "I = (\<lambda>(k::nat) u.
    ks_strings (store u) (cooldown_key fp) \<in> {None, Some (token, d)})"
  have "\<exists>k v. k < 3 \<and> I k v \<and> retry E (command E (EvalRelease (cooldown_key fp) token)) w =
      command E (EvalRelease (cooldown_key fp) token) v"
  proof (rule retry_outcome)
    fix i u e u' s
    assume I: "I i u" and c: "command E (EvalRelease (cooldown_key fp) token) u = (Inl e, u')"
    then have "ks_strings (store u') (cooldown_key fp) \<in> {None, Some (token, d)}"
      using any_outcome [of "EvalRelease (cooldown_key fp) token" u "Inl e" u']
      by (auto simp: I_def command_def split: if_splits)
    then show "I (Suc i) (e_sleep E s u')" by (simp add: I_def sleep_store)
  qed (use assms(1) in \<open>simp add: I_def claim_holder_def\<close>)
  then obtain k v where v: "I k v" "e_redis E (EvalRelease (cooldown_key fp) token) v = (Inr reply, w')"
    using 1(2) by (auto simp: command_def)
  from answered [OF v(2)] obtain t where t: "t \<le> clock w'"
    "store w' = redis_effect (EvalRelease (cooldown_key fp) token) t (store v)" by blast
  with v(1) show ?thesis
    by (auto simp: I_def ks_get_def release_script_def split: if_splits)
qed

lemma persist_token: "persist_and_claim E cfg a w = (Inr (Some (Some token)), w') \<Longrightarrow> token \<noteq> []"
proof -
  assume "persist_and_claim E cfg a w = (Inr (Some (Some token)), w')"
  then obtain w1 where "claim_alert E (a_fingerprint a) (alert_cooldown_secs cfg) w1 = (Inr (Some token), w')"
    by (rule persist_cases)
  then show ?thesis
    by (rule claim_cases) (auto simp: claim_token_def split: if_splits dest: arg_cong [where f = length])
qed

text \<open>
  An alert that was claimed and then not published, or not delivered by the notifier, ends with
  its fingerprint free again.
\<close>

lemma emit_undelivered:
  assumes "persist_and_claim E cfg a w = (Inr (Some (Some token)), w1)"
    and "bind_a (try_publish E a) (\<lambda>p. if p then try_notify notify a else ret False) w1 = (Inr False, w2)"
    and "claim_holder store w2 (a_fingerprint a) = claim_holder store w1 (a_fingerprint a)"
    and "release_alert_claim E (a_fingerprint a) token w2 = (Inr b, w3)"
  shows "emit_alert E cfg notify a w = (Inr (), w3) \<and>
    ks_get (store w3) (clock w3) (cooldown_key (a_fingerprint a)) = None"
proof
  from assms(4) have "attempt (release_alert_claim E (a_fingerprint a) token) w2 = (Inr (), w3)"
    by (simp add: attempt_def catch_a_def bind_a_def ret_def)
  with assms(1,2) show "emit_alert E cfg notify a w = (Inr (), w3)"
    by (auto simp: emit_alert_def bind_a_def ret_def split: prod.splits sum.splits if_splits)
next
  from persist_takes [OF assms(1)] assms(3) obtain d where
    "claim_holder store w2 (a_fingerprint a) = Some (token, d)" by auto
  from release_own [OF this persist_token [OF assms(1)] assms(4)]
  show "ks_get (store w3) (clock w3) (cooldown_key (a_fingerprint a)) = None" .
qed

end

section \<open>At most one match per finding\<close>

lemma shares_sources:
  "shares cfg a c \<Longrightarrow> f_source a = finding_source_value API \<and> f_source c = finding_source_value CODE"
  by (auto simp: shares_def findings_share_scope_def split: if_splits)

lemma set_deque_append: "set (deque_append n x xs) \<subseteq> insert x (set xs)"
  using set_bounded_deque [of n "xs @ [x]"] by (auto simp: deque_append_def)

lemma all_same_id:
  assumes "distinct (map (f_id \<circ> g) ms)" "\<forall>p \<in> set ms. g p = f"
  shows "length ms \<le> 1"
proof (cases ms)
  case (Cons p ps)
  with assms have "ps = []" by (cases ps) auto
  with Cons show ?thesis by simp
qed simp

lemma one_match_per_finding:
  assumes "no_pending cfg b"
    and "matching_of cfg (cb_api (evict now (buffer_add f b))) (cb_code (evict now (buffer_add f b))) ms"
  shows "length ms \<le> 1 \<and> (\<forall>(a, c) \<in> set ms. a = f \<or> c = f)"
proof -
  have new: "(a, c) \<in> set ms \<Longrightarrow> (if f_source f = finding_source_value API then a = f else c = f)" for a c
  proof -
    assume "(a, c) \<in> set ms"
    then have sh: "shares cfg a c" and "a \<in> set (cb_api (buffer_add f b))" "c \<in> set (cb_code (buffer_add f b))"
      using assms(2) by (auto simp: matching_of_def evict_def)
    with assms(1) shares_sources [OF sh] set_deque_append [of "cb_maxsize b" f "cb_api b"]
      set_deque_append [of "cb_maxsize b" f "cb_code b"]
    show "if f_source f = finding_source_value API then a = f else c = f"
      by (auto simp: no_pending_def buffer_add_def split: if_splits)
  qed
  have "length ms \<le> 1"
  proof (cases "f_source f = finding_source_value API")
    case True
    with new have "\<forall>p \<in> set ms. fst p = f" by force
    with assms(2) show ?thesis by (intro all_same_id [of fst _ f]) (simp_all add: matching_of_def)
  next
    case False
    with new have "\<forall>p \<in> set ms. snd p = f" by force
    with assms(2) show ?thesis by (intro all_same_id [of snd _ f]) (simp_all add: matching_of_def)
  qed
  with new show ?thesis by (force split: if_splits)
qed

end
