(* ===== verification/ApiWatcherProofs.thy ===== *)
theory ApiWatcherProofs
  imports ApiWatcher CorrelatorLoop "HOL-Library.Multiset"
begin

text \<open>
  Facts on the probes of \<open>src/watchers/api_watcher.py\<close>: the counters against the history of
  the outcomes, the independence of targets, and when a probe finds words for its finding.
\<close>

section \<open>Counters\<close>

text \<open>Outcomes that count as a failure, and the one that ends a streak of them.\<close>

fun counts :: "probe_outcome \<Rightarrow> bool" where
  "counts (Responded status _ _) = (\<not> (200 \<le> status \<and> status \<le> 299))"
| "counts TimedOut = True"
| "counts (ClientFailed _) = True"
| "counts TlsFailed = False"
| "counts (Raised _) = False"

fun succeeds :: "probe_outcome \<Rightarrow> bool" where
  "succeeds (Responded status _ _) = (200 \<le> status \<and> status \<le> 299)"
| "succeeds _ = False"

text \<open>The failures since the last success in a history, newest first.\<close>

definition streak :: "probe_outcome list \<Rightarrow> int" where
  "streak hist = int (length (filter counts (takeWhile (\<lambda>x. \<not> succeeds x) hist)))"

definition next_count :: "probe_outcome \<Rightarrow> int \<Rightarrow> int" where
  "next_count x n = (if succeeds x then 0 else if counts x then n + 1 else n)"

lemma streak_Cons: "streak (x # hist) = next_count x (streak hist)"
  by (cases x) (auto simp: streak_def next_count_def)

lemma streak_nonneg [simp]: "0 \<le> streak hist"
  by (simp add: streak_def)

lemma streak_Nil [simp]: "streak [] = 0"
  by (simp add: streak_def)

lemmas decide_defs = probe_decide_def on_response_def on_unreachable_def record_failure_def
  record_success_def set_state_def Let_def

text \<open>The state of an endpoint after an outcome, from its count \<open>n\<close> and state \<open>e\<close> before.\<close>

fun next_state :: "int \<Rightarrow> probe_outcome \<Rightarrow> int \<Rightarrow> endpoint_state \<Rightarrow> endpoint_state" where
  "next_state threshold (Responded status _ _) n e =
     (if 200 \<le> status \<and> status \<le> 299 then UP
      else if n + 1 < threshold then e else if status \<ge> 500 then DOWN else DEGRADED)"
| "next_state threshold TimedOut n e = (if n + 1 < threshold then e else DOWN)"
| "next_state threshold (ClientFailed _) n e = (if n + 1 < threshold then e else DOWN)"
| "next_state threshold TlsFailed n e = DOWN"
| "next_state threshold (Raised _) n e = e"

lemma decide_state:
  "snd (probe_decide s url x st) =
     (case target_metadata url of
        Inl _ \<Rightarrow> st
      | Inr _ \<Rightarrow> st\<lparr>failure_counts := (failure_counts st)(url := next_count x (failure_counts st url)),
          endpoint_states := (endpoint_states st)
            (url := next_state (ap_failure_threshold (s_api s)) x (failure_counts st url)
               (endpoint_states st url))\<rparr>)"
  by (cases x) (auto simp: decide_defs next_count_def split: sum.splits)

lemma decide_counts:
  assumes "target_metadata url = Inr m"
  shows "failure_counts (snd (probe_decide s url x st)) =
    (failure_counts st)(url := next_count x (failure_counts st url))"
  by (simp add: decide_state assms)

lemma decide_other:
  "key \<noteq> url \<Longrightarrow> failure_counts (snd (probe_decide s url x st)) key = failure_counts st key \<and>
     endpoint_states (snd (probe_decide s url x st)) key = endpoint_states st key"
  by (simp add: decide_state split: sum.split)

text \<open>When a counted failure is reported.\<close>

lemma decide_failure:
  assumes "target_metadata url = Inr m" "counts x"
  shows "(\<exists>a. fst (probe_decide s url x st) = Emit a) \<longleftrightarrow>
    ap_failure_threshold (s_api s) \<le> failure_counts st url + 1"
  using assms by (cases x; cases m) (auto simp: decide_defs)

text \<open>A history of outcomes for one target, newest first.\<close>

fun probe_history :: "settings \<Rightarrow> pystr \<Rightarrow> probe_outcome list \<Rightarrow> probe_state" where
  "probe_history s url [] = initial_probes"
| "probe_history s url (x # hist) = snd (probe_decide s url x (probe_history s url hist))"

lemma history_counts:
  assumes "target_metadata url = Inr m"
  shows "failure_counts (probe_history s url hist) = (\<lambda>_. 0)(url := streak hist)"
  by (induction hist) (auto simp: initial_probes_def decide_counts [OF assms] streak_Cons fun_eq_iff)

section \<open>Independent targets\<close>

lemma decide_commute:
  assumes "u \<noteq> v"
  shows "snd (probe_decide s u x (snd (probe_decide s v y st))) =
    snd (probe_decide s v y (snd (probe_decide s u x st)))"
  using assms by (simp add: decide_state fun_upd_twist split: sum.split)

text \<open>The decision of a probe depends on its own key only.\<close>

lemma decide_same:
  assumes "failure_counts st url = failure_counts st' url"
  shows "fst (probe_decide s url x st) = fst (probe_decide s url x st')"
  using assms by (cases x) (auto simp: decide_defs split: sum.splits)

definition answer_step :: "settings \<Rightarrow> nat \<times> probe_outcome \<Rightarrow> probe_state \<Rightarrow> probe_state" where
  "answer_step s a st = snd (probe_decide s (ap_target_urls (s_api s) ! fst a) (snd a) st)"

lemma probe_endpoint_state: "snd (probe_endpoint E s url x st w) = snd (probe_decide s url x st)"
  by (simp add: probe_endpoint_def split: prod.splits)

lemma gather_state: "fst (snd (gather_probes E s order results st w)) = fold (answer_step s) order st"
proof (induction order arbitrary: results st w)
  case (Cons a order)
  obtain i x where a: "a = (i, x)" by (cases a)
  obtain r w1 st1 where p: "probe_endpoint E s (ap_target_urls (s_api s) ! i) x st w = ((r, w1), st1)"
    by (metis prod.collapse)
  have "st1 = answer_step s a st"
    using probe_endpoint_state [of E s "ap_target_urls (s_api s) ! i" x st w] p a
    by (simp add: answer_step_def)
  with Cons a p show ?case by simp
qed simp

lemma fold_answers_perm:
  assumes d: "distinct (ap_target_urls (s_api s))"
    and a: "answers_all (length (ap_target_urls (s_api s))) xs"
    and m: "mset xs = mset ys"
  shows "fold (answer_step s) xs st = fold (answer_step s) ys st"
proof -
  have "answer_step s x \<circ> answer_step s y = answer_step s y \<circ> answer_step s x"
    if "x \<in> set xs" "y \<in> set xs" for x y
  proof (cases "fst x = fst y")
    case True
    with a that have "x = y"
      by (metis answers_all_def distinct_map inj_onD)
    then show ?thesis by simp
  next
    case False
    from a that have "fst x < length (ap_target_urls (s_api s))" "fst y < length (ap_target_urls (s_api s))"
      by (auto simp: answers_all_def)
    with d False have "ap_target_urls (s_api s) ! fst x \<noteq> ap_target_urls (s_api s) ! fst y"
      by (simp add: nth_eq_iff_index_eq)
    then show ?thesis by (simp add: fun_eq_iff answer_step_def decide_commute)
  qed
  then have "fold (answer_step s) xs = fold (answer_step s) ys" using m
    by (rule fold_multiset_equiv)
  then show ?thesis by simp
qed

section \<open>The resolver\<close>

lemma check_address_False:
  "check_address False h = Inr () \<longleftrightarrow>
     (case ip_address (fst (partition_at 37 h)) of
        Some a \<Rightarrow> \<not> is_loopback a \<and> \<not> prohibited a | None \<Rightarrow> False)"
  by (auto simp: check_address_def split: option.splits)

lemma check_addresses_iff: "check_addresses b hs = Inr () \<longleftrightarrow> (\<forall>h \<in> set hs. check_address b h = Inr ())"
  by (induction hs) (auto simp: bind_r_Inr_iff)

lemma resolve_iff:
  "resolve b rs = Inr rs' \<longleftrightarrow> rs' = rs \<and> rs \<noteq> [] \<and> (\<forall>h \<in> set rs. check_address b h = Inr ())"
  by (auto simp: resolve_def bind_r_Inr_iff check_addresses_iff)

section \<open>Confidence\<close>

lemma fadd_nonneg: "fle (Fin 0) x \<Longrightarrow> fle (Fin 0) y \<Longrightarrow> fle (Fin 0) (fadd x y)"
  by (cases x; cases y) (auto intro: fl_nonneg)

lemma fmul_nonneg: "fle (Fin 0) x \<Longrightarrow> 0 < r \<Longrightarrow> fle (Fin 0) (fmul x (Fin r))"
  by (cases x) (auto intro: fl_nonneg)

lemma failure_confidence_range:
  assumes "0 \<le> base" "base \<le> 1" "0 \<le> n"
  shows "in_range 1 (failure_confidence base n)"
proof -
  obtain b where b: "fl base = Fin b" "0 \<le> b"
    using const_in_range [OF assms(1,2)] by (auto simp: in_range_def)
  have step: "fl (5 / 100) = Fin (round_bin (5 / 100))" "0 < round_bin (5 / 100)"
    by code_simp+
  have n: "fle (Fin 0) (fl (of_int n))" using assms(3) by (intro fl_nonneg) simp
  let ?x = "fadd (fl base) (fmul (fl (of_int n)) (fl (5 / 100)))"
  have x: "fle (Fin 0) ?x"
    unfolding b(1) step(1) using b(2) fmul_nonneg [OF n step(2)] by (intro fadd_nonneg) simp_all
  then have "fle (Fin 0) (fmin ?x (fl (99 / 100)))"
    using fl_99 by (auto simp: in_range_def intro: fle_fmin)
  moreover have "?x \<noteq> NaN" using x by (cases ?x) auto
  then have "fle (fmin ?x (fl (99 / 100))) (fl (99 / 100))"
    by (rule fmin_le_right) simp
  ultimately show ?thesis
    using fl_99 by (cases "fmin ?x (fl (99 / 100))") (auto simp: in_range_def failure_confidence_def)
qed

section \<open>Targets and outcomes with words for their findings\<close>

definition target_fits :: "settings \<Rightarrow> pystr \<Rightarrow> bool" where
  "target_fits s url \<longleftrightarrow>
     (case target_metadata url of
        Inl _ \<Rightarrow> False
      | Inr (service, endpoint) \<Rightarrow>
          text_ok 200 service \<and> encodable service \<and> encodable endpoint \<and>
          length service + length endpoint \<le> 477 \<and> text_ok 200 (s_platform s) \<and>
          finite_f (ap_latency_warn_ms (s_api s)) \<and>
          length (format_0f (ap_latency_warn_ms (s_api s))) \<le> 1000)"

definition outcome_fits :: "probe_outcome \<Rightarrow> bool" where
  "outcome_fits x \<longleftrightarrow>
     (case x of
        Responded status started finished \<Rightarrow>
          let latency = fmul (fsub finished started) (Fin 1000)
          in 0 \<le> status \<and> status \<le> 999 \<and> finite_f (fround 2 latency) \<and>
             length (format_0f latency) \<le> 1000
      | Raised _ \<Rightarrow> False
      | _ \<Rightarrow> True)"

definition count_fits :: "int \<Rightarrow> bool" where
  "count_fits n \<longleftrightarrow> 0 \<le> n \<and> length (dec_int (n + 1)) \<le> 1000"

lemma dec_int_nonneg: "0 \<le> i \<Longrightarrow> dec_int i = dec_nat (nat i)"
  by (simp add: dec_int_def)

lemma dec_status_length:
  assumes "0 \<le> status" "status \<le> 999"
  shows "length (dec_int status) \<le> 3"
proof -
  have "length (dec_nat n) \<le> 3" if "n \<le> 999" for n
  proof -
    have "n div 10 div 10 < 10" using that by (simp add: div_mult2_eq [symmetric])
    then show ?thesis
      by (subst dec_nat.simps, subst dec_nat.simps, subst dec_nat.simps) simp
  qed
  with assms show ?thesis by (simp add: dec_int_nonneg)
qed

lemma in_range_confidence: "in_range 1 c \<Longrightarrow> confidence_ok (NFloat c)"
  by (auto simp: in_range_def confidence_ok_def num_float_def)

lemma fingerprint_returns:
  assumes "encodable service" "encodable endpoint"
  shows "returns (compute_fingerprint [FPText (Some service), FPText (Some endpoint),
    FPText (Some (finding_type_value ty)), FPText None, FPInt None])"
proof -
  have "\<forall>c \<in> set (str_lower (finding_type_value ty)). \<not> is_surrogate c"
    by (cases ty) (simp_all add: str_lower_def lower_char_def lit_Cons is_surrogate_def)
  with assms have "returns (utf8_encode (str_join [124]
      [str_lower service, str_lower endpoint, str_lower (finding_type_value ty), [], []]))"
    by (intro utf8_encode_join) (auto simp: encodable_def)
  then show ?thesis by (auto simp: compute_fingerprint_def returns_iff str_lower_def)
qed

lemma new_finding_valid: "new_finding a rnd now = Inr f \<Longrightarrow> finding_valid f"
  by (auto simp: new_finding_def bind_r_Inr_iff finding_ctor_to_dict_iff)

lemma api_members_known: "returns (finding_source_of (lit ''api''))" "returns (finding_status_of (lit ''OPEN''))"
  using finding_source_of_value [of API] finding_status_of_value [of OPEN]
  by (simp_all del: finding_source_of_value finding_status_of_value)

text \<open>A text that starts with a letter is not blank.\<close>

lemma text_ok_headed: "\<not> is_space (hd s) \<Longrightarrow> s \<noteq> [] \<Longrightarrow> length s \<le> n \<Longrightarrow> text_ok n s"
  by (auto simp: text_ok_def strip_by_Nil_iff)

text \<open>What the arguments of all findings of the watcher have in common.\<close>

lemma api_args_ok:
  assumes fits: "target_fits s url" "target_metadata url = Inr (service, endpoint)"
    and a: "na_source a = finding_source_value API" "na_type a = finding_type_value ty"
      "na_severity a = severity_value sev" "na_service a = service" "na_system a = s_platform s"
      "na_endpoint a = Some endpoint" "na_file a = None" "na_line a = None" "na_function a = None"
      "na_trace_id a = None" "na_status a = finding_status_value OPEN"
    and t: "text_ok 500 (na_title a)" "text_ok 4000 (na_description a)"
    and c: "confidence_ok (na_confidence a)" "na_context a = Some ctx" "json_ok (VDict ctx)"
  shows "args_ok a"
  using fits t c fingerprint_returns [of service endpoint ty]
  by (simp add: args_ok_def a target_fits_def opt_text_ok_def line_ok_def args_parts_def api_members_known)

lemmas finding_defs = down_finding_def slow_finding_def status_finding_def tls_finding_def
  api_args_def default_args_def

lemma json_count: "count_fits n \<Longrightarrow> json_ok (VInt (n + 1))"
  by (auto simp: count_fits_def dec_int_nonneg)

lemma down_finding_ok:
  assumes "target_fits s url" "target_metadata url = Inr (service, endpoint)" "count_fits n"
    and "heading \<in> {''Endpoint timeout: '', ''Service unreachable: ''}"
  shows "args_ok (down_finding (s_platform s) url service endpoint (n + 1)
    (lit heading @ service @ endpoint) kind)"
proof -
  have len: "length service + length endpoint \<le> 477"
    using assms(1,2) by (simp add: target_fits_def)
  have conf: "confidence_ok (NFloat (failure_confidence (8 / 10) (n + 1)))"
    using assms(3) by (intro in_range_confidence failure_confidence_range) (auto simp: count_fits_def)
  show ?thesis
    by (rule api_args_ok [OF assms(1,2), where ty = ENDPOINT_DOWN and sev = CRITICAL])
      (use assms(3,4) len conf json_count [OF assms(3)] in
        \<open>auto simp: finding_defs count_fits_def lit_Cons is_space_def intro!: text_ok_headed\<close>)
qed

lemma tls_finding_ok:
  assumes "target_fits s url" "target_metadata url = Inr (service, endpoint)"
  shows "args_ok (tls_finding (s_platform s) service endpoint)"
proof -
  have len: "length service + length endpoint \<le> 477"
    using assms(1,2) by (simp add: target_fits_def)
  have conf: "confidence_ok (NFloat (fl (99 / 100)))" by (rule in_range_confidence [OF fl_99])
  show ?thesis
    by (rule api_args_ok [OF assms, where ty = SSL_ERROR and sev = HIGH])
      (use len conf in \<open>auto simp: finding_defs lit_Cons is_space_def intro!: text_ok_headed\<close>)
qed

lemma status_finding_ok:
  assumes "target_fits s url" "target_metadata url = Inr (service, endpoint)" "count_fits n"
    and "outcome_fits (Responded status started finished)"
  shows "args_ok (status_finding (s_platform s) service endpoint status
    (fmul (fsub finished started) (Fin 1000)) (n + 1) state)"
proof -
  have len: "length service + length endpoint \<le> 477"
    using assms(1,2) by (simp add: target_fits_def)
  have st: "0 \<le> status" "status \<le> 999" using assms(4) by (auto simp: outcome_fits_def Let_def)
  note dec = dec_status_length [OF st]
  then have js: "json_ok (VInt status)" using st by (simp add: dec_int_nonneg)
  have conf: "confidence_ok (NFloat (failure_confidence (7 / 10) (n + 1)))"
    using assms(3) by (intro in_range_confidence failure_confidence_range) (auto simp: count_fits_def)
  show ?thesis
    by (rule api_args_ok [OF assms(1,2), where ty = "classify_status status"
          and sev = "if status \<ge> 500 then CRITICAL else HIGH"])
      (use assms(3,4) len conf dec js json_count [OF assms(3)] in
        \<open>auto simp: finding_defs count_fits_def outcome_fits_def Let_def lit_Cons is_space_def
          intro!: text_ok_headed\<close>)
qed

lemma slow_finding_ok:
  assumes "target_fits s url" "target_metadata url = Inr (service, endpoint)"
    and "outcome_fits (Responded status started finished)"
  shows "args_ok (slow_finding (s_platform s) service endpoint status
    (fmul (fsub finished started) (Fin 1000)) (ap_latency_warn_ms (s_api s)))"
proof -
  have len: "length service + length endpoint \<le> 477" "finite_f (ap_latency_warn_ms (s_api s))"
      "length (format_0f (ap_latency_warn_ms (s_api s))) \<le> 1000"
    using assms(1,2) by (simp_all add: target_fits_def)
  have st: "0 \<le> status" "status \<le> 999" using assms(3) by (auto simp: outcome_fits_def Let_def)
  then have js: "json_ok (VInt status)"
    using dec_status_length [OF st] by (simp add: dec_int_nonneg)
  have conf: "confidence_ok (NFloat (fl (9 / 10)))"
    by (intro in_range_confidence const_in_range) simp_all
  show ?thesis
    by (rule api_args_ok [OF assms(1,2), where ty = HIGH_LATENCY and sev = MEDIUM])
      (use assms(3) len conf js in
        \<open>auto simp: finding_defs outcome_fits_def Let_def lit_Cons is_space_def
          intro!: text_ok_headed\<close>)
qed

lemma decide_fits:
  assumes "target_fits s url" "outcome_fits x" "count_fits (failure_counts st url)"
  shows "fst (probe_decide s url x st) = Quiet \<or>
    (\<exists>a. fst (probe_decide s url x st) = Emit a \<and> args_ok a)"
proof -
  obtain service endpoint where m: "target_metadata url = Inr (service, endpoint)"
    using assms(1) by (auto simp: target_fits_def split: sum.splits)
  note oks = down_finding_ok [OF assms(1) m assms(3)] tls_finding_ok [OF assms(1) m]
    status_finding_ok [OF assms(1) m assms(3)] slow_finding_ok [OF assms(1) m]
  show ?thesis
    using assms(2) oks by (cases x) (auto simp: decide_defs m, auto simp: outcome_fits_def)
qed

lemma make_finding_returns:
  assumes "args_ok a" "clock_reads_ok E"
  shows "\<exists>f w'. make_finding E a w = (Inr f, w') \<and> finding_valid f"
proof -
  obtain bits w1 where u: "e_uuid E w = (bits, w1)" by force
  obtain now w2 where t: "e_time E w1 = (now, w2)" by force
  then have now: "timestamp_ok (NFloat now)" using assms(2) by (metis clock_reads_ok_def fst_conv)
  from assms(1) obtain fp sev conf where "compute_fingerprint (args_parts a) = Inr fp"
      "severity_from_string (na_severity a) = Inr sev" "num_float (na_confidence a) = Inr conf"
    by (auto simp: args_ok_def returns_iff confidence_ok_def split: sum.splits)
  with assms(1) now have "new_finding a bits now = Inr (new_finding_record a bits now fp sev conf)"
    by (simp add: new_finding_Inr)
  moreover from this have "finding_valid (new_finding_record a bits now fp sev conf)"
    by (rule new_finding_valid)
  ultimately show ?thesis using u t by (auto simp: make_finding_def act_simps)
qed

lemma probe_returns:
  assumes "target_fits s url" "outcome_fits x" "count_fits (failure_counts st url)" "clock_reads_ok E"
  shows "\<exists>r w'. fst (probe_endpoint E s url x st w) = (Inr r, w') \<and>
    (\<forall>f. r = Some f \<longrightarrow> finding_valid f)"
proof -
  from decide_fits [OF assms(1-3)] consider "fst (probe_decide s url x st) = Quiet"
    | a where "fst (probe_decide s url x st) = Emit a" "args_ok a" by blast
  then show ?thesis
  proof cases
    case 1
    then show ?thesis by (auto simp: probe_endpoint_def ret_def split: prod.splits)
  next
    case 2
    obtain f w' where "make_finding E a w = (Inr f, w')" "finding_valid f"
      using make_finding_returns [OF 2(2) assms(4)] by blast
    with 2 show ?thesis by (auto simp: probe_endpoint_def bind_a_def ret_def split: prod.splits)
  qed
qed

end
