(* ===== verification/CodeWatcherProofs.thy ===== *)
theory CodeWatcherProofs
  imports CodeWatcher NotifierSanitize ApiWatcherProofs
begin

text \<open>
  Facts on \<open>src/watchers/code_watcher.py\<close>: the tracker of hashes against a history of its
  uses, the arguments of the findings, what a scan of lines and a visit of a tree produce,
  and the pattern that no line can match.
\<close>

section \<open>The tracker against its history\<close>

text \<open>The last entries of a list, and the paths used most recently, oldest first.\<close>

definition last_n :: "nat \<Rightarrow> 'a list \<Rightarrow> 'a list" where
  "last_n k xs = drop (length xs - k) xs"

definition recent :: "nat \<Rightarrow> 'a list \<Rightarrow> 'a list" where
  "recent k xs = last_n k (remdups xs)"

lemma last_n_append: "k \<le> length ys \<Longrightarrow> last_n k (xs @ ys) = last_n k ys"
  by (simp add: last_n_def)

lemma last_n_short: "length xs \<le> k \<Longrightarrow> last_n k xs = xs"
  by (simp add: last_n_def)

lemma length_last_n: "length (last_n k xs) = min k (length xs)"
  by (simp add: last_n_def)

lemma map_last_n: "map f (last_n k xs) = last_n k (map f xs)"
  by (simp add: last_n_def drop_map)

lemma last_n_split: "take (length xs - k) xs @ last_n k xs = xs"
  by (simp add: last_n_def)

lemma evict_oldest_last_n: "evict_oldest k st = last_n k st"
proof (induction k st rule: evict_oldest.induct)
  case (1 k st)
  show ?case
  proof (cases "k < length st")
    case True
    then have "evict_oldest k st = last_n k (tl st)" using 1 by (simp add: evict_oldest.simps)
    also have "\<dots> = last_n k st" using True by (cases st) (auto simp: last_n_def Suc_diff_le)
    finally show ?thesis .
  next
    case False
    then show ?thesis by (simp add: evict_oldest.simps last_n_short)
  qed
qed

lemma remdups_snoc: "remdups (xs @ [x]) = filter (\<lambda>y. y \<noteq> x) (remdups xs) @ [x]"
  by (induction xs) auto

text \<open>Using an element again moves it to the end; a new one pushes the oldest out.\<close>

lemma recent_snoc_known:
  assumes "x \<in> set (recent k xs)"
  shows "recent k (xs @ [x]) = filter (\<lambda>y. y \<noteq> x) (recent k xs) @ [x]"
proof -
  let ?R = "remdups xs"
  let ?A = "take (length ?R - k) ?R" and ?B = "last_n k ?R"
  have split: "?A @ ?B = ?R" by (rule last_n_split)
  have "distinct (?A @ ?B)" by (simp only: split distinct_remdups)
  with assms have x: "x \<in> set ?B" "x \<notin> set ?A" "distinct ?B" by (auto simp: recent_def)
  then have "filter (\<lambda>y. y \<noteq> x) ?A = ?A" by (intro filter_True) auto
  then have eq: "filter (\<lambda>y. y \<noteq> x) ?R = ?A @ filter (\<lambda>y. y \<noteq> x) ?B"
    by (metis filter_append split)
  have "length (filter (\<lambda>y. y \<noteq> x) ?B) = length ?B - 1"
    using x distinct_remove1_removeAll [of ?B x] length_remove1 [of x ?B]
    by (simp add: removeAll_filter_not_eq) (metis (mono_tags, lifting) filter_cong)
  moreover have "length ?B = min k (length ?R)" by (rule length_last_n)
  moreover have "0 < length ?B" using x(1) by (cases ?B) auto
  ultimately have len: "length (filter (\<lambda>y. y \<noteq> x) ?B @ [x]) = min k (length ?R)" by simp
  have "recent k (xs @ [x]) = last_n k (?A @ filter (\<lambda>y. y \<noteq> x) ?B @ [x])"
    by (simp add: recent_def remdups_snoc eq)
  also have "\<dots> = filter (\<lambda>y. y \<noteq> x) ?B @ [x]"
  proof (cases "k \<le> length ?R")
    case True
    then have l: "length (filter (\<lambda>y. y \<noteq> x) ?B @ [x]) = k" using len by simp
    then have "last_n k (?A @ filter (\<lambda>y. y \<noteq> x) ?B @ [x]) = last_n k (filter (\<lambda>y. y \<noteq> x) ?B @ [x])"
      by (intro last_n_append) simp
    also have "\<dots> = filter (\<lambda>y. y \<noteq> x) ?B @ [x]" by (rule last_n_short) (simp only: l)
    finally show ?thesis .
  next
    case False
    then show ?thesis using len by (simp add: last_n_short)
  qed
  finally show ?thesis by (simp add: recent_def)
qed

lemma recent_snoc_new:
  assumes "x \<notin> set (recent k xs)"
  shows "recent k (xs @ [x]) = last_n k (recent k xs @ [x])"
proof -
  let ?R = "remdups xs"
  let ?A = "take (length ?R - k) ?R" and ?B = "last_n k ?R"
  have "filter (\<lambda>y. y \<noteq> x) ?B = ?B" using assms by (intro filter_True) (auto simp: recent_def)
  then have "filter (\<lambda>y. y \<noteq> x) ?R = filter (\<lambda>y. y \<noteq> x) ?A @ ?B"
    by (metis filter_append last_n_split)
  then have "recent k (xs @ [x]) = last_n k (filter (\<lambda>y. y \<noteq> x) ?A @ (?B @ [x]))"
    by (simp add: recent_def remdups_snoc)
  also have "\<dots> = last_n k (?B @ [x])"
  proof (cases "k \<le> length ?R")
    case True
    then show ?thesis by (intro last_n_append) (simp add: length_last_n)
  next
    case False
    then show ?thesis by simp
  qed
  finally show ?thesis by (simp add: recent_def)
qed

text \<open>The tracker after a history of hashes that were noted, oldest first.\<close>

definition note_all :: "nat \<Rightarrow> (pystr \<times> pystr) list \<Rightarrow> tracker" where
  "note_all limit hist = foldl (\<lambda>st (path, h). snd (note_hash limit path h st)) [] hist"

definition latest :: "(pystr \<times> pystr) list \<Rightarrow> pystr \<Rightarrow> pystr" where
  "latest hist path = the (map_of (rev hist) path)"

definition entry :: "(pystr \<times> pystr) list \<Rightarrow> pystr \<Rightarrow> pystr \<times> pystr" where
  "entry hist path = (path, latest hist path)"

lemma map_of_entries: "map_of (map (entry hist) ps) p = (if p \<in> set ps then Some (latest hist p) else None)"
  by (induction ps) (auto simp: entry_def)

lemma entry_snoc: "entry (hist @ [(p, h)]) q = (if q = p then (p, h) else entry hist q)"
  by (simp add: entry_def latest_def)

lemma map_entry_filter:
  "map (entry (hist @ [(p, h)])) (filter (\<lambda>q. q \<noteq> p) ps) = map (entry hist) (filter (\<lambda>q. q \<noteq> p) ps)"
  by (simp add: entry_snoc)

lemma filter_entries: "filter (\<lambda>e. fst e \<noteq> p) (map (entry hist) ps) = map (entry hist) (filter (\<lambda>q. q \<noteq> p) ps)"
  by (induction ps) (auto simp: entry_def)

lemma filter_update: "filter (\<lambda>e. fst e \<noteq> p) (AList.update p h st) = filter (\<lambda>e. fst e \<noteq> p) st"
  by (induction st) auto

lemma move_update: "move_to_end p (AList.update p h st) = filter (\<lambda>e. fst e \<noteq> p) st @ [(p, h)]"
  by (simp add: move_to_end_def AList.update_conv filter_update)

lemma note_hash_cases:
  "note_hash limit p h st =
     (map_of st p \<noteq> Some h,
      if map_of st p = Some h then filter (\<lambda>e. fst e \<noteq> p) st @ [(p, h)]
      else last_n limit (filter (\<lambda>e. fst e \<noteq> p) st @ [(p, h)]))"
  by (simp add: note_hash_def move_to_end_def evict_oldest_last_n move_update [unfolded move_to_end_def])

lemma length_recent: "length (recent k xs) \<le> k"
  by (simp add: recent_def length_last_n)

lemma note_all_eq: "note_all limit hist = map (entry hist) (recent limit (map fst hist))"
proof (induction hist rule: rev_induct)
  case Nil
  show ?case by (simp add: note_all_def recent_def last_n_def)
next
  case (snoc e hist)
  obtain p h where e: "e = (p, h)" by (cases e)
  let ?ps = "recent limit (map fst hist)"
  have step: "note_all limit (hist @ [e]) = snd (note_hash limit p h (map (entry hist) ?ps))"
    using snoc by (simp add: note_all_def e)
  have end_entry: "map (entry (hist @ [e])) (filter (\<lambda>q. q \<noteq> p) ?ps @ [p]) =
      filter (\<lambda>e. fst e \<noteq> p) (map (entry hist) ?ps) @ [(p, h)]"
    by (simp add: e map_entry_filter filter_entries entry_snoc)
  show ?case
  proof (cases "p \<in> set ?ps")
    case True
    then have "recent limit (map fst hist @ [p]) = filter (\<lambda>q. q \<noteq> p) ?ps @ [p]"
      by (rule recent_snoc_known)
    then have spec: "map (entry (hist @ [e])) (recent limit (map fst (hist @ [e]))) =
        filter (\<lambda>e. fst e \<noteq> p) (map (entry hist) ?ps) @ [(p, h)]"
      using end_entry by (simp add: e)
    have "length (recent limit (map fst hist @ [p])) \<le> limit" by (rule length_recent)
    then have "length (map (entry (hist @ [e])) (recent limit (map fst (hist @ [e])))) \<le> limit"
      by (simp add: e)
    then have "last_n limit (filter (\<lambda>e. fst e \<noteq> p) (map (entry hist) ?ps) @ [(p, h)]) =
        filter (\<lambda>e. fst e \<noteq> p) (map (entry hist) ?ps) @ [(p, h)]"
      unfolding spec by (rule last_n_short)
    then show ?thesis by (simp only: step spec note_hash_cases snd_conv) simp
  next
    case False
    then have "recent limit (map fst hist @ [p]) = last_n limit (?ps @ [p])"
      by (rule recent_snoc_new)
    moreover have same: "filter (\<lambda>q. q \<noteq> p) ?ps = ?ps" using False by (intro filter_True) auto
    ultimately have "map (entry (hist @ [e])) (recent limit (map fst (hist @ [e]))) =
        last_n limit (filter (\<lambda>e. fst e \<noteq> p) (map (entry hist) ?ps) @ [(p, h)])"
      using end_entry by (simp add: e map_last_n)
    moreover have "map_of (map (entry hist) ?ps) p \<noteq> Some h" using False by (simp add: map_of_entries)
    ultimately show ?thesis by (simp only: step note_hash_cases snd_conv if_False)
  qed
qed

section \<open>Snapshots\<close>

lemma read_chunks_bounded:
  "read_chunks C fd got w = (Inr content, w') \<Longrightarrow> length got \<le> max_file_size \<Longrightarrow>
   length content \<le> max_file_size"
proof (induction C fd got w arbitrary: content w' rule: read_chunks.induct)
  case (1 C fd got w)
  show ?case
    using 1(2,3) 1(1)
    by (subst (asm) read_chunks.simps) (auto split: prod.splits sum.splits if_splits)
qed

lemma read_descriptor_bounded:
  "read_descriptor C fd w = (Inr (content, st), w') \<Longrightarrow>
   length content \<le> max_file_size \<and> int (length content) = st_size st"
  using read_chunks_bounded [of C fd "[]"]
  by (auto simp: read_descriptor_def bind_a_Inr_iff guard_a_def of_result_def ret_def)

lemma finally_a_Inr_iff:
  "finally_a m c w = (Inr x, w') \<longleftrightarrow> (\<exists>w1. m w = (Inr x, w1) \<and> c w1 = (Inr (), w'))"
  by (auto simp: finally_a_def split: prod.splits sum.splits)

lemma read_file_snapshot_bounded:
  "read_file_snapshot C path w = (Inr (content, st), w') \<Longrightarrow>
   length content \<le> max_file_size \<and> int (length content) = st_size st"
  using read_descriptor_bounded [of C]
  by (auto simp: read_file_snapshot_def bind_a_Inr_iff finally_a_Inr_iff)

section \<open>The arguments of the findings\<close>

definition path_fits :: "settings \<Rightarrow> pystr \<Rightarrow> bool" where
  "path_fits s path \<longleftrightarrow>
     encodable path \<and> length path \<le> 3900 \<and> length (path_name path) \<le> 400 \<and> text_ok 200 (s_platform s)"

definition line_fits :: "int \<Rightarrow> bool" where
  "line_fits i \<longleftrightarrow> 1 \<le> i \<and> length (dec_int i) \<le> 30"

lemma encodable_subset: "encodable path \<Longrightarrow> set s \<subseteq> set path \<Longrightarrow> encodable s"
  by (auto simp: encodable_def str_lower_def)

lemma strip_head: "str_strip s \<noteq> [] \<Longrightarrow> \<not> is_space (hd (str_strip s))"
proof -
  let ?t = "dropWhile is_space s"
  assume ne: "str_strip s \<noteq> []"
  have "rev (dropWhile is_space (rev ?t)) @ rev (takeWhile is_space (rev ?t)) = ?t"
    by (simp flip: rev_append)
  then have "hd (str_strip s) = hd ?t" using ne unfolding strip_by_def by (metis hd_append2)
  moreover have "str_strip s = []" if "?t = []" using that by (simp only: strip_by_def) simp
  then have "?t \<noteq> []" using ne by blast
  ultimately show ?thesis using hd_dropWhile [of is_space s] by simp
qed

lemma stripped_text_ok: "str_strip s \<noteq> [] \<Longrightarrow> text_ok 200 (take 200 (str_strip s))"
  by (rule text_ok_headed) (use strip_head in auto)

lemma after_marker_Some:
  assumes "after_marker m parts = Some c"
  obtains part where "part \<in> set parts" "c = str_strip part" "c \<noteq> []"
proof -
  obtain x part rest where d: "dropWhile (\<lambda>p. p \<noteq> lit m) parts = x # part # rest"
      and c: "c = str_strip part" "c \<noteq> []"
    using assms by (auto simp: after_marker_def split: list.splits if_splits)
  have "part \<in> set (dropWhile (\<lambda>p. p \<noteq> lit m) parts)" by (simp add: d)
  then have "part \<in> set parts" by (auto dest: set_dropWhileD)
  with c that show ?thesis by blast
qed

lemma path_parts_subset: "p \<in> set (path_parts path) \<Longrightarrow> set p \<subseteq> set path"
proof -
  have root: "set (path_root path) \<subseteq> set path"
    by (cases path) (auto simp: path_root_def)
  assume "p \<in> set (path_parts path)"
  then show ?thesis
    using root split_char_subset [of p 47 path] by (auto simp: path_parts_def path_rel_def split: if_splits)
qed

lemma path_parent_subset: "set (path_parent_name path) \<subseteq> set path"
proof -
  have "set p \<subseteq> set path" if "p \<in> set (butlast (path_rel path))" for p
    using in_set_butlastD [OF that] split_char_subset [of p 47 path] by (simp add: path_rel_def)
  then have "\<Union> (set ` set (butlast (path_rel path))) \<subseteq> set path" by blast
  then show ?thesis using last_part_subset [of "butlast (path_rel path)"]
    unfolding path_parent_name_def by (rule subset_trans [rotated])
qed

lemma infer_service_cases:
  "(\<exists>t. set t \<subseteq> set path \<and> str_strip t \<noteq> [] \<and> infer_service path = take 200 (str_strip t)) \<or>
   infer_service path = lit ''unknown-service''"
proof (cases "after_marker ''services'' (path_parts path)")
  case (Some c)
  then show ?thesis
    using path_parts_subset by (elim after_marker_Some) (auto simp: infer_service_def Some)
next
  case None
  show ?thesis
  proof (cases "after_marker ''components'' (path_parts path)")
    case (Some c)
    then show ?thesis
      using path_parts_subset None by (elim after_marker_Some) (auto simp: infer_service_def None Some)
  next
    case none: None
    show ?thesis
      using path_parent_subset [of path] by (auto simp: infer_service_def None none Let_def)
  qed
qed

lemma infer_service_ok: "text_ok 200 (infer_service path)"
  using infer_service_cases [of path] stripped_text_ok
  by (auto simp: lit_Cons is_space_def intro: text_ok_headed)

lemma encodable_service: "encodable path \<Longrightarrow> encodable (infer_service path)"
proof -
  assume enc: "encodable path"
  from infer_service_cases [of path] show ?thesis
  proof (elim disjE exE conjE)
    fix t assume t: "set t \<subseteq> set path" "infer_service path = take 200 (str_strip t)"
    then have "set (infer_service path) \<subseteq> set path"
      using strip_by_subset [of is_space t] by (auto dest: in_set_takeD)
    with enc show ?thesis by (rule encodable_subset)
  next
    assume "infer_service path = lit ''unknown-service''"
    then show ?thesis by (simp add: encodable_def str_lower_def lower_char_def lit_Cons is_surrogate_def)
  qed
qed

lemma code_fingerprint_returns:
  assumes "encodable service" "encodable path" "case line of None \<Rightarrow> True | Some i \<Rightarrow> line_fits i"
  shows "returns (compute_fingerprint [FPText (Some service), FPText None,
    FPText (Some (finding_type_value ty)), FPText (Some path), FPInt line])"
proof -
  have ty: "\<forall>c \<in> set (str_lower (finding_type_value ty)). \<not> is_surrogate c"
    by (cases ty) (simp_all add: str_lower_def lower_char_def lit_Cons is_surrogate_def)
  have "returns (part_text (FPInt line))"
    using assms(3) by (auto simp: line_fits_def dec_int_nonneg split: option.splits)
  then obtain l where l: "part_text (FPInt line) = Inr l" by (auto simp: returns_iff)
  moreover have "\<forall>c \<in> set (str_lower l). \<not> is_surrogate c"
    using l dec_int_encodable by (cases line) (auto simp: str_lower_def split: if_splits)
  ultimately have "returns (utf8_encode (str_join [124]
      [str_lower service, str_lower [], str_lower (finding_type_value ty), str_lower path, str_lower l]))"
    using assms(1,2) ty by (intro utf8_encode_join) (auto simp: encodable_def str_lower_def)
  with l show ?thesis by (auto simp: compute_fingerprint_def returns_iff)
qed

lemma code_source_known: "returns (finding_source_of (lit ''code''))"
  using finding_source_of_value [of CODE] by (simp del: finding_source_of_value)

lemma code_args_ok:
  assumes fits: "path_fits s path"
    and a: "na_source a = finding_source_value CODE" "na_type a = finding_type_value ty"
      "na_severity a = severity_value sev" "na_service a = infer_service path"
      "na_system a = s_platform s" "na_endpoint a = None" "na_file a = Some path"
      "na_function a = None" "na_trace_id a = None" "na_status a = finding_status_value OPEN"
    and l: "case na_line a of None \<Rightarrow> True | Some i \<Rightarrow> line_fits i"
    and t: "text_ok 500 (na_title a)" "text_ok 4000 (na_description a)"
    and c: "confidence_ok (na_confidence a)" "na_context a = Some ctx" "json_ok (VDict ctx)"
  shows "args_ok a"
proof -
  have enc: "encodable path" "length path \<le> 4096" "text_ok 200 (s_platform s)"
    using fits by (simp_all add: path_fits_def)
  have "returns (compute_fingerprint (args_parts a))"
    using code_fingerprint_returns [OF encodable_service [OF enc(1)] enc(1) l, of ty]
    by (simp add: args_parts_def a)
  moreover have "line_ok (na_line a)"
    using l by (auto simp: line_ok_def line_fits_def split: option.splits)
  ultimately show ?thesis
    using enc t c by (simp add: args_ok_def a opt_text_ok_def infer_service_ok api_members_known
        code_source_known)
qed

lemma code_args_fields [simp]:
  "na_source (code_args s path) = finding_source_value CODE"
  "na_service (code_args s path) = infer_service path"
  "na_system (code_args s path) = s_platform s"
  "na_endpoint (code_args s path) = None" "na_file (code_args s path) = Some path"
  "na_function (code_args s path) = None" "na_trace_id (code_args s path) = None"
  "na_status (code_args s path) = finding_status_value OPEN" "na_line (code_args s path) = None"
  by (simp_all add: code_args_def infer_service_system_def default_args_def)

definition headed :: "nat \<Rightarrow> pystr \<Rightarrow> bool" where
  "headed n s \<longleftrightarrow> s \<noteq> [] \<and> \<not> is_space (hd s) \<and> length s \<le> n"

lemma pattern_titles: "list_all (\<lambda>p. headed 60 (pt_title p)) security_patterns"
  by (simp add: security_patterns_def headed_def lit_Cons is_space_def)

lemma pattern_confidences: "list_all (\<lambda>p. 0 \<le> pt_confidence p \<and> pt_confidence p \<le> 1) security_patterns"
  by (simp add: security_patterns_def)

lemma located_ok:
  assumes "headed 60 title" "path_fits s path" "line_fits i"
  shows "text_ok 500 (located title path i)"
  using assms by (intro text_ok_headed) (auto simp: located_def headed_def path_fits_def line_fits_def)

lemma pattern_finding_ok:
  assumes "path_fits s path" "line_fits i" "p \<in> set security_patterns"
  shows "args_ok (pattern_finding s path i p h)"
proof -
  have p: "headed 60 (pt_title p)" "0 \<le> pt_confidence p" "pt_confidence p \<le> 1"
    using assms(3) pattern_titles pattern_confidences by (auto simp: list_all_iff)
  have conf: "confidence_ok (NFloat (fl (pt_confidence p)))"
    by (intro in_range_confidence const_in_range p)
  have desc: "text_ok 4000 (lit ''Security pattern matched in '' @ path @ lit '' at line '' @ dec_int i)"
    using assms(1,2) by (intro text_ok_headed) (auto simp: lit_Cons is_space_def path_fits_def line_fits_def)
  show ?thesis
    by (rule code_args_ok [OF assms(1), where ty = "pt_type p" and sev = "pt_severity p"])
      (use assms(2) conf desc located_ok [OF p(1) assms(1,2)] in \<open>auto simp: pattern_finding_def\<close>)
qed

lemma modified_finding_ok:
  assumes "path_fits s path"
  shows "args_ok (modified_finding s path)"
proof -
  have conf: "confidence_ok (NFloat (Fin 1))" by (rule in_range_confidence) (simp add: in_range_def)
  have texts: "text_ok 500 (lit ''File Modified: '' @ path_name path)"
      "text_ok 4000 (lit ''Monitored file changed: '' @ path)"
    using assms by (auto simp: lit_Cons is_space_def path_fits_def intro!: text_ok_headed)
  show ?thesis
    by (rule code_args_ok [OF assms, where ty = FILE_MODIFIED and sev = LOW])
      (use conf texts in \<open>auto simp: modified_finding_def\<close>)
qed

end
