(* ===== verification/CodeScan.thy ===== *)
theory CodeScan
  imports CodeWatcherProofs
begin

text \<open>
  What the scanner of lines and the visitor of trees of \<open>src/watchers/code_watcher.py\<close> find:
  the findings of a scan stand for the reportable lines in order, and the visitor reports the
  nodes of the tree in preorder.
\<close>

section \<open>Lines\<close>

fun reportable :: "settings \<Rightarrow> int \<Rightarrow> pystr list \<Rightarrow> (int \<times> code_pattern \<times> pystr) list" where
  "reportable s i [] = []"
| "reportable s i (line # ls) =
     (case line_pattern s line of None \<Rightarrow> [] | Some p \<Rightarrow> [(i, p, line)]) @ reportable s (i + 1) ls"

text \<open>The finding was made by the factory for this line and pattern.\<close>

definition line_args :: "settings \<Rightarrow> pystr \<Rightarrow> int \<times> code_pattern \<times> pystr \<Rightarrow> finding_args" where
  "line_args s path r =
     (case r of (i, p, line) \<Rightarrow>
        pattern_finding s path i p (sha256_hexdigest (concat (map utf8_char line))))"

definition made_from :: "finding_args \<Rightarrow> finding \<Rightarrow> bool" where
  "made_from a f \<longleftrightarrow> (\<exists>bits now. new_finding a bits now = Inr f)"

lemma make_finding_made: "make_finding E a w = (Inr f, w') \<Longrightarrow> made_from a f"
  by (auto simp: make_finding_def bind_a_Inr_iff reads_def of_result_def made_from_def split: prod.splits)

lemma made_from_valid: "made_from a f \<Longrightarrow> finding_valid f"
  by (auto simp: made_from_def dest: new_finding_valid)

lemma made_from_fields:
  assumes "made_from a f"
  shows "f_source f = na_source a" "f_type f = na_type a" "f_file f = na_file a" "f_line f = na_line a"
  using assms by (auto simp: made_from_def new_finding_Inr new_finding_record_def)

text \<open>The fingerprint of a finding encodes the path.\<close>

lemma unencodable_fingerprint:
  assumes "\<not> encodable path" "part_text (FPInt line) = Inr l"
  shows "compute_fingerprint [FPText (Some service), FPText e, FPText (Some ty), FPText (Some path), FPInt line] =
    Inl UnicodeEncodeError"
proof -
  obtain c where "c \<in> set (str_lower path)" "is_surrogate c" using assms(1) by (auto simp: encodable_def)
  then have "utf8_encode (str_join [124]
      [str_lower service, str_lower d, str_lower ty, str_lower path, str_lower l]) = Inl UnicodeEncodeError" for d
    by (auto simp: utf8_encode_def)
  with assms(2) show ?thesis by (cases e) (simp_all add: compute_fingerprint_def)
qed

lemma made_from_encodable:
  assumes "made_from a f" "na_file a = Some path"
  shows "encodable path"
proof (rule ccontr)
  assume "\<not> encodable path"
  from assms obtain fp where fp: "compute_fingerprint (args_parts a) = Inr fp"
    by (auto simp: made_from_def new_finding_Inr)
  then obtain l where "part_text (FPInt (na_line a)) = Inr l"
    by (auto simp: compute_fingerprint_def args_parts_def bind_r_Inr_iff)
  from unencodable_fingerprint [OF \<open>\<not> encodable path\<close> this] fp assms(2) show False
    by (simp add: args_parts_def)
qed

lemma line_pattern_known:
  assumes "line_pattern s line = Some p"
  shows "p \<in> set security_patterns" "rx_search (pt_pattern p) line" "\<not> is_comment line"
    "\<not> (pt_type p = HARDCODED_SECRET \<and> \<not> cd_secret_patterns_enabled (s_code s))"
  using assms by (auto simp: line_pattern_def enabled_patterns_def find_Some_iff set_filter
      split: if_splits dest!: nth_mem)

lemma scan_line_made:
  "scan_line E s path i line w = (Inr x, w') \<Longrightarrow>
   list_all2 (\<lambda>r f. made_from (line_args s path r) f) (reportable s i [line]) (case x of None \<Rightarrow> [] | Some f \<Rightarrow> [f])"
  by (auto simp: scan_line_def bind_a_Inr_iff ret_def of_result_def utf8_encode_def line_args_def
      intro: make_finding_made split: option.splits if_splits)

text \<open>
  Whatever happens, the findings stand for the first reportable lines; for all of them if the
  scan ends normally.
\<close>

lemma scan_lines_made:
  "scan_lines E s path i ls w = ((fs, r), w') \<Longrightarrow>
   \<exists>k. list_all2 (\<lambda>r f. made_from (line_args s path r) f) (take k (reportable s i ls)) fs \<and>
       (r = Inr () \<longrightarrow> length (reportable s i ls) \<le> k)"
proof (induction ls arbitrary: i fs r w w')
  case (Cons line ls)
  obtain out w1 where o: "scan_line E s path i line w = (out, w1)" by force
  show ?case
  proof (cases out)
    case (Inl e)
    with Cons.prems o show ?thesis by (auto intro!: exI [of _ 0])
  next
    case (Inr x)
    obtain gs r' w2 where rest: "scan_lines E s path (i + 1) ls w1 = ((gs, r'), w2)"
      by (metis prod.collapse)
    from Cons.IH [OF rest] obtain k where k:
      "list_all2 (\<lambda>r f. made_from (line_args s path r) f) (take k (reportable s (i + 1) ls)) gs"
      "r' = Inr () \<longrightarrow> length (reportable s (i + 1) ls) \<le> k" by blast
    let ?here = "reportable s i [line]"
    have fs: "fs = (case x of None \<Rightarrow> [] | Some f \<Rightarrow> [f]) @ gs" "r' = r"
      using Cons.prems o Inr rest by (auto split: option.splits)
    have all: "reportable s i (line # ls) = ?here @ reportable s (i + 1) ls" by simp
    have "take (length ?here + k) (reportable s i (line # ls)) = ?here @ take k (reportable s (i + 1) ls)"
      unfolding all by simp
    then show ?thesis
      using k scan_line_made [OF o [unfolded Inr]] fs
      by (intro exI [of _ "length ?here + k"]) (auto simp del: reportable.simps simp: all intro: list_all2_appendI)
  qed
qed auto

definition text_encodable :: "pystr \<Rightarrow> bool" where
  "text_encodable line \<longleftrightarrow> (\<forall>c \<in> set line. \<not> is_surrogate c)"

lemma scan_line_returns:
  assumes "path_fits s path" "line_fits i" "clock_reads_ok E" "text_encodable line"
  shows "\<exists>x w'. scan_line E s path i line w = (Inr x, w')"
proof (cases "line_pattern s line")
  case (Some p)
  obtain bytes where b: "utf8_encode line = Inr bytes"
    using assms(4) by (auto simp: utf8_encode_def text_encodable_def)
  obtain f w' where "make_finding E (pattern_finding s path i p (sha256_hexdigest bytes)) w = (Inr f, w')"
    using make_finding_returns [OF pattern_finding_ok [OF assms(1,2) line_pattern_known(1) [OF Some]] assms(3)]
    by blast
  then show ?thesis by (simp add: scan_line_def Some bind_a_def of_result_def ret_def b)
qed (simp add: scan_line_def ret_def)

lemma scan_lines_returns:
  assumes "path_fits s path" "clock_reads_ok E" "\<forall>line \<in> set ls. text_encodable line"
    and "\<forall>k < length ls. line_fits (i + int k)"
  shows "snd (fst (scan_lines E s path i ls w)) = Inr ()"
  using assms(3,4)
proof (induction ls arbitrary: i w)
  case (Cons line ls)
  have "line_fits i" using Cons.prems(2) by force
  then obtain x w1 where "scan_line E s path i line w = (Inr x, w1)"
    using scan_line_returns [OF assms(1) _ assms(2)] Cons.prems(1) by (metis list.set_intros(1))
  moreover have "\<forall>k < length ls. line_fits (i + 1 + int k)"
    using Cons.prems(2) by (auto dest: spec [of _ "Suc _"] simp: add.assoc)
  then have "snd (fst (scan_lines E s path (i + 1) ls w1)) = Inr ()"
    using Cons.prems(1) by (intro Cons.IH) auto
  ultimately show ?case by (auto split: prod.splits)
qed simp

text \<open>Every number of lines that a file can have fits.\<close>

lemma dec_nat_length: "n < 10 ^ k \<Longrightarrow> 0 < k \<Longrightarrow> length (dec_nat n) \<le> k"
proof (induction k arbitrary: n)
  case (Suc k)
  show ?case
  proof (cases "n < 10")
    case True
    then show ?thesis by (subst dec_nat.simps) simp
  next
    case False
    then have "0 < k" using Suc.prems(1) by (cases k) auto
    moreover have "n div 10 < 10 ^ k" using Suc.prems(1) by (simp add: less_mult_imp_div_less mult.commute)
    ultimately have "length (dec_nat (n div 10)) \<le> k" by (intro Suc.IH)
    with False show ?thesis by (subst dec_nat.simps) simp
  qed
qed simp

lemma line_fits_bound: "1 \<le> i \<Longrightarrow> i \<le> 10 ^ 9 \<Longrightarrow> line_fits i"
proof -
  assume i: "1 \<le> i" "i \<le> 10 ^ 9"
  then have "nat i < 10 ^ 10" by simp
  then have "length (dec_nat (nat i)) \<le> 10" by (rule dec_nat_length) simp
  with i show ?thesis by (simp add: line_fits_def dec_int_nonneg)
qed

lemma length_splitlines: "length (splitlines s) \<le> length s"
  by (induction s rule: splitlines.induct) (auto split: list.splits)

lemma length_utf8_decode: "length (utf8_decode_ignore bs) \<le> length bs"
proof (induction bs rule: utf8_decode_ignore.induct)
  case (2 b bs)
  show ?case
  proof (cases "utf8_head b bs")
    case (Some cr)
    obtain c rest where cr: "cr = (c, rest)" by (cases cr)
    have "length (utf8_decode_ignore rest) \<le> length rest"
      by (rule 2(2) [OF Some]) (simp add: cr)
    with Some cr utf8_head_shorter [of b bs c rest] show ?thesis by simp
  qed (use 2 in simp)
qed simp

lemma decoded_lines_encodable: "line \<in> set (splitlines (utf8_decode_ignore bs)) \<Longrightarrow> text_encodable line"
  using concat_splitlines [of "utf8_decode_ignore bs"] decoded_no_surrogate
  unfolding text_encodable_def by (metis UN_I set_concat)

lemma scan_decoded_returns:
  assumes "path_fits s path" "clock_reads_ok E" "length bs \<le> max_file_size"
  shows "snd (fst (scan_file_regex E s path (utf8_decode_ignore bs) w)) = Inr ()"
proof -
  let ?ls = "splitlines (utf8_decode_ignore bs)"
  have "length ?ls \<le> max_file_size"
    using length_splitlines length_utf8_decode assms(3) le_trans by blast
  then have "\<forall>k < length ?ls. line_fits (1 + int k)"
    by (auto simp: max_file_size_def intro!: line_fits_bound)
  then show ?thesis
    unfolding scan_file_regex_def
    by (intro scan_lines_returns assms(1,2)) (auto intro: decoded_lines_encodable)
qed

section \<open>Trees\<close>

fun own_reports :: "py_ast \<Rightarrow> ast_report list" where
  "own_reports (CallNode line func args keywords) =
     eval_reports line func @ shell_reports line func keywords"
| "own_reports (AttrNode line val attr ctx) = chain_reports line val ctx"
| "own_reports _ = []"

fun preorder :: "py_ast \<Rightarrow> py_ast list" where
  "preorder (CallNode line func args keywords) =
     CallNode line func args keywords
       # preorder func @ concat (map preorder args) @ concat (map preorder keywords)"
| "preorder (AttrNode line val attr ctx) = AttrNode line val attr ctx # preorder val"
| "preorder (KeywordNode arg val) = KeywordNode arg val # preorder val"
| "preorder (OtherNode ts) = OtherNode ts # concat (map preorder ts)"
| "preorder t = [t]"

lemma emit_reports_append:
  "emit_reports E s path (xs @ ys) =
     bind_a (emit_reports E s path xs) (\<lambda>a. bind_a (emit_reports E s path ys) (\<lambda>b. ret (a @ b)))"
  by (induction xs) (simp_all add: bind_a_assoc)

lemma visit_preorder:
  "visit E s path t = emit_reports E s path (concat (map own_reports (preorder t)))"
  "visit_all E s path ts = emit_reports E s path (concat (map own_reports (concat (map preorder ts))))"
  by (induction E s path t and E s path ts rule: visit_visit_all.induct)
    (simp_all add: emit_reports_append bind_a_assoc)

lemma emit_reports_made:
  "emit_reports E s path rs w = (Inr fs, w') \<Longrightarrow>
   list_all2 (\<lambda>r f. made_from (report_finding s path r) f) rs fs"
  by (induction rs arbitrary: fs w)
    (auto simp: bind_a_Inr_iff ret_def intro: make_finding_made)

lemma report_finding_fields [simp]:
  "na_source (report_finding s path r) = finding_source_value CODE"
  "na_file (report_finding s path r) = Some path"
  "na_type (report_finding s path r) = finding_type_value (ar_type r)"
  by (simp_all add: report_finding_def)

lemma own_report_types:
  "r \<in> set (own_reports t) \<Longrightarrow> ar_type r \<in> {EVAL_USAGE, SUSPICIOUS_PATTERN, NULL_DEREFERENCE}"
  by (cases t) (auto simp: eval_reports_def shell_reports_def chain_reports_def
      split: py_ast.splits expr_context.splits if_splits)

section \<open>Duplicates\<close>

definition finding_key_of :: "finding \<Rightarrow> pystr \<times> int option" where
  "finding_key_of f = (f_type f, f_line f)"

lemma dedup_findings_Cons:
  "dedup_findings seen (f # fs) =
     (if finding_key_of f \<in> set seen then dedup_findings seen fs
      else f # dedup_findings (finding_key_of f # seen) fs)"
  by (simp add: finding_key_of_def)

lemma dedup_findings_append:
  "distinct (map finding_key_of fs) \<Longrightarrow> finding_key_of ` set fs \<inter> set seen = {} \<Longrightarrow>
   dedup_findings seen (fs @ gs) = fs @ dedup_findings (rev (map finding_key_of fs) @ seen) gs"
proof (induction fs arbitrary: seen)
  case (Cons f fs)
  then have "dedup_findings (finding_key_of f # seen) (fs @ gs) =
      fs @ dedup_findings (rev (map finding_key_of fs) @ finding_key_of f # seen) gs"
    by (intro Cons.IH) auto
  with Cons.prems show ?case by (simp add: dedup_findings_Cons del: dedup_findings.simps(2))
qed simp

lemma dedup_findings_subset: "set (dedup_findings seen fs) \<subseteq> set fs"
  by (induction seen fs rule: dedup_findings.induct) auto

lemma dedup_findings_distinct:
  "distinct (map finding_key_of (dedup_findings seen fs)) \<and>
   finding_key_of ` set (dedup_findings seen fs) \<inter> set seen = {}"
  by (induction seen fs rule: dedup_findings.induct) (auto simp: finding_key_of_def)

lemma reportable_lines: "distinct (map fst (reportable s i ls)) \<and> (\<forall>r \<in> set (reportable s i ls). i \<le> fst r)"
proof (induction ls arbitrary: i)
  case (Cons line ls)
  from Cons [of "i + 1"] show ?case by (auto split: option.split)
qed simp

lemma reportable_pattern: "(i, p, line) \<in> set (reportable s k ls) \<Longrightarrow> line_pattern s line = Some p"
  by (induction ls arbitrary: k) (auto split: option.splits)

lemma line_args_fields [simp]:
  "na_source (line_args s path (i, p, line)) = finding_source_value CODE"
  "na_file (line_args s path (i, p, line)) = Some path"
  "na_type (line_args s path (i, p, line)) = finding_type_value (pt_type p)"
  "na_line (line_args s path (i, p, line)) = Some i"
  by (simp_all add: line_args_def pattern_finding_def)

lemma made_lines: "list_all2 (\<lambda>r f. made_from (line_args s path r) f) rs fs \<Longrightarrow> map f_line fs = map (Some \<circ> fst) rs"
  by (induction rule: list_all2_induct) (auto dest: made_from_fields)

lemma made_lines_distinct:
  assumes "list_all2 (\<lambda>r f. made_from (line_args s path r) f) (reportable s i ls) fs"
  shows "distinct (map finding_key_of fs)"
proof -
  have "map f_line fs = map Some (map fst (reportable s i ls))"
    using made_lines [OF assms] by simp
  then have "distinct (map f_line fs)"
    using reportable_lines [of s i ls] by (simp only: distinct_map [of Some]) simp
  then have "distinct (map (snd \<circ> finding_key_of) fs)" by (simp add: finding_key_of_def comp_def)
  then show ?thesis by (simp add: distinct_map comp_inj_on_iff inj_on_def)
qed

text \<open>What every finding of a scan is.\<close>

definition scan_finding :: "settings \<Rightarrow> pystr \<Rightarrow> finding \<Rightarrow> bool" where
  "scan_finding s path f \<longleftrightarrow>
     encodable path \<and> finding_valid f \<and> f_source f = finding_source_value CODE \<and>
     f_file f = Some path \<and>
     \<not> (f_type f = finding_type_value HARDCODED_SECRET \<and> \<not> cd_secret_patterns_enabled (s_code s))"

lemma finding_type_value_inj [simp]: "finding_type_value x = finding_type_value y \<longleftrightarrow> x = y"
  by (metis Inr_inject finding_type_of_value)

lemma made_line_finding:
  assumes "made_from (line_args s path r) f" "r \<in> set (reportable s i ls)"
  shows "scan_finding s path f"
proof -
  obtain j p line where r: "r = (j, p, line)" by (cases r)
  show ?thesis
    using made_from_fields [OF assms(1)] made_from_valid [OF assms(1)] made_from_encodable [OF assms(1)]
      line_pattern_known(4) [OF reportable_pattern [OF assms(2) [unfolded r]]]
    by (simp add: scan_finding_def r del: finding_type_value.simps)
qed

lemma scan_regex_findings:
  assumes "fst (scan_file_regex E s path source w) = (fs, r)" "f \<in> set fs"
  shows "scan_finding s path f"
proof -
  obtain k where "list_all2 (\<lambda>r f. made_from (line_args s path r) f)
      (take k (reportable s 1 (splitlines source))) fs"
    using scan_lines_made assms(1) unfolding scan_file_regex_def by (metis prod.collapse)
  with assms(2) obtain x where "made_from (line_args s path x) f"
      "x \<in> set (take k (reportable s 1 (splitlines source)))"
    by (metis in_set_conv_nth list_all2_conv_all_nth)
  then show ?thesis by (auto dest: in_set_takeD intro: made_line_finding)
qed

lemma made_report_finding:
  assumes "made_from (report_finding s path r) f" "r \<in> set (own_reports t)"
  shows "scan_finding s path f"
  using made_from_fields [OF assms(1)] made_from_valid [OF assms(1)] made_from_encodable [OF assms(1)]
    own_report_types [OF assms(2)]
  by (auto simp: scan_finding_def)

lemma scan_ast_findings:
  assumes "scan_file_ast E C s path source w = (Inr fs, w')" "f \<in> set fs"
  shows "scan_finding s path f"
proof -
  have "\<exists>tree w1. visit E s path tree w = (Inr fs, w1)"
    using assms by (auto simp: scan_file_ast_def catch_a_def ret_def split: if_splits sum.splits prod.splits)
  then obtain tree w1 where
    "emit_reports E s path (concat (map own_reports (preorder tree))) w = (Inr fs, w1)"
    unfolding visit_preorder by blast
  then have "list_all2 (\<lambda>r f. made_from (report_finding s path r) f) (concat (map own_reports (preorder tree))) fs"
    by (rule emit_reports_made)
  with assms(2) obtain r where "made_from (report_finding s path r) f"
      "r \<in> set (concat (map own_reports (preorder tree)))"
    by (metis in_set_conv_nth list_all2_conv_all_nth)
  then show ?thesis by (auto intro: made_report_finding)
qed

lemma scan_file_ast_returns: "\<exists>fs w'. scan_file_ast E C s path source w = (Inr fs, w')"
  by (auto simp: scan_file_ast_def catch_a_def ret_def split: sum.splits prod.splits)

lemma scan_source_findings:
  assumes "scan_source E C s path source w = (fs, w')" "f \<in> set fs"
  shows "scan_finding s path f"
proof -
  obtain gs r w1 where g: "scan_file_regex E s path source w = ((gs, r), w1)" by (metis prod.collapse)
  then have regex: "f \<in> set gs \<Longrightarrow> scan_finding s path f"
    using scan_regex_findings [of E s path source w gs r f] by simp
  obtain hs w2 where h: "scan_file_ast E C s path source w1 = (Inr hs, w2)"
    using scan_file_ast_returns [of E C s path source w1] by blast
  from assms(1) g h have "fs = gs \<or> fs = gs @ hs" by (auto simp: scan_source_def split: sum.splits)
  with assms(2) regex scan_ast_findings [OF h] show ?thesis by auto
qed

section \<open>The pattern of two lines\<close>

lemma rx_match_seqs_Cons:
  "rs \<noteq> [] \<Longrightarrow> rx_match (seqs (r # rs)) p q \<longleftrightarrow> (\<exists>m. rx_match r p m \<and> rx_match (seqs rs) m q)"
  by (cases rs) auto

text \<open>The pattern for missing authentication needs a line feed in front of the function.\<close>

lemma missing_auth_two_lines:
  assumes "rx_match missing_auth_pattern p q"
  shows "10 \<in> set (butlast (snd p))"
proof -
  have "\<exists>a b. rx_match (Chr ((=) 10)) a b \<and> (\<exists>c. rx_match (word ''def'') b c) \<and> (\<exists>u. snd p = u @ snd a)"
  proof -
    from assms obtain p1 p2 p3 a b c where
      "rx_match (word ''@app.route('') p p1" "rx_match (Many (\<lambda>c. c \<noteq> 41) 1 None) p1 p2"
      "rx_match (sign '')'') p2 p3" "rx_match blanks p3 a" "rx_match (Chr ((=) 10)) a b"
      "rx_match (word ''def'') b c"
      unfolding missing_auth_pattern_def by (auto simp only: seqs.simps rx_match.simps(3))
    moreover from this have "\<exists>u. snd p = u @ snd a"
      by (metis append.assoc rx_match_consumes)
    ultimately show ?thesis by blast
  qed
  then obtain a b c u where a: "rx_match (Chr ((=) 10)) a b" "rx_match (word ''def'') b c" "snd p = u @ snd a"
    by blast
  from a(1) have "snd a = 10 # snd b" by auto
  moreover from a(2) have "snd b \<noteq> []"
    by (auto simp: word_def lit_Cons)
  ultimately show ?thesis using a(3) by (simp add: butlast_append)
qed

lemma missing_auth_needs_feed: "10 \<notin> set (butlast line) \<Longrightarrow> \<not> rx_search missing_auth_pattern line"
proof
  assume line: "10 \<notin> set (butlast line)" and "rx_search missing_auth_pattern line"
  then obtain u v q where uv: "line = u @ v" "rx_match missing_auth_pattern (end_of None u, v) q"
    by (auto simp: rx_search_def rx_search_from_iff)
  from missing_auth_two_lines [OF uv(2)] have "10 \<in> set (butlast v)" by simp
  then have "10 \<in> set (butlast line)" unfolding uv(1) by (cases v) (auto simp: butlast_append)
  with line show False by simp
qed

end
