(* ===== verification/Examples.thy ===== *)
theory Examples
  imports CorrelatorLoop
begin

text \<open>
  Concrete findings, alerts and worlds, on which the witnesses of the properties evaluate.
\<close>

definition ex_api :: finding where
  "ex_api =
     \<lparr>f_id = uuid4_text 1, f_source = finding_source_value API, f_type = finding_type_value HTTP_5XX,
      f_severity = severity_value CRITICAL, f_service = lit ''auth'', f_system = lit ''banking'',
      f_endpoint = Some (lit ''/login''), f_file = None, f_line = None, f_function = None,
      f_trace_id = None, f_fingerprint = replicate 32 48, f_confidence = NInt 1,
      f_title = lit ''Persistent HTTP 500'', f_description = lit ''down'', f_context = [],
      f_timestamp = NInt 1000, f_status = finding_status_value OPEN, f_schema_version = lit ''2.0''\<rparr>"

definition ex_code :: finding where
  "ex_code =
     \<lparr>f_id = uuid4_text 2, f_source = finding_source_value CODE,
      f_type = finding_type_value NULL_DEREFERENCE,
      f_severity = severity_value MEDIUM, f_service = lit ''auth'', f_system = lit ''banking'',
      f_endpoint = None, f_file = Some (lit ''auth/login.py''), f_line = Some 10, f_function = None,
      f_trace_id = None, f_fingerprint = replicate 32 48, f_confidence = NInt 1,
      f_title = lit ''None access'', f_description = lit ''risk'', f_context = [],
      f_timestamp = NInt 1000, f_status = finding_status_value OPEN, f_schema_version = lit ''2.0''\<rparr>"

lemma ex_confidence_ok: "confidence_ok (NInt 1)"
  by (simp add: confidence_ok_def num_float_def fl_small_nat)

lemma ex_timestamp_ok: "timestamp_ok (NInt 1000)" "timestamp_ok (NFloat (Fin 1000))"
  by code_simp+

lemma ex_severity: "severity_from_string (lit ''CRITICAL'') = Inr CRITICAL"
  "severity_from_string (lit ''MEDIUM'') = Inr MEDIUM"
  using severity_from_value [of CRITICAL] severity_from_value [of MEDIUM] by simp_all

lemma ex_members:
  "finding_source_of (lit ''api'') = Inr API" "finding_source_of (lit ''code'') = Inr CODE"
  "finding_type_of (lit ''http_5xx'') = Inr HTTP_5XX"
  "finding_type_of (lit ''null_dereference'') = Inr NULL_DEREFERENCE"
  "finding_status_of (lit ''OPEN'') = Inr OPEN"
  using finding_source_of_value [of API] finding_source_of_value [of CODE]
    finding_type_of_value [of HTTP_5XX] finding_type_of_value [of NULL_DEREFERENCE]
    finding_status_of_value [of OPEN]
  by (simp_all del: finding_source_of_value finding_type_of_value finding_status_of_value)

lemmas ex_text_simps = text_ok_def strip_by_Nil_iff lit_Cons is_space_def

lemma ex_fingerprint_ok: "fingerprint_ok (replicate 32 48)"
  by (simp add: fingerprint_ok_def is_lower_hex_def)

lemma ex_api_wf: "finding_wf ex_api"
  by (simp add: finding_wf_def finding_valid_def ex_api_def uuid4_text_ok ex_members ex_severity
      ex_confidence_ok ex_timestamp_ok ex_fingerprint_ok opt_text_ok_def line_ok_def)
    (simp add: ex_text_simps)

lemma ex_code_wf: "finding_wf ex_code"
  by (simp add: finding_wf_def finding_valid_def ex_code_def uuid4_text_ok ex_members ex_severity
      ex_confidence_ok ex_timestamp_ok ex_fingerprint_ok opt_text_ok_def line_ok_def)
    (simp add: ex_text_simps)

lemmas ex_valid = ex_api_wf [unfolded finding_wf_def, THEN conjunct1]
  ex_code_wf [unfolded finding_wf_def, THEN conjunct1]

lemma ex_alertable: "alertable ex_api" "alertable ex_code"
  by (simp_all add: alertable_def ex_api_def ex_code_def encodable_def opt_encodable_def
      str_lower_def lower_char_def lit_Cons is_surrogate_def dec_nat.simps)

definition ex_cfg :: correlator_cfg where
  "ex_cfg = \<lparr>correlation_window_secs = Fin 300, buffer_max_size = 500, min_confidence = Fin 0,
     poll_timeout_secs = Fin 5, alert_cooldown_secs = 300\<rparr>"

lemma ex_in_kb: "in_kb (lit ''http_5xx'') (lit ''null_dereference'')"
  by (simp add: in_kb_def correlation_kb_def)

lemma ex_shares: "shares ex_cfg ex_api ex_code"
  by (simp add: shares_def findings_share_scope_def ex_api_def ex_code_def time_gap_def num_sub_def
      num_lt_def ex_cfg_def has_text_def ex_in_kb)

text \<open>An API finding with an empty endpoint is valid, but no alert.\<close>

definition ex_root :: finding where
  "ex_root = ex_api\<lparr>f_endpoint := Some []\<rparr>"

lemma ex_root_valid: "finding_valid ex_root"
  using ex_valid(1) by (simp add: finding_valid_def ex_root_def opt_text_ok_def)

lemma ex_root_not_ok: "\<not> pair_ok ex_root ex_code"
  by (simp add: pair_ok_def ex_root_def)

lemma ex_confident: "finding_valid a \<Longrightarrow> finding_valid c \<Longrightarrow> confident ex_cfg a c"
  using compute_confidence_returns [of a c] compute_confidence_range(1) [of a c]
  by (auto simp: confident_def returns_iff in_range_def ex_cfg_def)

lemma ref_clock_reads: "clock_reads_ok (ref_env\<lparr>e_time := \<lambda>w. (Fin 1000, w)\<rparr>)"
  by (simp add: clock_reads_ok_def ex_timestamp_ok)

definition time_env :: "ref_world env" where
  "time_env = ref_env\<lparr>e_time := \<lambda>w. (Fin 1000, w)\<rparr>"

lemma time_env_reads: "clock_reads_ok time_env"
  using ref_clock_reads by (simp add: time_env_def)

lemma str_ok_uuid: "str_ok (uuid4_text w)"
proof (rule str_ok_small, rule ballI)
  fix c assume "c \<in> set (uuid4_text w)"
  then show "c < 55296" using uuid_text_chars by (fastforce simp: uuid4_text_def is_lower_hex_def)
qed

lemma ex_json_wf: "json_wf (VDict (finding_to_dict ex_api))"
proof -
  have "str_ok (replicate 32 48)" by (rule str_ok_small) simp
  then show ?thesis
    by (simp add: finding_to_dict_def ex_api_def str_ok_uuid val_of_text_def val_of_int_def dec_nat.simps)
qed

text \<open>Arguments of \<open>new_finding\<close> that differ in the case of a letter.\<close>

definition ex_args :: "string \<Rightarrow> finding_args" where
  "ex_args service = default_args
     \<lparr>na_source := lit ''api'', na_type := lit ''http_5xx'', na_severity := lit ''CRITICAL'',
      na_service := lit service, na_system := lit ''banking'', na_title := lit ''t'',
      na_description := lit ''d'', na_endpoint := Some (lit ''/login''), na_confidence := NInt 1\<rparr>"

lemmas ex_lower_simps = str_lower_def lower_char_def lit_Cons

lemma ex_args_parts:
  "parts_text (args_parts (ex_args ''auth'')) = parts_text (args_parts (ex_args ''Auth''))"
  by (simp add: args_parts_def ex_args_def default_args_def ex_lower_simps)

lemma ex_args_fingerprint:
  "returns (compute_fingerprint (args_parts (ex_args ''auth'')))"
  "returns (compute_fingerprint (args_parts (ex_args ''Auth'')))"
  by (simp_all add: compute_fingerprint_def args_parts_def ex_args_def default_args_def
      ex_lower_simps utf8_encode_def is_surrogate_def)

lemma ex_args_ok: "args_ok (ex_args ''auth'')" "args_ok (ex_args ''Auth'')"
  using ex_args_fingerprint
  by (simp_all add: args_ok_def ex_args_def default_args_def ex_members ex_severity ex_confidence_ok
      opt_text_ok_def line_ok_def) (simp_all add: ex_text_simps)

lemma ex_new_finding:
  "args_ok a \<Longrightarrow> timestamp_ok (NFloat now) \<Longrightarrow> \<exists>f. new_finding a rnd now = Inr f"
proof -
  assume ok: "args_ok a" and t: "timestamp_ok (NFloat now)"
  then obtain fp sev conf where "compute_fingerprint (args_parts a) = Inr fp"
    "severity_from_string (na_severity a) = Inr sev" "num_float (na_confidence a) = Inr conf"
    by (auto simp: args_ok_def returns_iff confidence_ok_def split: sum.splits)
  with ok t show ?thesis by (auto simp: new_finding_Inr)
qed

end
