(* ===== verification/ApiWatcherProperties.thy ===== *)
theory ApiWatcherProperties
  imports ApiWatcherProofs Examples
begin

text \<open>The properties of the API watcher (\<open>src/watchers/api_watcher.py\<close>).\<close>

section \<open>A configuration\<close>

definition ex_url :: "pystr \<Rightarrow> pystr" where
  "ex_url path = lit ''https://api.example/'' @ path"

definition ex_settings :: "pystr list \<Rightarrow> settings" where
  "ex_settings targets =
     \<lparr>s_redis = \<lparr>rd_host = lit ''redis'', rd_port = 6379, rd_db = 0,
        rd_password = Some (replicate 20 97), rd_max_connections = 20, rd_socket_timeout = Fin 5,
        rd_retry_on_timeout = True, rd_decode_responses = True\<rparr>,
      s_notifier = \<lparr>nt_slack_webhook_url = None, nt_telegram_bot_token = None,
        nt_telegram_chat_id = None, nt_generic_webhook_url = None, nt_alert_cooldown_secs = 300,
        nt_min_alert_severity = lit ''HIGH'', nt_request_timeout_secs = Fin 10, nt_max_retries = 3\<rparr>,
      s_api = \<lparr>ap_target_urls = targets, ap_poll_interval_secs = Fin 15,
        ap_request_timeout_secs = Fin 8, ap_failure_threshold = 3, ap_latency_warn_ms = Fin 2000,
        ap_max_concurrent = 10, ap_user_agent = user_agent\<rparr>,
      s_code = \<lparr>cd_watch_paths = [lit ''./src''], cd_watch_extensions = [lit ''.py''],
        cd_scan_on_start = True, cd_secret_patterns_enabled = True, cd_ignore_paths = [lit ''.git'']\<rparr>,
      s_correlator = \<lparr>co_correlation_window_secs = Fin 300, co_buffer_max_size = 500,
        co_min_confidence = Fin 0, co_poll_timeout_secs = Fin 5,
        co_publish_channel = publish_channel, co_findings_queue = findings_queue\<rparr>,
      s_env = lit ''production'', s_platform = lit ''platform'', s_log_level = lit ''INFO''\<rparr>"

lemma takeWhile_all: "\<forall>x \<in> set xs. P x \<Longrightarrow> takeWhile P (xs @ ys) = xs @ takeWhile P ys"
  by (induction xs) auto

lemma ex_urlsplit:
  assumes "\<forall>c \<in> set path. is_digit c"
  shows "urlsplit (ex_url path) =
    Some \<lparr>u_scheme = lit ''https'', u_netloc = lit ''api.example'', u_path = 47 # path,
          u_query = [], u_fragment = []\<rparr>"
proof -
  have d: "35 \<notin> set path" "63 \<notin> set path" using assms by (auto simp: is_digit_def)
  have f: "filter (\<lambda>c. c \<noteq> 9 \<and> c \<noteq> 10 \<and> c \<noteq> 13) path = path"
    using assms by (auto simp: is_digit_def filter_id_conv)
  show ?thesis
    by (simp add: d f urlsplit_def clean_url_def ex_url_def lit_Cons split_scheme_def partition_at_def
        Let_def is_ascii_alpha_def is_scheme_char_def is_digit_def str_lower_def lower_char_def
        split_netloc_def brackets_ok_def expands_to_delimiter_def)
qed

lemma ex_target: "\<forall>c \<in> set path. is_digit c \<Longrightarrow> target_metadata (ex_url path) = Inr (lit ''api'', 47 # path)"
  by (simp add: target_metadata_def ex_urlsplit url_hostname_def hostinfo_def rpartition_at_def
      partition_at_def Let_def lit_Cons str_lower_def lower_char_def)

lemma ex_validated:
  assumes "\<forall>c \<in> set path. is_digit c" "path \<noteq> []"
  shows "validate_http_url (ex_url path) name True False = Inr ()"
  using assms
  by (simp add: validate_http_url_def ex_urlsplit url_port_def url_hostname_def hostinfo_def
      rpartition_at_def partition_at_def userinfo_def has_text_def check_host_def rstrip_by_def
      ip_address_def parse_ipv4_def parse_ipv6_def split_char.simps Let_def lit_Cons str_lower_def
      lower_char_def)

text \<open>C22. The counter of a target is the number of failed probes since the last success, and a
  failed probe is reported exactly from the configured number of them on, whatever happens to
  the other targets in between.  Certificate errors neither count nor end a series.\<close>

theorem persistent_failure_reported:
  assumes "target_metadata url = Inr m" "counts x"
  shows "failure_counts (probe_history s url hist) = (\<lambda>_. 0)(url := streak hist) \<and>
    ((\<exists>a. fst (probe_decide s url x (probe_history s url hist)) = Emit a) \<longleftrightarrow>
       ap_failure_threshold (s_api s) \<le> streak hist + 1)"
  using history_counts [OF assms(1), of s hist]
    decide_failure [OF assms, of s "probe_history s url hist"] by simp

theorem persistent_failure_reported_witness:
  "\<exists>a. fst (probe_decide (ex_settings []) (ex_url [49]) TimedOut
     (probe_history (ex_settings []) (ex_url [49]) [TimedOut, TlsFailed, ClientFailed [], Responded 200 (Fin 0) (Fin 0)]))
     = Emit a"
proof -
  have "target_metadata (ex_url [49]) = Inr (lit ''api'', [47, 49])"
    by (rule ex_target) (simp add: is_digit_def)
  moreover have "ap_failure_threshold (s_api (ex_settings [])) = 3" by (simp add: ex_settings_def)
  moreover have "streak [TimedOut, TlsFailed, ClientFailed [], Responded 200 (Fin 0) (Fin 0)] = 2"
    by (simp add: streak_def)
  ultimately show ?thesis
    using persistent_failure_reported [where url = "ex_url [49]" and x = TimedOut
        and s = "ex_settings []"
        and hist = "[TimedOut, TlsFailed, ClientFailed [], Responded 200 (Fin 0) (Fin 0)]"]
    by simp
qed





lemma ex_target_fits: "target_fits (ex_settings []) (ex_url [49])"
proof -
  have "target_metadata (ex_url [49]) = Inr (lit ''api'', [47, 49])"
    by (rule ex_target) (simp add: is_digit_def)
  moreover have "length (format_0f (Fin 2000)) \<le> 1000" by code_simp
  ultimately show ?thesis
    by (simp add: target_fits_def ex_settings_def encodable_def str_lower_def lower_char_def lit_Cons
        is_surrogate_def text_ok_def strip_by_Nil_iff is_space_def)
qed


lemma dec_int_not_Nil: "dec_int i \<noteq> []"
  by (simp add: dec_int_def)

lemma long_title_refused:
  assumes "480 \<le> length service + length endpoint"
  shows "\<exists>e. new_finding (status_finding platform service endpoint status latency n state) bits now = Inl e"
proof -
  have "\<not> args_ok (status_finding platform service endpoint status latency n state)"
    using assms dec_int_not_Nil [of status]
    by (cases "dec_int status") (simp_all add: args_ok_def finding_defs text_ok_def)
  then show ?thesis
    using new_finding_Inr [of "status_finding platform service endpoint status latency n state" bits now]
    by (cases "new_finding (status_finding platform service endpoint status latency n state) bits now") auto
qed


definition long_path :: pystr where
  "long_path = replicate 500 49"

definition ex_probes :: "ref_world probe_env" where
  "ex_probes = \<lparr>p_gather = (\<lambda>rqs w. ([(0, Responded 503 (Fin 0) (Fin 1))], w))\<rparr>"


end
