(* ===== verification/CodeWatcherProperties.thy ===== *)
theory CodeWatcherProperties
  imports CodeScan ApiWatcherProperties
begin

text \<open>
  The properties of the code watcher (\<open>src/watchers/code_watcher.py\<close>).  \<open>change_tracker\<close> is the
  interface between the scans and the module dictionary of hashes.
\<close>

section \<open>The interface of the tracker\<close>

locale change_tracker =
  fixes note_one :: "'k \<Rightarrow> 'h \<Rightarrow> 's \<Rightarrow> bool \<times> 's"
    and stored :: "'s \<Rightarrow> 'k \<Rightarrow> 'h option"
  assumes answer: "fst (note_one k h s) \<longleftrightarrow> stored s k \<noteq> Some h"
    and stored_after: "stored (snd (note_one k h s)) k = Some h"
begin

lemma repeat_unchanged: "\<not> fst (note_one k h (snd (note_one k h s)))"
  by (simp add: answer stored_after)

lemma other_hash_changed: "h \<noteq> h' \<Longrightarrow> fst (note_one k h' (snd (note_one k h s)))"
  by (simp add: answer stored_after)

end

lemma map_of_last_n:
  assumes "0 < k" "p \<notin> fst ` set xs"
  shows "map_of (last_n k (xs @ [(p, h)])) p = Some h"
proof -
  have "last_n k (xs @ [(p, h)]) = drop (Suc (length xs) - k) xs @ [(p, h)]"
    using assms(1) by (simp add: last_n_def)
  moreover have "p \<notin> fst ` set (drop (Suc (length xs) - k) xs)"
    using assms(2) by (auto dest: in_set_dropD)
  ultimately show ?thesis by (simp add: map_add_def map_of_eq_None_iff [symmetric])
qed

lemma map_of_moved: "map_of (filter (\<lambda>e. fst e \<noteq> p) st @ [(p, h)]) p = Some h"
  by (simp add: map_add_def split: option.split) (auto dest: map_of_SomeD)

lemma max_tracked_pos: "0 < max_tracked_files"
  by (simp add: max_tracked_files_def)

interpretation hashes: change_tracker "note_hash max_tracked_files" map_of
proof
  fix p h and st :: tracker
  show "fst (note_hash max_tracked_files p h st) \<longleftrightarrow> map_of st p \<noteq> Some h"
    by (simp add: note_hash_cases)
  have "p \<notin> fst ` set (filter (\<lambda>e. fst e \<noteq> p) st)" by auto
  from map_of_last_n [OF max_tracked_pos this] show "map_of (snd (note_hash max_tracked_files p h st)) p = Some h"
    using map_of_moved [of p st h] by (simp only: note_hash_cases snd_conv split: if_split) simp
qed

text \<open>A file that is looked at twice with the same content is not reported the second time.\<close>

lemma second_look_unchanged:
  assumes "file_hash C path w = (Inr h, w1)" "file_hash C path w2 = (Inr h, w3)"
  shows "fst (has_changed C path (w2, snd (snd (has_changed C path (w, st))))) = Inr False"
  using hashes.repeat_unchanged [of path h st] assms
  by (cases "note_hash max_tracked_files path h st";
      cases "note_hash max_tracked_files path h (snd (note_hash max_tracked_files path h st))")
    (simp add: has_changed_def on_world_def on_tracker_def bind_a_def catch_a_def)

section \<open>A world with one file\<close>

text \<open>The world is what is left to read of the file.\<close>

definition file_env :: "nat list \<Rightarrow> (nat list) code_env" where
  "file_env content =
     \<lparr>c_open = (\<lambda>_ _. (Inr 3, content)),
      c_fstat = (\<lambda>_. ret \<lparr>st_regular = True, st_dev = 1, st_ino = 2, st_size = int (length content),
                        st_mtime_ns = 0\<rparr>),
      c_read = (\<lambda>_ n w. (Inr (take n w), drop n w)), c_close = (\<lambda>_. ret ()),
      c_rglob = (\<lambda>_. ret [lit ''/a.py'']), c_is_file = (\<lambda>_. ret True), c_is_symlink = (\<lambda>_. ret False),
      c_is_dir = (\<lambda>_. ret True), c_parse = (\<lambda>_. Inr (OtherNode [])), c_watchdog = True,
      c_schedule = (\<lambda>_. ret ()), c_start = ret (), c_alive = (\<lambda>w. (True, w)), c_stop_join = id,
      c_events = (\<lambda>w. ([], w))\<rparr>"

definition plain_env :: "'w env" where
  "plain_env =
     \<lparr>e_time = (\<lambda>w. (Fin 1000, w)), e_monotonic = (\<lambda>w. (Fin 1000, w)), e_uuid = (\<lambda>w. (0, w)),
      e_sleep = (\<lambda>_ w. w), e_stopped = (\<lambda>w. (False, w)), e_stop_wait = (\<lambda>_ w. w),
      e_redis = (\<lambda>_ w. (Inr (RInt 1), w))\<rparr>"

lemma plain_env_clock: "clock_reads_ok plain_env"
  using ex_timestamp_ok by (simp add: clock_reads_ok_def plain_env_def)

lemma file_env_snapshot:
  assumes "content \<noteq> []" "length content \<le> 60000"
  shows "\<exists>st. read_file_snapshot (file_env content) path w = (Inr (content, st), [])"
proof -
  have "read_chunks (file_env content) 3 [] content = read_chunks (file_env content) 3 content []"
    using assms by (subst read_chunks.simps) (simp add: file_env_def max_file_size_def)
  also have "\<dots> = (Inr content, [])"
    by (subst read_chunks.simps) (simp add: file_env_def)
  finally have chunks: "read_chunks (file_env content) 3 [] content = (Inr content, [])" .
  let ?st = "\<lparr>st_regular = True, st_dev = 1, st_ino = 2, st_size = int (length content), st_mtime_ns = 0\<rparr>"
  have stat: "c_fstat (file_env content) fd = ret ?st" for fd by (simp add: file_env_def)
  have "read_descriptor (file_env content) 3 content = (Inr (content, ?st), [])"
    using assms by (simp add: read_descriptor_def stat guard_a_def of_result_def bind_a_def chunks
        max_file_size_def ret_def)
  moreover have "c_open (file_env content) path w = (Inr 3, content)"
    "c_close (file_env content) 3 u = (Inr (), u)" for u
    by (simp_all add: file_env_def ret_def)
  ultimately show ?thesis
    by (auto simp: read_file_snapshot_def bind_a_def finally_a_def)
qed

lemma ex_code_platform: "text_ok 200 (s_platform (ex_settings ts))"
  by (simp add: ex_settings_def text_ok_def strip_by_Nil_iff lit_Cons is_space_def)

lemma ex_path_fits: "path_fits (ex_settings []) (lit ''/a.py'')"
  by (simp add: path_fits_def ex_code_platform encodable_def str_lower_def lower_char_def
      lit_Cons is_surrogate_def path_name_def path_rel_def last_part_def split_char.simps)

text \<open>The line \<open>pwd='abcd'\<close> is reported for the second pattern.\<close>

definition pwd_line :: pystr where
  "pwd_line = lit ''pwd='' @ [39] @ lit ''abcd'' @ [39]"

lemmas rx_eval = seqs.simps alts.simps word_ci_def word_def rx_ends.simps run_length_def
  advance_def folds_to_def one_of_def lit_Cons is_space_def lower_char_def rx_search_def is_quote_def
  sign_def blanks_def is_alnum_folded_def is_alnum_ascii_def is_digit_def

lemma ex_no_key: "\<not> rx_search api_key_pattern pwd_line"
  by (simp add: pwd_line_def api_key_pattern_def assigned_def rx_eval Let_def)

lemma ex_password: "rx_search password_pattern pwd_line"
  by (simp add: pwd_line_def password_pattern_def assigned_def rx_eval Let_def)

lemma ex_no_comment: "\<not> is_comment pwd_line"
  by (simp add: is_comment_def pwd_line_def strip_by_def lit_Cons is_space_def)

lemma ex_pwd_pattern:
  "\<exists>p. line_pattern (ex_settings []) pwd_line = Some p \<and> pt_type p = HARDCODED_SECRET"
  by (simp add: line_pattern_def ex_no_comment enabled_patterns_def security_patterns_def
      ex_settings_def ex_no_key ex_password)

lemma ex_pwd_lines: "splitlines (utf8_decode_ignore pwd_line) = [pwd_line]"
  by (simp add: pwd_line_def lit_Cons utf8_head_def is_line_break_def)

section \<open>A file\<close>

text \<open>C30. A scan reports every line that is no comment and holds an enabled pattern, in order, for
  the first pattern that it holds, and the reports of the syntax tree come behind them.  So
  no finding on a line is lost to the removal of duplicates.\<close>

theorem scan_file_complete:
  assumes "path_fits s path" "clock_reads_ok E"
    and "read_file_snapshot C path w = (Inr (raw, st), w1)"
  shows "\<exists>fs gs w'. scan_file E C s path w = (Inr (fs @ gs), w') \<and>
    list_all2 (\<lambda>r f. made_from (line_args s path r) f)
      (reportable s 1 (splitlines (utf8_decode_ignore raw))) fs"
proof -
  let ?source = "utf8_decode_ignore raw"
  have "length raw \<le> max_file_size" using read_file_snapshot_bounded [OF assms(3)] by simp
  from scan_decoded_returns [OF assms(1,2) this]
  obtain fs w2 where regex: "scan_file_regex E s path ?source w1 = ((fs, Inr ()), w2)"
    by (metis prod.collapse)
  then obtain k where k: "list_all2 (\<lambda>r f. made_from (line_args s path r) f)
      (take k (reportable s 1 (splitlines ?source))) fs" "length (reportable s 1 (splitlines ?source)) \<le> k"
    using scan_lines_made unfolding scan_file_regex_def by metis
  then have all: "list_all2 (\<lambda>r f. made_from (line_args s path r) f)
      (reportable s 1 (splitlines ?source)) fs" by simp
  obtain gs w3 where "scan_file_ast E C s path ?source w2 = (Inr gs, w3)"
    using scan_file_ast_returns [of E C s path ?source w2] by blast
  with regex have "scan_source E C s path ?source w1 = (fs @ gs, w3)" by (simp add: scan_source_def)
  moreover have "dedup_findings [] (fs @ gs) = fs @ dedup_findings (rev (map finding_key_of fs)) gs"
    using dedup_findings_append [OF made_lines_distinct [OF all], of "[]" gs] by simp
  ultimately show ?thesis using all by (auto simp: scan_file_def assms(3))
qed

theorem scan_file_complete_witness:
  "\<exists>fs w'. scan_file plain_env (file_env (pwd_line)) (ex_settings []) (lit ''/a.py'') [] = (Inr fs, w') \<and>
     list_ex (\<lambda>f. f_line f = Some 1 \<and> f_type f = finding_type_value HARDCODED_SECRET) fs"
proof -
  obtain p where p: "line_pattern (ex_settings []) (pwd_line) = Some p" "pt_type p = HARDCODED_SECRET"
    using ex_pwd_pattern by blast
  obtain st where st: "read_file_snapshot (file_env (pwd_line)) (lit ''/a.py'') [] =
      (Inr (pwd_line, st), [])"
    using file_env_snapshot [of pwd_line "lit ''/a.py''" "[]"] by (auto simp: pwd_line_def)
  obtain fs gs w' where s: "scan_file plain_env (file_env (pwd_line)) (ex_settings [])
      (lit ''/a.py'') [] = (Inr (fs @ gs), w')"
    and fs: "list_all2 (\<lambda>r f. made_from (line_args (ex_settings []) (lit ''/a.py'') r) f)
      [(1, p, pwd_line)] fs"
    using scan_file_complete [OF ex_path_fits plain_env_clock st] by (auto simp: ex_pwd_lines p)
  then obtain f where "fs = [f]" "made_from (line_args (ex_settings []) (lit ''/a.py'') (1, p, pwd_line)) f"
    by (auto simp: list_all2_Cons1)
  with made_from_fields [OF this(2)] p(2) have "list_ex (\<lambda>f. f_line f = Some 1 \<and>
      f_type f = finding_type_value HARDCODED_SECRET) (fs @ gs)" by simp
  with s show ?thesis by blast
qed

lemma scan_file_findings:
  assumes "fst (scan_file E C s path w) = Inr fs"
  shows "distinct (map finding_key_of fs) \<and> (\<forall>f \<in> set fs. scan_finding s path f)"
proof -
  obtain r w1 where r: "read_file_snapshot C path w = (r, w1)" by force
  show ?thesis
  proof (cases r)
    case (Inl e)
    with r assms show ?thesis by (auto simp: scan_file_def split: if_splits)
  next
    case (Inr snapshot)
    obtain raw st where "snapshot = (raw, st)" by (cases snapshot)
    moreover obtain gs w2 where gs: "scan_source E C s path (utf8_decode_ignore raw) w1 = (gs, w2)" by force
    ultimately have "fs = dedup_findings [] gs" using assms by (simp add: scan_file_def r Inr)
    then show ?thesis
      using scan_source_findings [OF gs] dedup_findings_subset dedup_findings_distinct [of "[]" gs] by blast
  qed
qed

text \<open>C31. Whatever the file and the tree hold, the findings of a scan are valid findings of the code
  watcher on that file, no two of the same type on the same line, and none is on a secret when
  the search for secrets is switched off.\<close>

theorem scan_file_sound:
  "case fst (scan_file E C s path w) of
     Inl e \<Rightarrow> \<not> is_os_error e
   | Inr fs \<Rightarrow>
       distinct (map (\<lambda>f. (f_type f, f_line f)) fs) \<and>
       list_all (\<lambda>f. finding_valid f \<and> f_source f = finding_source_value CODE \<and> f_file f = Some path \<and>
         \<not> (f_type f = finding_type_value HARDCODED_SECRET \<and> \<not> cd_secret_patterns_enabled (s_code s))) fs"
proof (cases "fst (scan_file E C s path w)")
  case (Inl e)
  then show ?thesis by (auto simp: scan_file_def split: prod.splits sum.splits if_splits)
next
  case (Inr fs)
  from scan_file_findings [OF this] show ?thesis
    by (simp add: Inr list_all_iff scan_finding_def finding_key_of_def [abs_def])
qed

section \<open>Snapshots and changes\<close>

text \<open>C33. A snapshot never holds more than a megabyte and has the size that the descriptor reports;
  and on every path, the exceptions included, a descriptor that was opened is closed as the
  last effect.\<close>

theorem snapshot_bounded_and_closed:
  "case c_open C path w of
     (Inl e, w1) \<Rightarrow> read_file_snapshot C path w = (Inl e, w1)
   | (Inr fd, w1) \<Rightarrow>
       (\<exists>w2. snd (read_file_snapshot C path w) = snd (c_close C fd w2)) \<and>
       (case fst (read_file_snapshot C path w) of
          Inl _ \<Rightarrow> True
        | Inr (content, st) \<Rightarrow>
            length content \<le> max_file_size \<and> int (length content) = st_size st)"
proof (cases "c_open C path w")
  case (Pair r w1)
  show ?thesis
  proof (cases r)
    case (Inl e)
    with Pair show ?thesis by (simp add: read_file_snapshot_def bind_a_def)
  next
    case (Inr fd)
    have "snd (read_file_snapshot C path w) = snd (c_close C fd (snd (read_descriptor C fd w1)))"
      by (simp add: read_file_snapshot_def bind_a_def Pair Inr finally_a_def split: prod.split sum.split)
    moreover have "case fst (read_file_snapshot C path w) of Inl _ \<Rightarrow> True
        | Inr (content, st) \<Rightarrow> length content \<le> max_file_size \<and> int (length content) = st_size st"
      using read_file_snapshot_bounded [of C path w]
      by (cases "read_file_snapshot C path w") (auto split: sum.split)
    ultimately show ?thesis by (auto simp: Pair Inr)
  qed
qed

text \<open>C32. The dictionary of hashes refines its history: it holds the paths used most recently, up to
  the limit and oldest first, each with its latest hash; and a path is reported as changed
  exactly if it is not among them with the same hash.\<close>

theorem tracker_is_lru:
  "note_all limit hist = map (entry hist) (recent limit (map fst hist)) \<and>
   (fst (note_hash limit path h (note_all limit hist)) \<longleftrightarrow>
      \<not> (path \<in> set (recent limit (map fst hist)) \<and> latest hist path = h))"
  by (simp add: note_all_eq note_hash_cases map_of_entries)

section \<open>Trees\<close>

text \<open>C34. The visitor finds what a preorder traversal finds: it emits the reports of the nodes of the
  tree in that order, each node once, until an exception.\<close>

theorem visitor_is_preorder:
  "visit E s path tree = emit_reports E s path (concat (map own_reports (preorder tree)))"
  by (rule visit_preorder)

section \<open>What the scans miss\<close>

text \<open>C35. The pattern for routes without authentication spans two lines, but the scanner compares
  it with single lines: no line of any text is ever reported for it.\<close>

theorem missing_auth_never_found:
  "list_all (\<lambda>line. \<not> rx_search missing_auth_pattern line \<and>
     (case line_pattern s line of None \<Rightarrow> True | Some p \<Rightarrow> pt_type p \<noteq> MISSING_AUTH_CHECK))
   (splitlines source)"
proof -
  have "\<not> rx_search missing_auth_pattern line" if "line \<in> set (splitlines source)" for line
    using splitlines_feed_last [OF that] by (rule missing_auth_needs_feed)
  moreover have "pt_pattern p = missing_auth_pattern"
    if "p \<in> set security_patterns" "pt_type p = MISSING_AUTH_CHECK" for p
    using that by (auto simp: security_patterns_def)
  ultimately show ?thesis
    using line_pattern_known(1,2) [of s] by (fastforce simp: list_all_iff split: option.split)
qed

section \<open>Names that cannot be encoded\<close>

lemma modified_finding_unencodable:
  assumes "\<not> encodable path"
  shows "new_finding (modified_finding s path) bits now = Inl UnicodeEncodeError"
proof -
  have "compute_fingerprint [FPText (Some service), FPText None,
      FPText (Some (finding_type_value FILE_MODIFIED)), FPText (Some path), FPInt None] =
      Inl UnicodeEncodeError" for service
    by (rule unencodable_fingerprint [OF assms]) simp
  moreover have "check_unit_number (NFloat (Fin 1)) = Inr (NFloat (Fin 1))"
    by (simp add: check_unit_number_def num_float_def)
  ultimately show ?thesis
    by (simp add: new_finding_def modified_finding_def severity_from_value
        del: finding_source_value.simps finding_type_value.simps severity_value.simps
          finding_status_value.simps)
qed

lemma handle_events_keeps: "fst (handle_events E C s evs (Some e) v) = Some e"
  by (induction evs arbitrary: v)
    (auto simp: record_handler_failure_def split: prod.split sum.split)

text \<open>C36. Nothing is found in a file whose name cannot be encoded as UTF-8, and the first
  modification of one that is watched ends the code watcher: the factory raises, the handler
  keeps that failure whatever other events follow, and the next round of the loop raises.\<close>

theorem undecodable_name_ends_watcher:
  assumes "\<not> encodable path" "on_world (should_scan C s path) v = (Inr True, v1)"
    and "has_changed C path v1 = (Inr True, v2)"
  shows "fst (handle_events E C s (Modified False path # evs) None v) = Some UnicodeEncodeError \<and>
    observe_loop (Suc n) E C s False (Some UnicodeEncodeError) u =
      Some (Inl (RuntimeError ''code watcher event handling failed''), u) \<and>
    (case fst (scan_file E C s path w) of Inl _ \<Rightarrow> True | Inr fs \<Rightarrow> fs = [])"
proof (intro conjI)
  obtain w2 st2 where v2: "v2 = (w2, st2)" by (cases v2)
  obtain w3 where m: "make_finding E (modified_finding s path) w2 = (Inl UnicodeEncodeError, w3)"
    by (cases "e_uuid E w2"; cases "e_time E (snd (e_uuid E w2))")
      (simp add: make_finding_def modified_finding_unencodable [OF assms(1)] bind_a_def reads_def
        of_result_def)
  have "event_body E C s (Modified False path) v =
      on_world (bind_a (make_finding E (modified_finding s path)) (\<lambda>f.
        bind_a (emit_finding E f) (\<lambda>_. scan_and_emit E C s path))) v2"
    unfolding event_body.simps on_modified_def
    by (simp add: bind_a_def [of "on_world (should_scan C s path)"] assms(2)
        bind_a_def [of "has_changed C path"] assms(3))
  also have "\<dots> = (Inl UnicodeEncodeError, (w3, st2))"
    by (simp add: v2 on_world_def bind_a_def [of "make_finding E (modified_finding s path)"] m)
  finally have "\<exists>v3. event_body E C s (Modified False path) v = (Inl UnicodeEncodeError, v3)" by blast
  then show "fst (handle_events E C s (Modified False path # evs) None v) = Some UnicodeEncodeError"
    by (auto simp: record_handler_failure_def handle_events_keeps simp del: event_body.simps)
  show "observe_loop (Suc n) E C s False (Some UnicodeEncodeError) u =
      Some (Inl (RuntimeError ''code watcher event handling failed''), u)"
    by (cases u) (simp add: on_world_def observe_round_def stop_requested_def guard_a_def bind_a_def
        of_result_def)
  show "case fst (scan_file E C s path w) of Inl _ \<Rightarrow> True | Inr fs \<Rightarrow> fs = []"
  proof (cases "fst (scan_file E C s path w)")
    case (Inr fs)
    then have "\<forall>f \<in> set fs. encodable path"
      using scan_file_findings [of E C s path w] by (auto simp: scan_finding_def)
    with assms(1) Inr show ?thesis by (cases fs) auto
  qed simp
qed

text \<open>A file name with an undecodable byte, as \<open>os.fsdecode\<close> shows it.\<close>

definition odd_path :: pystr where
  "odd_path = [47, 56448] @ lit ''.py''"

lemma ex_lower_surrogate: "lower_char 56448 = [56448]"
proof -
  have "list_all (\<lambda>r. \<not> in_run 56448 r) lower_runs" by (simp add: lower_runs_def in_run_def)
  then have "find (in_run 56448) lower_runs = None" by (simp add: find_None_iff list_all_iff)
  moreover have "map_of lower_multi 56448 = None" by (simp add: lower_multi_def)
  ultimately show ?thesis by (simp add: lower_char_def map_code_point_def)
qed

theorem undecodable_name_ends_watcher_witness:
  "fst (handle_events plain_env (file_env (lit ''x'')) (ex_settings []) [Modified False odd_path] None ([], [])) =
     Some UnicodeEncodeError"
proof -
  have enc: "\<not> encodable odd_path"
    using ex_lower_surrogate by (simp add: encodable_def odd_path_def str_lower_def is_surrogate_def)
  have parts: "path_rel odd_path = [56448 # lit ''.py'']" "path_root odd_path = [47]"
    by (simp_all add: odd_path_def path_rel_def path_root_def lit_Cons split_char.simps)
  have wanted: "on_world (should_scan (file_env (lit ''x'')) (ex_settings []) odd_path) ([], []) =
      (Inr True, ([], []))"
    by (simp add: on_world_def should_scan_def path_suffix_def path_name_def last_part_def parts
        path_parts_def is_ignored_def ex_settings_def Let_def lit_Cons file_env_def ret_def bind_a_def)
  obtain st where st: "read_file_snapshot (file_env (lit ''x'')) odd_path [] = (Inr (lit ''x'', st), [])"
    using file_env_snapshot [of "lit ''x''"] by auto
  have changed: "has_changed (file_env (lit ''x'')) odd_path ([], []) =
      (Inr True, ([], [(odd_path, sha256_hexdigest (lit ''x''))]))"
    by (simp add: has_changed_def file_hash_def catch_a_def bind_a_def on_world_def st ret_def
        on_tracker_def note_hash_cases last_n_def max_tracked_files_def)
  show ?thesis
    using undecodable_name_ends_watcher [OF enc wanted changed] by blast
qed

end
