(* ===== verification/NotifierProperties.thy ===== *)
theory NotifierProperties
  imports NotifierSanitize Examples
begin

text \<open>
  The properties of the notifier (\<open>src/watchers/notifier.py\<close>): what \<open>send_alert\<close> sends and
  returns, and what the sanitizer leaves in a text.  \<open>http_client\<close> is the interface to
  \<open>requests\<close>: an environment whose requests are logged.
\<close>

section \<open>send_alert as a fold over the configured channels\<close>

definition configured_channels :: "notifier_settings \<Rightarrow> alert \<Rightarrow> (pystr \<times> pyval result) list" where
  "configured_channels cfg a =
     (if has_text (nt_slack_webhook_url cfg)
      then [(text_of (nt_slack_webhook_url cfg), build_slack_payload a)] else [])
     @ (if has_text (nt_telegram_bot_token cfg) \<and> has_text (nt_telegram_chat_id cfg)
        then [(telegram_url (text_of (nt_telegram_bot_token cfg)),
               build_telegram_payload a (text_of (nt_telegram_chat_id cfg)))] else [])
     @ (if has_text (nt_generic_webhook_url cfg)
        then [(text_of (nt_generic_webhook_url cfg), Inr (build_webhook_payload a))] else [])"

fun post_all ::
  "'w http_env \<Rightarrow> notifier_settings \<Rightarrow> pystr \<Rightarrow> (pystr \<times> pyval result) list \<Rightarrow> ('w, bool list) act" where
  "post_all H cfg key [] = ret []"
| "post_all H cfg key ((url, payload) # rest) =
     bind_a (of_result payload) (\<lambda>p.
     bind_a (post H cfg url p key) (\<lambda>ok.
     bind_a (post_all H cfg key rest) (\<lambda>oks. ret (ok # oks))))"

lemma post_all_append:
  "post_all H cfg key (xs @ ys) =
     bind_a (post_all H cfg key xs) (\<lambda>a. bind_a (post_all H cfg key ys) (\<lambda>b. ret (a @ b)))"
  by (induction xs) (auto simp: bind_a_assoc)

text \<open>One channel is the fold over at most one request, with its successes counted.\<close>

definition tally :: "nat \<times> nat \<Rightarrow> bool list \<Rightarrow> nat \<times> nat" where
  "tally counts oks = (fst counts + length oks, snd counts + length (filter id oks))"

lemma tally_single: "tally counts [ok] = (fst counts + 1, snd counts + (if ok then 1 else 0))"
  by (simp add: tally_def)

lemma channel_post_all:
  "channel configured H cfg url payload key counts =
     bind_a (post_all H cfg key (if configured then [(url, payload)] else [])) (\<lambda>oks. ret (tally counts oks))"
  by (simp add: channel_def tally_single bind_a_assoc) (simp add: tally_def)

lemma tally_tally: "tally (tally counts xs) ys = tally counts (xs @ ys)"
  by (simp add: tally_def)

lemma send_alert_fold:
  "send_alert H cfg a =
     bind_a (of_result (should_notify cfg a)) (\<lambda>wanted.
       if \<not> wanted then ret True
       else bind_a (post_all H cfg (a_fingerprint a) (configured_channels cfg a))
              (\<lambda>oks. ret (list_ex id oks)))"
proof -
  have some: "filter id oks \<noteq> [] \<longleftrightarrow> list_ex id oks" for oks
    by (induction oks) auto
  have last_step: "(case tally (0, 0) oks of (attempted, delivered) \<Rightarrow>
      ret (if attempted = 0 then False else if delivered = 0 then False else True)) =
      (ret (list_ex id oks) :: ('w, bool) act)" for oks :: "bool list"
    using some [of oks] by (cases "oks = []") (auto simp: tally_def)
  show ?thesis
    unfolding send_alert_def configured_channels_def channel_post_all post_all_append
    by (simp only: bind_a_assoc bind_a_ret tally_tally last_step append_assoc)
qed

text \<open>C19. \<open>send_alert\<close> refines a fold: below the threshold it reports success without sending
  anything; otherwise it sends one POST to every configured channel, in order, whatever the
  others answer, and reports success exactly if one of them accepted.  So it fails when no
  channel is configured.\<close>

theorem send_alert_is_fold:
  "send_alert H cfg a =
     bind_a (of_result (should_notify cfg a)) (\<lambda>wanted.
       if \<not> wanted then ret True
       else bind_a (post_all H cfg (a_fingerprint a) (configured_channels cfg a))
              (\<lambda>oks. ret (list_ex id oks)))"
  by (rule send_alert_fold)

section \<open>What is sent\<close>

locale http_client =
  fixes H :: "'w http_env"
    and posted :: "'w \<Rightarrow> (session \<times> post_request) list"
  assumes post_logged: "h_post H s rq w = (out, w') \<Longrightarrow>
      posted w' = posted w @ [(s, rq)] \<and> h_session H w' = h_session H w"
    and session_kept: "h_session H (h_keep_session H s w) = Some s \<and> posted (h_keep_session H s w) = posted w"
begin

text \<open>The thread's session is absent or the one that \<open>_build_session\<close> makes.\<close>

definition own_session :: "notifier_settings \<Rightarrow> 'w \<Rightarrow> bool" where
  "own_session cfg w \<longleftrightarrow> h_session H w \<in> {None, Some (build_session cfg)}"

lemma post_sends:
  assumes "own_session cfg w" "post H cfg url payload key w = (r, w')"
  shows "own_session cfg w' \<and>
    (\<exists>rq. posted w' = posted w @ [(build_session cfg, rq)] \<and> pq_url rq = url \<and> pq_json rq = payload \<and>
      \<not> pq_allow_redirects rq \<and> pq_timeout rq = nt_request_timeout_secs cfg \<and>
      pq_headers rq = post_headers key)"
proof -
  obtain w1 where s: "get_session H cfg w = (Inr (build_session cfg), w1)" "posted w1 = posted w"
      "own_session cfg w1"
    using assms(1) session_kept [of "build_session cfg" w]
    by (auto simp: get_session_def own_session_def Let_def)
  let ?rq = "\<lparr>pq_url = url, pq_json = payload, pq_timeout = nt_request_timeout_secs cfg,
      pq_allow_redirects = False, pq_stream = True, pq_headers = post_headers key\<rparr>"
  obtain out w2 where p: "h_post H (build_session cfg) ?rq w1 = (out, w2)" by fastforce
  with assms(2) s(1) have "w' = w2"
    by (auto simp: post_def bind_a_def reads_def ret_def throw_def split: post_outcome.splits)
  with post_logged [OF p] s(2,3) show ?thesis by (auto simp: own_session_def)
qed

lemma post_all_sends:
  assumes "own_session cfg w" "post_all H cfg key chans w = (r, w')"
  shows "own_session cfg w' \<and>
    (\<exists>sent. posted w' = posted w @ sent \<and> length sent \<le> length chans \<and>
      (\<forall>(s, rq) \<in> set sent. s = build_session cfg \<and> \<not> pq_allow_redirects rq \<and>
         pq_headers rq = post_headers key \<and> pq_url rq \<in> fst ` set chans))"
  using assms
proof (induction chans arbitrary: w r)
  case Nil
  then show ?case by (simp add: ret_def)
next
  case (Cons ch chans)
  obtain url payload where ch: "ch = (url, payload)" by (cases ch)
  show ?case
  proof (cases payload)
    case (Inl e)
    with Cons.prems ch show ?thesis by (simp add: bind_a_def of_result_def)
  next
    case (Inr p)
    obtain r1 w1 where p1: "post H cfg url p key w = (r1, w1)" by fastforce
    from post_sends [OF Cons.prems(1) this] obtain rq where
      own: "own_session cfg w1" and rq: "posted w1 = posted w @ [(build_session cfg, rq)]"
        "pq_url rq = url" "\<not> pq_allow_redirects rq" "pq_headers rq = post_headers key" by blast
    show ?thesis
    proof (cases r1)
      case (Inl e)
      with Cons.prems(2) ch Inr p1 have "w' = w1" by (simp add: bind_a_def of_result_def)
      with own rq ch show ?thesis by auto
    next
      case (Inr ok)
      obtain r2 where r2: "post_all H cfg key chans w1 = (r2, w')"
        using Cons.prems(2) ch \<open>payload = Inr p\<close> p1 Inr
        by (auto simp: bind_a_def of_result_def ret_def split: prod.splits sum.splits)
      from Cons.IH [OF own this] obtain sent where
        "own_session cfg w'" "posted w' = posted w1 @ sent" "length sent \<le> length chans"
        "\<forall>(s, rq) \<in> set sent. s = build_session cfg \<and> \<not> pq_allow_redirects rq \<and>
           pq_headers rq = post_headers key \<and> pq_url rq \<in> fst ` set chans" by blast
      then show ?thesis using rq ch
        by (intro conjI exI [of _ "(build_session cfg, rq) # sent"]) auto
    qed
  qed
qed

lemma send_alert_sends:
  assumes "own_session cfg w" "send_alert H cfg a w = (r, w')"
  shows "own_session cfg w' \<and>
    (\<exists>sent. posted w' = posted w @ sent \<and> length sent \<le> length (configured_channels cfg a) \<and>
      (\<forall>(s, rq) \<in> set sent. s = build_session cfg \<and> \<not> pq_allow_redirects rq \<and>
         pq_headers rq = post_headers (a_fingerprint a) \<and>
         pq_url rq \<in> fst ` set (configured_channels cfg a)))"
proof -
  let ?chans = "configured_channels cfg a"
  from assms(2) consider "w' = w"
    | r' where "post_all H cfg (a_fingerprint a) ?chans w = (r', w')"
    unfolding send_alert_fold
    by (cases "post_all H cfg (a_fingerprint a) ?chans w")
      (auto simp: bind_a_def of_result_def ret_def split: sum.splits if_splits)
  then show ?thesis
  proof cases
    case 1
    with assms(1) show ?thesis by auto
  next
    case 2
    from post_all_sends [OF assms(1) this] show ?thesis .
  qed
qed

end

text \<open>A client with a script of answers; an exhausted script means time-outs.\<close>

record web_world =
  ww_session :: "session option"
  ww_log :: "(session \<times> post_request) list"
  ww_answers :: "post_outcome list"

definition web_env :: "web_world http_env" where
  "web_env =
     \<lparr>h_session = ww_session,
      h_keep_session = (\<lambda>s w. w\<lparr>ww_session := Some s\<rparr>),
      h_post = (\<lambda>s rq w.
        (case ww_answers w of [] \<Rightarrow> PostTimeout | out # _ \<Rightarrow> out,
         w\<lparr>ww_log := ww_log w @ [(s, rq)], ww_answers := tl (ww_answers w)\<rparr>))\<rparr>"

interpretation web: http_client web_env ww_log
  by unfold_locales (auto simp: web_env_def)

text \<open>A POST that was transmitted is not sent again by the session.\<close>

definition never_resends :: "session \<Rightarrow> bool" where
  "never_resends s \<longleftrightarrow>
     (\<forall>(prefix, rp) \<in> set (ss_mounts s).
        rp_read rp = 0 \<and> rp_status rp = 0 \<and> rp_other rp = 0 \<and> rp_redirect rp = 0 \<and>
        rp_allowed_methods rp = [lit ''POST''])"

lemma build_session_never_resends: "never_resends (build_session cfg)"
  by (simp add: never_resends_def build_session_def)

lemma configured_at_most_three: "length (configured_channels cfg a) \<le> 3"
  by (simp add: configured_channels_def)

text \<open>C20. One alert causes at most three POSTs, each to a configured channel, over a session that
  never repeats a transmitted request, without following redirects and with the fingerprint as
  its idempotency key.\<close>

theorem alert_requests_safe:
  assumes "http_client H posted" "h_session H w = None \<or> h_session H w = Some (build_session cfg)"
    and "send_alert H cfg a w = (r, w')"
  shows "\<exists>sent. posted w' = posted w @ sent \<and> length sent \<le> 3 \<and>
    (\<forall>(s, rq) \<in> set sent. never_resends s \<and> \<not> pq_allow_redirects rq \<and>
       (lit ''Idempotency-Key'', a_fingerprint a) \<in> set (pq_headers rq) \<and>
       pq_url rq \<in> fst ` set (configured_channels cfg a))"
proof -
  have "http_client.own_session H cfg w"
    using assms(1,2) by (auto simp: http_client.own_session_def)
  from http_client.send_alert_sends [OF assms(1) this assms(3)] obtain sent where
    s: "posted w' = posted w @ sent" "length sent \<le> length (configured_channels cfg a)"
      "\<forall>(s, rq) \<in> set sent. s = build_session cfg \<and> \<not> pq_allow_redirects rq \<and>
         pq_headers rq = post_headers (a_fingerprint a) \<and>
         pq_url rq \<in> fst ` set (configured_channels cfg a)" by blast
  moreover have "length sent \<le> 3" using s(2) configured_at_most_three [of cfg a] by linarith
  moreover have "(lit ''Idempotency-Key'', key) \<in> set (post_headers key)" for key
    by (simp add: post_headers_def)
  ultimately show ?thesis using build_session_never_resends by (intro exI [of _ sent]) auto
qed

definition ex_notifier :: notifier_settings where
  "ex_notifier =
     \<lparr>nt_slack_webhook_url = None, nt_telegram_bot_token = None, nt_telegram_chat_id = None,
      nt_generic_webhook_url = Some (lit ''https://hooks.example/alerts''),
      nt_alert_cooldown_secs = 300, nt_min_alert_severity = lit ''HIGH'',
      nt_request_timeout_secs = Fin 10, nt_max_retries = 3\<rparr>"

definition ex_web :: web_world where
  "ex_web = \<lparr>ww_session = None, ww_log = [], ww_answers = [Response 200]\<rparr>"

lemma ex_should_notify: "a_severity a = lit ''CRITICAL'' \<Longrightarrow> should_notify ex_notifier a = Inr True"
  by (simp add: should_notify_def ex_notifier_def sev_order_def get_or_def)

text \<open>One accepted POST.\<close>

lemma ex_send_alert:
  assumes "a_severity a = lit ''CRITICAL''"
  shows "\<exists>w'. send_alert web_env ex_notifier a ex_web = (Inr True, w') \<and> length (ww_log w') = 1"
  unfolding send_alert_fold ex_should_notify [OF assms]
  by (simp add: configured_channels_def bind_a_def of_result_def ret_def post_def
      get_session_def Let_def reads_def web_env_def ex_web_def response_ok_def ex_notifier_def
      has_text_def text_of_def)

theorem alert_requests_safe_witness:
  "\<exists>a w' sent. send_alert web_env ex_notifier a ex_web = (Inr True, w') \<and> ww_log w' = sent \<and>
     length sent = 1 \<and> (\<forall>(s, rq) \<in> set sent. never_resends s)"
proof -
  obtain a :: alert where a: "a_severity a = lit ''CRITICAL''"
    by (metis alert.select_convs(11))
  obtain w' where w': "send_alert web_env ex_notifier a ex_web = (Inr True, w')" "length (ww_log w') = 1"
    using ex_send_alert [OF a] by blast
  have "h_session web_env ex_web = None" by (simp add: web_env_def ex_web_def)
  with alert_requests_safe [OF web.http_client_axioms _ w'(1)] obtain sent where
    "ww_log w' = ww_log ex_web @ sent" "\<forall>(s, rq) \<in> set sent. never_resends s" by fastforce
  with w' show ?thesis by (auto simp: ex_web_def)
qed


end
