(* ===== verification/SchemaProperties.thy ===== *)
theory SchemaProperties
  imports Examples
begin

text \<open>The properties of findings and alerts (\<open>src/watchers/schema.py\<close>).\<close>


text \<open>C6. \<open>from_json(to_json(f))\<close> gives \<open>f\<close> back, with the keys of its context sorted, for every
  valid finding whose texts hold no adjacent surrogate halves and whose numbers are doubles.\<close>

theorem finding_survives_json:
  assumes "finding_valid f" "json_wf (VDict (finding_to_dict f))"
  shows "\<exists>s. finding_to_json f = Inr s \<and> finding_from_json s = Inr (sort_context f)"
  by (rule finding_json_round_trip [OF assms])

theorem finding_survives_json_witness:
  "\<exists>s. finding_to_json ex_api = Inr s \<and> finding_from_json s = Inr (sort_context ex_api)"
  by (rule finding_survives_json [OF ex_valid(1) ex_json_wf])

text \<open>Whatever text is read as a finding, the result satisfies the invariant, and the dicts of
  its context have distinct keys; every other payload is an exception.\<close>

theorem read_finding_well_formed:
  assumes "finding_from_json s = Inr f"
  shows "finding_wf f"
  by (rule finding_from_json_wf [OF assms])

theorem read_finding_well_formed_witness:
  "\<exists>s. finding_from_json s = Inr (sort_context ex_api) \<and> finding_wf (sort_context ex_api)"
proof -
  obtain s where "finding_from_json s = Inr (sort_context ex_api)"
    using finding_json_round_trip [OF ex_valid(1) ex_json_wf] by blast
  with read_finding_well_formed [OF this] show ?thesis by blast
qed

text \<open>C11. The factory \<open>new_finding\<close> returns exactly when its arguments are acceptable (\<open>args_ok\<close>) and
  the clock reads a positive finite time, and then the finding has the given fields, the canonical
  severity, a version 4 identifier made of the random bits, the time read, and the fingerprint of
  service, endpoint, type, file and line.\<close>

theorem new_finding_exact:
  "new_finding a rnd now = Inr f \<longleftrightarrow>
     args_ok a \<and> timestamp_ok (NFloat now) \<and>
     (\<exists>fp sev conf. compute_fingerprint (args_parts a) = Inr fp \<and>
        severity_from_string (na_severity a) = Inr sev \<and> num_float (na_confidence a) = Inr conf \<and>
        f = new_finding_record a rnd now fp sev conf)"
  by (rule new_finding_Inr)

text \<open>Two findings made for the same service, endpoint, type, file and line, whatever the case
  of their letters, carry the same fingerprint, which is 32 lower case hexadecimal digits.\<close>

theorem fingerprint_ignores_case:
  assumes "new_finding a r1 t1 = Inr f" "new_finding b r2 t2 = Inr g"
    and "parts_text (args_parts a) = parts_text (args_parts b)"
  shows "f_fingerprint f = f_fingerprint g \<and> fingerprint_ok (f_fingerprint f)"
proof -
  have eq: "compute_fingerprint (args_parts a) = compute_fingerprint (args_parts b)"
    by (simp add: compute_fingerprint_def assms(3))
  from assms(1,2) show ?thesis
    by (auto simp: new_finding_Inr eq new_finding_record_def dest: compute_fingerprint_ok)
qed

theorem fingerprint_ignores_case_witness:
  "\<exists>f g. new_finding (ex_args ''auth'') 1 (Fin 1000) = Inr f \<and>
     new_finding (ex_args ''Auth'') 2 (Fin 1000) = Inr g \<and> f_fingerprint f = f_fingerprint g"
proof -
  obtain f g where "new_finding (ex_args ''auth'') 1 (Fin 1000) = Inr f"
    "new_finding (ex_args ''Auth'') 2 (Fin 1000) = Inr g"
    using ex_new_finding [OF ex_args_ok(1) ex_timestamp_ok(2)]
      ex_new_finding [OF ex_args_ok(2) ex_timestamp_ok(2)] by blast
  with fingerprint_ignores_case [OF this ex_args_parts] show ?thesis by blast
qed

text \<open>C12. For valid findings, an acceptable score and non-empty texts, \<open>new_correlated_alert\<close>
  returns exactly when no empty endpoint, file or trace id ends up in the alert and the parts of
  the fingerprint can be encoded; the alert then carries the fields of the pair and the greater of
  the two severities.\<close>

theorem new_correlated_alert_exact:
  assumes "finding_valid api" "finding_valid code" "text_ok 4000 root_cause" "text_ok 4000 fix'"
    and "confidence_ok (NFloat c)" "timestamp_ok (NFloat now)"
  shows "new_correlated_alert api code c root_cause fix' rnd now = Inr a \<longleftrightarrow>
    pair_ok api code \<and>
    (\<exists>fp sa sc. compute_fingerprint (alert_parts api code) = Inr fp \<and>
       finding_severity api = Inr sa \<and> finding_severity code = Inr sc \<and>
       a = alert_record api code c root_cause fix' rnd now fp (max sa sc))"
  by (rule new_correlated_alert_Inr [OF assms])

lemma ex_score: "confidence_ok (NFloat (Fin 1))"
  by (simp add: confidence_ok_def num_float_def)

lemma ex_texts: "text_ok 4000 (lit ''cause'')" "text_ok 4000 (lit ''fix'')"
  by (simp_all add: ex_text_simps)

theorem new_correlated_alert_exact_witness:
  "\<exists>a. new_correlated_alert ex_api ex_code (Fin 1) (lit ''cause'') (lit ''fix'') 3 (Fin 1000) = Inr a"
proof -
  note iff = new_correlated_alert_exact [OF ex_valid ex_texts ex_score ex_timestamp_ok(2)]
  have ok: "pair_ok ex_api ex_code" by (rule pair_ok_alertable [OF ex_alertable])
  then obtain fp where "compute_fingerprint (alert_parts ex_api ex_code) = Inr fp"
    by (auto simp: pair_ok_def returns_iff)
  with ok finding_severity_of ex_valid show ?thesis unfolding iff by blast
qed

text \<open>Every exception of \<open>new_correlated_alert\<close> on valid findings is a \<open>ValueError\<close>, and an
  alert that it returns can be printed as JSON.\<close>

theorem new_correlated_alert_errors:
  assumes "finding_valid api" "finding_valid code" "text_ok 4000 root_cause" "text_ok 4000 fix'"
    and "confidence_ok (NFloat c)" "timestamp_ok (NFloat now)"
  shows "case new_correlated_alert api code c root_cause fix' rnd now of
      Inl e \<Rightarrow> is_value_error e
    | Inr a \<Rightarrow> alert_valid a \<and> returns (alert_to_json a)"
proof (cases "new_correlated_alert api code c root_cause fix' rnd now")
  case (Inl e)
  with new_correlated_alert_error [OF assms(1,2,5,6)] show ?thesis by simp
next
  case (Inr a)
  then have "alert_valid a" by (auto simp: new_correlated_alert_def bind_r_Inr_iff alert_ctor_Inr)
  moreover have "returns (alert_to_json a)"
    using Inr alert_record_to_json [OF assms(1,2,5,6)]
    by (auto simp: new_correlated_alert_Inr [OF assms])
  ultimately show ?thesis using Inr by simp
qed

theorem new_correlated_alert_errors_witness:
  "\<exists>e. new_correlated_alert ex_root ex_code (Fin 1) (lit ''cause'') (lit ''fix'') 3 (Fin 1000) = Inl e \<and>
     is_value_error e"
proof -
  have "\<nexists>a. new_correlated_alert ex_root ex_code (Fin 1) (lit ''cause'') (lit ''fix'') 3 (Fin 1000) = Inr a"
    using new_correlated_alert_Inr [OF ex_root_valid ex_valid(2) ex_texts ex_score ex_timestamp_ok(2)]
      ex_root_not_ok by blast
  with new_correlated_alert_errors [OF ex_root_valid ex_valid(2) ex_texts ex_score ex_timestamp_ok(2), of 3]
  show ?thesis by (auto split: sum.splits)
qed

text \<open>\<open>is_critical\<close> and \<open>severity_numeric\<close> agree (at least HIGH) on findings whose severity is
  written in upper case, and there is a valid finding, with severity \<open>critical\<close>, of numeric
  severity 4 which is not critical.\<close>

theorem is_critical_needs_upper_case:
  "is_critical (f\<lparr>f_severity := severity_value s\<rparr>) = (3 \<le> numeric s) \<and>
   severity_numeric (f\<lparr>f_severity := severity_value s\<rparr>) = Inr (numeric s) \<and>
   finding_valid (ex_api\<lparr>f_severity := lit ''critical''\<rparr>) \<and>
   severity_numeric (ex_api\<lparr>f_severity := lit ''critical''\<rparr>) = Inr 4 \<and>
   \<not> is_critical (ex_api\<lparr>f_severity := lit ''critical''\<rparr>)"
proof -
  have low: "severity_from_string (lit ''critical'') = Inr CRITICAL"
    by (simp add: severity_from_string_def str_upper_def upper_char_def lit_Cons severity_members_def
        enum_of_def)
  then have "finding_valid (ex_api\<lparr>f_severity := lit ''critical''\<rparr>)"
    using ex_valid(1) by (simp add: finding_valid_def)
  with low show ?thesis
    by (cases s) (simp_all add: is_critical_def severity_numeric_def finding_severity_def ex_severity
        severity_from_value [of LOW, simplified] severity_from_value [of HIGH, simplified])
qed

end
