(* ===== verification/RedisProperties.thy ===== *)
theory RedisProperties
  imports RedisInterfaces
begin

text \<open>The properties of the Redis client (\<open>src/watchers/redis_client.py\<close>).\<close>

section \<open>The waiting loop ends\<close>

text \<open>
  The monotonic clock reads exact numbers, never goes back, and every sleep moves it by at
  least \<open>step\<close>.
\<close>

definition ticking :: "'w env \<Rightarrow> ('w \<Rightarrow> rat) \<Rightarrow> rat \<Rightarrow> bool" where
  "ticking E mclock step \<longleftrightarrow> 0 < step \<and>
     (\<forall>w. fst (e_monotonic E w) = Fin (mclock w) \<and> mclock w \<le> mclock (snd (e_monotonic E w))) \<and>
     (\<forall>d w. mclock w + step \<le> mclock (e_sleep E d w)) \<and>
     (\<forall>c w. mclock w \<le> mclock (snd (e_redis E c w)))"

lemma ticking_ping:
  assumes "ticking E mclock step" "ping E w = (r, w')"
  shows "mclock w \<le> mclock w'"
proof -
  obtain x u where "e_redis E Ping w = (x, u)" by force
  moreover from this have "mclock w \<le> mclock u" using assms(1) by (metis ticking_def snd_conv)
  ultimately show ?thesis using assms(2)
    by (auto simp: ping_def catch_a_def bind_a_def ret_def throw_def command_def
        split: sum.splits if_splits)
qed

lemma wait_loop_ends:
  assumes "ticking E mclock step"
  shows "D \<le> mclock w + of_nat n * step \<Longrightarrow> \<exists>r. wait_loop (Suc n) E interval (Fin D) w = Some r"
proof (induction n arbitrary: w)
  case 0
  obtain now w1 where m: "e_monotonic E w = (now, w1)" by force
  with assms have "now = Fin (mclock w)" by (metis ticking_def fst_conv)
  with 0 m show ?case by simp
next
  case (Suc n)
  obtain now w1 where m: "e_monotonic E w = (now, w1)" by force
  obtain r w2 where p: "ping E w1 = (r, w2)" by force
  obtain now' w3 where m': "e_monotonic E w2 = (now', w3)" by force
  define w4 where "w4 = e_sleep E (fmin interval (fmax0 (fsub (Fin D) now'))) w3"
  have "mclock w \<le> mclock w1" "mclock w2 \<le> mclock w3" using assms m m' by (metis ticking_def snd_conv)+
  moreover have "mclock w1 \<le> mclock w2" using ticking_ping [OF assms p] .
  moreover have "mclock w3 + step \<le> mclock w4" using assms by (simp add: ticking_def w4_def)
  ultimately have "D \<le> mclock w4 + of_nat n * step" using Suc.prems by (simp add: algebra_simps)
  from Suc.IH [OF this] m p m' show ?case
    by (auto simp del: wait_loop.simps simp: wait_loop.simps(2) [of "Suc n"] w4_def
        split: sum.splits bool.splits)
qed


definition tick_env :: "ref_world env" where
  "tick_env = ref_env\<lparr>e_sleep := \<lambda>d w. w\<lparr>rw_clock := rw_clock w + 1\<rparr>\<rparr>"

lemma tick_env_ticking: "ticking tick_env rw_clock 1"
  by (auto simp: ticking_def tick_env_def ref_env_def ref_redis_def split: list.splits fault.splits)


section \<open>Retrying\<close>

text \<open>C14. \<open>_with_retry\<close> runs its operation at most \<open>max_attempts\<close> times: after \<open>k\<close> attempts that
  failed with a connection error or a timeout, each followed by the growing delay, it returns or
  raises what the next attempt does, and that one fails with such an error only if it was the
  last one allowed.\<close>

theorem with_retry_attempts:
  assumes "1 \<le> m" "\<forall>b. 1 \<le> b \<and> b < nat m \<longrightarrow> returns (retry_delay base b)"
  shows "\<exists>k v. k < nat m \<and> after_failures E op base k 1 w = Some v \<and>
     with_retry E op m base w = op v \<and>
     (\<forall>e v'. op v = (Inl e, v') \<and> retryable e \<longrightarrow> Suc k = nat m)"
  by (rule with_retry_outcome [OF assms])

theorem with_retry_attempts_witness:
  "\<exists>k v. k < nat 1 \<and> after_failures ref_env (e_redis ref_env Ping) (Fin 1) k 1 (ref_start [Refused]) = Some v \<and>
     with_retry ref_env (e_redis ref_env Ping) 1 (Fin 1) (ref_start [Refused]) = e_redis ref_env Ping v"
proof -
  have "\<forall>b. 1 \<le> b \<and> b < nat 1 \<longrightarrow> returns (retry_delay (Fin 1) b)" by simp
  from with_retry_attempts [OF _ this, of ref_env "e_redis ref_env Ping" "ref_start [Refused]"]
  show ?thesis by auto
qed

section \<open>Claims\<close>

text \<open>C2. A successful claim excludes every other one: as long as the stored claim is untouched, no
  claim of the same fingerprint that ends within the cooldown returns a token.\<close>

theorem claims_exclude_each_other:
  assumes "redis_server E store clock"
    and "claim_alert E fp cooldown w = (Inr (Some token), w1)"
    and "claim_holder store u fp = claim_holder store w1 fp"
    and "claim_alert E fp other u = (Inr r, u')" "clock u' < clock w + of_int cooldown"
  shows "r = None"
  by (rule redis_server.claim_exclusive [OF assms])

lemma ref_server: "redis_server ref_env rw_store rw_clock"
  by (rule ref.redis_server_axioms)

lemma first_delay: "retry_delay (fl (1 / 2)) 1 = Inr (Fin (1 / 2))"
  by code_simp

lemma retry_second:
  assumes "op w = (Inl e, w1)" "retryable e" "op (e_sleep E (Fin (1 / 2)) w1) = (Inr x, w2)"
  shows "retry E op w = (Inr x, w2)"
  unfolding retry_def with_retry_def three_attempts using assms first_delay by simp

lemmas ref_simps = ref_env_def ref_redis_def ref_reply_def ref_start_def ks_get_def ks_put_def

text \<open>A first claim on the reference server.\<close>

definition ref_claimed :: "pystr \<Rightarrow> ref_world" where
  "ref_claimed fp = (ref_start [])\<lparr>rw_bits := 2,
     rw_store := ks_put (cooldown_key fp) (claim_token 1) 1300 (rw_store (ref_start []))\<rparr>"

lemma ref_claim: "claim_alert ref_env fp 300 (ref_start []) = (Inr (Some (claim_token 1)), ref_claimed fp)"
proof -
  have "e_redis ref_env (SetNxEx (cooldown_key fp) (claim_token 1) 300) ((ref_start [])\<lparr>rw_bits := 2\<rparr>) =
      (Inr (RBool True), ref_claimed fp)"
    by (simp add: ref_simps ref_claimed_def)
  then have "retry ref_env (command ref_env (SetNxEx (cooldown_key fp) (claim_token 1) 300))
      ((ref_start [])\<lparr>rw_bits := 2\<rparr>) = (Inr (RBool True), ref_claimed fp)"
    by (intro retry_first) (simp add: command_def)
  moreover have "e_uuid ref_env (ref_start []) = (1, (ref_start [])\<lparr>rw_bits := 2\<rparr>)"
    by (simp add: ref_env_def ref_start_def)
  ultimately show ?thesis
    by (simp add: claim_alert_def reads_def bind_a_def ret_def)
qed

lemma ref_claim_again:
  "claim_alert ref_env fp 300 (ref_claimed fp) = (Inr None, (ref_claimed fp)\<lparr>rw_bits := 3\<rparr>)"
proof -
  have "e_redis ref_env (SetNxEx (cooldown_key fp) (claim_token 2) 300) ((ref_claimed fp)\<lparr>rw_bits := 3\<rparr>) =
      (Inr RNone, (ref_claimed fp)\<lparr>rw_bits := 3\<rparr>)"
    by (simp add: ref_simps ref_claimed_def)
  then have "retry ref_env (command ref_env (SetNxEx (cooldown_key fp) (claim_token 2) 300))
      ((ref_claimed fp)\<lparr>rw_bits := 3\<rparr>) = (Inr RNone, (ref_claimed fp)\<lparr>rw_bits := 3\<rparr>)"
    by (intro retry_first) (simp add: command_def)
  moreover have "e_uuid ref_env (ref_claimed fp) = (2, (ref_claimed fp)\<lparr>rw_bits := 3\<rparr>)"
    by (simp add: ref_env_def ref_claimed_def)
  ultimately show ?thesis
    by (simp add: claim_alert_def reads_def bind_a_def ret_def)
qed

theorem claims_exclude_each_other_witness:
  "\<exists>r u'. claim_alert ref_env (lit ''f'') 300 (ref_claimed (lit ''f'')) = (Inr r, u') \<and> r = None"
proof -
  let ?u = "(ref_claimed (lit ''f''))\<lparr>rw_bits := 3\<rparr>"
  have "rw_clock ?u < rw_clock (ref_start []) + of_int 300"
    by (simp add: ref_claimed_def ref_start_def)
  from claims_exclude_each_other [OF ref_server ref_claim refl ref_claim_again this]
  show ?thesis using ref_claim_again by blast
qed

text \<open>C16. A late release cannot take away the claim of the next owner: after a claim by another
  token, releasing the old token leaves the fingerprint claimed until its cooldown is over.\<close>

theorem late_release_is_harmless:
  assumes "redis_server E store clock"
    and "claim_alert E fp cooldown w = (Inr (Some token), w1)" "token \<noteq> old"
    and "release_alert_claim E fp old w1 = (b, w2)" "claim_alert E fp other w2 = (Inr r, w3)"
    and "clock w3 < clock w + of_int cooldown"
  shows "r = None"
  by (rule redis_server.claim_survives_late_release [OF assms])

lemma ref_release_other:
  assumes "old \<noteq> []" "old \<noteq> claim_token 1"
  shows "release_alert_claim ref_env fp old (ref_claimed fp) = (Inr False, ref_claimed fp)"
proof -
  have "e_redis ref_env (EvalRelease (cooldown_key fp) old) (ref_claimed fp) = (Inr (RInt 0), ref_claimed fp)"
    using assms by (simp add: ref_simps ref_claimed_def release_script_def)
  then have "retry ref_env (command ref_env (EvalRelease (cooldown_key fp) old)) (ref_claimed fp) =
      (Inr (RInt 0), ref_claimed fp)"
    by (intro retry_first) (simp add: command_def)
  with assms show ?thesis by (simp add: release_alert_claim_def bind_a_def ret_def)
qed

lemma ref_release_own:
  "release_alert_claim ref_env fp (claim_token 1) (ref_claimed fp) =
     (Inr True, (ref_claimed fp)\<lparr>rw_store := (rw_store (ref_claimed fp))
        \<lparr>ks_strings := (ks_strings (rw_store (ref_claimed fp)))(cooldown_key fp := None)\<rparr>\<rparr>)"
  (is "_ = (_, ?w)")
proof -
  have ne: "claim_token 1 \<noteq> []" by (auto simp: claim_token_def dest: arg_cong [where f = length])
  have "e_redis ref_env (EvalRelease (cooldown_key fp) (claim_token 1)) (ref_claimed fp) = (Inr (RInt 1), ?w)"
    by (simp add: ref_simps ref_claimed_def release_script_def)
  then have "retry ref_env (command ref_env (EvalRelease (cooldown_key fp) (claim_token 1))) (ref_claimed fp) =
      (Inr (RInt 1), ?w)"
    by (intro retry_first) (simp add: command_def)
  with ne show ?thesis by (simp add: release_alert_claim_def bind_a_def ret_def)
qed

lemma length_claim_token: "length (claim_token b) = 32"
  by (simp add: claim_token_def)

theorem late_release_is_harmless_witness:
  "\<exists>r u. claim_alert ref_env (lit ''f'') 300 (ref_claimed (lit ''f'')) = (Inr r, u) \<and> r = None"
proof -
  let ?u = "(ref_claimed (lit ''f''))\<lparr>rw_bits := 3\<rparr>"
  have old: "lit ''old'' \<noteq> claim_token 1"
    by (auto dest: arg_cong [where f = length] simp: length_claim_token)
  have "rw_clock ?u < rw_clock (ref_start []) + of_int 300"
    by (simp add: ref_claimed_def ref_start_def)
  from late_release_is_harmless [OF ref_server ref_claim not_sym [OF old] ref_release_other [OF _ old]
      ref_claim_again this]
  show ?thesis using ref_claim_again by auto
qed

text \<open>A release that reports success frees the fingerprint, and one with a wrong token changes
  nothing at all on the server.\<close>

theorem release_frees_only_own:
  assumes "redis_server E store clock" "release_alert_claim E fp token w = (r, w')"
  shows "(r = Inr True \<longrightarrow> claim_holder store w' fp = None) \<and>
    (\<forall>h d. claim_holder store w fp = Some (h, d) \<and> h \<noteq> token \<longrightarrow> store w' = store w)"
  using redis_server.release_frees [OF assms(1)] redis_server.release_leaves_others [OF assms(1)] assms(2)
  by (auto simp: claim_holder_def)

theorem release_frees_only_own_witness:
  "\<exists>w'. release_alert_claim ref_env (lit ''f'') (claim_token 1) (ref_claimed (lit ''f'')) = (Inr True, w') \<and>
     claim_holder rw_store w' (lit ''f'') = None"
  using release_frees_only_own [OF ref_server ref_release_own] ref_release_own by blast

text \<open>C17. A claim whose first reply is lost is lost to its own retry: the server holds the token, the
  caller gets none, so the alert is suppressed for the whole cooldown although nobody sends it.\<close>

theorem claim_lost_to_own_retry:
  "\<exists>w'. claim_alert ref_env fp 300 (ref_start [ReplyLost]) = (Inr None, w') \<and>
     claim_holder rw_store w' fp = Some (claim_token 1, 1300)"
proof -
  define w where "w = (ref_claimed fp)\<lparr>rw_clock := 1000 + 1 / 2\<rparr>"
  let ?op = "command ref_env (SetNxEx (cooldown_key fp) (claim_token 1) 300)"
  have lost: "?op ((ref_start [ReplyLost])\<lparr>rw_bits := 2\<rparr>) = (Inl RedisTimeoutError, ref_claimed fp)"
    by (simp add: command_def ref_simps ref_claimed_def)
  have "e_sleep ref_env (Fin (1 / 2)) (ref_claimed fp) = w"
    by (simp add: ref_env_def w_def ref_claimed_def ref_start_def)
  moreover have "?op w = (Inr RNone, w)"
    by (simp add: command_def ref_simps ref_claimed_def w_def)
  ultimately have again: "?op (e_sleep ref_env (Fin (1 / 2)) (ref_claimed fp)) = (Inr RNone, w)"
    by (simp only:)
  have "retryable RedisTimeoutError" by (simp add: retryable_def)
  from retry_second [where E = ref_env, OF lost this again]
  have "retry ref_env ?op ((ref_start [ReplyLost])\<lparr>rw_bits := 2\<rparr>) = (Inr RNone, w)" .
  moreover have "e_uuid ref_env (ref_start [ReplyLost]) = (1, (ref_start [ReplyLost])\<lparr>rw_bits := 2\<rparr>)"
    by (simp add: ref_env_def ref_start_def)
  ultimately have "claim_alert ref_env fp 300 (ref_start [ReplyLost]) = (Inr None, w)"
    by (simp add: claim_alert_def reads_def bind_a_def ret_def)
  moreover have "claim_holder rw_store w fp = Some (claim_token 1, 1300)"
    by (simp add: claim_holder_def w_def ref_claimed_def ks_put_def)
  ultimately show ?thesis by blast
qed

section \<open>The queue\<close>


lemma ref_push:
  "push_finding ref_env x None (ref_start []) =
     (Inr (), (ref_start [])\<lparr>rw_store := (rw_store (ref_start []))
        \<lparr>ks_lists := (\<lambda>_. [])(findings_queue := [x])\<rparr>\<rparr>)" (is "_ = (_, ?w)")
proof -
  have "e_redis ref_env (LPush findings_queue x) (ref_start []) = (Inr (RInt 1), ?w)"
    by (simp add: ref_simps)
  then have "retry ref_env (command ref_env (LPush findings_queue x)) (ref_start []) = (Inr (RInt 1), ?w)"
    by (intro retry_first) (simp add: command_def)
  then show ?thesis by (simp add: push_finding_def target_or_def bind_a_def ret_def)
qed


text \<open>A pop that returns a text took it from the front of the queue, after at most two elements
  that lost replies took with them; one that returns nothing left the queue empty.\<close>

theorem pop_takes_from_front:
  assumes "redis_server E store clock" "pop_finding E timeout None w = (Inr x, w')"
  shows "\<exists>k \<le> 2. drop k (queue_items store w) =
      (case x of None \<Rightarrow> [] | Some y \<Rightarrow> y # queue_items store w') \<and>
    (x = None \<longrightarrow> queue_items store w' = [])"
proof -
  obtain k where "k \<le> 2"
    "drop k (queue_items store w) = (case x of None \<Rightarrow> [] | Some y \<Rightarrow> y # queue_items store w')"
    "x = None \<Longrightarrow> queue_items store w' = []"
    using redis_server.pop_end [OF assms] by blast
  then show ?thesis by blast
qed

lemma ref_pop_empty: "pop_finding ref_env (Fin 5) None (ref_start []) = (Inr None, ref_start [])"
proof -
  have "e_redis ref_env (BRPop findings_queue 5) (ref_start []) = (Inr RNone, ref_start [])"
    by (simp add: ref_simps fun_upd_idem)
  then have "pop_once ref_env (Fin 5) findings_queue (ref_start []) = (Inr None, ref_start [])"
    by (simp add: pop_once_def of_result_def bind_a_def ret_def command_def)
  then show ?thesis
    by (simp add: pop_finding_def target_or_def) (rule retry_first, assumption)
qed

theorem pop_takes_from_front_witness:
  "\<exists>k \<le> 2. drop k (queue_items rw_store (ref_start [])) = []"
  using pop_takes_from_front [OF ref_server ref_pop_empty] by auto

end
