(* ===== verification/CorrelatorProperties.thy ===== *)
theory CorrelatorProperties
  imports SchemaProperties RedisProperties
begin

text \<open>The properties of the correlation engine (\<open>src/watchers/correlator.py\<close>).\<close>

text \<open>C18. The confidence of every two valid findings is computed without an exception and lies
  between 0 and 0.99, whatever the rounding of the additions and of the product does.\<close>

theorem confidence_bounded:
  assumes "finding_valid api" "finding_valid code"
  shows "\<exists>c. compute_confidence api code = Inr c \<and> fle (Fin 0) c \<and> fle c (fl (99 / 100))"
proof -
  obtain c where c: "compute_confidence api code = Inr c"
    using compute_confidence_returns [OF assms] by (auto simp: returns_iff)
  with compute_confidence_range [OF c assms] show ?thesis by (auto simp: in_range_def)
qed

theorem confidence_bounded_witness:
  "\<exists>c. compute_confidence ex_api ex_code = Inr c \<and> fle (Fin 0) c \<and> fle c (fl (99 / 100))"
  by (rule confidence_bounded [OF ex_valid])

text \<open>C3. On a well-formed buffer \<open>find_matches\<close> never raises: it evicts exactly the findings that
  are too old and returns disjoint pairs of an API and a code finding in scope, to which no
  further pair of unused findings could be added.\<close>

theorem find_matches_maximal:
  assumes "buffer_inv b"
  shows "\<exists>ms. find_matches cfg now b = Inr (ms, evict now b) \<and>
    matching_of cfg (cb_api (evict now b)) (cb_code (evict now b)) ms"
  by (rule find_matches_ok [OF assms])

definition ex_buffer :: corr_buffer where
  "ex_buffer = \<lparr>cb_window = Fin 300, cb_maxsize = 500, cb_api = [ex_api], cb_code = []\<rparr>"

lemma ex_buffer_inv: "buffer_inv ex_buffer"
  using ex_api_wf by (simp add: buffer_inv_def ex_buffer_def) (simp add: ex_api_def)

theorem find_matches_maximal_witness:
  "\<exists>ms. find_matches ex_cfg (Fin 1001) ex_buffer = Inr (ms, evict (Fin 1001) ex_buffer)"
  using find_matches_maximal [OF ex_buffer_inv, of ex_cfg "Fin 1001"] by blast

text \<open>C10. In every state that the loop of \<open>correlate\<close> reaches, the buffers hold well-formed findings
  of their own source only, and never more than the configured number.\<close>

theorem reachable_buffers:
  assumes "corr_reach E cfg notify has_stop
      (new_buffer (correlation_window_secs cfg) (buffer_max_size cfg), t0) w0 s w"
  shows "buffer_inv (fst s)"
  using corr_reach_inv [OF assms] new_buffer_start(1) by (simp add: state_inv_def)

theorem reachable_buffers_witness:
  "buffer_inv (fst (new_buffer (correlation_window_secs ex_cfg) (buffer_max_size ex_cfg), Fin 60))"
  using reachable_buffers [where E = ref_env and notify = "\<lambda>a. ret True" and has_stop = True
      and w0 = "ref_start []", OF corr_reach.start] .


lemma ex_watched: "watched_source ex_api" "watched_source ex_code"
  by (simp_all add: watched_source_def ex_api_def ex_code_def)

lemma ex_distinct: "distinct_ids (buffer_add ex_code ex_buffer)"
  by (simp add: distinct_ids_def buffer_add_def ex_code_def ex_buffer_def deque_append_def
      bounded_deque_def)

lemma ex_buffer_alertable: "all_alertable ex_buffer"
  using ex_alertable(1) by (simp add: all_alertable_def ex_buffer_def)


text \<open>So one finding causes at most one alert: when nothing was pending, every match that a new
  finding brings involves it, and there is at most one.\<close>

theorem at_most_one_match:
  assumes "no_pending cfg b" "buffer_inv b" "finding_wf f"
    and "find_matches cfg now (buffer_add f b) = Inr (ms, b')"
  shows "length ms \<le> 1 \<and> (\<forall>(a, c) \<in> set ms. a = f \<or> c = f)"
proof -
  obtain ms' where "find_matches cfg now (buffer_add f b) = Inr (ms', evict now (buffer_add f b))"
    and m: "matching_of cfg (cb_api (evict now (buffer_add f b))) (cb_code (evict now (buffer_add f b))) ms'"
    using find_matches_ok [OF buffer_add_inv [OF assms(2,3)], of cfg now] by blast
  with assms(4) have "ms' = ms" by simp
  with one_match_per_finding [OF assms(1)] m show ?thesis by blast
qed

theorem at_most_one_match_witness:
  "\<exists>ms b'. find_matches ex_cfg (Fin 1001) (buffer_add ex_code ex_buffer) = Inr (ms, b') \<and> length ms \<le> 1"
proof -
  obtain ms b' where f: "find_matches ex_cfg (Fin 1001) (buffer_add ex_code ex_buffer) = Inr (ms, b')"
    using find_matches_ok [OF buffer_add_inv [OF ex_buffer_inv ex_code_wf]] by blast
  have "no_pending ex_cfg ex_buffer" by (simp add: no_pending_def ex_buffer_def)
  from at_most_one_match [OF this ex_buffer_inv ex_code_wf f] f show ?thesis by blast
qed

text \<open>C1. What happens to a matched pair of valid findings: the pair leaves the buffer, whatever
  Redis and the notifier do, unless the pair is confident enough and cannot be made an alert (an
  empty endpoint, file or trace id, or a text that cannot be encoded): then a \<open>ValueError\<close> leaves
  the loop, which has no handler for it.\<close>

theorem matched_pair_outcome:
  assumes "finding_valid api" "finding_valid code" "clock_reads_ok E"
  shows "if confident cfg api code \<and> \<not> pair_ok api code
    then \<exists>e w'. handle_match E cfg notify (api, code) b w = (Inl e, w') \<and> is_value_error e
    else \<exists>w'. handle_match E cfg notify (api, code) b w = (Inr (remove_pair api code b), w')"
  by (rule handle_match_outcome [OF assms])

theorem matched_pair_outcome_witness:
  "\<exists>e w'. handle_match time_env ex_cfg (\<lambda>a. ret True) (ex_root, ex_code) ex_buffer (ref_start []) =
     (Inl e, w') \<and> is_value_error e"
  using matched_pair_outcome [OF ex_root_valid ex_valid(2) time_env_reads,
      of ex_cfg "\<lambda>a. ret True" ex_buffer "ref_start []"]
    ex_confident [OF ex_root_valid ex_valid(2)] ex_root_not_ok
  by simp


text \<open>A server that is always down.\<close>

definition down_env :: "ref_world env" where
  "down_env = time_env\<lparr>e_redis := \<lambda>c w. (Inl RedisConnectionError, w)\<rparr>"

lemma down_pop: "pop_finding down_env (Fin 5) None w = (r, w') \<Longrightarrow> \<not> returns r"
proof -
  have "\<exists>(k::nat) v. k < 3 \<and> True \<and>
      retry down_env (pop_once down_env (Fin 5) findings_queue) w = pop_once down_env (Fin 5) findings_queue v"
    by (rule retry_outcome) simp_all
  then show "pop_finding down_env (Fin 5) None w = (r, w') \<Longrightarrow> \<not> returns r"
    by (auto simp: pop_finding_def target_or_def pop_once_def bind_a_def of_result_def command_def
        down_env_def)
qed


section \<open>Suppression\<close>

text \<open>C7. While the claim of a fingerprint is alive, an alert with that fingerprint is not published
  and the notifier is not called: the emission ends with the refused claim, whatever notifier is
  plugged in.\<close>

theorem suppressed_while_claimed:
  assumes "redis_server E store clock"
    and "claim_holder store w (a_fingerprint a) = Some (h, d)"
    and "persist_and_claim E cfg a w = (x, w')" "clock w' < d"
  shows "emit_alert E cfg notify a w = (Inr (), w')"
  by (rule redis_server.emit_suppressed [OF assms])

lemma ex_alert:
  "\<exists>a j. new_correlated_alert ex_api ex_code (Fin 1) (lit ''cause'') (lit ''fix'') 3 (Fin 1000) = Inr a \<and>
     alert_to_json a = Inr j"
proof -
  have ok: "pair_ok ex_api ex_code" by (rule pair_ok_alertable [OF ex_alertable])
  then obtain fp where fp: "compute_fingerprint (alert_parts ex_api ex_code) = Inr fp"
    by (auto simp: pair_ok_def returns_iff)
  obtain sa sc where s: "finding_severity ex_api = Inr sa" "finding_severity ex_code = Inr sc"
    using finding_severity_of ex_valid by blast
  let ?a = "alert_record ex_api ex_code (Fin 1) (lit ''cause'') (lit ''fix'') 3 (Fin 1000) fp (max sa sc)"
  have "new_correlated_alert ex_api ex_code (Fin 1) (lit ''cause'') (lit ''fix'') 3 (Fin 1000) = Inr ?a"
    unfolding new_correlated_alert_Inr [OF ex_valid ex_texts ex_score ex_timestamp_ok(2)]
    using ok fp s by blast
  moreover obtain j where "alert_to_json ?a = Inr j"
    using alert_record_to_json [OF ex_valid ex_score ex_timestamp_ok(2) fp] unfolding returns_iff
    by blast
  ultimately show ?thesis by blast
qed

lemma ref_persist:
  assumes "rw_faults w = []" "alert_to_json a = Inr j"
  shows "\<exists>w'. persist_and_claim ref_env ex_cfg a w =
      (Inr (Some (if ks_get (rw_store w) (rw_clock w) (cooldown_key (a_fingerprint a)) = None
                  then Some (claim_token (rw_bits w)) else None)), w') \<and>
    rw_clock w' = rw_clock w \<and> rw_faults w' = []"
proof -
  let ?k = "cooldown_key (a_fingerprint a)"
  let ?c = "SetEx (alert_key (a_fingerprint a)) 86400 j"
  define w1 where "w1 = w\<lparr>rw_store := redis_effect ?c (rw_clock w) (rw_store w)\<rparr>"
  define w2 where "w2 = w1\<lparr>rw_bits := rw_bits w + 1\<rparr>"
  have store: "store_alert_record ref_env (a_fingerprint a) j 86400 w = (Inr (), w1)"
    by (simp add: store_alert_record_def set_with_ttl_def bind_a_def ret_def ref_retry assms(1) w1_def)
  have bits: "e_uuid ref_env w1 = (rw_bits w, w2)" by (simp add: ref_env_def w1_def w2_def)
  have get: "ks_get (rw_store w2) (rw_clock w2) ?k = ks_get (rw_store w) (rw_clock w) ?k"
    using keys_differ [of "a_fingerprint a" "a_fingerprint a"]
    by (simp add: ks_get_def ks_put_def w1_def w2_def)
  have w2: "rw_faults w2 = []" "rw_clock w2 = rw_clock w" by (simp_all add: w1_def w2_def assms(1))
  have claim: "\<exists>w'. claim_alert ref_env (a_fingerprint a) 300 w1 =
      (Inr (if ks_get (rw_store w) (rw_clock w) ?k = None then Some (claim_token (rw_bits w)) else None), w') \<and>
      rw_clock w' = rw_clock w \<and> rw_faults w' = []"
    using get by (simp add: claim_alert_def reads_def bits bind_a_def ref_retry w2 ref_reply_def ret_def)
  show ?thesis using claim store
    by (auto simp: persist_and_claim_def catch_a_def bind_a_def of_result_def assms(2) ret_def ex_cfg_def)
qed

theorem suppressed_while_claimed_witness:
  "\<exists>a w w'. emit_alert ref_env ex_cfg (\<lambda>a. ret True) a w = (Inr (), w') \<and>
     claim_holder rw_store w (a_fingerprint a) \<noteq> None"
proof -
  obtain a j where j: "alert_to_json a = Inr j" using ex_alert by blast
  let ?w = "ref_claimed (a_fingerprint a)"
  have f: "rw_faults ?w = []" by (simp add: ref_claimed_def ref_start_def)
  have h: "claim_holder rw_store ?w (a_fingerprint a) = Some (claim_token 1, 1300)"
    by (simp add: claim_holder_def ref_claimed_def ks_put_def)
  obtain x w' where p: "persist_and_claim ref_env ex_cfg a ?w = (x, w')" "rw_clock w' = 1000"
    using ref_persist [OF f j] by (auto simp: ref_claimed_def ref_start_def)
  have "rw_clock w' < 1300" using p(2) by simp
  from suppressed_while_claimed [OF ref_server h p(1) this] h show ?thesis by force
qed



end
