(* ===== verification/Composition.thy ===== *)
theory Composition
  imports CodeWatcherProperties NotifierProperties CorrelatorProperties
begin

text \<open>
  Properties across components: what the watchers emit is what the correlator reads, and what
  the correlator does with the answer of the notifier.  Both rest on the interfaces to the
  server and to the HTTP client.
\<close>

section \<open>From the watchers to the correlator\<close>

lemma persist_is_emit: "persist_finding E f = emit_finding E f"
  by (simp add: persist_finding_def emit_finding_def)

context redis_server
begin

lemma keeps_command:
  assumes "\<And>t s. ks_lists (redis_effect c t s) findings_queue = ks_lists s findings_queue"
  shows "keeps (\<lambda>w. queue_items store w = q) (retry E (command E c))"
proof (rule keeps_retry)
  show "keeps (\<lambda>w. queue_items store w = q) (command E c)"
  proof (rule keepsI)
    fix w assume q: "queue_items store w = q"
    obtain r w' where "e_redis E c w = (r, w')" by force
    with any_outcome [of c w r w'] assms q show "queue_items store (snd (command E c w)) = q"
      by (auto simp: command_def queue_items_def)
  qed
qed (simp add: queue_items_def sleep_store)

lemma keeps_store_finding: "keeps (\<lambda>w. queue_items store w = q) (store_finding_record E i x n)"
  unfolding store_finding_record_def set_with_ttl_def
  by (auto intro!: keeps_intros keeps_command simp: ks_put_def)

lemma emit_finding_queue:
  assumes "finding_to_json f = Inr x" "emit_finding E f w = (Inr (), w')"
  shows "\<exists>n. 1 \<le> n \<and> n \<le> 3 \<and> queue_items store w' = queue_items store w @ replicate n x"
proof -
  obtain w1 where p: "push_finding E x None w = (Inr (), w1)"
      and s: "store_finding_record E (f_id f) x 86400 w1 = (Inr (), w')"
  proof -
    have "bind_a (push_finding E x None) (\<lambda>_. store_finding_record E (f_id f) x 86400) w = (Inr (), w')"
      using assms(2) by (simp add: emit_finding_def assms(1) bind_a_def [of "of_result (Inr x)"] of_result_def)
    with that show ?thesis unfolding bind_a_Inr_iff by auto
  qed
  obtain k n where "k < 3" "n \<le> Suc k" "queue_items store w1 = queue_items store w @ replicate n x"
      "1 \<le> n"
    by (rule push_end [OF p]) (rule that, simp_all)
  moreover have "queue_items store w' = queue_items store w1"
    using keepsD [OF keeps_store_finding refl s] .
  ultimately show ?thesis by (intro exI [of _ n]) auto
qed

lemma emit_findings_queue:
  assumes "list_all2 (\<lambda>f x. finding_to_json f = Inr x) fs xs" "emit_findings E fs w = (Inr (), w')"
  shows "\<exists>ns. length ns = length fs \<and> (\<forall>n \<in> set ns. 1 \<le> n \<and> n \<le> 3) \<and>
    queue_items store w' = queue_items store w @ concat (map2 replicate ns xs)"
  using assms
proof (induction arbitrary: w rule: list_all2_induct)
  case Nil
  then show ?case by (simp add: ret_def)
next
  case (Cons f fs x xs)
  then obtain w1 where one: "emit_finding E f w = (Inr (), w1)"
      and rest: "emit_findings E fs w1 = (Inr (), w')"
    by (auto simp: bind_a_Inr_iff)
  from emit_finding_queue [OF Cons.hyps(1) one] obtain n where n: "1 \<le> n" "n \<le> 3"
    "queue_items store w1 = queue_items store w @ replicate n x" by blast
  from Cons.IH [OF rest] obtain ns where "length ns = length fs" "\<forall>n \<in> set ns. 1 \<le> n \<and> n \<le> 3"
    "queue_items store w' = queue_items store w1 @ concat (map2 replicate ns xs)" by blast
  with n show ?case by (intro exI [of _ "n # ns"]) simp
qed

end



section \<open>From the correlator to the notifier\<close>

lemma unconfigured_send_fails:
  "should_notify ncfg a = Inr True \<Longrightarrow> configured_channels ncfg a = [] \<Longrightarrow>
   send_alert H ncfg a w = (Inr False, w)"
  by (simp add: send_alert_fold bind_a_def of_result_def ret_def)

context redis_server
begin

lemma keeps_publish: "keeps (\<lambda>w. claim_holder store w fp = h) (try_publish E a)"
proof -
  have cmd: "keeps (\<lambda>w. claim_holder store w fp = h) (command E (Publish c x))" for c x
  proof (rule keepsI)
    fix w assume q: "claim_holder store w fp = h"
    obtain r w' where "e_redis E (Publish c x) w = (r, w')" by force
    with any_outcome [of "Publish c x" w r w'] q
    show "claim_holder store (snd (command E (Publish c x) w)) fp = h"
      by (auto simp: command_def claim_holder_def)
  qed
  show ?thesis
    unfolding try_publish_def publish_alert_def
    by (auto intro!: keeps_intros cmd [unfolded claim_holder_def] simp: claim_holder_def sleep_store)
qed

end



end
