(* ===== verification/ConfigProperties.thy ===== *)
theory ConfigProperties
  imports ApiWatcherProperties NotifierProperties
begin

text \<open>The properties of the configuration (\<open>src/watchers/config.py\<close>).\<close>

section \<open>Reading\<close>

lemma env_int_range: "env_int env n d lo hi = Inr i \<Longrightarrow> i = d \<or> lo \<le> i \<and> i \<le> hi"
  by (auto simp: env_int_def split: option.splits if_splits)

lemma env_float_range:
  "env_float env n d lo hi = Inr x \<Longrightarrow> x = d \<or> fle lo x \<and> fle x hi"
  by (auto simp: env_float_def split: option.splits if_splits)

text \<open>What the rest of the program may take for granted of the numbers in the settings.\<close>

definition settings_in_range :: "settings \<Rightarrow> bool" where
  "settings_in_range s \<longleftrightarrow>
     1 \<le> rd_port (s_redis s) \<and> rd_port (s_redis s) \<le> 65535 \<and>
     0 \<le> rd_db (s_redis s) \<and> rd_db (s_redis s) \<le> 15 \<and>
     1 \<le> nt_alert_cooldown_secs (s_notifier s) \<and> nt_alert_cooldown_secs (s_notifier s) \<le> 86400 \<and>
     0 \<le> nt_max_retries (s_notifier s) \<and> nt_max_retries (s_notifier s) \<le> 10 \<and>
     1 \<le> ap_failure_threshold (s_api s) \<and> ap_failure_threshold (s_api s) \<le> 100 \<and>
     fle (Fin 1) (ap_poll_interval_secs (s_api s)) \<and> fle (ap_poll_interval_secs (s_api s)) (Fin 3600) \<and>
     fle (Fin 1) (ap_latency_warn_ms (s_api s)) \<and> fle (ap_latency_warn_ms (s_api s)) (Fin 300000) \<and>
     fle (Fin 1) (co_correlation_window_secs (s_correlator s)) \<and>
     fle (co_correlation_window_secs (s_correlator s)) (Fin 86400) \<and>
     1 \<le> co_buffer_max_size (s_correlator s) \<and> co_buffer_max_size (s_correlator s) \<le> 100000 \<and>
     fle (Fin 0) (co_min_confidence (s_correlator s)) \<and> fle (co_min_confidence (s_correlator s)) (Fin 1) \<and>
     fle (Fin 1) (co_poll_timeout_secs (s_correlator s)) \<and>
     fle (co_poll_timeout_secs (s_correlator s)) (Fin 60)"

lemma six_tenths: "fle (Fin 0) (fl (6 / 10))" "fle (fl (6 / 10)) (Fin 1)"
  by code_simp+

lemma read_api_in_range:
  assumes "read_api env = Inr a"
  shows "1 \<le> ap_failure_threshold a \<and> ap_failure_threshold a \<le> 100"
    and "fle (Fin 1) (ap_poll_interval_secs a) \<and> fle (ap_poll_interval_secs a) (Fin 3600)"
    and "fle (Fin 1) (ap_latency_warn_ms a) \<and> fle (ap_latency_warn_ms a) (Fin 300000)"
proof -
  from assms obtain interval timeout threshold latency concurrent where
    "env_float env ''API_POLL_INTERVAL'' (Fin 15) (Fin 1) (Fin 3600) = Inr interval"
    "env_int env ''API_FAILURE_THRESHOLD'' 3 1 100 = Inr threshold"
    "env_float env ''API_LATENCY_WARN_MS'' (Fin 2000) (Fin 1) (Fin 300000) = Inr latency"
    and a: "ap_failure_threshold a = threshold" "ap_poll_interval_secs a = interval"
      "ap_latency_warn_ms a = latency"
    by (auto simp: read_api_def bind_r_Inr_iff)
  from this(1,3) [THEN env_float_range] this(2) [THEN env_int_range] show
    "1 \<le> ap_failure_threshold a \<and> ap_failure_threshold a \<le> 100"
    "fle (Fin 1) (ap_poll_interval_secs a) \<and> fle (ap_poll_interval_secs a) (Fin 3600)"
    "fle (Fin 1) (ap_latency_warn_ms a) \<and> fle (ap_latency_warn_ms a) (Fin 300000)"
    by (auto simp: a)
qed

lemma read_correlator_in_range:
  assumes "read_correlator env = Inr k"
  shows "1 \<le> co_buffer_max_size k \<and> co_buffer_max_size k \<le> 100000"
    and "fle (Fin 1) (co_correlation_window_secs k) \<and> fle (co_correlation_window_secs k) (Fin 86400)"
    and "fle (Fin 0) (co_min_confidence k) \<and> fle (co_min_confidence k) (Fin 1)"
    and "fle (Fin 1) (co_poll_timeout_secs k) \<and> fle (co_poll_timeout_secs k) (Fin 60)"
proof -
  from assms obtain window size conf timeout where
    "env_float env ''CORRELATOR_WINDOW'' (Fin 300) (Fin 1) (Fin 86400) = Inr window"
    "env_int env ''CORRELATOR_BUFFER_SIZE'' 500 1 100000 = Inr size"
    "env_float env ''CORRELATOR_MIN_CONFIDENCE'' (fl (6 / 10)) (Fin 0) (Fin 1) = Inr conf"
    "env_float env ''CORRELATOR_POLL_TIMEOUT'' (Fin 5) (Fin 1) (Fin 60) = Inr timeout"
    and k: "co_correlation_window_secs k = window" "co_buffer_max_size k = size"
      "co_min_confidence k = conf" "co_poll_timeout_secs k = timeout"
    by (auto simp: read_correlator_def bind_r_Inr_iff)
  from this(1,3,4) [THEN env_float_range] this(2) [THEN env_int_range] show
    "1 \<le> co_buffer_max_size k \<and> co_buffer_max_size k \<le> 100000"
    "fle (Fin 1) (co_correlation_window_secs k) \<and> fle (co_correlation_window_secs k) (Fin 86400)"
    "fle (Fin 0) (co_min_confidence k) \<and> fle (co_min_confidence k) (Fin 1)"
    "fle (Fin 1) (co_poll_timeout_secs k) \<and> fle (co_poll_timeout_secs k) (Fin 60)"
    using six_tenths by (auto simp: k)
qed



section \<open>Validating\<close>

text \<open>The host of a URL as the validation looks at it.\<close>

definition checked_host :: "split_url \<Rightarrow> pystr" where
  "checked_host u =
     rstrip_by (\<lambda>c. c = 46) (str_lower (case url_hostname u of None \<Rightarrow> [] | Some h \<Rightarrow> h))"

definition public_host :: "pystr \<Rightarrow> bool" where
  "public_host h \<longleftrightarrow>
     h \<noteq> lit ''localhost'' \<and>
     (case ip_address h of None \<Rightarrow> True | Some a \<Rightarrow> \<not> prohibited a \<and> \<not> is_loopback a)"

lemma check_host_iff:
  "check_host name False host = Inr () \<longleftrightarrow> public_host (rstrip_by (\<lambda>c. c = 46) (str_lower host))"
  by (auto simp: check_host_def public_host_def Let_def bind_r_Inr_iff split: option.splits)


lemma quad_numerals:
  "quad 127 0 0 0 = 2130706432" "quad 192 0 0 9 = 3221225481" "quad 192 0 0 10 = 3221225482"
  by (simp_all add: quad_def digits_value_def)

lemma loopback_not_exception:
  assumes "in_net a (quad 127 0 0 0, 8)"
  shows "\<not> list_ex (in_net a) private4_exceptions"
proof
  assume "list_ex (in_net a) private4_exceptions"
  then have "a = 3221225481 \<or> a = 3221225482"
    by (simp add: private4_exceptions_def in_net_def quad_numerals)
  with assms show False by (auto simp: in_net_def quad_numerals)
qed

lemma replicate_groups: "replicate 5 x = [x, x, x, x, x]" "replicate 6 x = [x, x, x, x, x, x]"
  by (simp_all add: numeral_eq_Suc)

lemma loopback6_private: "is_private (IPv6 1)"
  by (simp add: ipv4_mapped_def private6_def private6_exceptions_def in_net_def groups_def
      digits_value_def replicate_groups)

lemma loopback_private: "is_loopback a \<Longrightarrow> is_private a"
proof (cases a)
  case (IPv4 v)
  assume "is_loopback a"
  with IPv4 have "in_net v (quad 127 0 0 0, 8)" by simp
  with loopback_not_exception [OF this] IPv4 show ?thesis
    by (simp add: is_private4_def private4_def)
next
  case (IPv6 v)
  assume "is_loopback a"
  with IPv6 have "a = IPv6 1" by simp
  with loopback6_private show ?thesis by simp
qed

lemma localhost_no_address: "ip_address (lit ''localhost'') = None"
  by code_simp

text \<open>C29. Allowing loopback makes a difference for the name localhost only: an address of a
  loopback network is refused all the same, because it counts as private.\<close>

theorem allow_loopback_is_localhost:
  "check_host name True host =
     (if rstrip_by (\<lambda>c. c = 46) (str_lower host) = lit ''localhost'' then Inr ()
      else check_host name False host)"
  using loopback_private localhost_no_address
  by (auto simp: check_host_def Let_def prohibited_def check_r_def split: option.splits)

text \<open>The check against watching the file system root compares with one slash, and
  \<open>abspath\<close> keeps two: the root is refused as one slash and accepted as two, in every working
  directory.\<close>

theorem root_accepted_as_two_slashes:
  "unsafe_path cwd (lit ''/'') \<and> \<not> unsafe_path cwd (lit ''//'')"
  by (simp add: unsafe_path_def abspath_def normpath_def leading_slashes_def Let_def lit_Cons numeral_2_eq_2)

text \<open>Validated settings have a severity threshold that the notifier knows, so the look-up in
  front of every delivery cannot raise.\<close>

theorem validated_threshold_known:
  assumes "validate_settings cwd s = Inr ()"
  shows "\<exists>b. should_notify (s_notifier s) a = Inr b"
proof -
  have "nt_min_alert_severity (s_notifier s) \<in> {lit ''LOW'', lit ''MEDIUM'', lit ''HIGH'', lit ''CRITICAL''}"
    using assms by (auto simp: validate_settings_def validate_notifier_def bind_r_Inr_iff)
  then show ?thesis by (auto simp: should_notify_def sev_order_def)
qed

lemma ex_validated_settings: "validate_settings (lit ''/srv'') (ex_settings [ex_url [49]]) = Inr ()"
proof -
  have u: "validate_http_url (ex_url [49]) ''API_WATCHER_TARGETS'' True False = Inr ()"
    by (rule ex_validated) (simp_all add: is_digit_def)
  have "\<not> unsafe_path (lit ''/srv'') (lit ''./src'')" "\<not> bad_extension (lit ''.py'')"
    by code_simp+
  then show ?thesis
    using u
    by (simp add: validate_settings_def ex_settings_def weak_password_def validate_notifier_def
        validate_code_def has_text_def lit_Cons is_space_def starts_with_def)
qed

theorem validated_threshold_known_witness:
  "\<forall>a. \<exists>b. should_notify (s_notifier (ex_settings [ex_url [49]])) a = Inr b"
  by (intro allI validated_threshold_known [OF ex_validated_settings])

end
