(* ===== verification/Runtime.thy ===== *)
theory Runtime
  imports Config Correlator
begin

text \<open>
  \<open>src/watchers/main.py\<close>: the shutdown controller, the runners of the threads and of the
  API task, the health reporter, and \<open>main\<close> itself.  The components run concurrently, so
  \<open>main\<close> is a step relation on a \<open>runtime\<close>: the main coroutine, the four components and the
  event loop take their steps in any order.  What a component does between its start and its
  end is the business of its own theory; here it ends normally or with an exception.
\<close>

section \<open>The shutdown controller\<close>

text \<open>
  \<open>rt_scheduled\<close> counts the callbacks \<open>async_event.set\<close> which the loop has not run yet.
  The failure is the name of the component with the name of the exception class.
\<close>

datatype component = CorrelatorThread | CodeThread | HealthThread | ApiTask

fun component_name :: "component \<Rightarrow> string" where
  "component_name CorrelatorThread = ''correlator''"
| "component_name CodeThread = ''code-watcher''"
| "component_name HealthThread = ''health''"
| "component_name ApiTask = ''api-watcher''"

fun exn_name :: "py_exn \<Rightarrow> string" where
  "exn_name (ValueError _) = ''ValueError''"
| "exn_name UnicodeEncodeError = ''UnicodeEncodeError''"
| "exn_name (TypeError _) = ''TypeError''"
| "exn_name (AttributeError _) = ''AttributeError''"
| "exn_name IndexError = ''IndexError''"
| "exn_name KeyError = ''KeyError''"
| "exn_name OverflowError = ''OverflowError''"
| "exn_name (RuntimeError _) = ''RuntimeError''"
| "exn_name (OSError _) = ''OSError''"
| "exn_name RedisConnectionError = ''ConnectionError''"
| "exn_name RedisTimeoutError = ''TimeoutError''"
| "exn_name (RedisOtherError s) = ''RedisError''"
| "exn_name CancelledError = ''CancelledError''"

record controller =
  ct_stop_event :: bool
  ct_failure :: "(string \<times> string) option"
  ct_bound :: bool
  ct_loop_closed :: bool
  ct_scheduled :: nat
  ct_async_event :: bool

definition new_controller :: controller where
  "new_controller =
     \<lparr>ct_stop_event = False, ct_failure = None, ct_bound = False, ct_loop_closed = False,
      ct_scheduled = 0, ct_async_event = False\<rparr>"

definition bind_async :: "controller \<Rightarrow> controller" where
  "bind_async c = c\<lparr>ct_bound := True\<rparr>"

text \<open>The two statements of \<open>trigger\<close>; a closed loop raises a \<open>RuntimeError\<close> that is ignored.\<close>

definition set_stop :: "controller \<Rightarrow> controller" where
  "set_stop c = c\<lparr>ct_stop_event := True\<rparr>"

definition call_soon :: "controller \<Rightarrow> controller" where
  "call_soon c =
     (if ct_bound c \<and> \<not> ct_loop_closed c then c\<lparr>ct_scheduled := ct_scheduled c + 1\<rparr> else c)"

definition trigger :: "controller \<Rightarrow> controller" where
  "trigger c = call_soon (set_stop c)"

definition record_first :: "component \<Rightarrow> string \<Rightarrow> controller \<Rightarrow> controller" where
  "record_first who error_type c =
     (if ct_failure c = None then c\<lparr>ct_failure := Some (component_name who, error_type)\<rparr> else c)"

definition fail :: "component \<Rightarrow> py_exn \<Rightarrow> controller \<Rightarrow> controller" where
  "fail who e c = trigger (record_first who (exn_name e) c)"

text \<open>\<open>_thread_runner\<close> and \<open>_run_api_watcher\<close>: how the end of a target reaches the controller.\<close>

definition thread_runner :: "component \<Rightarrow> 'a result \<Rightarrow> controller \<Rightarrow> controller" where
  "thread_runner who outcome c = (case outcome of Inl e \<Rightarrow> fail who e c | Inr _ \<Rightarrow> c)"

definition run_api_watcher :: "'a result \<Rightarrow> controller \<Rightarrow> unit result \<times> controller" where
  "run_api_watcher outcome c =
     (case outcome of
        Inr _ \<Rightarrow> (Inr (), c)
      | Inl e \<Rightarrow> if e = CancelledError then (Inl CancelledError, c) else (Inr (), fail ApiTask e c))"

section \<open>The health reporter\<close>

text \<open>\<open>memory_info\<close> is the command \<open>INFO memory\<close>; its reply is only logged.\<close>

fun health_reporter :: "nat \<Rightarrow> 'w env \<Rightarrow> ('w, pystr) act \<Rightarrow> 'w \<Rightarrow> (unit result \<times> 'w) option" where
  "health_reporter 0 E memory_info w = None"
| "health_reporter (Suc n) E memory_info w =
     (case e_stopped E (e_stop_wait E (Fin 60) w) of (stopped, w1) \<Rightarrow>
        if stopped then Some (Inr (), w1)
        else (case catch_a (bind_a memory_info (\<lambda>_. ret ())) (\<lambda>_. ret ()) w1 of
                (Inl e, w2) \<Rightarrow> Some (Inl e, w2)
              | (Inr _, w2) \<Rightarrow> health_reporter n E memory_info w2))"

section \<open>The main coroutine\<close>

text \<open>Everything before the controller exists.\<close>

definition main_prelude ::
  "nat \<Rightarrow> 'w env \<Rightarrow> settings \<Rightarrow> pystr \<Rightarrow> 'w \<Rightarrow> (unit result \<times> 'w) option" where
  "main_prelude fuel E s cwd w =
     (case setup_logging (s_log_level s) of
        Inl e \<Rightarrow> Some (Inl e, w)
      | Inr _ \<Rightarrow>
          (case validate_settings cwd s of
             Inl e \<Rightarrow> Some (Inl e, w)
           | Inr _ \<Rightarrow> wait_for_redis fuel E (Fin 30) (Fin 1) w))"

text \<open>
  A component that raises records its failure, sets the stop event and schedules the callback,
  one statement after the other.
\<close>

datatype status = NotStarted | Running | Recording string | Stopping | Scheduling | Ended

text \<open>
  The main coroutine: it starts the threads one by one, waits for the event, cancels and awaits
  the API task, joins the threads one by one, and ends.
\<close>

datatype main_phase =
    Starting nat
  | Waiting
  | Cancelling
  | Joining nat
  | Complete
  | Failed string string

definition workers :: "component list" where
  "workers = [CorrelatorThread, CodeThread, HealthThread]"

record runtime =
  rt_controller :: controller
  rt_status :: "component \<Rightarrow> status"
  rt_main :: main_phase

definition initial_runtime :: runtime where
  "initial_runtime =
     \<lparr>rt_controller = bind_async new_controller, rt_status = (\<lambda>_. NotStarted), rt_main = Starting 0\<rparr>"

definition set_status :: "component \<Rightarrow> status \<Rightarrow> runtime \<Rightarrow> runtime" where
  "set_status who x r = r\<lparr>rt_status := (rt_status r)(who := x)\<rparr>"

definition on_controller :: "(controller \<Rightarrow> controller) \<Rightarrow> runtime \<Rightarrow> runtime" where
  "on_controller f r = r\<lparr>rt_controller := f (rt_controller r)\<rparr>"

definition set_main :: "main_phase \<Rightarrow> runtime \<Rightarrow> runtime" where
  "set_main x r = r\<lparr>rt_main := x\<rparr>"

text \<open>The loop runs callbacks, signal handlers and the API task only while \<open>main\<close> awaits.\<close>

definition loop_runs :: "runtime \<Rightarrow> bool" where
  "loop_runs r \<longleftrightarrow> rt_main r = Waiting \<or> rt_main r = Cancelling"

definition may_run :: "component \<Rightarrow> runtime \<Rightarrow> bool" where
  "may_run who r \<longleftrightarrow> who \<noteq> ApiTask \<or> loop_runs r"

definition run_callback :: "controller \<Rightarrow> controller" where
  "run_callback c = c\<lparr>ct_scheduled := ct_scheduled c - 1, ct_async_event := True\<rparr>"

definition close_loop :: "controller \<Rightarrow> controller" where
  "close_loop c = c\<lparr>ct_loop_closed := True\<rparr>"

text \<open>What \<open>main\<close> ends with.\<close>

definition main_end :: "controller \<Rightarrow> main_phase" where
  "main_end c = (case ct_failure c of None \<Rightarrow> Complete | Some (who, error_type) \<Rightarrow> Failed who error_type)"

inductive step :: "runtime \<Rightarrow> runtime \<Rightarrow> bool" where
  start_thread:
    "rt_main r = Starting k \<Longrightarrow> k < length workers \<Longrightarrow>
     step r (set_main (Starting (Suc k)) (set_status (workers ! k) Running r))"
| create_task:
    "rt_main r = Starting (length workers) \<Longrightarrow>
     step r (set_main Waiting (set_status ApiTask Running r))"
| component_returns:
    "rt_status r who = Running \<Longrightarrow> may_run who r \<Longrightarrow> step r (set_status who Ended r)"
| component_raises:
    "rt_status r who = Running \<Longrightarrow> may_run who r \<Longrightarrow> step r (set_status who (Recording error_type) r)"
| component_records:
    "rt_status r who = Recording error_type \<Longrightarrow> may_run who r \<Longrightarrow>
     step r (set_status who Stopping (on_controller (record_first who error_type) r))"
| component_stops:
    "rt_status r who = Stopping \<Longrightarrow> may_run who r \<Longrightarrow>
     step r (set_status who Scheduling (on_controller set_stop r))"
| component_schedules:
    "rt_status r who = Scheduling \<Longrightarrow> may_run who r \<Longrightarrow>
     step r (set_status who Ended (on_controller call_soon r))"
| signal_arrives:
    "loop_runs r \<Longrightarrow> step r (on_controller trigger r)"
| callback_runs:
    "loop_runs r \<Longrightarrow> 0 < ct_scheduled (rt_controller r) \<Longrightarrow> step r (on_controller run_callback r)"
| main_wakes:
    "rt_main r = Waiting \<Longrightarrow> ct_async_event (rt_controller r) \<Longrightarrow>
     step r (set_main Cancelling (on_controller set_stop r))"
| task_cancelled:
    "rt_main r = Cancelling \<Longrightarrow> rt_status r ApiTask = Running \<Longrightarrow> step r (set_status ApiTask Ended r)"
| main_awaited:
    "rt_main r = Cancelling \<Longrightarrow> step r (set_main (Joining 0) r)"
| main_joins:
    "rt_main r = Joining k \<Longrightarrow> k < length workers \<Longrightarrow> step r (set_main (Joining (Suc k)) r)"
| main_ends:
    "rt_main r = Joining (length workers) \<Longrightarrow>
     step r (set_main (main_end (rt_controller r)) (on_controller close_loop r))"

inductive_cases step_elim: "step r r'"

definition reachable :: "runtime \<Rightarrow> bool" where
  "reachable r \<longleftrightarrow> step\<^sup>*\<^sup>* initial_runtime r"

text \<open>The exception that leaves \<open>main\<close>.\<close>

fun main_outcome :: "main_phase \<Rightarrow> unit result option" where
  "main_outcome Complete = Some (Inr ())"
| "main_outcome (Failed who error_type) =
     Some (Inl (RuntimeError (''Watchtower stopped after '' @ who @ '' failed with '' @ error_type)))"
| "main_outcome _ = None"

end
