(* ===== verification/RuntimeProperties.thy ===== *)
theory RuntimeProperties
  imports Runtime
begin

text \<open>
  The properties of \<open>src/watchers/main.py\<close>: the invariant of the reachable states of the
  runtime, by rule induction, and what a failure of a component leads to.
\<close>

lemmas runtime_defs = set_status_def on_controller_def set_main_def record_first_def set_stop_def
  call_soon_def trigger_def run_callback_def close_loop_def loop_runs_def may_run_def

section \<open>The first failure is kept\<close>

lemma step_keeps_failure:
  "step r r' \<Longrightarrow> ct_failure (rt_controller r) = Some x \<Longrightarrow> ct_failure (rt_controller r') = Some x"
  by (erule step_elim) (auto simp: runtime_defs)

lemma step_end:
  "step r r' \<Longrightarrow> main_outcome (rt_main r) = None \<Longrightarrow> main_outcome (rt_main r') \<noteq> None \<Longrightarrow>
   rt_main r' = main_end (rt_controller r)"
  by (erule step_elim) (auto simp: runtime_defs)

lemma main_end_ended [simp]: "main_outcome (main_end c) \<noteq> None"
  by (auto simp: main_end_def split: option.split)

lemma main_end_not [simp]:
  "main_end c \<noteq> Joining k" "main_end c \<noteq> Starting k" "main_end c \<noteq> Waiting" "main_end c \<noteq> Cancelling"
  by (auto simp: main_end_def split: option.split)

lemma step_ended: "step r r' \<Longrightarrow> main_outcome (rt_main r) \<noteq> None \<Longrightarrow> rt_main r' = rt_main r"
  by (erule step_elim) (auto simp: runtime_defs)

lemma steps_end_with_failure:
  assumes "step\<^sup>*\<^sup>* r r'" "ct_failure (rt_controller r) = Some (who, ty)" "main_outcome (rt_main r) = None"
  shows "ct_failure (rt_controller r') = Some (who, ty) \<and>
    (main_outcome (rt_main r') = None \<or> rt_main r' = Failed who ty)"
  using assms
proof (induction rule: rtranclp_induct)
  case (step y z)
  then have "ct_failure (rt_controller z) = Some (who, ty)" by (auto dest: step_keeps_failure)
  moreover have "main_outcome (rt_main z) = None \<or> rt_main z = Failed who ty"
    using step step_end [OF step(2)] step_ended [OF step(2)]
    by (cases "main_outcome (rt_main z)"; cases "main_outcome (rt_main y)") (auto simp: main_end_def)
  ultimately show ?case by blast
qed simp

section \<open>The invariant\<close>

text \<open>Some component has a status.\<close>

definition some_in :: "status \<Rightarrow> runtime \<Rightarrow> bool" where
  "some_in x r \<longleftrightarrow> (\<exists>who. rt_status r who = x)"

lemma some_in_simps [simp]:
  "some_in x (set_main m r) = some_in x r"
  "some_in x (on_controller f r) = some_in x r"
  "some_in x (set_status who x r)"
  by (auto simp: some_in_def set_main_def on_controller_def set_status_def)

lemma some_in_keep: "some_in x r \<Longrightarrow> rt_status r who \<noteq> x \<Longrightarrow> some_in x (set_status who y r)"
  by (auto simp: some_in_def set_status_def)

lemma some_in_intro: "rt_status r who = x \<Longrightarrow> some_in x r"
  by (auto simp: some_in_def)

lemma some_in_back: "some_in x (set_status who y r) \<Longrightarrow> y \<noteq> x \<Longrightarrow> some_in x r"
  by (auto simp: some_in_def set_status_def split: if_splits)

lemma parts_simps [simp]:
  "rt_controller (set_main m r) = rt_controller r" "rt_controller (set_status who x r) = rt_controller r"
  "rt_controller (on_controller f r) = f (rt_controller r)"
  "rt_main (set_main m r) = m" "rt_main (set_status who x r) = rt_main r"
  "rt_main (on_controller f r) = rt_main r"
  "rt_status (set_main m r) = rt_status r" "rt_status (on_controller f r) = rt_status r"
  "rt_status (set_status who x r) = (rt_status r)(who := x)"
  by (simp_all add: set_main_def set_status_def on_controller_def)

text \<open>Something is on its way that makes the main coroutine wake up.\<close>

definition waking :: "runtime \<Rightarrow> bool" where
  "waking r \<longleftrightarrow>
     ct_async_event (rt_controller r) \<or> 0 < ct_scheduled (rt_controller r) \<or> some_in Scheduling r"

definition before_wake :: "runtime \<Rightarrow> bool" where
  "before_wake r \<longleftrightarrow> (\<exists>k. rt_main r = Starting k \<and> k \<le> length workers) \<or> rt_main r = Waiting"

text \<open>The loop is bound, and closed exactly when the main coroutine has ended.\<close>

definition loop_inv :: "runtime \<Rightarrow> bool" where
  "loop_inv r \<longleftrightarrow>
     ct_bound (rt_controller r) \<and>
     (ct_loop_closed (rt_controller r) \<longleftrightarrow> main_outcome (rt_main r) \<noteq> None)"

text \<open>A component that the main coroutine has not reached yet has not started.\<close>

definition start_inv :: "runtime \<Rightarrow> bool" where
  "start_inv r \<longleftrightarrow>
     (\<forall>k. rt_main r = Starting k \<longrightarrow>
        (\<forall>who \<in> insert ApiTask (set (drop k workers)). rt_status r who = NotStarted))"

text \<open>Past its waiting the main coroutine has seen a stop request.\<close>

definition phase_inv :: "runtime \<Rightarrow> bool" where
  "phase_inv r \<longleftrightarrow>
     (before_wake r \<or> ct_stop_event (rt_controller r)) \<and>
     (\<forall>k. rt_main r = Joining k \<longrightarrow> k \<le> length workers)"

text \<open>A stop request and what wakes the main coroutine come together.\<close>

definition stop_inv :: "runtime \<Rightarrow> bool" where
  "stop_inv r \<longleftrightarrow>
     (waking r \<longrightarrow> ct_stop_event (rt_controller r)) \<and>
     (before_wake r \<longrightarrow> ct_stop_event (rt_controller r) \<longrightarrow> waking r)"

text \<open>A recorded failure is followed by a stop request.\<close>

definition failure_inv :: "runtime \<Rightarrow> bool" where
  "failure_inv r \<longleftrightarrow>
     ct_failure (rt_controller r) = None \<or> ct_stop_event (rt_controller r) \<or> some_in Stopping r"

lemmas controller_defs = record_first_def set_stop_def call_soon_def trigger_def run_callback_def
  close_loop_def loop_runs_def may_run_def

lemma step_loop_inv: "step r r' \<Longrightarrow> loop_inv r \<Longrightarrow> loop_inv r'"
  by (erule step_elim) (auto simp: loop_inv_def controller_defs)

lemma started_workers:
  assumes "k < length workers"
  shows "workers ! k \<in> set (drop k workers)" "workers ! k \<notin> insert ApiTask (set (drop (Suc k) workers))"
    "set (drop (Suc k) workers) \<subseteq> set (drop k workers)"
proof -
  have "k = 0 \<or> k = 1 \<or> k = 2" using assms by (auto simp: workers_def)
  then show "workers ! k \<in> set (drop k workers)" "workers ! k \<notin> insert ApiTask (set (drop (Suc k) workers))"
    "set (drop (Suc k) workers) \<subseteq> set (drop k workers)"
    by (auto simp: workers_def)
qed

lemma step_start_inv: "step r r' \<Longrightarrow> start_inv r \<Longrightarrow> start_inv r'"
proof (induction rule: step.induct)
  case (start_thread r k)
  then show ?case using started_workers [OF start_thread(2)] by (auto simp: start_inv_def)
qed (auto simp: start_inv_def)

lemma not_started: "start_inv r \<Longrightarrow> rt_main r = Starting k \<Longrightarrow> k < length workers \<Longrightarrow> rt_status r (workers ! k) = NotStarted"
  using started_workers by (auto simp: start_inv_def)

lemma api_not_started: "start_inv r \<Longrightarrow> rt_main r = Starting k \<Longrightarrow> rt_status r ApiTask = NotStarted"
  by (auto simp: start_inv_def)

lemma step_phase_inv: "step r r' \<Longrightarrow> phase_inv r \<Longrightarrow> phase_inv r'"
  by (erule step_elim) (auto simp: phase_inv_def before_wake_def controller_defs)

lemma step_failure_inv: "step r r' \<Longrightarrow> start_inv r \<Longrightarrow> failure_inv r \<Longrightarrow> failure_inv r'"
  by (erule step_elim)
    (auto simp: failure_inv_def controller_defs not_started api_not_started some_in_keep)

lemma step_waking_stopped:
  "step r r' \<Longrightarrow> (waking r \<longrightarrow> ct_stop_event (rt_controller r)) \<Longrightarrow>
   waking r' \<Longrightarrow> ct_stop_event (rt_controller r')"
  by (erule step_elim)
    (auto simp: waking_def controller_defs dest: some_in_back some_in_intro split: if_splits)

lemma step_before_wake: "step r r' \<Longrightarrow> before_wake r' \<Longrightarrow> before_wake r"
  by (erule step_elim) (auto simp: before_wake_def controller_defs)

lemma step_waking:
  "step r r' \<Longrightarrow> loop_inv r \<Longrightarrow> start_inv r \<Longrightarrow> (ct_stop_event (rt_controller r) \<longrightarrow> waking r) \<Longrightarrow>
   before_wake r' \<Longrightarrow> ct_stop_event (rt_controller r') \<Longrightarrow> waking r'"
  by (erule step_elim)
    (auto simp: waking_def loop_inv_def controller_defs before_wake_def not_started api_not_started
      some_in_keep)

definition runtime_inv :: "runtime \<Rightarrow> bool" where
  "runtime_inv r \<longleftrightarrow> loop_inv r \<and> start_inv r \<and> phase_inv r \<and> stop_inv r \<and> failure_inv r"

lemma initial_inv: "runtime_inv initial_runtime"
  by (auto simp: runtime_inv_def loop_inv_def start_inv_def phase_inv_def stop_inv_def failure_inv_def
      initial_runtime_def bind_async_def new_controller_def before_wake_def waking_def some_in_def)

lemma step_inv: "step r r' \<Longrightarrow> runtime_inv r \<Longrightarrow> runtime_inv r'"
  using step_loop_inv step_start_inv step_phase_inv step_failure_inv step_waking_stopped
    step_before_wake step_waking
  by (simp add: runtime_inv_def stop_inv_def)

lemma reachable_inv: "reachable r \<Longrightarrow> runtime_inv r"
  unfolding reachable_def
  by (induction rule: rtranclp_induct) (auto intro: initial_inv step_inv)

section \<open>The way out\<close>

lemma step_start_bound:
  "step r r' \<Longrightarrow> (\<forall>k. rt_main r = Starting k \<longrightarrow> k \<le> length workers) \<Longrightarrow>
   rt_main r' = Starting k \<Longrightarrow> k \<le> length workers"
  by (erule step_elim) auto

lemma reachable_start_bound: "reachable r \<Longrightarrow> rt_main r = Starting k \<Longrightarrow> k \<le> length workers"
  unfolding reachable_def
proof (induction arbitrary: k rule: rtranclp_induct)
  case base
  then show ?case by (simp add: initial_runtime_def)
next
  case (step y z)
  show ?case by (rule step_start_bound [OF step(2) _ step(4)]) (use step(3) in blast)
qed

lemma reachable_step: "reachable r \<Longrightarrow> step r r' \<Longrightarrow> reachable r'"
  by (simp add: reachable_def)

lemma run_start:
  "rt_main r = Starting k \<Longrightarrow> k \<le> length workers \<Longrightarrow>
   \<exists>r'. step\<^sup>*\<^sup>* r r' \<and> rt_main r' = Waiting \<and> rt_controller r' = rt_controller r"
proof (induction "length workers - k" arbitrary: r k)
  case 0
  then have "step r (set_main Waiting (set_status ApiTask Running r))" by (auto intro: create_task)
  then show ?case by (metis parts_simps(1,2,4) r_into_rtranclp)
next
  case (Suc n)
  then have "step r (set_main (Starting (Suc k)) (set_status (workers ! k) Running r))"
    by (auto intro: start_thread)
  moreover have "\<exists>r'. step\<^sup>*\<^sup>* (set_main (Starting (Suc k)) (set_status (workers ! k) Running r)) r' \<and>
      rt_main r' = Waiting \<and>
      rt_controller r' = rt_controller (set_main (Starting (Suc k)) (set_status (workers ! k) Running r))"
    using Suc.hyps(2) Suc.prems by (intro Suc.hyps(1) [where k = "Suc k"]) auto
  ultimately show ?case by (metis converse_rtranclp_into_rtranclp parts_simps(1,2))
qed

lemma run_wake_async:
  "rt_main r = Waiting \<Longrightarrow> ct_async_event (rt_controller r) \<Longrightarrow> \<exists>r'. step\<^sup>*\<^sup>* r r' \<and> rt_main r' = Cancelling"
  by (metis main_wakes parts_simps(4) r_into_rtranclp)

lemma run_wake_scheduled:
  assumes "rt_main r = Waiting" "0 < ct_scheduled (rt_controller r)"
  shows "\<exists>r'. step\<^sup>*\<^sup>* r r' \<and> rt_main r' = Cancelling"
proof -
  have "step r (on_controller run_callback r)"
    using assms by (auto intro: callback_runs simp: loop_runs_def)
  moreover have "\<exists>r'. step\<^sup>*\<^sup>* (on_controller run_callback r) r' \<and> rt_main r' = Cancelling"
    using assms by (intro run_wake_async) (auto simp: run_callback_def)
  ultimately show ?thesis by (metis converse_rtranclp_into_rtranclp)
qed

lemma run_wake_waking:
  assumes "rt_main r = Waiting" "waking r" "loop_inv r"
  shows "\<exists>r'. step\<^sup>*\<^sup>* r r' \<and> rt_main r' = Cancelling"
proof -
  from assms(2) consider "ct_async_event (rt_controller r)" | "0 < ct_scheduled (rt_controller r)"
    | who where "rt_status r who = Scheduling"
    by (auto simp: waking_def some_in_def)
  then show ?thesis
  proof cases
    case 3
    let ?r = "set_status who Ended (on_controller call_soon r)"
    have "step r ?r" using 3 assms(1) by (auto intro: component_schedules simp: may_run_def loop_runs_def)
    moreover have "\<exists>r'. step\<^sup>*\<^sup>* ?r r' \<and> rt_main r' = Cancelling"
      using assms by (intro run_wake_scheduled) (auto simp: call_soon_def loop_inv_def)
    ultimately show ?thesis by (metis converse_rtranclp_into_rtranclp)
  qed (use assms(1) run_wake_async run_wake_scheduled in auto)
qed

lemma run_wake_failure:
  assumes "reachable r" "rt_main r = Waiting" "ct_failure (rt_controller r) \<noteq> None"
  shows "\<exists>r'. step\<^sup>*\<^sup>* r r' \<and> rt_main r' = Cancelling"
proof -
  have stopped: "\<exists>r'. step\<^sup>*\<^sup>* r r' \<and> rt_main r' = Cancelling"
    if "reachable r" "rt_main r = Waiting" "ct_stop_event (rt_controller r)" for r
    using reachable_inv [OF that(1)] that(2,3)
    by (intro run_wake_waking) (auto simp: runtime_inv_def stop_inv_def before_wake_def)
  show ?thesis
  proof (cases "ct_stop_event (rt_controller r)")
    case False
    with reachable_inv [OF assms(1)] assms(3) obtain who where "rt_status r who = Stopping"
      by (auto simp: runtime_inv_def failure_inv_def some_in_def)
    then have s: "step r (set_status who Scheduling (on_controller set_stop r))"
      using assms(2) by (auto intro: component_stops simp: may_run_def loop_runs_def)
    from stopped [OF reachable_step [OF assms(1) s]]
    show ?thesis using s assms(2) by (auto simp: set_stop_def intro: converse_rtranclp_into_rtranclp)
  qed (use stopped assms in blast)
qed

lemma run_joins:
  "rt_main r = Joining k \<Longrightarrow> k \<le> length workers \<Longrightarrow> \<exists>r'. step\<^sup>*\<^sup>* r r' \<and> main_outcome (rt_main r') \<noteq> None"
proof (induction "length workers - k" arbitrary: r k)
  case 0
  then have "step r (set_main (main_end (rt_controller r)) (on_controller close_loop r))"
    by (auto intro: main_ends)
  then show ?case by (metis main_end_ended parts_simps(4) r_into_rtranclp)
next
  case (Suc n)
  then have "step r (set_main (Joining (Suc k)) r)" by (auto intro: main_joins)
  moreover have "\<exists>r'. step\<^sup>*\<^sup>* (set_main (Joining (Suc k)) r) r' \<and> main_outcome (rt_main r') \<noteq> None"
    using Suc.hyps(2) Suc.prems by (intro Suc.hyps(1) [where k = "Suc k"]) auto
  ultimately show ?case by (metis converse_rtranclp_into_rtranclp)
qed

lemma run_end:
  assumes "rt_main r = Cancelling"
  shows "\<exists>r'. step\<^sup>*\<^sup>* r r' \<and> main_outcome (rt_main r') \<noteq> None"
proof -
  have "step r (set_main (Joining 0) r)" using assms by (rule main_awaited)
  moreover have "\<exists>r'. step\<^sup>*\<^sup>* (set_main (Joining 0) r) r' \<and> main_outcome (rt_main r') \<noteq> None"
    by (rule run_joins [of _ 0]) simp_all
  ultimately show ?thesis by (metis converse_rtranclp_into_rtranclp)
qed

lemma run_out:
  assumes "reachable r" "ct_failure (rt_controller r) \<noteq> None" "main_outcome (rt_main r) = None"
  shows "\<exists>r'. step\<^sup>*\<^sup>* r r' \<and> main_outcome (rt_main r') \<noteq> None"
proof -
  have waiting: "\<exists>r'. step\<^sup>*\<^sup>* r r' \<and> main_outcome (rt_main r') \<noteq> None"
    if "reachable r" "rt_main r = Waiting" "ct_failure (rt_controller r) \<noteq> None" for r
    using run_wake_failure [OF that] run_end by (meson rtranclp_trans)
  have phase: "phase_inv r" using reachable_inv [OF assms(1)] by (simp add: runtime_inv_def)
  show ?thesis
  proof (cases "rt_main r")
    case (Starting k)
    with phase assms(1) have k: "k \<le> length workers"
      using reachable_start_bound [OF assms(1)] by blast
    obtain r1 where r1: "step\<^sup>*\<^sup>* r r1" "rt_main r1 = Waiting" "rt_controller r1 = rt_controller r"
      using run_start [OF Starting k] by blast
    have "reachable r1" using assms(1) r1(1) by (auto simp: reachable_def)
    from waiting [OF this r1(2)] r1 assms(2) show ?thesis by (metis rtranclp_trans)
  next
    case (Joining k)
    with phase show ?thesis by (intro run_joins) (auto simp: phase_inv_def)
  qed (use waiting run_end assms in auto)
qed

section \<open>The properties\<close>

text \<open>C38. In every reachable state the loop is bound and closes only with the end of \<open>main\<close>, a stop
  request and a pending wake-up of \<open>main\<close> come together, \<open>main\<close> gets past its waiting only after a
  stop request, and a recorded failure is followed by one.\<close>

theorem runtime_invariant:
  assumes "reachable r"
  shows "runtime_inv r"
  by (rule reachable_inv [OF assms])

text \<open>C37. The first failure that a component records ends the program and is what it ends with: from
  any reachable state with a failure \<open>main\<close> can come to its end, and whichever way it comes
  there, through other failures, signals and threads that do not stop, it raises the
  \<open>RuntimeError\<close> that names the component and the exception of that failure.\<close>

theorem first_failure_ends_program:
  assumes "reachable r" "ct_failure (rt_controller r) = Some (who, ty)" "main_outcome (rt_main r) = None"
  shows "(\<exists>r'. step\<^sup>*\<^sup>* r r' \<and> main_outcome (rt_main r') \<noteq> None) \<and>
    (\<forall>r'. step\<^sup>*\<^sup>* r r' \<longrightarrow> main_outcome (rt_main r') \<noteq> None \<longrightarrow>
       main_outcome (rt_main r') =
         Some (Inl (RuntimeError (''Watchtower stopped after '' @ who @ '' failed with '' @ ty))))"
  using run_out [OF assms(1) _ assms(3)] steps_end_with_failure [OF _ assms(2,3)] assms(2) by fastforce

text \<open>The correlator fails while the other threads are being started.\<close>

definition ex_failed :: runtime where
  "ex_failed =
     set_status CorrelatorThread Stopping (on_controller (record_first CorrelatorThread ''ValueError'')
       (set_status CorrelatorThread (Recording ''ValueError'')
         (set_main (Starting 1) (set_status CorrelatorThread Running initial_runtime))))"

lemma ex_failed_reachable: "reachable ex_failed"
proof -
  let ?r1 = "set_main (Starting 1) (set_status CorrelatorThread Running initial_runtime)"
  let ?r2 = "set_status CorrelatorThread (Recording ''ValueError'') ?r1"
  have "step initial_runtime ?r1"
    using start_thread [of initial_runtime 0] by (simp add: initial_runtime_def workers_def)
  moreover have "step ?r1 ?r2" by (rule component_raises) (simp_all add: may_run_def)
  moreover have "step ?r2 ex_failed"
    unfolding ex_failed_def by (rule component_records) (simp_all add: may_run_def)
  ultimately show ?thesis
    unfolding reachable_def by (meson rtranclp.rtrancl_into_rtrancl rtranclp.rtrancl_refl)
qed

theorem runtime_invariant_witness: "runtime_inv ex_failed"
  by (rule runtime_invariant [OF ex_failed_reachable])

theorem first_failure_ends_program_witness:
  "\<exists>r'. step\<^sup>*\<^sup>* ex_failed r' \<and> main_outcome (rt_main r') =
     Some (Inl (RuntimeError ''Watchtower stopped after correlator failed with ValueError''))"
proof -
  have "ct_failure (rt_controller ex_failed) = Some (''correlator'', ''ValueError'')"
    "main_outcome (rt_main ex_failed) = None"
    by (simp_all add: ex_failed_def initial_runtime_def bind_async_def new_controller_def record_first_def)
  from first_failure_ends_program [OF ex_failed_reachable this] show ?thesis by auto
qed

end
