(* ===== verification/RedisPool.thy ===== *)
theory RedisPool
  imports Settings
begin

text \<open>
  The connection pool of \<open>src/watchers/redis_client.py\<close>: the options which the module asks the
  client library for, and the module variable \<open>_pool\<close>, made at the first use.  Whether the
  library is installed is a parameter.
\<close>

record pool_options =
  po_host :: pystr
  po_port :: int
  po_db :: int
  po_password :: "pystr option"
  po_max_connections :: int
  po_socket_timeout :: float64
  po_socket_connect_timeout :: float64
  po_retry_on_timeout :: bool
  po_decode_responses :: bool
  po_health_check_interval :: int
  po_client_name :: pystr

definition require_redis :: "bool \<Rightarrow> unit result" where
  "require_redis installed =
     check_r (\<not> installed) (RuntimeError ''redis runtime dependency is not installed'')"

definition build_pool :: "redis_settings \<Rightarrow> pool_options" where
  "build_pool cfg =
     \<lparr>po_host = rd_host cfg, po_port = rd_port cfg, po_db = rd_db cfg, po_password = rd_password cfg,
      po_max_connections = rd_max_connections cfg, po_socket_timeout = rd_socket_timeout cfg,
      po_socket_connect_timeout = rd_socket_timeout cfg, po_retry_on_timeout = rd_retry_on_timeout cfg,
      po_decode_responses = rd_decode_responses cfg, po_health_check_interval = 30,
      po_client_name = lit ''security-watchtower''\<rparr>"

text \<open>The pool and the module variable after the call.\<close>

definition get_pool ::
  "bool \<Rightarrow> redis_settings \<Rightarrow> pool_options option \<Rightarrow> pool_options result \<times> pool_options option" where
  "get_pool installed cfg pool =
     (case pool of
        Some p \<Rightarrow> (Inr p, pool)
      | None \<Rightarrow>
          (case require_redis installed of
             Inl e \<Rightarrow> (Inl e, None)
           | Inr _ \<Rightarrow> (Inr (build_pool cfg), Some (build_pool cfg))))"

definition get_client ::
  "bool \<Rightarrow> redis_settings \<Rightarrow> pool_options option \<Rightarrow> pool_options result \<times> pool_options option" where
  "get_client installed cfg pool =
     (case require_redis installed of Inl e \<Rightarrow> (Inl e, pool) | Inr _ \<Rightarrow> get_pool installed cfg pool)"

text \<open>All clients of a process share the pool of the first one.\<close>

lemma get_client_shares_pool:
  assumes "get_client True cfg pool = (Inr p, pool')"
  shows "get_client True cfg' pool' = (Inr p, pool')"
  using assms by (auto simp: get_client_def get_pool_def require_redis_def split: option.splits)

end
